(* ===== verification/Prelude.thy ===== *)
theory Prelude
  imports Main "HOL-Library.AList"
begin

text \<open>
  Shared vocabulary of the development: results with error messages, JavaScript strings and
  the string methods the server calls, decimal numerals, insertion-ordered association lists
  (the \<open>Map\<close> and object literals of the source), and the fact collections the component
  theories extend.

  A JavaScript string is an Isabelle \<open>string\<close> whose elements are UTF-16 code units below 256
  (Latin-1).  On that range the case maps and the white space of ECMAScript are written out
  exactly; code units from 256 on are outside the model.
\<close>

named_theorems js_simps "evaluation rules of the JavaScript string functions"
named_theorems res_simps "evaluation rules of results"

section \<open>Results\<close>

text \<open>A computation that may throw: \<open>Inl\<close> carries the message of the thrown \<open>Error\<close>.\<close>

type_synonym 'a res = "string + 'a"

primrec rbind :: "'e + 'a \<Rightarrow> ('a \<Rightarrow> 'e + 'b) \<Rightarrow> 'e + 'b" where
  "rbind (Inl e) f = Inl e"
| "rbind (Inr x) f = f x"

primrec is_ok :: "'e + 'a \<Rightarrow> bool" where
  "is_ok (Inl e) = False"
| "is_ok (Inr x) = True"

lemma rbind_Inr_iff [res_simps]: "rbind m f = Inr y \<longleftrightarrow> (\<exists>x. m = Inr x \<and> f x = Inr y)"
  by (cases m) auto

lemma rbind_Inl_iff [res_simps]:
  "rbind m f = Inl e \<longleftrightarrow> m = Inl e \<or> (\<exists>x. m = Inr x \<and> f x = Inl e)"
  by (cases m) auto

lemma is_ok_iff: "is_ok r \<longleftrightarrow> (\<exists>x. r = Inr x)"
  by (cases r) auto

text \<open>\<open>Array.map\<close> with a function that may throw: the first throw ends the loop.\<close>

fun rmap :: "('a \<Rightarrow> 'e + 'b) \<Rightarrow> 'a list \<Rightarrow> 'e + 'b list" where
  "rmap f [] = Inr []"
| "rmap f (x # xs) = rbind (f x) (\<lambda>y. rbind (rmap f xs) (\<lambda>ys. Inr (y # ys)))"

lemma rmap_Inr: "(\<And>x. x \<in> set xs \<Longrightarrow> f x = Inr (g x)) \<Longrightarrow> rmap f xs = Inr (map g xs)"
  by (induction xs) auto

lemma rmap_Inr_length: "rmap f xs = Inr ys \<Longrightarrow> length ys = length xs"
  by (induction xs arbitrary: ys) (auto simp: res_simps)

lemma rmap_Inr_nth: "rmap f xs = Inr ys \<Longrightarrow> i < length xs \<Longrightarrow> f (xs ! i) = Inr (ys ! i)"
proof (induction xs arbitrary: ys i)
  case (Cons x xs)
  then show ?case by (cases i) (auto simp: res_simps)
qed simp

text \<open>\<open>Array.some\<close> with a predicate that may throw: it stops at the first \<open>true\<close>.\<close>

fun rsome :: "('a \<Rightarrow> 'e + bool) \<Rightarrow> 'a list \<Rightarrow> 'e + bool" where
  "rsome f [] = Inr False"
| "rsome f (x # xs) = rbind (f x) (\<lambda>b. if b then Inr True else rsome f xs)"

lemma rsome_total: "(\<And>x. x \<in> set xs \<Longrightarrow> f x = Inr (g x)) \<Longrightarrow> rsome f xs = Inr (list_ex g xs)"
  by (induction xs) auto

text \<open>The short-circuit \<open>&&\<close> of conditions that may throw.\<close>

definition rand :: "'e + bool \<Rightarrow> 'e + bool \<Rightarrow> 'e + bool" where
  "rand a b = rbind a (\<lambda>x. if x then b else Inr False)"

lemma rand_simps [simp]:
  "rand (Inl e) b = Inl e"
  "rand (Inr True) b = b"
  "rand (Inr False) b = Inr False"
  by (simp_all add: rand_def)

lemma rand_Inr [simp]: "rand (Inr x) (Inr y) = Inr (x \<and> y)"
  by (cases x) simp_all

section \<open>Characters and case\<close>

abbreviation code :: "char \<Rightarrow> nat" where
  "code c \<equiv> of_char c"

lemma code_char_of [simp]: "code (char_of (n::nat)) = n mod 256"
  by simp

lemma code_lt_256 [simp]: "code c < 256"
proof -
  have "code (char_of (code c)) = code c mod 256" by (rule code_char_of)
  then show ?thesis by (metis char_of_char mod_less_divisor zero_less_numeral)
qed

text \<open>\<open>String.prototype.toLowerCase\<close> on one Latin-1 code unit.\<close>

definition lower_char :: "char \<Rightarrow> char" where
  "lower_char c =
     (if (65 \<le> code c \<and> code c \<le> 90) \<or> (192 \<le> code c \<and> code c \<le> 222 \<and> code c \<noteq> 215)
      then char_of (code c + 32) else c)"

text \<open>
  The case map of a regular expression with the \<open>i\<close> flag (ECMAScript \<open>Canonicalize\<close>): the simple
  upper case, for the code units whose upper case is again one Latin-1 code unit.
\<close>

definition canon_char :: "char \<Rightarrow> char" where
  "canon_char c =
     (if (97 \<le> code c \<and> code c \<le> 122) \<or> (224 \<le> code c \<and> code c \<le> 254 \<and> code c \<noteq> 247)
      then char_of (code c - 32) else c)"

definition js_toLowerCase :: "string \<Rightarrow> string" where
  "js_toLowerCase = map lower_char"

text \<open>\<open>toUpperCase\<close> maps the sharp s (223) to two letters.\<close>

definition js_toUpperCase :: "string \<Rightarrow> string" where
  "js_toUpperCase s = concat (map (\<lambda>c. if code c = 223 then ''SS'' else [canon_char c]) s)"

definition char_ceq :: "char \<Rightarrow> char \<Rightarrow> bool" where
  "char_ceq a b \<longleftrightarrow> canon_char a = canon_char b"

lemma char_ceq_refl [simp]: "char_ceq c c"
  by (simp add: char_ceq_def)

lemma char_ceq_sym: "char_ceq a b \<Longrightarrow> char_ceq b a"
  by (simp add: char_ceq_def)

lemma char_ceq_trans: "char_ceq a b \<Longrightarrow> char_ceq b c \<Longrightarrow> char_ceq a c"
  by (simp add: char_ceq_def)

lemma canon_char_idem [simp]: "canon_char (canon_char c) = canon_char c"
proof (cases "(97 \<le> code c \<and> code c \<le> 122) \<or> (224 \<le> code c \<and> code c \<le> 254 \<and> code c \<noteq> 247)")
  case True
  then have "code (canon_char c) = code c - 32"
    by (auto simp: canon_char_def)
  with True show ?thesis
    by (auto simp: canon_char_def [of "canon_char c"])
next
  case False
  then have "canon_char c = c" by (simp only: canon_char_def if_False)
  then show ?thesis by simp
qed

section \<open>String methods\<close>

text \<open>The white space of \<open>trim\<close> and of the class \<open>\s\<close>, restricted to Latin-1.\<close>

definition js_space :: "char \<Rightarrow> bool" where
  "js_space c \<longleftrightarrow> code c \<in> {9, 10, 11, 12, 13, 32, 160}"

definition js_trim :: "string \<Rightarrow> string" where
  "js_trim s = rev (dropWhile js_space (rev (dropWhile js_space s)))"

fun js_startsWith :: "string \<Rightarrow> string \<Rightarrow> bool" where
  "js_startsWith s [] = True"
| "js_startsWith [] (p # ps) = False"
| "js_startsWith (c # s) (p # ps) = (c = p \<and> js_startsWith s ps)"

definition js_endsWith :: "string \<Rightarrow> string \<Rightarrow> bool" where
  "js_endsWith s p = js_startsWith (rev s) (rev p)"

fun js_includes :: "string \<Rightarrow> string \<Rightarrow> bool" where
  "js_includes s p = (js_startsWith s p \<or> (case s of [] \<Rightarrow> False | c # s' \<Rightarrow> js_includes s' p))"

declare js_includes.simps [simp del]

lemma js_startsWith_iff: "js_startsWith s p \<longleftrightarrow> (\<exists>t. s = p @ t)"
  by (induction s p rule: js_startsWith.induct) auto

lemma js_startsWith_append [simp]: "js_startsWith (p @ t) p"
  by (auto simp: js_startsWith_iff)

lemma js_endsWith_iff: "js_endsWith s p \<longleftrightarrow> (\<exists>t. s = t @ p)"
  by (auto simp: js_endsWith_def js_startsWith_iff)
    (metis rev_append rev_rev_ident)

lemma js_includes_iff: "js_includes s p \<longleftrightarrow> (\<exists>a b. s = a @ p @ b)"
proof (induction s p rule: js_includes.induct)
  case (1 s p)
  show ?case
  proof (cases s)
    case Nil
    then show ?thesis by (auto simp: js_includes.simps js_startsWith_iff)
  next
    case (Cons c s')
    then have IH: "js_includes s' p \<longleftrightarrow> (\<exists>a b. s' = a @ p @ b)" using 1 by simp
    have "js_includes s p \<longleftrightarrow> js_startsWith s p \<or> js_includes s' p"
      by (subst js_includes.simps) (simp add: Cons)
    also have "\<dots> \<longleftrightarrow> (\<exists>a b. s = a @ p @ b)"
      unfolding IH js_startsWith_iff Cons
      by (metis append_Cons append_Nil neq_Nil_conv list.inject)
    finally show ?thesis .
  qed
qed

text \<open>\<open>s.split(c)\<close> for a one-character separator: never empty.\<close>

fun js_split :: "char \<Rightarrow> string \<Rightarrow> string list" where
  "js_split d [] = [[]]"
| "js_split d (c # s) =
     (if c = d then [] # js_split d s
      else (case js_split d s of [] \<Rightarrow> [[c]] | w # ws \<Rightarrow> (c # w) # ws))"

fun js_join :: "string \<Rightarrow> string list \<Rightarrow> string" where
  "js_join sep [] = []"
| "js_join sep [w] = w"
| "js_join sep (w # v # ws) = w @ sep @ js_join sep (v # ws)"

lemma js_split_ne [simp]: "js_split d s \<noteq> []"
  by (induction s) (auto split: list.splits)

lemma js_join_split: "js_join [d] (js_split d s) = s"
proof (induction s)
  case (Cons c s)
  obtain w ws where sp: "js_split d s = w # ws"
    by (cases "js_split d s") auto
  show ?case
  proof (cases "c = d")
    case True
    then show ?thesis using Cons sp by (cases ws) auto
  next
    case False
    then show ?thesis using Cons sp by (cases ws) auto
  qed
qed simp

lemma js_split_no_sep: "d \<notin> set s \<Longrightarrow> js_split d s = [s]"
  by (induction s) auto

lemma js_split_append: "d \<notin> set w \<Longrightarrow> js_split d (w @ d # s) = w # js_split d s"
  by (induction w) auto

lemma js_split_join:
  "ws \<noteq> [] \<Longrightarrow> \<forall>w\<in>set ws. d \<notin> set w \<Longrightarrow> js_split d (js_join [d] ws) = ws"
proof (induction "[d]" ws rule: js_join.induct)
  case (2 w)
  then show ?case by (simp add: js_split_no_sep)
next
  case (3 w v ws)
  then show ?case by (simp add: js_split_append)
qed simp

lemma js_split_no_sep_in: "w \<in> set (js_split d s) \<Longrightarrow> d \<notin> set w"
  by (induction s arbitrary: w) (auto split: list.splits if_splits)

text \<open>Replacing every occurrence of one character by a string, as \<open>s.replace(/c/g, t)\<close>.\<close>

definition js_replace_char :: "char \<Rightarrow> string \<Rightarrow> string \<Rightarrow> string" where
  "js_replace_char c t s = concat (map (\<lambda>x. if x = c then t else [x]) s)"

lemma js_replace_char_simps [simp]:
  "js_replace_char c t [] = []"
  "js_replace_char c t (x # s) = (if x = c then t else [x]) @ js_replace_char c t s"
  by (simp_all add: js_replace_char_def)

text \<open>Indices and slices, as \<open>indexOf\<close>, \<open>lastIndexOf\<close> and \<open>slice\<close> with non-negative arguments.\<close>

fun js_indexOf :: "char \<Rightarrow> string \<Rightarrow> nat option" where
  "js_indexOf c [] = None"
| "js_indexOf c (x # s) = (if x = c then Some 0 else map_option Suc (js_indexOf c s))"

definition js_slice_from :: "nat \<Rightarrow> 'a list \<Rightarrow> 'a list" where
  "js_slice_from n s = drop n s"

text \<open>A string between single quotes, as the messages of the code print names.\<close>

definition squoted :: "string \<Rightarrow> string" where
  "squoted s = CHR 0x27 # s @ [CHR 0x27]"

text \<open>
  String literals of the source that contain quotes and backslashes are written with a backquote
  for the single quote and a number sign for the backslash.
\<close>

definition lit :: "string \<Rightarrow> string" where
  "lit = map (\<lambda>c. if c = CHR 0x60 then CHR 0x27 else if c = CHR 0x23 then CHR 0x5C else c)"

definition lines_text :: "string list \<Rightarrow> string" where
  "lines_text ls = (if ls = [] then [] else tl (concat (map (\<lambda>l. CHR 0x0A # l) ls)))"

text \<open>\<open>value || fallback\<close> on an optional string: the empty string and \<open>undefined\<close> are falsy.\<close>

definition js_or :: "string option \<Rightarrow> string \<Rightarrow> string" where
  "js_or v d = (case v of None \<Rightarrow> d | Some s \<Rightarrow> if s = [] then d else s)"

definition js_or_undefined :: "string option \<Rightarrow> string option" where
  "js_or_undefined v = (case v of None \<Rightarrow> None | Some s \<Rightarrow> if s = [] then None else Some s)"

definition js_truthy :: "string option \<Rightarrow> bool" where
  "js_truthy v \<longleftrightarrow> (\<exists>s. v = Some s \<and> s \<noteq> [])"

lemma js_truthy_simps [simp, code]:
  "js_truthy None = False"
  "js_truthy (Some s) = (s \<noteq> [])"
  by (auto simp: js_truthy_def)

section \<open>Decimal numerals\<close>

fun nat_str :: "nat \<Rightarrow> string" where
  "nat_str n = (if n < 10 then [char_of (48 + n)] else nat_str (n div 10) @ [char_of (48 + n mod 10)])"

declare nat_str.simps [simp del]

definition int_str :: "int \<Rightarrow> string" where
  "int_str i = (if i < 0 then CHR ''-'' # nat_str (nat (- i)) else nat_str (nat i))"

definition is_digit :: "char \<Rightarrow> bool" where
  "is_digit c \<longleftrightarrow> 48 \<le> code c \<and> code c \<le> 57"

definition digit_val :: "char \<Rightarrow> nat" where
  "digit_val c = code c - 48"

definition digits_val :: "string \<Rightarrow> nat" where
  "digits_val = foldl (\<lambda>acc c. acc * 10 + digit_val c) 0"

lemma digit_char:
  assumes "n < 10"
  shows "is_digit (char_of (48 + n))" "digit_val (char_of (48 + n)) = n"
  using assms by (simp_all add: is_digit_def digit_val_def)

lemma digits_val_snoc: "digits_val (s @ [c]) = digits_val s * 10 + digit_val c"
  by (simp add: digits_val_def)

lemma digits_val_nat_str [simp]: "digits_val (nat_str n) = n"
proof (induction n rule: nat_str.induct)
  case (1 n)
  show ?case
  proof (cases "n < 10")
    case True
    then show ?thesis
      using digit_char(2)[OF True] by (subst nat_str.simps) (simp add: digits_val_def)
  next
    case False
    then have "digits_val (nat_str n) = digits_val (nat_str (n div 10)) * 10 + n mod 10"
      using digit_char(2)[of "n mod 10"] by (subst nat_str.simps) (simp add: digits_val_snoc)
    then show ?thesis using 1 False by simp
  qed
qed

lemma nat_str_digits: "c \<in> set (nat_str n) \<Longrightarrow> is_digit c"
proof (induction n rule: nat_str.induct)
  case (1 n)
  show ?case
  proof (cases "n < 10")
    case True
    then show ?thesis using 1(2) digit_char(1)[OF True] by (subst (asm) nat_str.simps) simp
  next
    case False
    then have "c \<in> set (nat_str (n div 10)) \<or> c = char_of (48 + n mod 10)"
      using 1(2) by (subst (asm) nat_str.simps) auto
    then show ?thesis using 1(1) False digit_char(1)[of "n mod 10"] by auto
  qed
qed

lemma nat_str_ne [simp]: "nat_str n \<noteq> []"
  by (subst nat_str.simps) simp

lemma nat_str_inj [simp]: "nat_str m = nat_str n \<longleftrightarrow> m = n"
  by (metis digits_val_nat_str)

lemma not_digit_minus [simp]: "\<not> is_digit (CHR ''-'')"
  by (simp add: is_digit_def)

lemma int_str_inj [simp]: "int_str i = int_str j \<longleftrightarrow> i = j"
proof
  assume eq: "int_str i = int_str j"
  have minus: "nat_str m \<noteq> CHR ''-'' # s" for m s
    using nat_str_digits[of "CHR ''-''" m] by (metis list.set_intros(1) not_digit_minus)
  show "i = j"
    using eq minus by (auto simp: int_str_def split: if_splits) (metis minus)+
qed simp

section \<open>Ordered maps\<close>

text \<open>
  A JavaScript \<open>Map\<close> and a plain object are association lists in insertion order:
  \<open>AList.update\<close> replaces the value in place or appends the new key, exactly as \<open>Map.set\<close> and
  property assignment do, and \<open>AList.delete\<close> removes the key.
\<close>

type_synonym ('k, 'v) omap = "('k \<times> 'v) list"

lemma update_keys: "fst ` set (AList.update k v m) = insert k (fst ` set m)"
  by (induction m) auto

lemma update_new: "k \<notin> fst ` set m \<Longrightarrow> AList.update k v m = m @ [(k, v)]"
  by (induction m) auto

lemma map_of_update [simp]: "map_of (AList.update k v m) = (map_of m)(k \<mapsto> v)"
  by (simp add: update_conv')

lemma map_of_delete [simp]: "map_of (AList.delete k m) = (map_of m)(k := None)"
  by (simp add: delete_conv')

text \<open>\<open>new Map(entries)\<close>: later entries win, the position is that of the first.\<close>

definition map_from_entries :: "('k \<times> 'v) list \<Rightarrow> ('k, 'v) omap" where
  "map_from_entries es = foldl (\<lambda>m (k, v). AList.update k v m) [] es"

lemma map_of_foldl_update:
  "map_of (foldl (\<lambda>m (k, v). AList.update k v m) m0 es) = map_of m0 ++ map_of (rev es)"
proof (induction es arbitrary: m0)
  case (Cons e es)
  then show ?case by (cases e) (auto simp: map_add_def fun_eq_iff split: option.splits)
qed simp

lemma map_of_map_from_entries: "map_of (map_from_entries es) = map_of (rev es)"
  by (simp add: map_from_entries_def map_of_foldl_update)

lemma distinct_map_from_entries: "distinct (map fst (map_from_entries es))"
proof -
  have "distinct (map fst m0) \<Longrightarrow>
      distinct (map fst (foldl (\<lambda>m (k, v). AList.update k v m) m0 es))" for m0 :: "('a \<times> 'b) list"
    by (induction es arbitrary: m0) (auto simp: distinct_update)
  then show ?thesis by (simp add: map_from_entries_def)
qed

text \<open>Insertion-ordered sets, as the spread of a \<open>Set\<close>: the first occurrence is kept.\<close>

fun dedup_acc :: "'a list \<Rightarrow> 'a list \<Rightarrow> 'a list" where
  "dedup_acc seen [] = []"
| "dedup_acc seen (x # xs) =
     (if x \<in> set seen then dedup_acc seen xs else x # dedup_acc (x # seen) xs)"

definition set_spread :: "'a list \<Rightarrow> 'a list" where
  "set_spread xs = dedup_acc [] xs"

lemma set_dedup_acc: "set (dedup_acc seen xs) = set xs - set seen"
  by (induction xs arbitrary: seen) auto

lemma distinct_dedup_acc: "distinct (dedup_acc seen xs)"
  by (induction xs arbitrary: seen) (auto simp: set_dedup_acc)

lemma set_set_spread [simp]: "set (set_spread xs) = set xs"
  by (simp add: set_spread_def set_dedup_acc)

lemma dedup_acc_append:
  "dedup_acc seen (xs @ ys) = dedup_acc seen xs @ dedup_acc (rev (dedup_acc seen xs) @ seen) ys"
proof (induction xs arbitrary: seen)
  case (Cons x xs)
  then show ?case by auto
qed simp

lemma dedup_acc_cong: "set s1 = set s2 \<Longrightarrow> dedup_acc s1 xs = dedup_acc s2 xs"
proof (induction xs arbitrary: s1 s2)
  case (Cons x xs)
  then have "x \<in> set s1 \<longleftrightarrow> x \<in> set s2" "dedup_acc s1 xs = dedup_acc s2 xs"
    "dedup_acc (x # s1) xs = dedup_acc (x # s2) xs" by (simp, blast, simp)
  then show ?case by simp
qed simp

lemma dedup_acc_idem: "distinct xs \<Longrightarrow> set xs \<inter> set seen = {} \<Longrightarrow> dedup_acc seen xs = xs"
  by (induction xs arbitrary: seen) auto

lemma set_spread_absorb [simp]: "set_spread (set_spread xs @ ys) = set_spread (xs @ ys)"
proof -
  have idem: "dedup_acc [] (dedup_acc [] xs) = dedup_acc [] xs"
    by (rule dedup_acc_idem) (simp_all add: distinct_dedup_acc)
  show ?thesis
    by (simp add: set_spread_def dedup_acc_append idem)
qed

lemma set_spread_Nil [simp]: "set_spread [] = []"
  by (simp add: set_spread_def)

lemma distinct_set_spread [simp]: "distinct (set_spread xs)"
  by (simp add: set_spread_def distinct_dedup_acc)

end
