(* ===== verification/Types.thy ===== *)
theory Types
  imports Prelude
begin

text \<open>
  The data model: the types of src/types.ts and the configuration types that the schemas of
  src/config.ts declare.  Interfaces and object schemas are records (every field keeps its name
  behind a short prefix), unions of literals are datatypes, optional fields are \<open>option\<close>s.
\<close>

section \<open>Targets\<close>

datatype target_kind =
  KCluster | KNode | KQemuVm | KLxcContainer | KLinuxGuest | KWindowsGuest

fun kind_str :: "target_kind \<Rightarrow> string" where
  "kind_str KCluster = ''cluster''"
| "kind_str KNode = ''node''"
| "kind_str KQemuVm = ''qemu_vm''"
| "kind_str KLxcContainer = ''lxc_container''"
| "kind_str KLinuxGuest = ''linux_guest''"
| "kind_str KWindowsGuest = ''windows_guest''"

definition TARGET_KINDS :: "target_kind list" where
  "TARGET_KINDS = [KCluster, KNode, KQemuVm, KLxcContainer, KLinuxGuest, KWindowsGuest]"

record target_ref =
  tg_cluster :: string
  tg_kind :: target_kind
  tg_node :: "string option"
  tg_vmid :: "int option"
  tg_guestName :: "string option"

abbreviation target_of :: "string \<Rightarrow> target_kind \<Rightarrow> string option \<Rightarrow> int option \<Rightarrow> target_ref" where
  "target_of c k n v \<equiv> \<lparr>tg_cluster = c, tg_kind = k, tg_node = n, tg_vmid = v, tg_guestName = None\<rparr>"

datatype capability =
  CapInventory | CapLifecycle | CapConfig | CapTaskWait | CapConsole | CapGuestExec
  | CapGuestFileIo | CapHostShell | CapGuestShell | CapDockerShell

datatype wait_mode = WaitMode | DeferredMode | AutoMode

record command_result =
  cr_stdout :: string
  cr_stderr :: string
  cr_exitCode :: int
  cr_signal :: "string option"

section \<open>Policies\<close>

record effective_policy =
  ep_allowApiRead :: bool
  ep_allowApiWrite :: bool
  ep_allowCliFamilies :: "string list"
  ep_allowRawCli :: bool
  ep_allowShell :: bool
  ep_allowFileRead :: bool
  ep_allowFileWrite :: bool
  ep_allowSudo :: bool
  ep_maxTimeoutMs :: int

record policy_match =
  pm_clusters :: "string list option"
  pm_targetKinds :: "string list option"
  pm_targetIds :: "string list option"
  pm_nodeNames :: "string list option"

record policy_config =
  pc_name :: string
  pc_match :: policy_match
  pc_allowApiRead :: bool
  pc_allowApiWrite :: bool
  pc_allowCliFamilies :: "string list"
  pc_allowRawCli :: bool
  pc_allowShell :: bool
  pc_allowFileRead :: bool
  pc_allowFileWrite :: bool
  pc_allowSudo :: bool
  pc_maxTimeoutMs :: int

section \<open>Clusters and credentials\<close>

record tls_config =
  tls_rejectUnauthorized :: bool
  tls_caFile :: "string option"

record api_token_auth =
  at_user :: string
  at_realm :: string
  at_tokenId :: string
  at_secret :: string

record ticket_auth =
  ti_username :: string
  ti_password :: string
  ti_realm :: string
  ti_otp :: "string option"

text \<open>
  \<open>hostKeyPolicy\<close> stays a string: the code casts it from the environment and from stored secrets
  without a check.
\<close>

type_synonym host_key_policy = string

record ssh_bootstrap_auth =
  sb_sshUsername :: string
  sb_sshPassword :: string
  sb_sshPort :: int
  sb_hostKeyPolicy :: host_key_policy
  sb_expectedHostKey :: "string option"
  sb_apiUser :: string
  sb_apiRealm :: string
  sb_tokenId :: string
  sb_comment :: string
  sb_privsep :: bool

datatype cluster_auth =
    ApiToken api_token_auth
  | Ticket ticket_auth
  | SecretRef "string option"
  | SshBootstrap ssh_bootstrap_auth

record cluster_node =
  cn_name :: string
  cn_host :: string
  cn_port :: int
  cn_sshProfile :: string

record cluster_config =
  cl_name :: string
  cl_host :: string
  cl_apiPort :: int
  cl_sshPort :: int
  cl_defaultNode :: "string option"
  cl_defaultBridge :: string
  cl_defaultVmStorage :: "string option"
  cl_defaultSnippetStorage :: string
  cl_apiUrl :: string
  cl_auth :: cluster_auth
  cl_tls :: tls_config
  cl_nodes :: "cluster_node list"

text \<open>A cluster as the input of the schema: the host, the URL and the node addresses are optional.\<close>

record raw_cluster_node =
  rn_name :: string
  rn_host :: "string option"
  rn_port :: "int option"
  rn_sshProfile :: string

record raw_cluster =
  rc_name :: string
  rc_host :: "string option"
  rc_apiPort :: int
  rc_sshPort :: int
  rc_defaultNode :: "string option"
  rc_defaultBridge :: string
  rc_defaultVmStorage :: "string option"
  rc_defaultSnippetStorage :: string
  rc_apiUrl :: "string option"
  rc_auth :: cluster_auth
  rc_tls :: tls_config
  rc_nodes :: "raw_cluster_node list"

record ssh_profile =
  sp_name :: string
  sp_username :: string
  sp_port :: int
  sp_privateKeyPath :: "string option"
  sp_privateKey :: "string option"
  sp_publicKeyPath :: "string option"
  sp_publicKey :: "string option"
  sp_passphrase :: "string option"
  sp_password :: "string option"
  sp_hostKeyPolicy :: host_key_policy
  sp_expectedHostKey :: "string option"
  sp_shell :: string
  sp_prefixCommand :: "string list"

datatype winrm_transport = WtDefault | WtHttp | WtHttps

record winrm_profile =
  wp_name :: string
  wp_username :: string
  wp_password :: "string option"
  wp_transport :: winrm_transport
  wp_useSsl :: bool
  wp_skipCertificateChecks :: bool
  wp_powershellPath :: string

record linux_guest =
  lg_name :: string
  lg_cluster :: string
  lg_kind :: target_kind
  lg_vmid :: int
  lg_host :: "string option"
  lg_sshProfile :: "string option"

record windows_guest =
  wg_name :: string
  wg_cluster :: string
  wg_vmid :: int
  wg_host :: "string option"
  wg_winrmProfile :: "string option"

section \<open>The server configuration\<close>

text \<open>
  \<open>mode\<close> is kept as the string of the environment: the code casts it before the schema has
  seen it.
\<close>

record oidc_auth =
  oi_issuer :: string
  oi_audience :: string
  oi_jwksUrl :: "string option"
  oi_resource :: "string option"

datatype mcp_auth = McpNone | McpOidc oidc_auth

record http_config =
  hc_host :: string
  hc_port :: int
  hc_path :: string
  hc_publicBaseUrl :: "string option"
  hc_stateless :: bool

record vault_config =
  va_address :: string
  va_path :: string
  va_token :: "string option"
  va_tokenEnvVar :: string
  va_namespace :: "string option"
  va_kvVersion :: string

datatype secret_store_config = StoreEnv | StoreFile string | StoreVault vault_config

record local_bootstrap =
  lb_enabled :: bool
  lb_sshUsername :: "string option"
  lb_sshPassword :: "string option"
  lb_sshPort :: int
  lb_hostKeyPolicy :: string
  lb_expectedHostKey :: "string option"
  lb_apiUser :: string
  lb_apiRealm :: string
  lb_tokenId :: string
  lb_comment :: string
  lb_privsep :: bool

record server_config =
  sc_mode :: string
  sc_mcpAuth :: mcp_auth
  sc_http :: http_config
  sc_secretStore :: secret_store_config
  sc_localBootstrap :: local_bootstrap
  sc_escapeEnabled :: bool
  sc_clusters :: "cluster_config list"
  sc_sshProfiles :: "ssh_profile list"
  sc_winrmProfiles :: "winrm_profile list"
  sc_linuxGuests :: "linux_guest list"
  sc_windowsGuests :: "windows_guest list"
  sc_policies :: "policy_config list"
  sc_auditLogPath :: string
  sc_inventoryCacheTtlMs :: int
  sc_defaultTimeoutMs :: int

text \<open>
  The runtime configuration adds the lookup maps.  \<open>clusterMap\<close> holds references into the
  cluster list, so it maps a name to the position of the object it names; the code never writes
  through a reference of the two profile maps, which map to values.
\<close>

record runtime_config = server_config +
  rt_configPath :: string
  rt_clusterMap :: "(string, nat) omap"
  rt_sshProfileMap :: "(string, ssh_profile) omap"
  rt_winrmProfileMap :: "(string, winrm_profile) omap"

end
