(* ===== verification/Json.thy ===== *)
theory Json
  imports Prelude
begin

text \<open>
  JavaScript values and \<open>JSON\<close>.  Every file, HTTP body and tool answer of the server goes through
  \<open>JSON.stringify\<close> and \<open>JSON.parse\<close>; both are written out here, with the indented form that
  \<open>safeJson\<close> of src/utils.ts prints.

  Numbers are the integers; a numeral with a fraction or an exponent is kept as the opaque text
  \<open>JFloat\<close>, which also stands for \<open>NaN\<close>.  Objects list their own enumerable properties in order.
\<close>

section \<open>Values\<close>

datatype jsval =
    JUndef
  | JNull
  | JBool bool
  | JNum int
  | JFloat string
  | JStr string
  | JArr "jsval list"
  | JObj "(string \<times> jsval) list"

text \<open>\<open>typeof\<close>-style tests and field access, \<open>undefined\<close> for a missing field.\<close>

definition jget :: "jsval \<Rightarrow> string \<Rightarrow> jsval" where
  "jget v k = (case v of JObj ps \<Rightarrow> (case map_of ps k of Some x \<Rightarrow> x | None \<Rightarrow> JUndef) | _ \<Rightarrow> JUndef)"

text \<open>Field access on \<open>null\<close> or \<open>undefined\<close> throws.\<close>

definition jfield :: "jsval \<Rightarrow> string \<Rightarrow> jsval res" where
  "jfield v k = (if v = JUndef \<or> v = JNull then Inl ''TypeError'' else Inr (jget v k))"

definition is_jobj :: "jsval \<Rightarrow> bool" where
  "is_jobj v \<longleftrightarrow> (case v of JObj ps \<Rightarrow> True | _ \<Rightarrow> False)"

definition jstr_opt :: "jsval \<Rightarrow> string option" where
  "jstr_opt v = (case v of JStr s \<Rightarrow> Some s | _ \<Rightarrow> None)"

definition jnum_opt :: "jsval \<Rightarrow> int option" where
  "jnum_opt v = (case v of JNum n \<Rightarrow> Some n | _ \<Rightarrow> None)"

definition of_str_opt :: "string option \<Rightarrow> jsval" where
  "of_str_opt v = (case v of None \<Rightarrow> JUndef | Some s \<Rightarrow> JStr s)"

definition of_int_opt :: "int option \<Rightarrow> jsval" where
  "of_int_opt v = (case v of None \<Rightarrow> JUndef | Some s \<Rightarrow> JNum s)"

definition of_bool_opt :: "bool option \<Rightarrow> jsval" where
  "of_bool_opt v = (case v of None \<Rightarrow> JUndef | Some s \<Rightarrow> JBool s)"

definition js_truth :: "jsval \<Rightarrow> bool" where
  "js_truth v = (case v of JUndef \<Rightarrow> False | JNull \<Rightarrow> False | JBool b \<Rightarrow> b | JNum n \<Rightarrow> n \<noteq> 0
     | JFloat s \<Rightarrow> s \<noteq> ''NaN'' | JStr s \<Rightarrow> s \<noteq> [] | JArr vs \<Rightarrow> True | JObj ps \<Rightarrow> True)"

section \<open>Printing\<close>

definition hex_digit :: "nat \<Rightarrow> char" where
  "hex_digit n = (if n < 10 then char_of (48 + n) else char_of (87 + n))"

definition json_escape :: "char \<Rightarrow> string" where
  "json_escape c =
     (let n = code c in
      if n = 34 then [CHR 0x5C, CHR 0x22]
      else if n = 92 then [CHR 0x5C, CHR 0x5C]
      else if n = 8 then [CHR 0x5C, CHR ''b'']
      else if n = 9 then [CHR 0x5C, CHR ''t'']
      else if n = 10 then [CHR 0x5C, CHR ''n'']
      else if n = 12 then [CHR 0x5C, CHR ''f'']
      else if n = 13 then [CHR 0x5C, CHR ''r'']
      else if n < 32 then [CHR 0x5C, CHR ''u'', CHR ''0'', CHR ''0'', hex_digit (n div 16), hex_digit (n mod 16)]
      else [c])"

definition json_quote :: "string \<Rightarrow> string" where
  "json_quote s = CHR 0x22 # concat (map json_escape s) @ [CHR 0x22]"

text \<open>
  The printer with an indentation step \<open>gap\<close>: the compact form has the empty step; otherwise every
  element stands on its own line.  \<open>ind\<close> is the current indentation.
\<close>

definition json_nl :: "string \<Rightarrow> string \<Rightarrow> string" where
  "json_nl gap ind = (if gap = [] then [] else CHR 0x0A # ind)"

definition json_colon :: "string \<Rightarrow> string" where
  "json_colon gap = (if gap = [] then '':'' else '': '')"

fun jprint :: "string \<Rightarrow> string \<Rightarrow> jsval \<Rightarrow> string"
  and jprint_elems :: "string \<Rightarrow> string \<Rightarrow> jsval list \<Rightarrow> string"
  and jprint_members :: "string \<Rightarrow> string \<Rightarrow> (string \<times> jsval) list \<Rightarrow> string" where
  "jprint gap ind JUndef = ''null''"
| "jprint gap ind JNull = ''null''"
| "jprint gap ind (JBool b) = (if b then ''true'' else ''false'')"
| "jprint gap ind (JNum n) = int_str n"
| "jprint gap ind (JFloat s) = (if s = ''NaN'' then ''null'' else s)"
| "jprint gap ind (JStr s) = json_quote s"
| "jprint gap ind (JArr vs) =
     (if vs = [] then ''[]''
      else ''['' @ json_nl gap (ind @ gap) @ jprint_elems gap (ind @ gap) vs @ json_nl gap ind @ '']'')"
| "jprint gap ind (JObj ps) =
     (let ms = filter (\<lambda>(k, v). v \<noteq> JUndef) ps in
      if ms = [] then ''{}''
      else ''{'' @ json_nl gap (ind @ gap) @ jprint_members gap (ind @ gap) ps @ json_nl gap ind @ ''}'')"
| "jprint_elems gap ind [] = []"
| "jprint_elems gap ind (v # vs) =
     jprint gap ind v @ (if vs = [] then [] else '','' @ json_nl gap ind @ jprint_elems gap ind vs)"
| "jprint_members gap ind [] = []"
| "jprint_members gap ind ((k, v) # ps) =
     (if v = JUndef then jprint_members gap ind ps
      else json_quote k @ json_colon gap @ jprint gap ind v @
        (if filter (\<lambda>(k, v). v \<noteq> JUndef) ps = [] then []
         else '','' @ json_nl gap ind @ jprint_members gap ind ps))"

definition JSON_stringify :: "jsval \<Rightarrow> string" where
  "JSON_stringify v = jprint [] [] v"

definition safeJson :: "jsval \<Rightarrow> string" where
  "safeJson v = jprint ''  '' [] v"

section \<open>Parsing\<close>

definition json_ws :: "char \<Rightarrow> bool" where
  "json_ws c \<longleftrightarrow> code c \<in> {9, 10, 13, 32}"

definition skip_ws :: "string \<Rightarrow> string" where
  "skip_ws = dropWhile json_ws"

definition hex_val :: "char \<Rightarrow> nat option" where
  "hex_val c =
     (let n = code c in
      if 48 \<le> n \<and> n \<le> 57 then Some (n - 48)
      else if 97 \<le> n \<and> n \<le> 102 then Some (n - 87)
      else if 65 \<le> n \<and> n \<le> 70 then Some (n - 55)
      else None)"

definition json_unescape :: "char \<Rightarrow> char option" where
  "json_unescape c =
     (if c = CHR 0x22 then Some (CHR 0x22)
      else if c = CHR 0x5C then Some (CHR 0x5C)
      else if c = CHR ''/'' then Some (CHR ''/'')
      else if c = CHR ''b'' then Some (CHR 0x08)
      else if c = CHR ''f'' then Some (CHR 0x0C)
      else if c = CHR ''n'' then Some (CHR 0x0A)
      else if c = CHR ''r'' then Some (CHR 0x0D)
      else if c = CHR ''t'' then Some (CHR 0x09)
      else None)"

definition hex4 :: "char \<Rightarrow> char \<Rightarrow> char \<Rightarrow> char \<Rightarrow> char option" where
  "hex4 a b c d =
     (case (hex_val a, hex_val b, hex_val c, hex_val d) of
        (Some w, Some x, Some y, Some z) \<Rightarrow> if w = 0 \<and> x = 0 then Some (char_of (16 * y + z)) else None
      | _ \<Rightarrow> None)"

fun json_string_rest :: "string \<Rightarrow> (string \<times> string) option" where
  "json_string_rest [] = None"
| "json_string_rest (c # r) =
     (if c = CHR 0x22 then Some ([], r)
      else if c = CHR 0x5C then
        (case r of
           [] \<Rightarrow> None
         | e # r' \<Rightarrow>
             if e = CHR ''u'' then
               (case r' of
                  w # x # y # z # r'' \<Rightarrow>
                    (case hex4 w x y z of
                       None \<Rightarrow> None
                     | Some u \<Rightarrow> map_option (\<lambda>(s, t). (u # s, t)) (json_string_rest r''))
                | _ \<Rightarrow> None)
             else (case json_unescape e of
                     None \<Rightarrow> None
                   | Some u \<Rightarrow> map_option (\<lambda>(s, t). (u # s, t)) (json_string_rest r')))
      else if code c < 32 then None
      else map_option (\<lambda>(s, t). (c # s, t)) (json_string_rest r))"

text \<open>Numbers: the grammar of JSON, a leading zero stands alone.\<close>

definition frac_tail :: "string \<Rightarrow> (string \<times> string) option" where
  "frac_tail s =
     (let (fr, s1) = (case s of
            c # r \<Rightarrow> if c = CHR ''.'' then (c # takeWhile is_digit r, dropWhile is_digit r) else ([], s)
          | [] \<Rightarrow> ([], s));
          (ex, s2) = (case s1 of
            c # r \<Rightarrow>
              if c = CHR ''e'' \<or> c = CHR ''E'' then
                (let (sg, r') = (case r of d # r'' \<Rightarrow> if d = CHR ''+'' \<or> d = CHR ''-'' then ([d], r'') else ([], r)
                                 | [] \<Rightarrow> ([], r))
                 in (c # sg @ takeWhile is_digit r', dropWhile is_digit r'))
              else ([], s1)
          | [] \<Rightarrow> ([], s1))
      in if fr = ''.'' \<or> (ex \<noteq> [] \<and> \<not> is_digit (last ex)) then None else Some (fr @ ex, s2))"

definition json_number :: "string \<Rightarrow> (jsval \<times> string) option" where
  "json_number s =
     (let (sg, s1) = (case s of c # r \<Rightarrow> if c = CHR ''-'' then (''-'', r) else ([], s) | [] \<Rightarrow> ([], s));
          ds = takeWhile is_digit s1; s2 = dropWhile is_digit s1
      in if ds = [] \<or> (length ds > 1 \<and> hd ds = CHR ''0'') then None
         else (case frac_tail s2 of
            None \<Rightarrow> None
          | Some (fr, s3) \<Rightarrow>
              if fr = [] then
                Some (JNum (if sg = [] then int (digits_val ds) else - int (digits_val ds)), s3)
              else Some (JFloat (sg @ ds @ fr), s3)))"

definition json_literal :: "string \<Rightarrow> jsval \<Rightarrow> string \<Rightarrow> (jsval \<times> string) option" where
  "json_literal w v s = (if js_startsWith s w then Some (v, drop (length w) s) else None)"

text \<open>
  The recursive descent, with the recursion depth as fuel: at most two calls consume no
  character, so twice the length of the input is enough.
\<close>

fun json_value :: "nat \<Rightarrow> string \<Rightarrow> (jsval \<times> string) option"
  and json_elems :: "nat \<Rightarrow> string \<Rightarrow> (jsval list \<times> string) option"
  and json_members :: "nat \<Rightarrow> string \<Rightarrow> ((string \<times> jsval) list \<times> string) option" where
  "json_value 0 s = None"
| "json_value (Suc n) s =
     (case skip_ws s of
        [] \<Rightarrow> None
      | c # r \<Rightarrow>
          if c = CHR 0x22 then map_option (\<lambda>(t, r'). (JStr t, r')) (json_string_rest r)
          else if c = CHR ''['' then
            (case skip_ws r of
               [] \<Rightarrow> None
             | d # r' \<Rightarrow> if d = CHR '']'' then Some (JArr [], r')
                 else map_option (\<lambda>(vs, r''). (JArr vs, r'')) (json_elems n r))
          else if c = CHR ''{'' then
            (case skip_ws r of
               [] \<Rightarrow> None
             | d # r' \<Rightarrow> if d = CHR ''}'' then Some (JObj [], r')
                 else map_option (\<lambda>(ps, r''). (JObj (map_from_entries ps), r'')) (json_members n r))
          else if c = CHR ''n'' then json_literal ''null'' JNull (c # r)
          else if c = CHR ''t'' then json_literal ''true'' (JBool True) (c # r)
          else if c = CHR ''f'' then json_literal ''false'' (JBool False) (c # r)
          else json_number (c # r))"
| "json_elems 0 s = None"
| "json_elems (Suc n) s =
     (case json_value n s of
        None \<Rightarrow> None
      | Some (v, r) \<Rightarrow>
          (case skip_ws r of
             [] \<Rightarrow> None
           | d # r' \<Rightarrow>
               if d = CHR '']'' then Some ([v], r')
               else if d = CHR '','' then map_option (\<lambda>(vs, r''). (v # vs, r'')) (json_elems n r')
               else None))"
| "json_members 0 s = None"
| "json_members (Suc n) s =
     (case skip_ws s of
        [] \<Rightarrow> None
      | q # s' \<Rightarrow>
          if q \<noteq> CHR 0x22 then None
          else (case json_string_rest s' of
             None \<Rightarrow> None
           | Some (k, s1) \<Rightarrow>
               (case skip_ws s1 of
                  [] \<Rightarrow> None
                | e # s2 \<Rightarrow>
                    if e \<noteq> CHR '':'' then None
                    else (case json_value n s2 of
                       None \<Rightarrow> None
                     | Some (v, r) \<Rightarrow>
                         (case skip_ws r of
                            [] \<Rightarrow> None
                          | d # r' \<Rightarrow>
                              if d = CHR ''}'' then Some ([(k, v)], r')
                              else if d = CHR '','' then
                                map_option (\<lambda>(ps, r''). ((k, v) # ps, r'')) (json_members n r')
                              else None)))))"

definition json_fuel :: "string \<Rightarrow> nat" where
  "json_fuel s = 2 * length s + 2"

definition JSON_parse :: "string \<Rightarrow> jsval option" where
  "JSON_parse s =
     (case json_value (json_fuel s) s of
        None \<Rightarrow> None
      | Some (v, r) \<Rightarrow> if skip_ws r = [] then Some v else None)"

end
