(* ===== verification/JsonProps.thy ===== *)
theory JsonProps
  imports Json
begin

text \<open>
  Round trip of \<open>JSON.stringify\<close> and \<open>JSON.parse\<close> on every value without \<open>undefined\<close>, for the
  compact form and for the indented form alike, and the \<open>codec\<close> interface the wire formats of
  the server share.
\<close>

section \<open>Normal values\<close>

fun jnormal :: "jsval \<Rightarrow> bool" where
  "jnormal JUndef = False"
| "jnormal (JFloat s) = False"
| "jnormal (JArr vs) = list_all jnormal vs"
| "jnormal (JObj ps) = (distinct (map fst ps) \<and> list_all (\<lambda>p. jnormal (snd p)) ps)"
| "jnormal v = True"

fun jdepth :: "jsval \<Rightarrow> nat" where
  "jdepth (JArr vs) = Suc (sum_list (map (\<lambda>v. Suc (jdepth v)) vs))"
| "jdepth (JObj ps) = Suc (sum_list (map (\<lambda>p. Suc (jdepth (snd p))) ps))"
| "jdepth v = 1"

lemma json_ws_simps [simp]:
  "json_ws (CHR '' '')" "json_ws (CHR 0x0A)"
  "\<not> json_ws (CHR 0x22)" "\<not> json_ws (CHR ''['')" "\<not> json_ws (CHR '']'')" "\<not> json_ws (CHR ''{'')"
  "\<not> json_ws (CHR ''}'')" "\<not> json_ws (CHR '','')" "\<not> json_ws (CHR '':'')" "\<not> json_ws (CHR ''n'')"
  "\<not> json_ws (CHR ''t'')" "\<not> json_ws (CHR ''f'')"
  by (simp_all add: json_ws_def)

section \<open>Strings\<close>

lemma char_eq_code: "a = b \<longleftrightarrow> code a = code b"
  by (metis char_of_char)

lemma hex_val_digit: "n < 16 \<Longrightarrow> hex_val (hex_digit n) = Some n"
  by (auto simp: hex_val_def hex_digit_def Let_def)

lemma hex4_code: "code c < 32 \<Longrightarrow>
    hex4 (CHR ''0'') (CHR ''0'') (hex_digit (code c div 16)) (hex_digit (code c mod 16)) = Some c"
proof -
  assume "code c < 32"
  have zero: "hex_val (CHR ''0'') = Some 0" by (simp add: hex_val_def)
  from \<open>code c < 32\<close> have "hex4 (CHR ''0'') (CHR ''0'') (hex_digit (code c div 16)) (hex_digit (code c mod 16))
      = Some (char_of (16 * (code c div 16) + code c mod 16))"
    using hex_val_digit[of "code c div 16"] hex_val_digit[of "code c mod 16"] zero
    by (simp add: hex4_def)
  then show ?thesis by (simp add: char_of_char)
qed

lemma json_string_escape:
  "json_string_rest (json_escape c @ t) = map_option (\<lambda>(s, u). (c # s, u)) (json_string_rest t)"
proof -
  consider "c = CHR 0x22" | "c = CHR 0x5C" | "c = CHR 0x08" | "c = CHR 0x09" | "c = CHR 0x0A"
    | "c = CHR 0x0C" | "c = CHR 0x0D"
    | "code c < 32" "code c \<notin> {8, 9, 10, 12, 13}"
    | "code c \<ge> 32" "code c \<noteq> 34" "code c \<noteq> 92"
    unfolding char_eq_code by simp linarith
  then show ?thesis
  proof cases
    case 8
    then show ?thesis using hex4_code[of c]
      by (simp add: json_escape_def Let_def json_unescape_def)
  next
    case 9
    then show ?thesis
      by (auto simp: json_escape_def Let_def char_eq_code)
  qed (auto simp: json_escape_def Let_def json_unescape_def)
qed

lemma json_string_quote:
  "json_string_rest (concat (map json_escape s) @ CHR 0x22 # t) = Some (s, t)"
  by (induction s) (simp_all add: json_string_escape)

section \<open>Numbers\<close>

definition num_end :: "string \<Rightarrow> bool" where
  "num_end s = (case s of [] \<Rightarrow> True
     | c # r \<Rightarrow> \<not> is_digit c \<and> c \<noteq> CHR ''.'' \<and> c \<noteq> CHR ''e'' \<and> c \<noteq> CHR ''E'')"

lemma num_end_simps [simp]:
  "num_end []"
  "num_end (c # r) \<longleftrightarrow> \<not> is_digit c \<and> c \<noteq> CHR ''.'' \<and> c \<noteq> CHR ''e'' \<and> c \<noteq> CHR ''E''"
  by (simp_all add: num_end_def)

lemma frac_tail_end: "num_end s \<Longrightarrow> frac_tail s = Some ([], s)"
  by (cases s) (auto simp: frac_tail_def)

lemma takeWhile_digits: "num_end s \<Longrightarrow> takeWhile is_digit (nat_str n @ s) = nat_str n"
  using nat_str_digits[of _ n] by (cases s) (auto simp: takeWhile_append)

lemma dropWhile_digits: "num_end s \<Longrightarrow> dropWhile is_digit (nat_str n @ s) = s"
  using nat_str_digits[of _ n] by (cases s) (auto simp: dropWhile_append)

lemma nat_str_no_leading_zero: "n > 0 \<Longrightarrow> hd (nat_str n) \<noteq> CHR ''0''"
proof (induction n rule: nat_str.induct)
  case (1 n)
  show ?case
  proof (cases "n < 10")
    case True
    then show ?thesis using 1(2) by (subst nat_str.simps) (simp add: char_eq_code)
  next
    case False
    then show ?thesis using 1 by (subst nat_str.simps) simp
  qed
qed

lemma nat_str_0: "nat_str 0 = ''0''"
  by (subst nat_str.simps) (simp add: char_eq_code)

lemma nat_str_leading: "\<not> (length (nat_str n) > 1 \<and> hd (nat_str n) = CHR ''0'')"
  using nat_str_no_leading_zero[of n] by (cases "n = 0") (auto simp: nat_str_0)

lemma hd_nat_str_digit: "is_digit (hd (nat_str n))"
  by (rule nat_str_digits[of _ n]) simp

lemma json_number_int_str:
  assumes "num_end s"
  shows "json_number (int_str i @ s) = Some (JNum i, s)"
proof (cases "i < 0")
  case True
  then show ?thesis using assms nat_str_leading[of "nat (- i)"]
    by (auto simp: json_number_def int_str_def takeWhile_digits dropWhile_digits frac_tail_end)
next
  case False
  have "hd (nat_str (nat i)) \<noteq> CHR ''-''"
    using hd_nat_str_digit[of "nat i"] by (auto simp: is_digit_def)
  then obtain c r where cr: "nat_str (nat i) = c # r" "c \<noteq> CHR ''-''"
    by (cases "nat_str (nat i)") auto
  have "json_number (nat_str (nat i) @ s) =
    (let (sg, s1) = ([], nat_str (nat i) @ s); ds = takeWhile is_digit s1; s2 = dropWhile is_digit s1
      in if ds = [] \<or> (length ds > 1 \<and> hd ds = CHR ''0'') then None
         else (case frac_tail s2 of
            None \<Rightarrow> None
          | Some (fr, s3) \<Rightarrow>
              if fr = [] then
                Some (JNum (if sg = [] then int (digits_val ds) else - int (digits_val ds)), s3)
              else Some (JFloat (sg @ ds @ fr), s3)))"
    using cr by (simp add: json_number_def)
  then show ?thesis using False assms nat_str_leading[of "nat i"]
    by (auto simp: int_str_def takeWhile_digits dropWhile_digits frac_tail_end)
qed

section \<open>White space and first characters\<close>

lemma skip_ws_all: "list_all json_ws w \<Longrightarrow> skip_ws (w @ s) = skip_ws s"
  by (induction w) (auto simp: skip_ws_def)

lemma skip_ws_Cons: "\<not> json_ws c \<Longrightarrow> skip_ws (c # s) = c # s"
  by (simp add: skip_ws_def)

lemma int_str_first: "\<exists>c r. int_str i = c # r \<and> (is_digit c \<or> c = CHR ''-'')"
  using hd_nat_str_digit[of "nat i"]
  by (cases "nat_str (nat i)") (auto simp: int_str_def)

definition json_first :: "char \<Rightarrow> bool" where
  "json_first c \<longleftrightarrow> c \<in> {CHR 0x22, CHR ''['', CHR ''{'', CHR ''n'', CHR ''t'', CHR ''f'', CHR ''-''} \<or> is_digit c"

lemma json_first_not:
  "json_first c \<Longrightarrow> \<not> json_ws c" "json_first c \<Longrightarrow> c \<noteq> CHR '']''" "json_first c \<Longrightarrow> c \<noteq> CHR ''}''"
  by (auto simp: json_first_def json_ws_def is_digit_def)

lemma jprint_first: "jnormal v \<Longrightarrow> \<exists>c r. jprint gap ind v = c # r \<and> json_first c"
  using int_str_first by (cases v) (auto simp: json_first_def json_quote_def Let_def, fastforce+)

lemma json_digit_first: "is_digit c \<or> c = CHR ''-'' \<Longrightarrow>
   c \<noteq> CHR 0x22 \<and> c \<noteq> CHR ''['' \<and> c \<noteq> CHR ''{'' \<and> c \<noteq> CHR ''n'' \<and> c \<noteq> CHR ''t'' \<and> c \<noteq> CHR ''f'' \<and> \<not> json_ws c"
  by (auto simp: is_digit_def json_ws_def)

section \<open>The round trip\<close>

definition parses :: "string \<Rightarrow> jsval \<Rightarrow> bool" where
  "parses gap v \<longleftrightarrow> (\<forall>ind n w rest. jdepth v \<le> n \<longrightarrow> list_all json_ws ind \<longrightarrow> num_end rest \<longrightarrow>
     list_all json_ws w \<longrightarrow> json_value n (w @ jprint gap ind v @ rest) = Some (v, rest))"

lemma parsesD:
  "parses gap v \<Longrightarrow> jdepth v \<le> n \<Longrightarrow> list_all json_ws ind \<Longrightarrow> num_end rest \<Longrightarrow> list_all json_ws w \<Longrightarrow>
     json_value n (w @ jprint gap ind v @ rest) = Some (v, rest)"
  by (simp add: parses_def)

lemma json_nl_ws: "list_all json_ws ind \<Longrightarrow> list_all json_ws (json_nl gap ind)"
  by (simp add: json_nl_def)

lemma num_end_nl: "num_end (json_nl gap ind @ CHR '']'' # r)" "num_end (json_nl gap ind @ CHR ''}'' # r)"
  by (auto simp: json_nl_def is_digit_def)

lemma elems_parse:
  assumes "vs \<noteq> []" "\<forall>v\<in>set vs. parses gap v"
    and "sum_list (map (\<lambda>v. Suc (jdepth v)) vs) \<le> n"
    and "list_all json_ws w" "list_all json_ws w'" "list_all json_ws ind"
    and "num_end (w' @ CHR '']'' # rest)"
  shows "json_elems n (w @ jprint_elems gap ind vs @ w' @ CHR '']'' # rest) = Some (vs, rest)"
  using assms
proof (induction vs arbitrary: n w)
  case (Cons v vs)
  then obtain m where m: "n = Suc m" "jdepth v + sum_list (map (\<lambda>v. Suc (jdepth v)) vs) \<le> m"
    by (cases n) auto
  show ?case
  proof (cases "vs = []")
    case True
    have "json_value m (w @ jprint gap ind v @ w' @ CHR '']'' # rest) = Some (v, w' @ CHR '']'' # rest)"
      using Cons.prems m by (intro parsesD) auto
    then show ?thesis
      using True m Cons.prems by (simp add: skip_ws_all skip_ws_Cons)
  next
    case False
    let ?tail = "CHR '','' # json_nl gap ind @ jprint_elems gap ind vs @ w' @ CHR '']'' # rest"
    have "json_value m (w @ jprint gap ind v @ ?tail) = Some (v, ?tail)"
      using Cons.prems m by (intro parsesD) (auto simp: is_digit_def)
    moreover have "json_elems m (json_nl gap ind @ jprint_elems gap ind vs @ w' @ CHR '']'' # rest)
        = Some (vs, rest)"
      using Cons m False by (intro Cons.IH) (auto simp: json_nl_ws)
    ultimately show ?thesis
      using False m by (simp add: skip_ws_Cons)
  qed
qed simp

lemma filter_normal: "list_all (\<lambda>p. jnormal (snd p)) ps \<Longrightarrow> filter (\<lambda>(k, v). v \<noteq> JUndef) ps = ps"
  by (induction ps) auto

lemma members_parse:
  assumes "ps \<noteq> []" "\<forall>p\<in>set ps. parses gap (snd p)" "list_all (\<lambda>p. jnormal (snd p)) ps"
    and "sum_list (map (\<lambda>p. Suc (jdepth (snd p))) ps) \<le> n"
    and "list_all json_ws w" "list_all json_ws w'" "list_all json_ws ind"
    and "num_end (w' @ CHR ''}'' # rest)"
  shows "json_members n (w @ jprint_members gap ind ps @ w' @ CHR ''}'' # rest) = Some (ps, rest)"
  using assms
proof (induction ps arbitrary: n w)
  case (Cons p ps)
  obtain k v where p: "p = (k, v)" by force
  from Cons p obtain m where m: "n = Suc m" "jdepth v + sum_list (map (\<lambda>p. Suc (jdepth (snd p))) ps) \<le> m"
    by (cases n) auto
  have v: "v \<noteq> JUndef" using Cons.prems(3) p by auto
  have key: "skip_ws (w @ json_quote k @ t) = CHR 0x22 # concat (map json_escape k) @ CHR 0x22 # t" for t
    using Cons.prems by (simp add: skip_ws_all json_quote_def skip_ws_Cons)
  have sp: "\<exists>u. json_colon gap = CHR '':'' # u \<and> list_all json_ws u"
    by (simp add: json_colon_def)
  then obtain u where u: "json_colon gap = CHR '':'' # u" "list_all json_ws u" by blast
  show ?case
  proof (cases "ps = []")
    case True
    have "json_value m (u @ jprint gap ind v @ w' @ CHR ''}'' # rest) = Some (v, w' @ CHR ''}'' # rest)"
      using Cons.prems m p u by (intro parsesD) auto
    then show ?thesis
      using True m Cons.prems v
      by (simp add: p key json_string_quote skip_ws_all skip_ws_Cons u)
  next
    case False
    let ?tail = "CHR '','' # json_nl gap ind @ jprint_members gap ind ps @ w' @ CHR ''}'' # rest"
    have "json_value m (u @ jprint gap ind v @ ?tail) = Some (v, ?tail)"
      using Cons.prems m p u by (intro parsesD) (auto simp: is_digit_def)
    moreover have "json_members m (json_nl gap ind @ jprint_members gap ind ps @ w' @ CHR ''}'' # rest)
        = Some (ps, rest)"
      using Cons m False by (intro Cons.IH) (auto simp: json_nl_ws)
    moreover have "filter (\<lambda>(k, v). v \<noteq> JUndef) ps = ps"
      using Cons.prems by (intro filter_normal) simp
    ultimately show ?thesis
      using False m v Cons.prems
      by (simp add: p key json_string_quote skip_ws_all skip_ws_Cons u)
  qed
qed simp

lemma foldl_update_distinct:
  "distinct (map fst (m @ ps)) \<Longrightarrow> foldl (\<lambda>m (k, v). AList.update k v m) m ps = m @ ps"
proof (induction ps arbitrary: m)
  case (Cons p ps)
  obtain k v where p: "p = (k, v)" by force
  have "AList.update k v m = m @ [(k, v)]"
    using Cons.prems p by (intro update_new) auto
  then show ?case using Cons.IH[of "m @ [(k, v)]"] Cons.prems p by simp
qed simp

lemma map_from_entries_distinct: "distinct (map fst ps) \<Longrightarrow> map_from_entries ps = ps"
  using foldl_update_distinct[of "[]" ps] by (simp add: map_from_entries_def)

lemma parses_atom:
  assumes "jnormal v" "\<And>vs. v \<noteq> JArr vs" "\<And>ps. v \<noteq> JObj ps"
  shows "parses gap v"
  unfolding parses_def
proof (intro allI impI)
  fix ind n w rest
  assume a: "jdepth v \<le> n" "num_end rest" "list_all json_ws w"
  then obtain m where n: "n = Suc m" using assms by (cases v; cases n) auto
  show "json_value n (w @ jprint gap ind v @ rest) = Some (v, rest)"
  proof (cases v)
    case (JNum i)
    obtain c r where c: "int_str i = c # r" "is_digit c \<or> c = CHR ''-''"
      using int_str_first by blast
    have "json_number (c # r @ rest) = Some (JNum i, rest)"
      using json_number_int_str[OF a(2), of i] c by simp
    with c json_digit_first[OF c(2)] show ?thesis
      using a JNum n by (simp add: skip_ws_all skip_ws_Cons)
  next
    case (JStr t)
    then show ?thesis using a n
      by (simp add: skip_ws_all skip_ws_Cons json_quote_def json_string_quote)
  qed (use assms a n in \<open>auto simp: skip_ws_all skip_ws_Cons json_literal_def\<close>)
qed

lemma list_all_ws_append: "list_all json_ws (a @ b) \<longleftrightarrow> list_all json_ws a \<and> list_all json_ws b"
  by simp

lemma parses_arr:
  assumes gap: "list_all json_ws gap" and vs: "\<forall>v\<in>set vs. parses gap v" "list_all jnormal vs"
  shows "parses gap (JArr vs)"
  unfolding parses_def
proof (intro allI impI)
  fix ind n w rest
  assume a: "jdepth (JArr vs) \<le> n" "list_all json_ws ind" "num_end rest" "list_all json_ws w"
  then obtain m where n: "n = Suc m" "sum_list (map (\<lambda>v. Suc (jdepth v)) vs) \<le> m" by (cases n) auto
  show "json_value n (w @ jprint gap ind (JArr vs) @ rest) = Some (JArr vs, rest)"
  proof (cases vs)
    case Nil
    then show ?thesis using a n by (simp add: skip_ws_all skip_ws_Cons)
  next
    case (Cons v us)
    let ?in = "json_nl gap (ind @ gap) @ jprint_elems gap (ind @ gap) vs @ json_nl gap ind @ CHR '']'' # rest"
    have el: "json_elems m ?in = Some (vs, rest)"
      using Cons n a gap vs(1) by (intro elems_parse) (auto simp: json_nl_ws num_end_nl)
    from jprint_first[of v gap "ind @ gap"] vs(2) Cons obtain c r
      where c: "jprint gap (ind @ gap) v = c # r" "json_first c" by auto
    have "skip_ws ?in = c # r @ (if us = [] then [] else CHR '','' # json_nl gap (ind @ gap) @
        jprint_elems gap (ind @ gap) us) @ json_nl gap ind @ CHR '']'' # rest"
      using c json_first_not[OF c(2)] a gap Cons
      by (simp add: skip_ws_all json_nl_ws skip_ws_Cons)
    then show ?thesis
      using a n el Cons json_first_not[OF c(2)] by (simp add: skip_ws_all skip_ws_Cons)
  qed
qed

lemma jprint_members_first:
  "ps \<noteq> [] \<Longrightarrow> list_all (\<lambda>p. jnormal (snd p)) ps \<Longrightarrow> \<exists>r. jprint_members gap ind ps = CHR 0x22 # r"
  by (cases ps) (auto simp: json_quote_def)

lemma parses_obj:
  assumes gap: "list_all json_ws gap" and ps: "\<forall>p\<in>set ps. parses gap (snd p)" "jnormal (JObj ps)"
  shows "parses gap (JObj ps)"
  unfolding parses_def
proof (intro allI impI)
  fix ind n w rest
  assume a: "jdepth (JObj ps) \<le> n" "list_all json_ws ind" "num_end rest" "list_all json_ws w"
  then obtain m where n: "n = Suc m" "sum_list (map (\<lambda>p. Suc (jdepth (snd p))) ps) \<le> m" by (cases n) auto
  have nf: "filter (\<lambda>(k, v). v \<noteq> JUndef) ps = ps" using ps(2) by (intro filter_normal) simp
  show "json_value n (w @ jprint gap ind (JObj ps) @ rest) = Some (JObj ps, rest)"
  proof (cases "ps = []")
    case True
    then show ?thesis using a n by (simp add: skip_ws_all skip_ws_Cons)
  next
    case False
    let ?in = "json_nl gap (ind @ gap) @ jprint_members gap (ind @ gap) ps @ json_nl gap ind @ CHR ''}'' # rest"
    have el: "json_members m ?in = Some (ps, rest)"
      using False n a gap ps by (intro members_parse) (auto simp: json_nl_ws num_end_nl)
    from jprint_members_first[OF False, of gap "ind @ gap"] ps(2) obtain r
      where r: "jprint_members gap (ind @ gap) ps = CHR 0x22 # r" by auto
    have "skip_ws ?in = CHR 0x22 # r @ json_nl gap ind @ CHR ''}'' # rest"
      using r a gap by (simp add: skip_ws_all json_nl_ws skip_ws_Cons)
    then show ?thesis
      using a n el False nf map_from_entries_distinct[of ps] ps(2)
      by (simp add: skip_ws_all skip_ws_Cons)
  qed
qed

lemma jnormal_parses: "list_all json_ws gap \<Longrightarrow> jnormal v \<Longrightarrow> parses gap v"
proof (induction v)
  case (JArr vs)
  then show ?case by (intro parses_arr) (auto simp: list_all_iff)
next
  case (JObj ps)
  have "parses gap (snd p)" if "p \<in> set ps" for p
    using JObj that by (cases p) (auto simp: list_all_iff)
  then show ?case using JObj by (intro parses_obj) auto
qed (simp_all add: parses_atom)

text \<open>The printed text is long enough to pay for the fuel.\<close>

lemma length_elems:
  "(\<And>v. v \<in> set vs \<Longrightarrow> jdepth v \<le> length (jprint gap ind v)) \<Longrightarrow>
     sum_list (map (\<lambda>v. Suc (jdepth v)) vs) \<le> Suc (length (jprint_elems gap ind vs))"
proof (induction vs)
  case (Cons v vs)
  have "jdepth v \<le> length (jprint gap ind v)" using Cons.prems by simp
  moreover have "sum_list (map (\<lambda>v. Suc (jdepth v)) vs) \<le> Suc (length (jprint_elems gap ind vs))"
    using Cons by simp
  ultimately show ?case by (cases "vs = []") auto
qed simp

lemma length_members:
  "(\<And>p. p \<in> set ps \<Longrightarrow> jdepth (snd p) \<le> length (jprint gap ind (snd p))) \<Longrightarrow>
     list_all (\<lambda>p. jnormal (snd p)) ps \<Longrightarrow>
     sum_list (map (\<lambda>p. Suc (jdepth (snd p))) ps) \<le> length (jprint_members gap ind ps)"
proof (induction ps)
  case (Cons p ps)
  obtain k v where p: "p = (k, v)" by force
  have "jdepth v \<le> length (jprint gap ind v)" using Cons.prems(1)[of p] p by simp
  moreover have "sum_list (map (\<lambda>p. Suc (jdepth (snd p))) ps) \<le> length (jprint_members gap ind ps)"
    using Cons by simp
  moreover have "v \<noteq> JUndef" using Cons.prems(2) p by auto
  ultimately show ?case
    using Cons.prems(2) filter_normal[of ps] by (auto simp: p json_quote_def json_colon_def)
qed simp

lemma jdepth_length: "jnormal v \<Longrightarrow> jdepth v \<le> length (jprint gap ind v)"
proof (induction v arbitrary: ind)
  case (JNum i)
  then show ?case using int_str_first[of i] by auto
next
  case (JArr vs)
  then have "sum_list (map (\<lambda>v. Suc (jdepth v)) vs) \<le> Suc (length (jprint_elems gap (ind @ gap) vs))"
    by (intro length_elems) (auto simp: list_all_iff)
  then show ?case by auto
next
  case (JObj ps)
  have "jdepth (snd p) \<le> length (jprint gap (ind @ gap) (snd p))" if "p \<in> set ps" for p
    using JObj that by (cases p) (auto simp: list_all_iff)
  then have "sum_list (map (\<lambda>p. Suc (jdepth (snd p))) ps) \<le> length (jprint_members gap (ind @ gap) ps)"
    using JObj.prems by (intro length_members) auto
  then show ?case using JObj.prems filter_normal[of ps] by auto
qed (auto simp: json_quote_def)

lemma JSON_roundtrip:
  assumes "list_all json_ws gap" "jnormal v"
  shows "JSON_parse (jprint gap [] v) = Some v"
proof -
  have "jdepth v \<le> json_fuel (jprint gap [] v)"
    using jdepth_length[OF assms(2), of gap "[]"] by (simp add: json_fuel_def)
  then have "json_value (json_fuel (jprint gap [] v)) ([] @ jprint gap [] v @ []) = Some (v, [])"
    using assms by (intro parsesD[OF jnormal_parses]) simp_all
  then show ?thesis by (simp add: JSON_parse_def skip_ws_def)
qed

end
