(* ===== verification/Encoding.thy ===== *)
theory Encoding
  imports JsonProps
begin

text \<open>
  The byte encodings the server uses: UTF-8, base64 and base64url of Node's \<open>Buffer\<close>, and the two
  functions of src/utils.ts that guess whether guest-agent output is base64.  A \<open>Buffer\<close> is a list
  of \<open>char\<close>s read as bytes.  The section on codecs states what an encoder and its decoder promise,
  once, for all wire formats.
\<close>

type_synonym buffer = "char list"

section \<open>Codecs\<close>

locale codec =
  fixes dom :: "'a \<Rightarrow> bool" and enc :: "'a \<Rightarrow> 'b" and dec :: "'b \<Rightarrow> 'a option"
  assumes roundtrip: "dom x \<Longrightarrow> dec (enc x) = Some x"
begin

lemma injective: "dom x \<Longrightarrow> dom y \<Longrightarrow> enc x = enc y \<Longrightarrow> x = y"
  by (metis option.inject roundtrip)

end

locale codec_chain =
  one: codec dom1 enc1 dec1 + two: codec dom2 enc2 dec2
  for dom1 :: "'a \<Rightarrow> bool" and enc1 :: "'a \<Rightarrow> 'b" and dec1 :: "'b \<Rightarrow> 'a option"
    and dom2 :: "'b \<Rightarrow> bool" and enc2 :: "'b \<Rightarrow> 'c" and dec2 :: "'c \<Rightarrow> 'b option" +
  assumes into: "dom1 x \<Longrightarrow> dom2 (enc1 x)"
begin

lemma chain_roundtrip: "dom1 x \<Longrightarrow> Option.bind (dec2 (enc2 (enc1 x))) dec1 = Some x"
  by (simp add: two.roundtrip one.roundtrip into)

end

sublocale codec_chain \<subseteq> chain: codec dom1 "\<lambda>x. enc2 (enc1 x)" "\<lambda>y. Option.bind (dec2 y) dec1"
  by unfold_locales (rule chain_roundtrip)

interpretation json: codec jnormal JSON_stringify JSON_parse
  by unfold_locales (simp add: JSON_stringify_def JSON_roundtrip)

interpretation json_pretty: codec jnormal safeJson JSON_parse
  by unfold_locales (simp add: safeJson_def JSON_roundtrip)

section \<open>UTF-8\<close>

text \<open>A Latin-1 code unit is one or two bytes.\<close>

definition utf8_char :: "char \<Rightarrow> buffer" where
  "utf8_char c = (if code c < 128 then [c]
     else [char_of (192 + code c div 64), char_of (128 + code c mod 64)])"

definition utf8_encode :: "string \<Rightarrow> buffer" where
  "utf8_encode s = concat (map utf8_char s)"

text \<open>
  The decoder on the range of the model: \<open>None\<close> stands for ill-formed bytes (where Node inserts
  replacement characters) and for code points from 256 on.
\<close>

fun utf8_decode :: "buffer \<Rightarrow> string option" where
  "utf8_decode [] = Some []"
| "utf8_decode (b # r) =
     (if code b < 128 then map_option (Cons b) (utf8_decode r)
      else (case r of
          [] \<Rightarrow> None
        | d # r' \<Rightarrow>
            if (code b = 194 \<or> code b = 195) \<and> 128 \<le> code d \<and> code d < 192
            then map_option (Cons (char_of ((code b - 192) * 64 + (code d - 128)))) (utf8_decode r')
            else None))"

lemma utf8_decode_char: "utf8_decode (utf8_char c @ r) = map_option (Cons c) (utf8_decode r)"
proof (cases "code c < 128")
  case True
  then show ?thesis by (simp add: utf8_char_def)
next
  case False
  have "code c div 64 < 4" "2 \<le> code c div 64" "code c mod 64 < 64"
    using False code_lt_256[of c] by linarith+
  then have b: "192 + code c div 64 = 194 \<or> 192 + code c div 64 = 195"
    "128 + code c mod 64 < 192" by auto
  have join: "char_of (q * 64 + code c mod 64) = c" if "code c div 64 = q" for q
    by (simp add: char_of_char flip: that)
  show ?thesis using False b join[of 2] join[of 3] by (auto simp: utf8_char_def)
qed

lemma utf8_roundtrip: "utf8_decode (utf8_encode s) = Some s"
  by (induction s) (simp_all add: utf8_encode_def utf8_decode_char)

interpretation utf8: codec "\<lambda>_. True" utf8_encode utf8_decode
  by unfold_locales (rule utf8_roundtrip)

section \<open>Base64\<close>

text \<open>The two alphabets differ in the last two digits; the decoder accepts both.\<close>

definition b64_digit :: "bool \<Rightarrow> nat \<Rightarrow> char" where
  "b64_digit url n =
     (if n < 26 then char_of (65 + n)
      else if n < 52 then char_of (71 + n)
      else if n < 62 then char_of (n - 4)
      else if n = 62 then (if url then CHR ''-'' else CHR ''+'')
      else (if url then CHR ''_'' else CHR ''/''))"

definition b64_val :: "char \<Rightarrow> nat option" where
  "b64_val c =
     (let n = code c in
      if 65 \<le> n \<and> n \<le> 90 then Some (n - 65)
      else if 97 \<le> n \<and> n \<le> 122 then Some (n - 71)
      else if 48 \<le> n \<and> n \<le> 57 then Some (n + 4)
      else if c = CHR ''+'' \<or> c = CHR ''-'' then Some 62
      else if c = CHR ''/'' \<or> c = CHR ''_'' then Some 63
      else None)"

fun b64_sextets :: "buffer \<Rightarrow> nat list" where
  "b64_sextets [] = []"
| "b64_sextets [a] = [code a div 4, (code a mod 4) * 16]"
| "b64_sextets [a, b] = [code a div 4, (code a mod 4) * 16 + code b div 16, (code b mod 16) * 4]"
| "b64_sextets (a # b # c # r) =
     code a div 4 # ((code a mod 4) * 16 + code b div 16) #
     ((code b mod 16) * 4 + code c div 64) # (code c mod 64) # b64_sextets r"

fun b64_bytes :: "nat list \<Rightarrow> buffer" where
  "b64_bytes (w # x # y # z # r) =
     char_of (w * 4 + x div 16) # char_of ((x mod 16) * 16 + y div 4) #
     char_of ((y mod 4) * 64 + z) # b64_bytes r"
| "b64_bytes [w, x, y] = [char_of (w * 4 + x div 16), char_of ((x mod 16) * 16 + y div 4)]"
| "b64_bytes [w, x] = [char_of (w * 4 + x div 16)]"
| "b64_bytes [w] = []"
| "b64_bytes [] = []"

definition b64_padding :: "nat \<Rightarrow> string" where
  "b64_padding n = (if n mod 3 = 1 then ''=='' else if n mod 3 = 2 then ''='' else [])"

text \<open>\<open>buffer.toString("base64")\<close> pads, \<open>buffer.toString("base64url")\<close> does not.\<close>

definition base64_encode :: "buffer \<Rightarrow> string" where
  "base64_encode b = map (b64_digit False) (b64_sextets b) @ b64_padding (length b)"

definition base64url_encode :: "buffer \<Rightarrow> string" where
  "base64url_encode b = map (b64_digit True) (b64_sextets b)"

text \<open>
  \<open>Buffer.from(s, "base64")\<close> and \<open>Buffer.from(s, "base64url")\<close>: characters outside the alphabets
  are skipped and the first padding sign ends the data.
\<close>

definition base64_decode :: "string \<Rightarrow> buffer" where
  "base64_decode s = b64_bytes (List.map_filter b64_val (takeWhile (\<lambda>c. c \<noteq> CHR ''='') s))"

lemma b64_val_digit: "n < 64 \<Longrightarrow> b64_val (b64_digit url n) = Some n"
  by (auto simp: b64_val_def b64_digit_def Let_def)

lemma b64_digit_ne_pad: "n < 64 \<Longrightarrow> b64_digit url n \<noteq> CHR ''=''"
  using b64_val_digit[of n url] by (auto simp: b64_val_def Let_def)

lemma b64_sextets_lt: "n \<in> set (b64_sextets b) \<Longrightarrow> n < 64"
proof (induction b rule: b64_sextets.induct)
  case (2 a)
  have "code a div 4 < 64" "(code a mod 4) * 16 < 64" using code_lt_256[of a] by linarith+
  then show ?case using 2 by auto
next
  case (3 a b)
  have "code a div 4 < 64" "(code a mod 4) * 16 + code b div 16 < 64" "(code b mod 16) * 4 < 64"
    using code_lt_256[of a] code_lt_256[of b] by linarith+
  then show ?case using 3 by auto
next
  case (4 a b c r)
  have "code a div 4 < 64" "(code a mod 4) * 16 + code b div 16 < 64"
    "(code b mod 16) * 4 + code c div 64 < 64" "code c mod 64 < 64"
    using code_lt_256[of a] code_lt_256[of b] code_lt_256[of c] by linarith+
  then show ?case using 4 by auto
qed simp

lemma split_byte: "0 < k \<Longrightarrow> (n::nat) = k * (n div k) + n mod k"
  by simp

lemma b64_join1: "char_of (code a div 4 * 4 + ((code a mod 4) * 16 + m) div 16) = a" if "m < 16"
proof -
  have "((code a mod 4) * 16 + m) div 16 = code a mod 4" using that by simp
  then show ?thesis by (simp add: char_of_char)
qed

lemma b64_join2:
  "char_of ((((k::nat) * 16 + code b div 16) mod 16) * 16 + ((code b mod 16) * 4 + m) div 4) = b"
  if "m < 4"
proof -
  have "code b div 16 < 16" using code_lt_256[of b] by linarith
  then have "(k * 16 + code b div 16) mod 16 = code b div 16" by simp
  moreover have "((code b mod 16) * 4 + m) div 4 = code b mod 16" using that by simp
  ultimately show ?thesis by (simp add: char_of_char)
qed

lemma b64_join3: "char_of ((((k::nat) * 4 + code c div 64) mod 4) * 64 + code c mod 64) = c"
proof -
  have "code c div 64 < 4" using code_lt_256[of c] by linarith
  then have "(k * 4 + code c div 64) mod 4 = code c div 64" by simp
  then show ?thesis by (simp add: char_of_char)
qed

lemma b64_bytes_sextets: "b64_bytes (b64_sextets b) = b"
proof (induction b rule: b64_sextets.induct)
  case (2 a)
  then show ?case using b64_join1[of 0 a] by simp
next
  case (3 a b)
  have "code b div 16 < 16" using code_lt_256[of b] by linarith
  then show ?case using b64_join1[of "code b div 16" a] b64_join2[of 0 "code a mod 4" b] by simp
next
  case (4 a b c r)
  have "code b div 16 < 16" "code c div 64 < 4"
    using code_lt_256[of b] code_lt_256[of c] by linarith+
  then show ?case
    using 4 b64_join1[of "code b div 16" a] b64_join2[of "code c div 64" "code a mod 4" b]
      b64_join3[of "code b mod 16" c] by simp
qed simp

lemma map_filter_digits:
  "(\<And>n. n \<in> set ns \<Longrightarrow> n < 64) \<Longrightarrow> List.map_filter b64_val (map (b64_digit url) ns) = ns"
  by (induction ns) (simp_all add: b64_val_digit)

lemma takeWhile_digits_pad:
  "(\<And>n. n \<in> set ns \<Longrightarrow> n < 64) \<Longrightarrow> pad = [] \<or> hd pad = CHR ''='' \<Longrightarrow>
     takeWhile (\<lambda>c. c \<noteq> CHR ''='') (map (b64_digit url) ns @ pad) = map (b64_digit url) ns"
  by (induction ns) (cases pad; simp add: b64_digit_ne_pad)+

lemma base64_roundtrip: "base64_decode (base64_encode b) = b"
proof -
  have "takeWhile (\<lambda>c. c \<noteq> CHR ''='') (base64_encode b) = map (b64_digit False) (b64_sextets b)"
    unfolding base64_encode_def
    by (rule takeWhile_digits_pad) (auto simp: b64_sextets_lt b64_padding_def)
  then show ?thesis
    by (simp add: base64_decode_def map_filter_digits b64_sextets_lt b64_bytes_sextets)
qed

lemma base64url_roundtrip: "base64_decode (base64url_encode b) = b"
proof -
  have "takeWhile (\<lambda>c. c \<noteq> CHR ''='') (base64url_encode b) = map (b64_digit True) (b64_sextets b)"
    using takeWhile_digits_pad[of "b64_sextets b" "[]" True]
    by (simp add: base64url_encode_def b64_sextets_lt)
  then show ?thesis
    by (simp add: base64_decode_def map_filter_digits b64_sextets_lt b64_bytes_sextets)
qed

interpretation base64url: codec "\<lambda>_. True" base64url_encode "\<lambda>s. Some (base64_decode s)"
  by unfold_locales (simp add: base64url_roundtrip)

interpretation text64: codec_chain
  "\<lambda>_. True" utf8_encode utf8_decode "\<lambda>_. True" base64url_encode "\<lambda>s. Some (base64_decode s)"
  by unfold_locales simp

interpretation json64: codec_chain
  jnormal JSON_stringify JSON_parse
  "\<lambda>_. True" "\<lambda>x. base64url_encode (utf8_encode x)"
  "\<lambda>y. Option.bind (Some (base64_decode y)) utf8_decode"
  by unfold_locales simp

end
