(* ===== verification/Utils.thy ===== *)
theory Utils
  imports Encoding
begin

text \<open>
  The remaining functions of src/utils.ts: redaction of secrets before a value reaches the audit
  log, POSIX shell quoting, the boolean encodings of Proxmox and the base64 guesses.
\<close>

section \<open>Small helpers\<close>

definition asArray :: "jsval \<Rightarrow> jsval list" where
  "asArray value = (case value of JUndef \<Rightarrow> [] | JArr vs \<Rightarrow> vs | _ \<Rightarrow> [value])"

definition parseJsonEnv :: "string option \<Rightarrow> jsval \<Rightarrow> jsval" where
  "parseJsonEnv raw fallback =
     (case raw of
        None \<Rightarrow> fallback
      | Some s \<Rightarrow> if s = [] then fallback
          else (case JSON_parse s of Some v \<Rightarrow> v | None \<Rightarrow> fallback))"

text \<open>\<open>Number.parseInt(s, 10)\<close>: \<open>None\<close> is \<open>NaN\<close>.\<close>

definition parseInt10 :: "string \<Rightarrow> int option" where
  "parseInt10 s =
     (let t = dropWhile js_space s;
          (sg, u) = (case t of
              c # r \<Rightarrow> if c = CHR ''-'' then (-1, r) else if c = CHR ''+'' then (1, r) else (1, t)
            | [] \<Rightarrow> (1, t));
          ds = takeWhile is_digit u
      in if ds = [] then None else Some (sg * int (digits_val ds)))"

text \<open>\<open>makeId\<close> appends the random identifier it is given.\<close>

definition makeId :: "string \<Rightarrow> string \<Rightarrow> string" where
  "makeId uuid prefix = prefix @ ''_'' @ uuid"

text \<open>\<open>String(value)\<close>.\<close>

fun js_String :: "jsval \<Rightarrow> string" where
  "js_String JUndef = ''undefined''"
| "js_String JNull = ''null''"
| "js_String (JBool b) = (if b then ''true'' else ''false'')"
| "js_String (JNum n) = int_str n"
| "js_String (JFloat s) = s"
| "js_String (JStr s) = s"
| "js_String (JArr vs) =
     js_join '','' (map (\<lambda>v. if v = JUndef \<or> v = JNull then [] else js_String v) vs)"
| "js_String (JObj ps) = ''[object Object]''"

section \<open>Redaction\<close>

text \<open>A case-insensitive substring search, as \<open>/word/i.test(s)\<close>.\<close>

definition includes_ci :: "string \<Rightarrow> string \<Rightarrow> bool" where
  "includes_ci s w = js_includes (map canon_char s) (map canon_char w)"

fun private_key_in :: "string \<Rightarrow> bool" where
  "private_key_in [] = False"
| "private_key_in (c # s) =
     ((js_startsWith (c # s) ''PRIVATE'' \<and>
       (let r = drop 7 (c # s)
        in js_startsWith r ''KEY'' \<or>
           (case r of [] \<Rightarrow> False
            | x # r' \<Rightarrow> x \<noteq> CHR 0x0A \<and> x \<noteq> CHR 0x0D \<and> js_startsWith r' ''KEY'')))
      \<or> private_key_in s)"

definition secret_words :: "string list" where
  "secret_words = [''pass'', ''secret'', ''token'', ''ticket'', ''cookie'', ''authorization'', ''otp'']"

definition secret_key :: "string \<Rightarrow> bool" where
  "secret_key k \<longleftrightarrow> list_ex (includes_ci k) secret_words \<or> private_key_in (map canon_char k)"

definition long_content :: "string \<Rightarrow> jsval \<Rightarrow> nat option" where
  "long_content k v =
     (case v of
        JStr s \<Rightarrow> if includes_ci k ''content'' \<and> length s > 256 then Some (length s) else None
      | _ \<Rightarrow> None)"

fun redactSecrets :: "jsval \<Rightarrow> jsval" where
  "redactSecrets (JArr vs) = JArr (map redactSecrets vs)"
| "redactSecrets (JObj ps) =
     JObj (map (\<lambda>p. (fst p,
        if secret_key (fst p) then JStr ''<redacted>''
        else (case long_content (fst p) (snd p) of
                Some n \<Rightarrow> JStr (''<redacted:'' @ nat_str n @ ''chars>'')
              | None \<Rightarrow> redactSecrets (snd p)))) ps)"
| "redactSecrets v = v"

text \<open>
  Two values are publicly equal when they differ only below secret keys and in the text of long
  contents of the same length.
\<close>

inductive public_eq :: "jsval \<Rightarrow> jsval \<Rightarrow> bool" where
  refl: "public_eq v v"
| arr: "list_all2 public_eq vs ws \<Longrightarrow> public_eq (JArr vs) (JArr ws)"
| obj: "list_all2 (\<lambda>p q. fst p = fst q \<and>
          (secret_key (fst p)
           \<or> (\<exists>n. long_content (fst p) (snd p) = Some n \<and> long_content (fst q) (snd q) = Some n)
           \<or> (long_content (fst p) (snd p) = None \<and> long_content (fst q) (snd q) = None \<and>
              public_eq (snd p) (snd q)))) ps qs
        \<Longrightarrow> public_eq (JObj ps) (JObj qs)"

lemma list_all2_map_eq: "list_all2 (\<lambda>p q. f p = g q) ps qs \<Longrightarrow> map f ps = map g qs"
  by (induction rule: list_all2_induct) simp_all

lemma public_eq_redact: "public_eq v w \<Longrightarrow> redactSecrets v = redactSecrets w"
proof (induction rule: public_eq.induct)
  case (arr vs ws)
  then have "list_all2 (\<lambda>v w. redactSecrets v = redactSecrets w) vs ws"
    by (auto elim: list_all2_mono)
  then show ?case by (simp add: list_all2_map_eq)
next
  case (obj ps qs)
  show ?case
    unfolding redactSecrets.simps jsval.inject
    by (rule list_all2_map_eq, rule list_all2_mono[OF obj]) auto
qed simp

fun redacted :: "jsval \<Rightarrow> bool" where
  "redacted (JArr vs) = list_all redacted vs"
| "redacted (JObj ps) = list_all (\<lambda>p.
     (if secret_key (fst p) then snd p = JStr ''<redacted>'' else redacted (snd p))) ps"
| "redacted v = True"

lemma redacted_redact: "redacted (redactSecrets v)"
proof (induction v)
  case (JObj ps)
  have "redacted (redactSecrets (snd p))" if "p \<in> set ps" for p
    using JObj that by (cases p) auto
  then show ?case by (auto simp: list_all_iff split: option.splits)
qed (auto simp: list_all_iff)

section \<open>Shell quoting\<close>

definition shellQuote :: "string \<Rightarrow> string" where
  "shellQuote value =
     CHR 0x27 # js_replace_char (CHR 0x27) [CHR 0x27, CHR 0x22, CHR 0x27, CHR 0x22, CHR 0x27] value
       @ [CHR 0x27]"

definition shellJoin :: "string list \<Rightarrow> string" where
  "shellJoin parts = js_join '' '' (map shellQuote parts)"

text \<open>
  The reference: how a POSIX shell reads a line made of quoted and unquoted parts.  \<open>None\<close> marks an
  unterminated quote or a character that would start an expansion, an operator or a comment.
\<close>

datatype sh_mode = ShOut | ShSingle | ShDouble

definition sh_plain :: "char \<Rightarrow> bool" where
  "sh_plain c \<longleftrightarrow>
     c \<notin> set ''$|&;<>(){}*?[]#~=%!^'' \<and> c \<noteq> CHR 0x5C \<and> c \<noteq> CHR 0x60 \<and> c \<noteq> CHR 0x0A \<and> c \<noteq> CHR 0x09"

fun sh_read :: "sh_mode \<Rightarrow> string option \<Rightarrow> string \<Rightarrow> string list option" where
  "sh_read ShOut cur [] = Some (case cur of None \<Rightarrow> [] | Some w \<Rightarrow> [w])"
| "sh_read ShOut cur (c # s) =
     (if c = CHR '' '' then
        (case cur of None \<Rightarrow> sh_read ShOut None s
         | Some w \<Rightarrow> map_option (Cons w) (sh_read ShOut None s))
      else if c = CHR 0x27 then sh_read ShSingle (Some (case cur of None \<Rightarrow> [] | Some w \<Rightarrow> w)) s
      else if c = CHR 0x22 then sh_read ShDouble (Some (case cur of None \<Rightarrow> [] | Some w \<Rightarrow> w)) s
      else if sh_plain c then
        sh_read ShOut (Some (case cur of None \<Rightarrow> [c] | Some w \<Rightarrow> w @ [c])) s
      else None)"
| "sh_read ShSingle cur [] = None"
| "sh_read ShSingle cur (c # s) =
     (if c = CHR 0x27 then sh_read ShOut cur s
      else sh_read ShSingle (map_option (\<lambda>w. w @ [c]) cur) s)"
| "sh_read ShDouble cur [] = None"
| "sh_read ShDouble cur (c # s) =
     (if c = CHR 0x22 then sh_read ShOut cur s
      else if c = CHR 0x5C \<or> c = CHR 0x60 \<or> c = CHR ''$'' then None
      else sh_read ShDouble (map_option (\<lambda>w. w @ [c]) cur) s)"

definition sh_words :: "string \<Rightarrow> string list option" where
  "sh_words s = sh_read ShOut None s"

lemma sh_read_quoted:
  "sh_read ShSingle (Some w)
     (js_replace_char (CHR 0x27) [CHR 0x27, CHR 0x22, CHR 0x27, CHR 0x22, CHR 0x27] v @ CHR 0x27 # s)
   = sh_read ShOut (Some (w @ v)) s"
  by (induction v arbitrary: w) simp_all

lemma sh_read_shellQuote:
  "sh_read ShOut None (shellQuote v @ s) = sh_read ShOut (Some v) s"
  "sh_read ShOut (Some w) (shellQuote v @ s) = sh_read ShOut (Some (w @ v)) s"
  by (simp_all add: shellQuote_def sh_read_quoted)

lemma sh_words_shellJoin: "sh_words (shellJoin parts) = Some parts"
proof -
  have "sh_read ShOut None (js_join '' '' (map shellQuote parts)) = Some parts"
  proof (induction parts rule: induct_list012)
    case (2 p)
    then show ?case using sh_read_shellQuote(1)[of p "[]"] by simp
  next
    case (3 p q ps)
    then show ?case by (simp add: sh_read_shellQuote)
  qed simp
  then show ?thesis by (simp add: sh_words_def shellJoin_def)
qed

section \<open>Booleans\<close>

fun after_separator :: "string \<Rightarrow> string \<Rightarrow> bool" where
  "after_separator w [] = False"
| "after_separator w (c # s) =
     ((c = CHR '','' \<or> c = CHR '';'') \<and> js_startsWith (dropWhile js_space s) w \<or> after_separator w s)"

text \<open>\<open>/(^|[,;])\s*word(\s*|$)/i\<close>: the last group always matches.\<close>

definition flag_in :: "string \<Rightarrow> string \<Rightarrow> bool" where
  "flag_in s w =
     (let s' = map canon_char s; w' = map canon_char w
      in js_startsWith (dropWhile js_space s') w' \<or> after_separator w' s')"

definition normalizeBoolean :: "jsval \<Rightarrow> bool" where
  "normalizeBoolean value =
     (case value of
        JBool b \<Rightarrow> b
      | JNum n \<Rightarrow> n \<noteq> 0
      | JFloat s \<Rightarrow> True
      | JStr s \<Rightarrow>
          (let normalized = js_trim (js_toLowerCase s) in
           if normalized \<in> set [''1'', ''true'', ''yes'', ''on''] then True
           else if flag_in normalized ''enabled=1'' then True
           else if flag_in normalized ''enabled=0'' then False
           else False)
      | _ \<Rightarrow> False)"

section \<open>Guessing base64\<close>

definition b64_char :: "char \<Rightarrow> bool" where
  "b64_char c \<longleftrightarrow> (b64_val c \<noteq> None \<and> c \<noteq> CHR ''-'' \<and> c \<noteq> CHR ''_'') \<or> c = CHR ''=''"

definition strip_padding :: "string \<Rightarrow> string" where
  "strip_padding s = rev (dropWhile (\<lambda>c. c = CHR ''='') (rev s))"

definition looks_base64 :: "string \<Rightarrow> bool" where
  "looks_base64 s \<longleftrightarrow> length s \<noteq> 0 \<and> length s mod 4 = 0 \<and> list_all b64_char s"

text \<open>
  A decoded text is \<open>None\<close> when the bytes are ill formed, where re-encoding the replacement
  characters gives another base64 text, so that the input is returned.
\<close>

definition decodeMaybeBase64 :: "string option \<Rightarrow> string" where
  "decodeMaybeBase64 value =
     (case value of
        None \<Rightarrow> []
      | Some v \<Rightarrow>
          if v = [] then []
          else (let normalized = filter (\<lambda>c. \<not> js_space c) v in
            if \<not> looks_base64 normalized then v
            else (case utf8_decode (base64_decode normalized) of
                None \<Rightarrow> v
              | Some decoded \<Rightarrow>
                  if strip_padding (base64_encode (utf8_encode decoded)) = strip_padding normalized
                  then decoded else v)))"

definition decodeMaybeBase64Buffer :: "string option \<Rightarrow> buffer" where
  "decodeMaybeBase64Buffer value =
     (case value of
        None \<Rightarrow> []
      | Some v \<Rightarrow>
          if v = [] then []
          else (let normalized = filter (\<lambda>c. \<not> js_space c) v in
            if \<not> looks_base64 normalized then utf8_encode v
            else (let decoded = base64_decode normalized in
              if strip_padding (base64_encode decoded) = strip_padding normalized
              then decoded else utf8_encode v)))"

lemma b64_digit_char: "n < 64 \<Longrightarrow> b64_char (b64_digit False n) \<and> \<not> js_space (b64_digit False n)"
proof -
  assume n: "n < 64"
  consider "n < 26" | "26 \<le> n" "n < 52" | "52 \<le> n" "n < 62" | "n = 62" | "n = 63"
    using n by linarith
  then show ?thesis
    by cases (auto simp: b64_char_def b64_digit_def b64_val_def js_space_def Let_def char_eq_code)
qed

lemma base64_encode_chars: "list_all (\<lambda>c. b64_char c \<and> \<not> js_space c) (base64_encode b)"
  using b64_digit_char b64_sextets_lt[of _ b]
  by (auto simp: base64_encode_def list_all_iff b64_padding_def b64_char_def js_space_def)

lemma b64_sextets_length:
  "(length (b64_sextets b) + length (b64_padding (length b))) mod 4 = 0"
proof (induction b rule: b64_sextets.induct)
  case (4 a b c r)
  have "b64_padding (length (a # b # c # r)) = b64_padding (length r)"
    by (simp add: b64_padding_def)
  then show ?case using 4 by simp
qed (simp_all add: b64_padding_def)

lemma base64_encode_length: "length (base64_encode b) mod 4 = 0"
  using b64_sextets_length[of b] by (simp add: base64_encode_def)

lemma base64_encode_Nil_iff: "base64_encode b = [] \<longleftrightarrow> b = []"
  by (cases b rule: b64_sextets.cases) (simp_all add: base64_encode_def b64_padding_def)

lemma looks_base64_encode: "b \<noteq> [] \<Longrightarrow> looks_base64 (base64_encode b)"
  using base64_encode_chars[of b] base64_encode_length[of b] base64_encode_Nil_iff[of b]
  by (auto simp: looks_base64_def list_all_iff)

lemma filter_base64_encode: "filter (\<lambda>c. \<not> js_space c) (base64_encode b) = base64_encode b"
  using base64_encode_chars[of b] by (simp add: filter_id_conv list_all_iff)

lemma decodeMaybeBase64Buffer_encode: "decodeMaybeBase64Buffer (Some (base64_encode b)) = b"
  by (cases "b = []")
    (simp_all add: decodeMaybeBase64Buffer_def base64_encode_Nil_iff filter_base64_encode
      looks_base64_encode base64_roundtrip Let_def)

lemma utf8_encode_Nil_iff: "utf8_encode s = [] \<longleftrightarrow> s = []"
  by (cases s) (auto simp: utf8_encode_def utf8_char_def)

lemma decodeMaybeBase64_encode: "decodeMaybeBase64 (Some (base64_encode (utf8_encode s))) = s"
  by (cases "s = []")
    (simp_all add: decodeMaybeBase64_def base64_encode_Nil_iff filter_base64_encode utf8_encode_Nil_iff
      looks_base64_encode base64_roundtrip utf8_roundtrip Let_def)

text \<open>
  Guest data survives its encoding: text and bytes that the guest agent returns in base64 decode
  to themselves, and what the server prints for a human reads back as the same value, for every
  value without \<open>undefined\<close>.
\<close>

lemma guest_data_roundtrip:
  assumes "jnormal v"
  shows "decodeMaybeBase64 (Some (base64_encode (utf8_encode s))) = s \<and>
    decodeMaybeBase64Buffer (Some (base64_encode b)) = b \<and>
    JSON_parse (safeJson v) = Some v \<and> JSON_parse (JSON_stringify v) = Some v"
  using assms JSON_roundtrip[of "''  ''" v] JSON_roundtrip[of "[]" v]
  by (simp add: decodeMaybeBase64_encode decodeMaybeBase64Buffer_encode safeJson_def JSON_stringify_def)

lemma guest_data_roundtrip_witness:
  "JSON_parse (safeJson (JArr [JObj [(''a'', JNum (-12))], JStr [CHR 0x0A, CHR 0x22], JNull]))
     = Some (JArr [JObj [(''a'', JNum (-12))], JStr [CHR 0x0A, CHR 0x22], JNull])"
  by (rule guest_data_roundtrip[THEN conjunct2, THEN conjunct2, THEN conjunct1]) simp

end
