(* ===== verification/Effects.thy ===== *)
theory Effects
  imports Types Utils
begin

text \<open>
  Effectful code: actions that pass a state along and may throw, the external world they talk to,
  and the trace of the interactions.  The answers of the world (HTTP servers, SSH hosts, the file
  system, the clock, the abort signals) are parameters: each answer is an arbitrary function of
  the whole history, so every theorem holds for every behaviour of the outside.
  Concurrent awaits of the source (\<open>Promise.all\<close>) run in order here.
\<close>

section \<open>Actions\<close>

type_synonym ('s, 'a) act = "'s \<Rightarrow> 'a res \<times> 's"

definition ret :: "'a \<Rightarrow> ('s, 'a) act" where
  "ret x = (\<lambda>s. (Inr x, s))"

definition raise :: "string \<Rightarrow> ('s, 'a) act" where
  "raise e = (\<lambda>s. (Inl e, s))"

definition bindA :: "('s, 'a) act \<Rightarrow> ('a \<Rightarrow> ('s, 'b) act) \<Rightarrow> ('s, 'b) act" where
  "bindA m f = (\<lambda>s. case m s of (Inl e, s') \<Rightarrow> (Inl e, s') | (Inr x, s') \<Rightarrow> f x s')"

definition seqA :: "('s, unit) act \<Rightarrow> ('s, 'b) act \<Rightarrow> ('s, 'b) act" where
  "seqA m k = bindA m (\<lambda>_. k)"

text \<open>\<open>try\<close> and \<open>catch\<close>: the state changes of the failed part stay.\<close>

definition catchA :: "('s, 'a) act \<Rightarrow> (string \<Rightarrow> ('s, 'a) act) \<Rightarrow> ('s, 'a) act" where
  "catchA m h = (\<lambda>s. case m s of (Inl e, s') \<Rightarrow> h e s' | (Inr x, s') \<Rightarrow> (Inr x, s'))"

definition liftR :: "'a res \<Rightarrow> ('s, 'a) act" where
  "liftR r = (\<lambda>s. (r, s))"

definition getsA :: "('s \<Rightarrow> 'a) \<Rightarrow> ('s, 'a) act" where
  "getsA f = (\<lambda>s. (Inr (f s), s))"

definition modifyA :: "('s \<Rightarrow> 's) \<Rightarrow> ('s, unit) act" where
  "modifyA f = (\<lambda>s. (Inr (), f s))"

fun mapA :: "('a \<Rightarrow> ('s, 'b) act) \<Rightarrow> 'a list \<Rightarrow> ('s, 'b list) act" where
  "mapA f [] = ret []"
| "mapA f (x # xs) = bindA (f x) (\<lambda>y. bindA (mapA f xs) (\<lambda>ys. ret (y # ys)))"

lemma act_simps [simp]:
  "ret x s = (Inr x, s)"
  "raise e s = (Inl e, s)"
  "liftR r s = (r, s)"
  "getsA f s = (Inr (f s), s)"
  "modifyA g s = (Inr (), g s)"
  by (simp_all add: ret_def raise_def liftR_def getsA_def modifyA_def)

lemma bindA_simps [simp]:
  "bindA (ret x) f = f x"
  "bindA (raise e) f = raise e"
  "bindA (liftR (Inr x)) f = f x"
  "bindA (liftR (Inl e)) f = raise e"
  by (simp_all add: fun_eq_iff bindA_def)

lemma seqA_simps [simp]:
  "seqA (ret ()) k = k"
  "seqA (raise e) k = raise e"
  "seqA (liftR (Inl e)) k = raise e"
  "seqA (liftR (Inr ())) k = k"
  by (simp_all add: seqA_def)

lemma bindA_apply: "bindA m f s = (case m s of (Inl e, s') \<Rightarrow> (Inl e, s') | (Inr x, s') \<Rightarrow> f x s')"
  by (simp add: bindA_def)

lemma bindA_gets [simp]: "bindA (getsA f) k s = k (f s) s"
  by (simp add: bindA_def)

lemma seqA_modify [simp]: "seqA (modifyA f) k s = k (f s)"
  by (simp add: seqA_def bindA_def)

lemma bindA_liftR_apply: "bindA (liftR r) f s = (case r of Inl e \<Rightarrow> (Inl e, s) | Inr x \<Rightarrow> f x s)"
  by (simp add: bindA_def split: sum.splits)

lemma seqA_liftR_apply: "seqA (liftR r) k s = (case r of Inl e \<Rightarrow> (Inl e, s) | Inr x \<Rightarrow> k s)"
  by (simp add: seqA_def bindA_liftR_apply)

lemma bindA_ok: "bindA m f s = (Inr y, u) \<Longrightarrow> \<exists>x t. m s = (Inr x, t) \<and> f x t = (Inr y, u)"
  by (simp add: bindA_def split: prod.splits sum.splits)

lemma seqA_ok: "seqA m k s = (Inr y, u) \<Longrightarrow> \<exists>t. m s = (Inr (), t) \<and> k t = (Inr y, u)"
  using bindA_ok[of m "\<lambda>_. k"] by (simp add: seqA_def)

lemma bindA_assoc: "bindA (bindA m f) g = bindA m (\<lambda>x. bindA (f x) g)"
  by (simp add: fun_eq_iff bindA_def split: prod.splits sum.splits)

section \<open>Preserved relations\<close>

text \<open>
  \<open>keeps R m\<close>: whatever the action does, its start and its end are related by \<open>R\<close>.  For a reflexive
  and transitive \<open>R\<close> the combinators keep \<open>R\<close> when their parts do.
\<close>

definition keeps :: "('s \<Rightarrow> 's \<Rightarrow> bool) \<Rightarrow> ('s, 'a) act \<Rightarrow> bool" where
  "keeps R m \<longleftrightarrow> (\<forall>s. R s (snd (m s)))"

lemma keeps_mono: "keeps R m \<Longrightarrow> (\<And>s t. R s t \<Longrightarrow> R' s t) \<Longrightarrow> keeps R' m"
  by (simp add: keeps_def)

locale preorder_rel =
  fixes R :: "'s \<Rightarrow> 's \<Rightarrow> bool"
  assumes refl [simp]: "R s s" and trans: "R s t \<Longrightarrow> R t u \<Longrightarrow> R s u"
begin

lemma keeps_ret: "keeps R (ret x)" and keeps_raise: "keeps R (raise e)"
  and keeps_liftR: "keeps R (liftR r)" and keeps_gets: "keeps R (getsA f)"
  by (simp_all add: keeps_def)

lemma keeps_modify: "(\<And>s. R s (f s)) \<Longrightarrow> keeps R (modifyA f)"
  by (simp add: keeps_def)

lemma keeps_bind: "keeps R m \<Longrightarrow> (\<And>x. keeps R (f x)) \<Longrightarrow> keeps R (bindA m f)"
  unfolding keeps_def bindA_def
  by (auto split: prod.splits sum.splits) (metis snd_conv trans)+

lemma keeps_seq: "keeps R m \<Longrightarrow> keeps R k \<Longrightarrow> keeps R (seqA m k)"
  by (simp add: seqA_def keeps_bind)

lemma keeps_catch: "keeps R m \<Longrightarrow> (\<And>e. keeps R (h e)) \<Longrightarrow> keeps R (catchA m h)"
  unfolding keeps_def catchA_def
  by (auto split: prod.splits sum.splits) (metis snd_conv trans)+

lemma keeps_if: "keeps R m \<Longrightarrow> keeps R k \<Longrightarrow> keeps R (if b then m else k)"
  by simp

lemma keeps_option: "keeps R m \<Longrightarrow> (\<And>x. keeps R (f x)) \<Longrightarrow> keeps R (case v of None \<Rightarrow> m | Some x \<Rightarrow> f x)"
  by (simp split: option.split)

lemma keeps_mapA: "(\<And>x. x \<in> set xs \<Longrightarrow> keeps R (f x)) \<Longrightarrow> keeps R (mapA f xs)"
  by (induction xs) (auto intro!: keeps_bind keeps_ret)

lemmas keeps_intros = keeps_ret keeps_raise keeps_liftR keeps_gets keeps_bind keeps_seq keeps_catch

end

text \<open>Branching needs no law of the relation.\<close>

lemma keeps_branches:
  "(b \<Longrightarrow> keeps R m) \<Longrightarrow> (\<not> b \<Longrightarrow> keeps R k) \<Longrightarrow> keeps R (if b then m else k)"
  "keeps R m' \<Longrightarrow> (\<And>x. keeps R (f x)) \<Longrightarrow> keeps R (case v of None \<Rightarrow> m' | Some x \<Rightarrow> f x)"
  "(\<And>e. keeps R (g e)) \<Longrightarrow> (\<And>x. keeps R (h x)) \<Longrightarrow> keeps R (case r of Inl e \<Rightarrow> g e | Inr x \<Rightarrow> h x)"
  "(\<And>x y. keeps R (k' x y)) \<Longrightarrow> keeps R (case pr of (x, y) \<Rightarrow> k' x y)"
  by (auto split: option.split sum.split prod.split)

section \<open>The outside world\<close>

text \<open>
  An HTTP request: the URL before its query, the query parameters, the headers, the form or the JSON
  body and the timeout that arms the abort controller.
\<close>

record http_request =
  rq_method :: string
  rq_url :: string
  rq_query :: "(string \<times> string) list"
  rq_headers :: "(string \<times> string) list"
  rq_body :: "(string \<times> string) list option"
  rq_timeoutMs :: "int option"
  rq_json :: "string option"

record http_response =
  rs_status :: int
  rs_text :: string

record ssh_target =
  st_host :: string
  st_port :: "int option"
  st_profile :: ssh_profile

datatype event =
    EvFetch http_request
  | EvSsh ssh_target string
  | EvSpawn string "string list"
  | EvAppend string string
  | EvRead string
  | EvSleep int
  | EvProgress int string
  | EvWrite string string
  | EvRename string string
  | EvRemove string
  | EvMkdir string

record world =
  w_fetch :: "event list \<Rightarrow> http_request \<Rightarrow> http_response res"
  w_ssh :: "event list \<Rightarrow> ssh_target \<Rightarrow> string \<Rightarrow> command_result res"
  w_spawn :: "event list \<Rightarrow> string \<Rightarrow> string list \<Rightarrow> command_result res"
  w_append :: "event list \<Rightarrow> string \<Rightarrow> string \<Rightarrow> unit res"
  w_read :: "event list \<Rightarrow> string \<Rightarrow> string res"
  w_sleep :: "event list \<Rightarrow> int \<Rightarrow> unit res"
  w_aborted :: "event list \<Rightarrow> bool"
  w_now :: "event list \<Rightarrow> int"
  w_nowIso :: "event list \<Rightarrow> string"
  w_utf8 :: "buffer \<Rightarrow> string"
  w_random :: "event list \<Rightarrow> nat \<Rightarrow> nat"
  w_uuid :: "event list \<Rightarrow> string"
  w_tempDir :: "event list \<Rightarrow> string"
  w_diskError :: "event list \<Rightarrow> event \<Rightarrow> string option"
  w_late :: "event list \<Rightarrow> bool"
  w_chunks :: "event list \<Rightarrow> string list"
  w_collate :: "string \<Rightarrow> string \<Rightarrow> int"
  w_pid :: int
  w_keyPair :: "event list \<Rightarrow> string \<Rightarrow> string \<times> string"

record io =
  io_trace :: "event list"

definition interact :: "event \<Rightarrow> (event list \<Rightarrow> 'a res) \<Rightarrow> ('b io_scheme, 'a) act" where
  "interact e answer = (\<lambda>s. (answer (io_trace s), s\<lparr>io_trace := io_trace s @ [e]\<rparr>))"

definition fetchA :: "world \<Rightarrow> http_request \<Rightarrow> ('b io_scheme, http_response) act" where
  "fetchA w r = interact (EvFetch r) (\<lambda>tr. w_fetch w tr r)"

definition sshA :: "world \<Rightarrow> ssh_target \<Rightarrow> string \<Rightarrow> ('b io_scheme, command_result) act" where
  "sshA w t c = interact (EvSsh t c) (\<lambda>tr. w_ssh w tr t c)"

definition spawnA :: "world \<Rightarrow> string \<Rightarrow> string list \<Rightarrow> ('b io_scheme, command_result) act" where
  "spawnA w p as = interact (EvSpawn p as) (\<lambda>tr. w_spawn w tr p as)"

definition appendFileA :: "world \<Rightarrow> string \<Rightarrow> string \<Rightarrow> ('b io_scheme, unit) act" where
  "appendFileA w p t = interact (EvAppend p t) (\<lambda>tr. w_append w tr p t)"

definition readFileA :: "world \<Rightarrow> string \<Rightarrow> ('b io_scheme, string) act" where
  "readFileA w p = interact (EvRead p) (\<lambda>tr. w_read w tr p)"

text \<open>\<open>sleep\<close> rejects when the abort signal fires first.\<close>

definition sleepA :: "world \<Rightarrow> int \<Rightarrow> ('b io_scheme, unit) act" where
  "sleepA w ms = interact (EvSleep ms) (\<lambda>tr. w_sleep w tr ms)"

text \<open>A plain timer, which nothing can interrupt.\<close>

definition delayA :: "int \<Rightarrow> ('b io_scheme, unit) act" where
  "delayA ms = interact (EvSleep ms) (\<lambda>tr. Inr ())"

definition progressA :: "int \<Rightarrow> string \<Rightarrow> ('b io_scheme, unit) act" where
  "progressA n m = interact (EvProgress n m) (\<lambda>tr. Inr ())"

definition abortedA :: "world \<Rightarrow> ('b io_scheme, bool) act" where
  "abortedA w = getsA (\<lambda>s. w_aborted w (io_trace s))"

definition nowA :: "world \<Rightarrow> ('b io_scheme, int) act" where
  "nowA w = getsA (\<lambda>s. w_now w (io_trace s))"

text \<open>
  A fresh random identifier, and which side of a race against a timer wins.  \<open>w_chunks\<close> are the output
  chunks that an interaction hands to the output callback while it runs.  \<open>w_collate\<close> is the locale's
  order of strings (\<open>localeCompare\<close>), \<open>w_pid\<close> the process, \<open>w_keyPair\<close> a generated pair of SSH keys.
\<close>

definition uuidA :: "world \<Rightarrow> ('b io_scheme, string) act" where
  "uuidA w = getsA (\<lambda>s. w_uuid w (io_trace s))"

definition lateA :: "world \<Rightarrow> ('b io_scheme, bool) act" where
  "lateA w = getsA (\<lambda>s. w_late w (io_trace s))"

definition nowIsoA :: "world \<Rightarrow> ('b io_scheme, string) act" where
  "nowIsoA w = getsA (\<lambda>s. w_nowIso w (io_trace s))"

text \<open>\<open>buffer.toString("utf8")\<close>: the world answers outside the range of the decoder above.\<close>

definition utf8_text :: "world \<Rightarrow> buffer \<Rightarrow> string" where
  "utf8_text w b = (case utf8_decode b of Some s \<Rightarrow> s | None \<Rightarrow> w_utf8 w b)"

text \<open>The trace only grows.\<close>

definition trace_grows :: "'b io_scheme \<Rightarrow> 'b io_scheme \<Rightarrow> bool" where
  "trace_grows s t \<longleftrightarrow> (\<exists>es. io_trace t = io_trace s @ es)"

interpretation grows: preorder_rel trace_grows
proof
  show "trace_grows s s" for s :: "'b io_scheme" by (simp add: trace_grows_def)
  show "trace_grows s t \<Longrightarrow> trace_grows t u \<Longrightarrow> trace_grows s u" for s t u :: "'b io_scheme"
    by (auto simp: trace_grows_def)
qed

lemma interact_grows: "keeps trace_grows (interact e f)"
  by (simp add: keeps_def trace_grows_def interact_def)

lemma io_grows:
  "keeps trace_grows (fetchA w r)" "keeps trace_grows (sshA w tg c)" "keeps trace_grows (spawnA w p as)"
  "keeps trace_grows (appendFileA w p t)" "keeps trace_grows (readFileA w p)"
  "keeps trace_grows (sleepA w n)" "keeps trace_grows (delayA n)" "keeps trace_grows (progressA n m)"
  "keeps trace_grows (abortedA w)" "keeps trace_grows (nowA w)" "keeps trace_grows (nowIsoA w)"
  "keeps trace_grows (uuidA w)" "keeps trace_grows (lateA w)"
  by (simp_all add: uuidA_def lateA_def fetchA_def sshA_def spawnA_def appendFileA_def readFileA_def sleepA_def delayA_def progressA_def
      abortedA_def nowA_def nowIsoA_def interact_grows grows.keeps_gets)

named_theorems grows_rules "actions that only extend the trace"

lemma trace_grows_same: "io_trace t = io_trace s \<Longrightarrow> trace_grows s t"
  by (simp add: trace_grows_def)

lemma keeps_grows_modify: "(\<And>s. io_trace (f s) = io_trace s) \<Longrightarrow> keeps trace_grows (modifyA f)"
  by (simp add: keeps_def trace_grows_same)

lemmas [grows_rules] = grows.keeps_intros keeps_grows_modify io_grows

end
