(* ===== verification/State.thy ===== *)
theory State
  imports Effects
begin

text \<open>
  The state that the service layer shares: the runtime configuration (whose cluster objects are
  the single store of the active credentials), the API clients, the resource cache, and the
  per-cluster state of the managed credentials.
\<close>

text \<open>
  A client remembers the position of the cluster object it was built for, so that it sees every
  later change of that object.
\<close>

record api_client =
  ac_cluster :: nat
  ac_rejectUnauthorized :: bool
  ac_ca :: "string option"
  ac_ticketCookie :: "string option"
  ac_csrfToken :: "string option"

record cached_resources =
  ca_fetchedAt :: int
  ca_resources :: jsval

record bootstrap_spec =
  bs_clusterName :: string
  bs_host :: string
  bs_sshPort :: int
  bs_username :: string
  bs_password :: string
  bs_hostKeyPolicy :: host_key_policy
  bs_expectedHostKey :: "string option"

datatype bootstrap_mode = BootRoot | BootSudo

text \<open>The promise of a running repair is the flag \<open>ms_repairing\<close>, the timer is its delay.\<close>

record managed_state =
  ms_bootstrap :: bootstrap_spec
  ms_nodeName :: "string option"
  ms_currentPassword :: "string option"
  ms_currentToken :: "string option"
  ms_lastReconciledAt :: "string option"
  ms_passwordExpiresAt :: "int option"
  ms_tokenExpiresAt :: "int option"
  ms_bootstrapMode :: "bootstrap_mode option"
  ms_repairing :: bool
  ms_rotationTimer :: "int option"

record svc = io +
  sv_config :: runtime_config
  sv_clients :: "(string, api_client) omap"
  sv_fingerprints :: "(string, string) omap"
  sv_cache :: "(string, cached_resources) omap"
  sv_managed :: "(string, managed_state) omap"

section \<open>The frame of the service\<close>

text \<open>
  What every action of the service respects, whatever the state is extended by: the trace only grows
  and the extension stays as it is.
\<close>

definition svc_step :: "'b svc_scheme \<Rightarrow> 'b svc_scheme \<Rightarrow> bool" where
  "svc_step s t \<longleftrightarrow> trace_grows s t \<and> svc.more t = svc.more s"

interpretation steps: preorder_rel svc_step
proof
  show "svc_step s s" for s :: "'b svc_scheme" by (simp add: svc_step_def)
  show "svc_step s t \<Longrightarrow> svc_step t u \<Longrightarrow> svc_step s u" for s t u :: "'b svc_scheme"
    by (auto simp: svc_step_def intro: grows.trans)
qed

lemma svc_step_grows: "svc_step s t \<Longrightarrow> trace_grows s t"
  by (simp add: svc_step_def)

lemma keeps_svc_step_grows: "keeps svc_step m \<Longrightarrow> keeps trace_grows m"
  by (simp add: keeps_def svc_step_grows)

lemma growsD: "keeps svc_step m \<Longrightarrow> m s = (r, t) \<Longrightarrow> trace_grows s t"
  by (metis keeps_def snd_conv svc_step_grows)

lemma keeps_step_modify:
  "(\<And>s. io_trace (f s) = io_trace s) \<Longrightarrow> (\<And>s. svc.more (f s) = svc.more s) \<Longrightarrow> keeps svc_step (modifyA f)"
  by (simp add: keeps_def svc_step_def trace_grows_same)

lemma interact_step: "keeps svc_step (interact e f)"
  by (simp add: keeps_def svc_step_def trace_grows_def interact_def)

lemma io_step:
  "keeps svc_step (fetchA w r)" "keeps svc_step (sshA w tg c)" "keeps svc_step (spawnA w p as)"
  "keeps svc_step (appendFileA w p t)" "keeps svc_step (readFileA w p)"
  "keeps svc_step (sleepA w n)" "keeps svc_step (delayA n)" "keeps svc_step (progressA n m)"
  "keeps svc_step (abortedA w)" "keeps svc_step (nowA w)" "keeps svc_step (nowIsoA w)"
  "keeps svc_step (uuidA w)" "keeps svc_step (lateA w)"
  by (simp_all add: fetchA_def sshA_def spawnA_def appendFileA_def readFileA_def sleepA_def delayA_def progressA_def
      abortedA_def nowA_def nowIsoA_def uuidA_def lateA_def interact_step steps.keeps_gets)

lemmas [grows_rules] = steps.keeps_intros keeps_step_modify io_step keeps_svc_step_grows

end
