(* ===== verification/Api.thy ===== *)
theory Api
  imports State
begin

text \<open>
  The Proxmox REST client of src/api.ts: form encoding, authentication headers, one request, and
  task polling.  A client lives in the state of the service layer under the cluster name it was
  requested by.
\<close>

section \<open>Encoding of parameters\<close>

definition encodeFormValue :: "jsval \<Rightarrow> string" where
  "encodeFormValue value =
     (case value of
        JBool b \<Rightarrow> if b then ''1'' else ''0''
      | JArr vs \<Rightarrow> JSON_stringify value
      | JObj ps \<Rightarrow> JSON_stringify value
      | _ \<Rightarrow> js_String value)"

text \<open>\<open>URLSearchParams.append\<close> and \<open>URLSearchParams.set\<close>.\<close>

type_synonym params = "(string \<times> string) list"

definition params_append :: "string \<Rightarrow> string \<Rightarrow> params \<Rightarrow> params" where
  "params_append k v ps = ps @ [(k, v)]"

fun params_set :: "string \<Rightarrow> string \<Rightarrow> params \<Rightarrow> params" where
  "params_set k v [] = [(k, v)]"
| "params_set k v (p # ps) =
     (if fst p = k then (k, v) # filter (\<lambda>q. fst q \<noteq> k) ps else p # params_set k v ps)"

definition appendParam :: "params \<Rightarrow> string \<Rightarrow> jsval \<Rightarrow> params" where
  "appendParam ps key value =
     (case value of
        JArr vs \<Rightarrow> foldl (\<lambda>acc e. params_append key (encodeFormValue e) acc) ps vs
      | _ \<Rightarrow> params_set key (encodeFormValue value) ps)"

definition encodeArgs :: "(string \<times> jsval) list \<Rightarrow> params" where
  "encodeArgs args = foldl (\<lambda>ps (k, v). appendParam ps k v) [] args"

definition uri_unreserved :: "char \<Rightarrow> bool" where
  "uri_unreserved c \<longleftrightarrow>
     is_digit c \<or> (65 \<le> code c \<and> code c \<le> 90) \<or> (97 \<le> code c \<and> code c \<le> 122) \<or>
     c \<in> set ''-_.!~*()'' \<or> c = CHR 0x27"

definition hex_upper :: "nat \<Rightarrow> char" where
  "hex_upper n = (if n < 10 then char_of (48 + n) else char_of (55 + n))"

definition percent_byte :: "char \<Rightarrow> string" where
  "percent_byte b = [CHR 0x25, hex_upper (code b div 16), hex_upper (code b mod 16)]"

definition encodeURIComponent :: "string \<Rightarrow> string" where
  "encodeURIComponent s =
     concat (map (\<lambda>c. if uri_unreserved c then [c] else concat (map percent_byte (utf8_char c))) s)"

section \<open>The client\<close>

definition parseUpid :: "string \<Rightarrow> string res" where
  "parseUpid upid =
     (let parts = js_split (CHR '':'') upid in
      if length parts < 3 \<or> parts ! 0 \<noteq> ''UPID'' then Inl (''Invalid UPID: '' @ upid)
      else Inr (parts ! 1))"

definition isUpid :: "jsval \<Rightarrow> bool" where
  "isUpid value = (case value of JStr s \<Rightarrow> js_startsWith s ''UPID:'' | _ \<Rightarrow> False)"

definition strip_slashes :: "string \<Rightarrow> string" where
  "strip_slashes s = rev (dropWhile (\<lambda>c. c = CHR ''/'') (rev s))"

definition baseUrl :: "cluster_config \<Rightarrow> string \<Rightarrow> string" where
  "baseUrl cl pathname = strip_slashes (cl_apiUrl cl) @ ''/api2/json'' @ pathname"

definition client_of :: "'b svc_scheme \<Rightarrow> string \<Rightarrow> api_client" where
  "client_of s key = the (map_of (sv_clients s) key)"

definition client_cluster :: "'b svc_scheme \<Rightarrow> string \<Rightarrow> cluster_config" where
  "client_cluster s key = sc_clusters (sv_config s) ! ac_cluster (client_of s key)"

definition set_client :: "string \<Rightarrow> api_client \<Rightarrow> 'b svc_scheme \<Rightarrow> 'b svc_scheme" where
  "set_client key c s = s\<lparr>sv_clients := AList.update key c (sv_clients s)\<rparr>"

definition ok_status :: "http_response \<Rightarrow> bool" where
  "ok_status r \<longleftrightarrow> 200 \<le> rs_status r \<and> rs_status r \<le> 299"

definition parse_json_body :: "string \<Rightarrow> jsval res" where
  "parse_json_body s = (case JSON_parse s of Some v \<Rightarrow> Inr v | None \<Rightarrow> Inl ''SyntaxError'')"

definition ensureTicket :: "world \<Rightarrow> string \<Rightarrow> ('b svc_scheme, unit) act" where
  "ensureTicket w key =
     bindA (getsA (\<lambda>s. (client_cluster s key, client_of s key))) (\<lambda>(cl, c).
     (case cl_auth cl of
        Ticket au \<Rightarrow>
          if js_truthy (ac_ticketCookie c) \<and> js_truthy (ac_csrfToken c) then ret ()
          else
            bindA (fetchA w
              \<lparr> rq_method = ''POST'', rq_url = baseUrl cl ''/access/ticket'', rq_query = [],
                rq_headers = [(''content-type'', ''application/x-www-form-urlencoded'')],
                rq_body = Some ([(''username'', ti_username au), (''password'', ti_password au),
                                 (''realm'', ti_realm au)] @
                  (case js_or_undefined (ti_otp au) of Some otp \<Rightarrow> [(''otp'', otp)] | None \<Rightarrow> [])),
                rq_timeoutMs = None, rq_json = None \<rparr>) (\<lambda>response.
            bindA (liftR (parse_json_body (rs_text response))) (\<lambda>payload.
            let data = jget payload ''data''; ticket = jget data ''ticket'' in
            if \<not> ok_status response \<or> \<not> js_truth ticket
            then raise (''Proxmox ticket authentication failed for cluster '' @ cl_name cl)
            else modifyA (\<lambda>s. set_client key
              ((client_of s key)\<lparr> ac_ticketCookie := Some (''PVEAuthCookie='' @ js_String ticket),
                ac_csrfToken := jstr_opt (jget data ''CSRFPreventionToken'') \<rparr>) s)))
      | _ \<Rightarrow> ret ()))"

definition buildHeaders :: "world \<Rightarrow> string \<Rightarrow> string \<Rightarrow> ('b svc_scheme, (string \<times> string) list) act" where
  "buildHeaders w key method =
     bindA (getsA (\<lambda>s. client_cluster s key)) (\<lambda>cl.
     (case cl_auth cl of
        ApiToken au \<Rightarrow>
          ret [(''Authorization'', ''PVEAPIToken='' @ at_user au @ ''@'' @ at_realm au @ ''!'' @
                  at_tokenId au @ ''='' @ at_secret au)]
      | SecretRef sc \<Rightarrow>
          raise (''Cluster '' @ cl_name cl @ '' is not hydrated with steady-state API credentials yet'')
      | SshBootstrap sb \<Rightarrow>
          raise (''Cluster '' @ cl_name cl @
            '' is still configured for local bootstrap and is not valid for normal API runtime'')
      | Ticket au \<Rightarrow>
          seqA (ensureTicket w key)
          (bindA (getsA (\<lambda>s. client_of s key)) (\<lambda>c.
            ret ([(''Cookie'', (case ac_ticketCookie c of Some t \<Rightarrow> t | None \<Rightarrow> []))] @
              (if method \<noteq> ''GET'' \<and> method \<noteq> ''HEAD'' \<and> js_truthy (ac_csrfToken c)
               then [(''CSRFPreventionToken'', the (ac_csrfToken c))] else []))))))"

definition response_payload :: "http_response \<Rightarrow> jsval" where
  "response_payload r =
     (if rs_text r = [] then JUndef
      else (case JSON_parse (rs_text r) of Some v \<Rightarrow> v | None \<Rightarrow> JStr (rs_text r)))"

definition stringify_any :: "jsval \<Rightarrow> string" where
  "stringify_any v = (if v = JUndef then ''undefined'' else JSON_stringify v)"

text \<open>The \<open>data\<close> member when the payload is an object that has one, else the payload.\<close>

definition unwrap_data :: "jsval \<Rightarrow> jsval" where
  "unwrap_data payload =
     (case payload of
        JObj ps \<Rightarrow> (case map_of ps ''data'' of Some d \<Rightarrow> d | None \<Rightarrow> payload)
      | _ \<Rightarrow> payload)"

definition clientRequest ::
    "world \<Rightarrow> string \<Rightarrow> string \<Rightarrow> string \<Rightarrow> (string \<times> jsval) list \<Rightarrow> int option \<Rightarrow>
     ('b svc_scheme, jsval) act" where
  "clientRequest w key method pathname args timeoutMs =
     (let upperMethod = js_toUpperCase method in
      bindA (getsA (\<lambda>s. baseUrl (client_cluster s key) pathname)) (\<lambda>url.
      bindA (buildHeaders w key upperMethod) (\<lambda>headers.
      let inQuery = (upperMethod = ''GET'' \<or> upperMethod = ''DELETE'');
          request =
            \<lparr> rq_method = upperMethod, rq_url = url,
              rq_query = (if inQuery then encodeArgs args else []),
              rq_headers = (if inQuery then headers
                else headers @ [(''content-type'', ''application/x-www-form-urlencoded'')]),
              rq_body = (if inQuery then None else Some (encodeArgs args)),
              rq_timeoutMs = (case timeoutMs of Some n \<Rightarrow> if n = 0 then None else Some n | None \<Rightarrow> None),
              rq_json = None \<rparr>
      in bindA (fetchA w request) (\<lambda>response.
         let payload = response_payload response in
         if \<not> ok_status response
         then raise (''Proxmox API '' @ upperMethod @ '' '' @ pathname @ '' failed: '' @
                int_str (rs_status response) @ '' '' @ stringify_any payload)
         else ret (unwrap_data payload)))))"

definition task_path :: "string \<Rightarrow> string \<Rightarrow> string \<Rightarrow> string" where
  "task_path node upid leaf =
     ''/nodes/'' @ encodeURIComponent node @ ''/tasks/'' @ encodeURIComponent upid @ leaf"

definition clientGetTaskStatus :: "world \<Rightarrow> string \<Rightarrow> string \<Rightarrow> string \<Rightarrow> int option \<Rightarrow> ('b svc_scheme, jsval) act" where
  "clientGetTaskStatus w key node upid timeoutMs =
     clientRequest w key ''GET'' (task_path node upid ''/status'') [] timeoutMs"

definition clientGetTaskLog :: "world \<Rightarrow> string \<Rightarrow> string \<Rightarrow> string \<Rightarrow> int option \<Rightarrow> ('b svc_scheme, jsval) act" where
  "clientGetTaskLog w key node upid timeoutMs =
     clientRequest w key ''GET'' (task_path node upid ''/log'') [] timeoutMs"

definition clientCancelTask :: "world \<Rightarrow> string \<Rightarrow> string \<Rightarrow> string \<Rightarrow> int option \<Rightarrow> ('b svc_scheme, unit) act" where
  "clientCancelTask w key node upid timeoutMs =
     bindA (clientRequest w key ''DELETE'' (task_path node upid []) [] timeoutMs) (\<lambda>_. ret ())"

text \<open>The polling loop, with the number of rounds as fuel: \<open>None\<close> means still polling.\<close>

fun waitForTaskLoop ::
    "world \<Rightarrow> string \<Rightarrow> string \<Rightarrow> string \<Rightarrow> int \<Rightarrow> int option \<Rightarrow> nat \<Rightarrow> int \<Rightarrow> ('b svc_scheme, jsval option) act" where
  "waitForTaskLoop w key node upid poll timeoutMs 0 attempts = ret None"
| "waitForTaskLoop w key node upid poll timeoutMs (Suc fuel) attempts =
     bindA (abortedA w) (\<lambda>ab.
     if ab then raise ''Task wait aborted''
     else bindA (clientGetTaskStatus w key node upid timeoutMs) (\<lambda>status.
       bindA (liftR (jfield status ''status'')) (\<lambda>st.
       if st = JStr ''stopped'' then ret (Some status)
       else
         seqA (progressA (attempts + 1) (''Task '' @ upid @ '' is still running on '' @ node))
        (seqA (sleepA w poll)
          (waitForTaskLoop w key node upid poll timeoutMs fuel (attempts + 1))))))"

definition waitForTask ::
    "world \<Rightarrow> nat \<Rightarrow> string \<Rightarrow> string \<Rightarrow> int option \<Rightarrow> int option \<Rightarrow> ('b svc_scheme, jsval option) act" where
  "waitForTask w fuel key upid pollIntervalMs timeoutMs =
     bindA (liftR (parseUpid upid)) (\<lambda>node.
       waitForTaskLoop w key node upid (case pollIntervalMs of Some p \<Rightarrow> p | None \<Rightarrow> 2000) timeoutMs fuel 0)"

section \<open>The trace\<close>

lemma set_client_frame [simp]:
  "io_trace (set_client k c s) = io_trace s" "svc.more (set_client k c s) = svc.more s"
  by (simp_all add: set_client_def)

lemma ensureTicket_grows [grows_rules]: "keeps svc_step (ensureTicket w key)"
  by (auto simp: ensureTicket_def Let_def intro!: grows_rules split: prod.split cluster_auth.split)

lemma buildHeaders_grows [grows_rules]: "keeps svc_step (buildHeaders w key m)"
  by (auto simp: buildHeaders_def Let_def intro!: grows_rules split: prod.split cluster_auth.split)

lemma clientRequest_grows [grows_rules]: "keeps svc_step (clientRequest w key m p a t)"
  by (auto simp: clientRequest_def Let_def intro!: grows_rules)

end
