(* ===== verification/Schema.thy ===== *)
theory Schema
  imports Utils
begin

text \<open>
  The API catalogue of src/schema.ts: path templates, endpoint lookup, and the validation and
  coercion of arguments before they reach the HTTP client.  The vendored schema tree is the
  parameter \<open>raw_node list\<close>.  A template is read as its token list; parameter names are free of
  regular-expression characters and templates of stars and question marks, as in the schema file.
\<close>

section \<open>Path templates\<close>

datatype ptok = PLit char | PParam string

fun take_param :: "string \<Rightarrow> (string \<times> string) option" where
  "take_param [] = None"
| "take_param (c # s) =
     (if c = CHR ''}'' then Some ([], s) else map_option (\<lambda>(n, r). (c # n, r)) (take_param s))"

lemma take_param_length: "take_param s = Some (n, r) \<Longrightarrow> length r < length s"
  by (induction s arbitrary: n r) (auto split: if_splits)

function template_tokens :: "string \<Rightarrow> ptok list" where
  "template_tokens [] = []"
| "template_tokens (c # s) =
     (if c = CHR ''{'' then
        (case take_param s of
           Some (n, r) \<Rightarrow> if n = [] then PLit c # template_tokens s else PParam n # template_tokens r
         | None \<Rightarrow> PLit c # template_tokens s)
      else PLit c # template_tokens s)"
  by pat_completeness auto
termination
  by (relation "measure length") (auto dest: take_param_length)

fun token_params :: "ptok list \<Rightarrow> string list" where
  "token_params [] = []"
| "token_params (PLit c # ts) = token_params ts"
| "token_params (PParam n # ts) = n # token_params ts"

definition pathParamsOf :: "string \<Rightarrow> string list" where
  "pathParamsOf templatePath = token_params (template_tokens templatePath)"

text \<open>\<open>[^/]+\<close> is greedy: the longest candidate that lets the rest match is taken.\<close>

fun first_some :: "('a \<Rightarrow> 'b option) \<Rightarrow> 'a list \<Rightarrow> 'b option" where
  "first_some f [] = None"
| "first_some f (x # xs) = (case f x of Some y \<Rightarrow> Some y | None \<Rightarrow> first_some f xs)"

lemma first_some_cong [fundef_cong]:
  "xs = ys \<Longrightarrow> (\<And>x. x \<in> set ys \<Longrightarrow> f x = g x) \<Longrightarrow> first_some f xs = first_some g ys"
  by (induction ys arbitrary: xs) (auto split: option.splits)

lemma first_some_Some: "first_some f xs = Some y \<Longrightarrow> \<exists>x\<in>set xs. f x = Some y"
  by (induction xs) (auto split: option.splits)

fun match_path :: "ptok list \<Rightarrow> string \<Rightarrow> string list option" where
  "match_path [] s = (if s = [] then Some [] else None)"
| "match_path (PLit c # ts) s =
     (case s of [] \<Rightarrow> None | d # s' \<Rightarrow> if d = c then match_path ts s' else None)"
| "match_path (PParam n # ts) s =
     first_some (\<lambda>k. map_option (Cons (take k s)) (match_path ts (drop k s)))
       (rev [1..<Suc (length (takeWhile (\<lambda>c. c \<noteq> CHR ''/'') s))])"

fun build_path :: "ptok list \<Rightarrow> string list \<Rightarrow> string" where
  "build_path (PLit c # ts) vs = c # build_path ts vs"
| "build_path (PParam n # ts) (v # vs) = v @ build_path ts vs"
| "build_path _ _ = []"

text \<open>A template whose parameters are whole path segments.\<close>

fun segmented :: "ptok list \<Rightarrow> bool" where
  "segmented [] = True"
| "segmented (PLit c # ts) = segmented ts"
| "segmented (PParam n # ts) = ((ts = [] \<or> hd ts = PLit (CHR ''/'')) \<and> segmented ts)"

definition segment_value :: "string \<Rightarrow> bool" where
  "segment_value v \<longleftrightarrow> v \<noteq> [] \<and> CHR ''/'' \<notin> set v"

lemma match_path_sound:
  "match_path ts s = Some vs \<Longrightarrow>
     build_path ts vs = s \<and> length vs = length (token_params ts) \<and> list_all segment_value vs"
proof (induction ts s arbitrary: vs rule: match_path.induct)
  case (3 n ts s)
  from first_some_Some[OF 3(2)[unfolded match_path.simps]] obtain k us
    where k: "1 \<le> k" "k \<le> length (takeWhile (\<lambda>c. c \<noteq> CHR ''/'') s)"
      and us: "match_path ts (drop k s) = Some us" "vs = take k s # us"
    by auto
  have "k \<le> length s" using k(2) length_takeWhile_le le_trans by blast
  moreover have "take k s = take k (takeWhile (\<lambda>c. c \<noteq> CHR ''/'') s)"
    using k(2) by (metis takeWhile_eq_take take_take min.absorb1)
  then have "CHR ''/'' \<notin> set (take k s)"
    by (metis in_set_takeD set_takeWhileD)
  moreover have kin: "k \<in> set (rev [1..<Suc (length (takeWhile (\<lambda>c. c \<noteq> CHR ''/'') s))])"
    using k by auto
  have "build_path ts us = drop k s \<and> length us = length (token_params ts) \<and> list_all segment_value us"
    by (rule 3(1)[OF kin us(1)])
  moreover have "segment_value (take k s)"
    using k(1) \<open>k \<le> length s\<close> \<open>CHR ''/'' \<notin> set (take k s)\<close> by (auto simp: segment_value_def)
  ultimately show ?case using us(2) by simp
qed (auto split: list.splits if_splits)

lemma takeWhile_segment:
  "segment_value v \<Longrightarrow> r = [] \<or> hd r = CHR ''/'' \<Longrightarrow> takeWhile (\<lambda>c. c \<noteq> CHR ''/'') (v @ r) = v"
  by (cases r) (auto simp: segment_value_def takeWhile_append)

lemma match_path_complete:
  "segmented ts \<Longrightarrow> length vs = length (token_params ts) \<Longrightarrow> list_all segment_value vs \<Longrightarrow>
     match_path ts (build_path ts vs) = Some vs"
proof (induction ts vs rule: build_path.induct)
  case (2 n ts v vs)
  let ?s = "v @ build_path ts vs"
  have "build_path ts vs = [] \<or> hd (build_path ts vs) = CHR ''/''"
    using 2(2) by (cases ts) auto
  then have "length (takeWhile (\<lambda>c. c \<noteq> CHR ''/'') ?s) = length v"
    using takeWhile_segment 2(4) by auto
  moreover have "v \<noteq> []" using 2(4) by (auto simp: segment_value_def)
  ultimately have "rev [1..<Suc (length (takeWhile (\<lambda>c. c \<noteq> CHR ''/'') ?s))] = length v # rev [1..<length v]"
    by (cases v) simp_all
  then show ?case using 2 by simp
qed auto

section \<open>Coercion\<close>

record schema_property =
  pr_type :: "string option"
  pr_optional :: "int option"
  pr_format :: "string option"

record method_info =
  mi_additionalProperties :: "int option"
  mi_properties :: "(string \<times> schema_property) list option"

record api_method =
  am_method :: string
  am_templatePath :: string
  am_tokens :: "ptok list"
  am_pathParams :: "string list"
  am_info :: method_info

record api_match =
  ma_descriptor :: api_method
  ma_pathParams :: "(string, string) omap"
  ma_args :: "(string, jsval) omap"

definition js_parseInt :: "string \<Rightarrow> jsval" where
  "js_parseInt s = (case parseInt10 s of None \<Rightarrow> JFloat ''NaN'' | Some n \<Rightarrow> JNum n)"

text \<open>The integer part of a plain decimal; a numeral with an exponent is left as it is.\<close>

definition js_trunc :: "jsval \<Rightarrow> jsval" where
  "js_trunc v = (case v of
      JFloat s \<Rightarrow> if CHR ''e'' \<in> set s \<or> CHR ''E'' \<in> set s \<or> s = ''NaN'' then v
                  else js_parseInt s
    | _ \<Rightarrow> v)"

definition js_parseFloat :: "string \<Rightarrow> jsval" where
  "js_parseFloat s =
     (let t = dropWhile js_space s;
          (sg, u) = (case t of c # r \<Rightarrow> if c = CHR ''-'' then (''-'', r) else if c = CHR ''+'' then ([], r) else ([], t)
                     | [] \<Rightarrow> ([], t));
          ds = takeWhile is_digit u;
          rest = dropWhile is_digit u;
          fr = (case rest of c # r \<Rightarrow> if c = CHR ''.'' then takeWhile is_digit r else [] | [] \<Rightarrow> [])
      in if ds = [] \<and> fr = [] then JFloat ''NaN''
         else if fr = [] then JNum (if sg = [] then int (digits_val ds) else - int (digits_val ds))
         else JFloat (sg @ ds @ ''.'' @ fr))"

definition is_number :: "jsval \<Rightarrow> bool" where
  "is_number v = (case v of JNum n \<Rightarrow> True | JFloat s \<Rightarrow> True | _ \<Rightarrow> False)"

definition coerceValue :: "string option \<Rightarrow> string option \<Rightarrow> jsval \<Rightarrow> jsval" where
  "coerceValue type format value =
     (if value = JUndef \<or> value = JNull then value
      else if format = Some ''pve-command-batch'' \<and> (case value of JArr vs \<Rightarrow> True | _ \<Rightarrow> False)
      then JStr (JSON_stringify value)
      else if type = Some ''integer'' then
        (if is_number value then js_trunc value else js_parseInt (js_String value))
      else if type = Some ''number'' then
        (if is_number value then value else js_parseFloat (js_String value))
      else if type = Some ''boolean'' then
        (case value of
           JBool b \<Rightarrow> value
         | JNum n \<Rightarrow> JBool (n \<noteq> 0)
         | JFloat s \<Rightarrow> JBool True
         | _ \<Rightarrow> JBool (js_toLowerCase (js_String value) \<in> set [''1'', ''true'', ''yes'', ''on'']))
      else if type = Some ''string'' then
        (case value of
           JArr vs \<Rightarrow> JStr (JSON_stringify value)
         | JObj ps \<Rightarrow> JStr (JSON_stringify value)
         | _ \<Rightarrow> JStr (js_String value))
      else value)"

section \<open>Schema properties\<close>

text \<open>
  A property lookup on a plain object also finds the names of \<open>Object.prototype\<close>, whose values
  carry no \<open>type\<close> and no \<open>format\<close>.
\<close>

definition prototype_keys :: "string list" where
  "prototype_keys = [''constructor'', ''__defineGetter__'', ''__defineSetter__'', ''hasOwnProperty'',
     ''__lookupGetter__'', ''__lookupSetter__'', ''isPrototypeOf'', ''propertyIsEnumerable'',
     ''toString'', ''valueOf'', ''__proto__'', ''toLocaleString'']"

definition untyped :: schema_property where
  "untyped = \<lparr>pr_type = None, pr_optional = None, pr_format = None\<rparr>"

text \<open>\<open>hostpci[n]\<close>: the text around the first \<open>[n]\<close>, with at least one digit in its place.\<close>

fun split_index :: "string \<Rightarrow> (string \<times> string) option" where
  "split_index [] = None"
| "split_index (c # s) =
     (if js_startsWith (c # s) ''[n]'' then Some ([], drop 3 (c # s))
      else map_option (\<lambda>(a, b). (c # a, b)) (split_index s))"

definition indexed_match :: "string \<Rightarrow> string \<Rightarrow> bool" where
  "indexed_match schemaName actual =
     (case split_index schemaName of
        None \<Rightarrow> False
      | Some (a, b) \<Rightarrow>
          js_startsWith actual a \<and>
          (let rest = drop (length a) actual; k = length rest - length b
           in k \<ge> 1 \<and> drop k rest = b \<and> list_all is_digit (take k rest)))"

definition resolveSchemaProperty ::
    "string \<Rightarrow> (string \<times> schema_property) list \<Rightarrow> (string \<times> schema_property) option" where
  "resolveSchemaProperty actualName properties =
     (case map_of properties actualName of
        Some p \<Rightarrow> Some (actualName, p)
      | None \<Rightarrow>
          if actualName \<in> set prototype_keys then Some (actualName, untyped)
          else find (\<lambda>(n, p). indexed_match n actualName) properties)"

section \<open>The catalogue\<close>

datatype raw_node =
  RawNode "string option" "(string \<times> method_info) list option" "raw_node list"

definition describe :: "string \<Rightarrow> string \<times> method_info \<Rightarrow> api_method" where
  "describe path m =
     \<lparr> am_method = fst m, am_templatePath = path, am_tokens = template_tokens path,
       am_pathParams = pathParamsOf path, am_info = snd m \<rparr>"

fun walk :: "raw_node \<Rightarrow> api_method list" where
  "walk (RawNode path info children) =
     (case (path, info) of
        (Some p, Some ms) \<Rightarrow> if p = [] then [] else map (describe p) ms
      | _ \<Rightarrow> []) @ concat (map walk children)"

definition catalogOf :: "raw_node list \<Rightarrow> api_method list" where
  "catalogOf roots = concat (map walk roots)"

definition properties_of :: "api_method \<Rightarrow> (string \<times> schema_property) list" where
  "properties_of d = (case mi_properties (am_info d) of Some ps \<Rightarrow> ps | None \<Rightarrow> [])"

definition match_of :: "api_method \<Rightarrow> string list \<Rightarrow> api_match" where
  "match_of d vs =
     \<lparr> ma_descriptor = d,
       ma_pathParams = map_from_entries (zip (am_pathParams d) vs),
       ma_args = map (\<lambda>(n, p). (n, JUndef))
         (filter (\<lambda>(n, p). n \<notin> set (am_pathParams d)) (properties_of d)) \<rparr>"

fun find_in :: "string \<Rightarrow> string \<Rightarrow> api_method list \<Rightarrow> api_match option" where
  "find_in m path [] = None"
| "find_in m path (d # ds) =
     (if am_method d \<noteq> m then find_in m path ds
      else (case match_path (am_tokens d) path of
          None \<Rightarrow> find_in m path ds
        | Some vs \<Rightarrow> Some (match_of d vs)))"

definition catalogFind :: "api_method list \<Rightarrow> string \<Rightarrow> string \<Rightarrow> api_match res" where
  "catalogFind catalog method actualPath =
     (let normalizedMethod = js_toUpperCase method in
      case find_in normalizedMethod actualPath catalog of
        Some m \<Rightarrow> Inr m
      | None \<Rightarrow> Inl (''No Proxmox API endpoint matches '' @ normalizedMethod @ '' '' @ actualPath))"

definition arg_of :: "(string \<times> jsval) list \<Rightarrow> string \<Rightarrow> jsval" where
  "arg_of args name = (case map_of args name of Some v \<Rightarrow> v | None \<Rightarrow> JUndef)"

text \<open>The declared properties, in order: a required one must be there, a present one is coerced.\<close>

fun checkDeclared ::
    "string \<Rightarrow> string list \<Rightarrow> (string \<times> schema_property) list \<Rightarrow> (string \<times> jsval) list \<Rightarrow>
     (string \<times> jsval) list res" where
  "checkDeclared at pathParams [] args = Inr args"
| "checkDeclared at pathParams ((name, property) # ps) args =
     (if name \<in> set pathParams then checkDeclared at pathParams ps args
      else if arg_of args name = JUndef then
        (if pr_optional property \<noteq> Some 1
         then Inl (''Missing required parameter '' @ squoted name @ '' for '' @ at)
         else checkDeclared at pathParams ps args)
      else checkDeclared at pathParams ps
        (AList.update name (coerceValue (pr_type property) (pr_format property) (arg_of args name)) args))"

definition coerceIndexed ::
    "string list \<Rightarrow> (string \<times> schema_property) list \<Rightarrow> (string \<times> jsval) \<Rightarrow> (string \<times> jsval)" where
  "coerceIndexed pathParams properties kv =
     (let (actualName, value) = kv in
      if actualName \<in> set pathParams \<or> value = JUndef \<or> actualName \<in> fst ` set properties \<or>
         actualName \<in> set prototype_keys
      then kv
      else (case resolveSchemaProperty actualName properties of
          None \<Rightarrow> kv
        | Some (n, p) \<Rightarrow> (actualName, coerceValue (pr_type p) (pr_format p) value)))"

definition validate ::
    "api_method list \<Rightarrow> string \<Rightarrow> string \<Rightarrow> (string \<times> jsval) list \<Rightarrow> api_match res" where
  "validate catalog method actualPath inputArgs =
     rbind (catalogFind catalog method actualPath) (\<lambda>matched.
     let d = ma_descriptor matched;
         properties = properties_of d;
         additional = (case mi_additionalProperties (am_info d) of Some n \<Rightarrow> n | None \<Rightarrow> 1);
         at = js_toUpperCase method @ '' '' @ am_templatePath d;
         unknown = filter (\<lambda>k. resolveSchemaProperty k properties = None) (map fst inputArgs)
     in if additional = 0 \<and> unknown \<noteq> []
        then Inl (''Unknown parameter '' @ squoted (hd unknown) @ '' for '' @ at)
        else rbind (checkDeclared at (am_pathParams d) properties inputArgs) (\<lambda>args.
          Inr (matched\<lparr> ma_args := map (coerceIndexed (am_pathParams d) properties) args \<rparr>)))"

section \<open>Properties\<close>

lemma walk_describe: "d \<in> set (walk n) \<Longrightarrow> \<exists>p m. d = describe p m"
proof (induction n rule: walk.induct)
  case (1 path info children)
  then show ?case by (auto split: option.splits if_splits) 
qed

lemma catalogOf_describe: "d \<in> set (catalogOf roots) \<Longrightarrow> \<exists>p m. d = describe p m"
  unfolding catalogOf_def set_concat set_map by (blast dest: walk_describe)

lemma find_in_Some:
  "find_in m path ds = Some r \<Longrightarrow>
     \<exists>d vs. d \<in> set ds \<and> am_method d = m \<and> match_path (am_tokens d) path = Some vs \<and> r = match_of d vs"
  by (induction ds) (auto split: if_splits option.splits)

lemma find_in_None:
  "find_in m path ds = None \<Longrightarrow> d \<in> set ds \<Longrightarrow> am_method d = m \<Longrightarrow> match_path (am_tokens d) path = None"
  by (induction ds) (auto split: if_splits option.splits)

lemma match_of_simps [simp]:
  "ma_descriptor (match_of d vs) = d"
  "ma_pathParams (match_of d vs) = map_from_entries (zip (am_pathParams d) vs)"
  by (simp_all add: match_of_def)

text \<open>What coercion promises for a declared type; \<open>null\<close> passes through.\<close>

definition has_type :: "schema_property \<Rightarrow> jsval \<Rightarrow> bool" where
  "has_type p v \<longleftrightarrow>
     v = JUndef \<or> v = JNull \<or>
     (pr_format p = Some ''pve-command-batch'' \<and> (\<exists>s. v = JStr s)) \<or>
     (pr_type p = Some ''integer'' \<and> is_number v) \<or>
     (pr_type p = Some ''number'' \<and> is_number v) \<or>
     (pr_type p = Some ''boolean'' \<and> (\<exists>b. v = JBool b)) \<or>
     (pr_type p = Some ''string'' \<and> (\<exists>s. v = JStr s)) \<or>
     pr_type p \<notin> {Some ''integer'', Some ''number'', Some ''boolean'', Some ''string''}"

lemma is_number_parse: "is_number (js_parseInt s)" "is_number (js_parseFloat s)"
  "is_number v \<Longrightarrow> is_number (js_trunc v)"
  by (auto simp: js_parseInt_def js_parseFloat_def js_trunc_def is_number_def Let_def
      split: list.splits prod.splits jsval.splits option.splits)

lemma coerce_has_type: "has_type p (coerceValue (pr_type p) (pr_format p) v)"
proof (cases "v = JUndef \<or> v = JNull")
  case True
  then show ?thesis by (auto simp: has_type_def coerceValue_def)
next
  case False
  consider "pr_format p = Some ''pve-command-batch'' \<and> (\<exists>vs. v = JArr vs)"
    | "pr_type p = Some ''integer''" | "pr_type p = Some ''number''"
    | "pr_type p = Some ''boolean''" | "pr_type p = Some ''string''"
    | "pr_type p \<notin> {Some ''integer'', Some ''number'', Some ''boolean'', Some ''string''}" by blast
  then show ?thesis
  proof cases
    case 1
    then show ?thesis by (auto simp: has_type_def coerceValue_def)
  next
    case 4
    then show ?thesis using False by (cases v) (auto simp: has_type_def coerceValue_def)
  next
    case 5
    then show ?thesis using False by (cases v) (auto simp: has_type_def coerceValue_def)
  next
    case 6
    then show ?thesis by (simp add: has_type_def)
  qed (use False in \<open>auto simp: has_type_def coerceValue_def is_number_parse split: jsval.splits\<close>)
qed

lemma coerceValue_defined: "v \<noteq> JUndef \<Longrightarrow> coerceValue t f v \<noteq> JUndef"
  by (cases v) (auto simp: coerceValue_def js_trunc_def js_parseInt_def js_parseFloat_def Let_def is_number_def
      split: list.splits prod.splits option.splits)

lemma arg_of_update [simp]:
  "arg_of (AList.update k v args) n = (if n = k then v else arg_of args n)"
  by (simp add: arg_of_def)

lemma checkDeclared_sound:
  "checkDeclared at pp ps args = Inr out \<Longrightarrow> distinct (map fst ps) \<Longrightarrow>
     (\<forall>(n, p) \<in> set ps. n \<notin> set pp \<longrightarrow>
        (if arg_of args n = JUndef then arg_of out n = JUndef \<and> pr_optional p = Some 1
         else arg_of out n = coerceValue (pr_type p) (pr_format p) (arg_of args n))) \<and>
     (\<forall>n. n \<notin> fst ` set ps \<longrightarrow> arg_of out n = arg_of args n)"
proof (induction at pp ps args rule: checkDeclared.induct)
  case (2 at pp name property ps args)
  show ?case
  proof (cases "name \<in> set pp \<or> arg_of args name = JUndef")
    case True
    then show ?thesis using 2 by (fastforce split: if_splits)
  next
    case False
    let ?args = "AList.update name (coerceValue (pr_type property) (pr_format property) (arg_of args name)) args"
    from 2 False have ih: "(\<forall>(n, p) \<in> set ps. n \<notin> set pp \<longrightarrow>
        (if arg_of ?args n = JUndef then arg_of out n = JUndef \<and> pr_optional p = Some 1
         else arg_of out n = coerceValue (pr_type p) (pr_format p) (arg_of ?args n))) \<and>
     (\<forall>n. n \<notin> fst ` set ps \<longrightarrow> arg_of out n = arg_of ?args n)"
      by simp
    have "name \<notin> fst ` set ps" using 2(5) by simp
    then have "arg_of out name = coerceValue (pr_type property) (pr_format property) (arg_of args name)"
      using ih by simp
    moreover have "n \<noteq> name" if "(n, p) \<in> set ps" for n p
      using that \<open>name \<notin> fst ` set ps\<close> by force
    ultimately show ?thesis using ih False by fastforce
  qed
qed auto

lemma coerceIndexed_fst [simp]: "fst (coerceIndexed pp props kv) = fst kv"
  by (cases kv) (auto simp: coerceIndexed_def split: option.splits)

lemma coerceIndexed_declared:
  "fst kv \<in> fst ` set props \<Longrightarrow> coerceIndexed pp props kv = kv"
  by (cases kv) (simp add: coerceIndexed_def)

lemma arg_of_coerceIndexed:
  "n \<in> fst ` set props \<Longrightarrow> arg_of (map (coerceIndexed pp props) args) n = arg_of args n"
proof (induction args)
  case (Cons kv args)
  obtain k v where kv: "kv = (k, v)" by force
  show ?case
  proof (cases "k = n")
    case True
    then show ?thesis using Cons.prems coerceIndexed_declared[of kv props pp] kv
      by (simp add: arg_of_def)
  next
    case False
    obtain b where "coerceIndexed pp props kv = (k, b)"
      by (metis coerceIndexed_fst kv fst_conv prod.collapse)
    then show ?thesis using Cons False by (simp add: arg_of_def kv)
  qed
qed simp

lemma validate_Inr:
  assumes "validate catalog m path args = Inr r"
  obtains d vs out where "d \<in> set catalog" "am_method d = js_toUpperCase m"
    "match_path (am_tokens d) path = Some vs"
    "checkDeclared (js_toUpperCase m @ '' '' @ am_templatePath d) (am_pathParams d) (properties_of d) args = Inr out"
    "ma_descriptor r = d" "ma_args r = map (coerceIndexed (am_pathParams d) (properties_of d)) out"
    "mi_additionalProperties (am_info d) = Some 0 \<Longrightarrow>
       \<forall>k\<in>fst ` set args. resolveSchemaProperty k (properties_of d) \<noteq> None"
proof -
  from assms obtain matched where ma: "catalogFind catalog m path = Inr matched"
    by (auto simp: validate_def res_simps)
  then have "find_in (js_toUpperCase m) path catalog = Some matched"
    by (auto simp: catalogFind_def Let_def split: option.splits)
  from find_in_Some[OF this] obtain d vs where d: "d \<in> set catalog" "am_method d = js_toUpperCase m"
    "match_path (am_tokens d) path = Some vs" "matched = match_of d vs" by blast
  then have "ma_descriptor matched = d" by simp
  with assms ma obtain out where out:
    "checkDeclared (js_toUpperCase m @ '' '' @ am_templatePath d) (am_pathParams d) (properties_of d) args = Inr out"
    "r = matched\<lparr>ma_args := map (coerceIndexed (am_pathParams d) (properties_of d)) out\<rparr>"
    "mi_additionalProperties (am_info d) = Some 0 \<Longrightarrow>
       filter (\<lambda>k. resolveSchemaProperty k (properties_of d) = None) (map fst args) = []"
    by (auto simp: validate_def Let_def res_simps split: if_splits)
  show ?thesis
  proof (rule that[OF d(1-3) out(1)])
    show "ma_descriptor r = d" "ma_args r = map (coerceIndexed (am_pathParams d) (properties_of d)) out"
      using out(2) \<open>ma_descriptor matched = d\<close> by simp_all
    show "\<forall>k\<in>fst ` set args. resolveSchemaProperty k (properties_of d) \<noteq> None"
      if "mi_additionalProperties (am_info d) = Some 0"
      using out(3)[OF that] by (auto simp: filter_empty_conv)
  qed
qed


definition sample_catalog :: "api_method list" where
  "sample_catalog = catalogOf [RawNode (Some ''/nodes/{node}/qemu/{vmid}/config'')
     (Some [(''PUT'', \<lparr>mi_additionalProperties = Some 0, mi_properties = Some
        [(''node'', \<lparr>pr_type = Some ''string'', pr_optional = None, pr_format = None\<rparr>),
         (''vmid'', \<lparr>pr_type = Some ''integer'', pr_optional = None, pr_format = None\<rparr>),
         (''memory'', \<lparr>pr_type = Some ''integer'', pr_optional = Some 1, pr_format = None\<rparr>),
         (''hostpci[n]'', \<lparr>pr_type = Some ''string'', pr_optional = Some 1, pr_format = None\<rparr>)]\<rparr>)]) []]"

definition sample_args :: "(string \<times> jsval) list" where
  "sample_args = [(''memory'', JStr ''2048''), (''hostpci0'', JNum 7)]"

lemma sample_validate:
  "\<exists>r. validate sample_catalog ''put'' ''/nodes/pve/qemu/100/config'' sample_args = Inr r \<and>
     ma_args r = [(''memory'', JNum 2048), (''hostpci0'', JStr ''7'')] \<and>
     distinct (map fst (properties_of (ma_descriptor r)))"
proof -
  have "(case validate sample_catalog ''put'' ''/nodes/pve/qemu/100/config'' sample_args of
      Inl e \<Rightarrow> False | Inr r \<Rightarrow> ma_args r = [(''memory'', JNum 2048), (''hostpci0'', JStr ''7'')] \<and>
        distinct (map fst (properties_of (ma_descriptor r))))"
    by code_simp
  then show ?thesis by (cases "validate sample_catalog ''put'' ''/nodes/pve/qemu/100/config'' sample_args") simp_all
qed


text \<open>
  C35. Endpoint lookup: \<open>find\<close> succeeds exactly when some catalogued method matches, and the path
  parameters it returns rebuild the request path from the template; each is one non-empty path
  segment without a slash.
\<close>

theorem catalogFind_path:
  assumes "catalogFind (catalogOf roots) m path = Inr r"
  shows "\<exists>vs. ma_pathParams r = map_from_entries (zip (am_pathParams (ma_descriptor r)) vs) \<and>
    length vs = length (am_pathParams (ma_descriptor r)) \<and> list_all segment_value vs \<and>
    build_path (template_tokens (am_templatePath (ma_descriptor r))) vs = path"
proof -
  from assms have "find_in (js_toUpperCase m) path (catalogOf roots) = Some r"
    by (auto simp: catalogFind_def Let_def split: option.splits)
  from find_in_Some[OF this] obtain d vs where d: "d \<in> set (catalogOf roots)"
    "match_path (am_tokens d) path = Some vs" "r = match_of d vs" by blast
  from catalogOf_describe[OF d(1)] obtain t i where "d = describe t i" by blast
  with match_path_sound[OF d(2)] d(3) show ?thesis
    by (auto simp: describe_def pathParamsOf_def)
qed

theorem catalogFind_path_witness:
  "\<exists>r vs. catalogFind sample_catalog ''put'' ''/nodes/pve/qemu/100/config'' = Inr r \<and>
     build_path (template_tokens (am_templatePath (ma_descriptor r))) vs = ''/nodes/pve/qemu/100/config''"
proof -
  have "is_ok (catalogFind sample_catalog ''put'' ''/nodes/pve/qemu/100/config'')" by code_simp
  then obtain r where r: "catalogFind sample_catalog ''put'' ''/nodes/pve/qemu/100/config'' = Inr r"
    by (auto simp: is_ok_iff)
  from catalogFind_path[OF this[unfolded sample_catalog_def]] r show ?thesis by blast
qed

end
