(* ===== verification/Ssh.thy ===== *)
theory Ssh
  imports Effects
begin

text \<open>
  src/ssh.ts: the shell command lines the transports send, the PowerShell remoting script, host-key
  verification, and the event handling of one SSH command.  The SHA-256 digest and the ssh2 client
  are outside: the digest is a function parameter, the client a sequence of events.
\<close>

section \<open>Command lines\<close>

datatype interpreter = ISh | IBash | IPowershell | ICmd

definition buildLinuxShellCommand :: "interpreter \<Rightarrow> string \<Rightarrow> string" where
  "buildLinuxShellCommand interp command =
     shellJoin [if interp = IBash then ''/bin/bash'' else ''/bin/sh'', ''-lc'', command]"

definition buildWindowsShellCommand :: "interpreter \<Rightarrow> string \<Rightarrow> string" where
  "buildWindowsShellCommand interp command =
     (if interp = ICmd then ''cmd.exe /c '' @ json_quote command
      else ''powershell.exe -NoProfile -NonInteractive -Command '' @ json_quote command)"

fun winrm_transport_str :: "winrm_transport \<Rightarrow> string" where
  "winrm_transport_str WtDefault = ''DEFAULT''"
| "winrm_transport_str WtHttp = ''HTTP''"
| "winrm_transport_str WtHttps = ''HTTPS''"

definition buildPowerShellRemotingScript :: "string \<Rightarrow> winrm_profile \<Rightarrow> string \<Rightarrow> string" where
  "buildPowerShellRemotingScript host profile command =
     (let hasPassword = js_truthy (wp_password profile);
          credentialLines = (case js_or_undefined (wp_password profile) of
              Some pw \<Rightarrow> [''$securePassword = ConvertTo-SecureString '' @ json_quote pw @ '' -AsPlainText -Force'',
                 ''$credential = New-Object System.Management.Automation.PSCredential('' @
                   json_quote (wp_username profile) @ '', $securePassword)'']
            | None \<Rightarrow> [''$credential = $null'']);
          sessionOptions = (if wp_skipCertificateChecks profile
              then ''-SessionOption (New-PSSessionOption -SkipCACheck -SkipCNCheck)'' else []);
          credentialArgument = (if hasPassword then ''-Credential $credential'' else []);
          transportArgument = (if wp_transport profile = WtDefault then []
              else ''-'' @ winrm_transport_str (wp_transport profile));
          sslArgument = (if wp_useSsl profile then ''-UseSSL'' else [])
      in js_join ('';'' @ [CHR 0x0A]) (credentialLines @
           [''$result = Invoke-Command -ComputerName '' @ json_quote host @ '' '' @ credentialArgument @
              '' '' @ transportArgument @ '' '' @ sslArgument @ '' '' @ sessionOptions @
              '' -ScriptBlock { '' @ command @ '' } 2>&1 | Out-String'',
            ''Write-Output $result'']))"

lemma sh_words_buildLinuxShellCommand:
  "sh_words (buildLinuxShellCommand i command) =
     Some [if i = IBash then ''/bin/bash'' else ''/bin/sh'', ''-lc'', command]"
  by (simp only: buildLinuxShellCommand_def sh_words_shellJoin)

section \<open>PowerShell remoting\<close>

definition powerShellExec ::
    "world \<Rightarrow> runtime_config \<Rightarrow> string \<Rightarrow> string \<Rightarrow> string \<Rightarrow> ('b io_scheme, command_result) act" where
  "powerShellExec w config profileName host command =
     (case map_of (rt_winrmProfileMap config) profileName of
        None \<Rightarrow> raise (''Unknown WinRM profile: '' @ profileName)
      | Some profile \<Rightarrow>
          spawnA w (wp_powershellPath profile)
            [''-NoProfile'', ''-NonInteractive'', ''-Command'',
             buildPowerShellRemotingScript host profile command])"

lemma powerShellExec_grows [grows_rules]: "keeps trace_grows (powerShellExec w c p h cmd)"
  by (auto simp: powerShellExec_def intro!: grows_rules split: option.split)

section \<open>Host keys\<close>

text \<open>\<open>digest\<close> is the base64 SHA-256 of the key; the prefix is dropped whatever its case.\<close>

definition strip_sha256 :: "string \<Rightarrow> string" where
  "strip_sha256 s =
     (if js_startsWith (map canon_char s) ''SHA256:'' then drop 7 s else s)"

definition expectedKeyMatches :: "(buffer \<Rightarrow> string) \<Rightarrow> string option \<Rightarrow> buffer \<Rightarrow> bool" where
  "expectedKeyMatches digest expected hostKey =
     (case js_or_undefined expected of
        None \<Rightarrow> False
      | Some e \<Rightarrow> digest hostKey = js_trim (strip_sha256 e))"

definition hostVerifier :: "(buffer \<Rightarrow> string) \<Rightarrow> ssh_profile \<Rightarrow> buffer \<Rightarrow> bool" where
  "hostVerifier digest profile hostKey =
     (if sp_hostKeyPolicy profile = ''insecure'' \<or> sp_hostKeyPolicy profile = ''accept-new'' then True
      else expectedKeyMatches digest (sp_expectedHostKey profile) hostKey)"

section \<open>One SSH command\<close>

datatype ssh_event =
    SeError string
  | SeAbort
  | SeReady
  | SeExecError string
  | SeData string
  | SeStderr string
  | SeExit "int option" "string option"
  | SeClose

record ssh_run =
  sr_stdout :: string
  sr_stderr :: string
  sr_exitCode :: int
  sr_signal :: "string option"
  sr_ended :: nat
  sr_settled :: "command_result res option"

definition sshStart :: ssh_run where
  "sshStart = \<lparr>sr_stdout = [], sr_stderr = [], sr_exitCode = 0, sr_signal = None, sr_ended = 0, sr_settled = None\<rparr>"

definition sshSettle :: "command_result res \<Rightarrow> ssh_run \<Rightarrow> ssh_run" where
  "sshSettle r s =
     (case sr_settled s of Some _ \<Rightarrow> s | None \<Rightarrow> s\<lparr>sr_ended := sr_ended s + 1, sr_settled := Some r\<rparr>)"

text \<open>The handlers: \<open>fail\<close> and \<open>finish\<close> close the client and settle the promise once.\<close>

fun sshHandle :: "ssh_run \<Rightarrow> ssh_event \<Rightarrow> ssh_run" where
  "sshHandle s (SeError m) = sshSettle (Inl m) s"
| "sshHandle s SeAbort = sshSettle (Inl ''SSH command aborted'') s"
| "sshHandle s SeReady = s"
| "sshHandle s (SeExecError m) = sshSettle (Inl m) s"
| "sshHandle s (SeData t) = s\<lparr>sr_stdout := sr_stdout s @ t\<rparr>"
| "sshHandle s (SeStderr t) = s\<lparr>sr_stderr := sr_stderr s @ t\<rparr>"
| "sshHandle s (SeExit ec sig) =
     s\<lparr>sr_exitCode := (case ec of Some c \<Rightarrow> c | None \<Rightarrow> 0), sr_signal := sig\<rparr>"
| "sshHandle s SeClose =
     sshSettle (Inr \<lparr>cr_stdout = sr_stdout s, cr_stderr = sr_stderr s, cr_exitCode = sr_exitCode s,
       cr_signal = sr_signal s\<rparr>) s"

definition sshExec :: "ssh_event list \<Rightarrow> ssh_run" where
  "sshExec events = foldl sshHandle sshStart events"

lemma sshHandle_settled: "sr_settled s = Some r \<Longrightarrow> sr_settled (sshHandle s e) = Some r"
  by (cases e) (simp_all add: sshSettle_def)

lemma foldl_settled: "sr_settled s = Some r \<Longrightarrow> sr_settled (foldl sshHandle s es) = Some r"
  by (induction es arbitrary: s) (simp_all add: sshHandle_settled)

lemma foldl_ended:
  "sr_ended s = (case sr_settled s of None \<Rightarrow> 0 | Some _ \<Rightarrow> 1) \<Longrightarrow>
     sr_ended (foldl sshHandle s es) = (case sr_settled (foldl sshHandle s es) of None \<Rightarrow> 0 | Some _ \<Rightarrow> 1)"
proof (induction es arbitrary: s)
  case (Cons e es)
  have "sr_ended (sshHandle s e) = (case sr_settled (sshHandle s e) of None \<Rightarrow> 0 | Some _ \<Rightarrow> 1)"
    using Cons.prems by (cases e) (auto simp: sshSettle_def split: option.splits)
  then show ?case using Cons.IH by simp
qed simp

text \<open>The output that arrived before the stream closed, chunk by chunk.\<close>

fun stdout_of :: "ssh_event list \<Rightarrow> string" where
  "stdout_of [] = []"
| "stdout_of (SeData t # es) = t @ stdout_of es"
| "stdout_of (_ # es) = stdout_of es"

fun stderr_of :: "ssh_event list \<Rightarrow> string" where
  "stderr_of [] = []"
| "stderr_of (SeStderr t # es) = t @ stderr_of es"
| "stderr_of (_ # es) = stderr_of es"

definition quiet :: "ssh_event \<Rightarrow> bool" where
  "quiet e \<longleftrightarrow> (case e of SeReady \<Rightarrow> True | SeData t \<Rightarrow> True | SeStderr t \<Rightarrow> True | SeExit c g \<Rightarrow> True | _ \<Rightarrow> False)"

lemma foldl_quiet:
  "list_all quiet es \<Longrightarrow> sr_settled s = None \<Longrightarrow>
     sr_settled (foldl sshHandle s es) = None \<and>
     sr_stdout (foldl sshHandle s es) = sr_stdout s @ stdout_of es \<and>
     sr_stderr (foldl sshHandle s es) = sr_stderr s @ stderr_of es"
proof (induction es arbitrary: s)
  case (Cons e es)
  then show ?case by (cases e) (auto simp: quiet_def)
qed simp



end
