(* ===== verification/AuditLog.thy ===== *)
theory AuditLog
  imports State
begin

text \<open>
  \<open>AuditLogger.record\<close> of src/policy.ts: one line of JSON per action, with the secrets redacted,
  appended to the audit log; and the interface of an operation that is checked, then audited, and
  only then carried out.
\<close>

section \<open>The logger\<close>

definition auditLine :: "string \<Rightarrow> (string \<times> jsval) list \<Rightarrow> string" where
  "auditLine timestamp entry =
     JSON_stringify (case redactSecrets (JObj entry) of
         JObj ps \<Rightarrow> JObj (map_from_entries ((''timestamp'', JStr timestamp) # ps))
       | v \<Rightarrow> v) @ [CHR 0x0A]"

definition auditRecord :: "world \<Rightarrow> string \<Rightarrow> (string \<times> jsval) list \<Rightarrow> ('b io_scheme, unit) act" where
  "auditRecord w path entry =
     bindA (nowIsoA w) (\<lambda>ts. appendFileA w path (auditLine ts entry))"

definition target_json :: "target_ref \<Rightarrow> jsval" where
  "target_json t =
     JObj [(''cluster'', JStr (tg_cluster t)), (''kind'', JStr (kind_str (tg_kind t))),
           (''node'', of_str_opt (tg_node t)), (''vmid'', of_int_opt (tg_vmid t)),
           (''guestName'', of_str_opt (tg_guestName t))]"

lemma auditRecord_grows [grows_rules]: "keeps trace_grows (auditRecord w path entry)"
  by (simp add: auditRecord_def grows.keeps_bind io_grows)

lemma auditRecord_step [grows_rules]: "keeps svc_step (auditRecord w path entry)"
  by (simp add: auditRecord_def steps.keeps_bind io_step)

lemma auditRecord_event:
  "snd (auditRecord w path entry s) =
     s\<lparr>io_trace := io_trace s @ [EvAppend path (auditLine (w_nowIso w (io_trace s)) entry)]\<rparr>"
  by (simp add: auditRecord_def nowIsoA_def appendFileA_def interact_def)

text \<open>The line does not depend on the values of secret fields.\<close>

lemma auditLine_public:
  "public_eq (JObj e1) (JObj e2) \<Longrightarrow> auditLine ts e1 = auditLine ts e2"
  using public_eq_redact[of "JObj e1" "JObj e2"] by (simp only: auditLine_def)

text \<open>A record is one line: no value can smuggle a line break into the log.\<close>

fun floats_clean :: "jsval \<Rightarrow> bool" where
  "floats_clean (JFloat s) = (CHR 0x0A \<notin> set s)"
| "floats_clean (JArr vs) = list_all floats_clean vs"
| "floats_clean (JObj ps) = list_all (\<lambda>p. floats_clean (snd p)) ps"
| "floats_clean v = True"

lemma json_escape_no_newline: "CHR 0x0A \<notin> set (json_escape c)"
proof -
  have "c \<noteq> CHR 0x0A" if "of_char c \<noteq> (10::nat)"
    using that by auto
  moreover have "CHR 0x0A \<noteq> hex_digit n" if "n < 16" for n
    using that by (auto simp: hex_digit_def char_of_eq_iff take_bit_nat_eq_self dest: sym)
  ultimately show ?thesis
    by (auto simp: json_escape_def Let_def)
qed

lemma json_quote_no_newline: "CHR 0x0A \<notin> set (json_quote s)"
  using json_escape_no_newline by (auto simp: json_quote_def)

lemma nat_str_no_newline: "CHR 0x0A \<notin> set (nat_str n)"
proof -
  have "\<not> is_digit (CHR 0x0A)" by (simp add: is_digit_def)
  then show ?thesis using nat_str_digits[of "CHR 0x0A" n] by blast
qed

lemma int_str_no_newline: "CHR 0x0A \<notin> set (int_str i)"
  using nat_str_no_newline by (auto simp: int_str_def)

lemma jprint_no_newline:
  "gap = [] \<Longrightarrow> floats_clean v \<Longrightarrow> CHR 0x0A \<notin> set (jprint gap ind v)"
  "gap = [] \<Longrightarrow> list_all floats_clean vs \<Longrightarrow> CHR 0x0A \<notin> set (jprint_elems gap ind vs)"
  "gap = [] \<Longrightarrow> list_all (\<lambda>p. floats_clean (snd p)) ps \<Longrightarrow> CHR 0x0A \<notin> set (jprint_members gap ind ps)"
  by (induction gap ind v and gap ind vs and gap ind ps rule: jprint_jprint_elems_jprint_members.induct)
    (simp_all add: json_nl_def json_colon_def json_quote_no_newline int_str_no_newline Let_def)

lemma floats_clean_redact: "floats_clean v \<Longrightarrow> floats_clean (redactSecrets v)"
proof (induction v)
  case (JObj ps)
  have "floats_clean (redactSecrets (snd p))" if "p \<in> set ps" for p
    using JObj that by (cases p) (auto simp: list_all_iff)
  then show ?case by (auto simp: list_all_iff split: option.splits)
qed (auto simp: list_all_iff)

lemma map_from_entries_all:
  "list_all (\<lambda>p. P (snd p)) ps \<Longrightarrow> list_all (\<lambda>p. P (snd p)) (map_from_entries ps)"
proof -
  have "p \<in> set ps" if "p \<in> set (map_from_entries ps)" for p
    using map_of_is_SomeI[OF distinct_map_from_entries[of ps], of "fst p" "snd p"] that
      map_of_SomeD[of "rev ps" "fst p" "snd p"]
    by (simp add: map_of_map_from_entries)
  then show "list_all (\<lambda>p. P (snd p)) ps \<Longrightarrow> ?thesis" by (auto simp: list_all_iff)
qed

text \<open>
  C19. The audit log neither leaks nor breaks: the line of a record does not depend on the values of
  secret fields and ends with the only line break it contains, so that no request can forge a record.
\<close>

theorem audit_line_safe:
  assumes "public_eq (JObj e1) (JObj e2)" "floats_clean (JObj e1)"
  shows "auditLine ts e1 = auditLine ts e2 \<and>
    (\<exists>l. auditLine ts e1 = l @ [CHR 0x0A] \<and> CHR 0x0A \<notin> set l)"
proof -
  obtain ps where ps: "redactSecrets (JObj e1) = JObj ps" by simp
  then have "floats_clean (JObj ps)" using floats_clean_redact[OF assms(2)] by simp
  then have clean: "floats_clean (JObj (map_from_entries ((''timestamp'', JStr ts) # ps)))"
    by (simp add: map_from_entries_all)
  have "auditLine ts e1 = JSON_stringify (JObj (map_from_entries ((''timestamp'', JStr ts) # ps))) @ [CHR 0x0A]"
    by (simp only: auditLine_def ps jsval.case)
  then show ?thesis
    using auditLine_public[OF assms(1)] jprint_no_newline(1)[OF HOL.refl clean, of "[]"]
    by (metis JSON_stringify_def)
qed

theorem audit_line_safe_witness:
  "auditLine ''t'' [(''action'', JStr [CHR 0x0A]), (''apiToken'', JStr ''a'')] =
   auditLine ''t'' [(''action'', JStr [CHR 0x0A]), (''apiToken'', JStr ''b'')]"
proof -
  have "secret_key ''apiToken''" by code_simp
  then have "public_eq (JObj [(''action'', JStr [CHR 0x0A]), (''apiToken'', JStr ''a'')])
      (JObj [(''action'', JStr [CHR 0x0A]), (''apiToken'', JStr ''b'')])"
    by (intro public_eq.obj) (auto intro: public_eq.refl simp: long_content_def)
  then show ?thesis by (rule audit_line_safe[THEN conjunct1]) simp
qed

section \<open>Checked and audited operations\<close>

text \<open>
  The contract of the public operations of the service: a check on the current state, one audit
  record, then the body.  The body may do anything but shrink the trace.
\<close>

definition gated :: "world \<Rightarrow> ('b io_scheme \<Rightarrow> unit res) \<Rightarrow> ('b io_scheme \<Rightarrow> string) \<Rightarrow>
    ('b io_scheme \<Rightarrow> (string \<times> jsval) list) \<Rightarrow> ('b io_scheme, 'a) act \<Rightarrow> ('b io_scheme, 'a) act \<Rightarrow> bool" where
  "gated w check path entry body op \<longleftrightarrow>
     (\<forall>s. op s = (case check s of
        Inl e \<Rightarrow> (Inl e, s)
      | Inr u \<Rightarrow> seqA (auditRecord w (path s) (entry s)) body s))"

locale gated_op =
  fixes w :: world
    and check :: "'b io_scheme \<Rightarrow> unit res"
    and path :: "'b io_scheme \<Rightarrow> string"
    and entry :: "'b io_scheme \<Rightarrow> (string \<times> jsval) list"
    and body :: "('b io_scheme, 'a) act"
    and op :: "('b io_scheme, 'a) act"
  assumes op_gated: "gated w check path entry body op"
    and body_grows: "keeps trace_grows body"
begin

lemma denied: "check s = Inl e \<Longrightarrow> op s = (Inl e, s)"
  using op_gated by (simp add: gated_def)

lemma allowed: "check s = Inr u \<Longrightarrow> op s = seqA (auditRecord w (path s) (entry s)) body s"
  using op_gated by (simp add: gated_def)

text \<open>Any interaction with the outside was allowed, and the first one is the audit record.\<close>

lemma audit_first:
  "(snd (op s) = s \<and> (\<exists>e. check s = Inl e \<and> fst (op s) = Inl e)) \<or>
   (check s = Inr () \<and>
    (\<exists>rest. io_trace (snd (op s)) = io_trace s @
        EvAppend (path s) (auditLine (w_nowIso w (io_trace s)) (entry s)) # rest))"
proof (cases "check s")
  case (Inl e)
  then show ?thesis by (simp add: denied)
next
  case (Inr u)
  define s1 where "s1 = snd (auditRecord w (path s) (entry s) s)"
  have s1: "io_trace s1 = io_trace s @ [EvAppend (path s) (auditLine (w_nowIso w (io_trace s)) (entry s))]"
    by (simp add: s1_def auditRecord_event)
  have op: "op s = (case fst (auditRecord w (path s) (entry s) s) of
      Inl e \<Rightarrow> (Inl e, s1) | Inr u \<Rightarrow> body s1)"
    using allowed[OF Inr] by (simp add: seqA_def bindA_def s1_def split: prod.splits sum.splits)
  have "\<exists>es. io_trace (snd (op s)) = io_trace s1 @ es"
    using body_grows by (auto simp: op keeps_def trace_grows_def split: sum.splits)
  then show ?thesis using Inr s1 by auto
qed

end

end
