(* ===== verification/Wildcard.thy ===== *)
theory Wildcard
  imports Prelude
begin

text \<open>
  The selector patterns of the policy rules: \<open>wildcardToRegExp\<close> and \<open>matchesPattern\<close> of
  src/utils.ts.  The regular expression the code builds is compiled here to a token list and
  run by a backtracking matcher; the reference is the declarative relation \<open>glob\<close>.
\<close>

section \<open>The generated regular expression\<close>

text \<open>
  The code escapes the characters \<open>. + ^ $ { } ( ) | [ ] \\<close> and turns a star into \<open>.*\<close>; a question
  mark is not escaped and stays a quantifier of the regular expression: optional after a
  literal, the lazy modifier after a quantifier (the same language), and otherwise a
  \<open>SyntaxError\<close> of the \<open>RegExp\<close> constructor.
\<close>

datatype rtok = RLit char | ROpt char | RAny

definition regexp_error :: string where
  "regexp_error = ''Invalid regular expression: Nothing to repeat''"

fun regexp_tokens :: "bool \<Rightarrow> string \<Rightarrow> rtok list res" where
  "regexp_tokens lazy_ok [] = Inr []"
| "regexp_tokens lazy_ok (c # p) =
     (if c = CHR ''?'' then
        (if lazy_ok then regexp_tokens False p else Inl regexp_error)
      else if c = CHR ''*'' then
        rbind (regexp_tokens True p) (\<lambda>ts. Inr (RAny # ts))
      else (case p of
          [] \<Rightarrow> Inr [RLit c]
        | d # q \<Rightarrow>
            if d = CHR ''?'' then rbind (regexp_tokens True q) (\<lambda>ts. Inr (ROpt c # ts))
            else rbind (regexp_tokens False p) (\<lambda>ts. Inr (RLit c # ts))))"

definition wildcardToRegExp :: "string \<Rightarrow> rtok list res" where
  "wildcardToRegExp pattern = regexp_tokens False pattern"

text \<open>The dot of a regular expression excludes the line terminators.\<close>

definition is_newline :: "char \<Rightarrow> bool" where
  "is_newline c \<longleftrightarrow> c = CHR 0x0A \<or> c = CHR 0x0D"

fun regexp_test :: "rtok list \<Rightarrow> string \<Rightarrow> bool" where
  "regexp_test [] s = (s = [])"
| "regexp_test (RLit c # ts) s = (case s of [] \<Rightarrow> False | d # s' \<Rightarrow> char_ceq c d \<and> regexp_test ts s')"
| "regexp_test (ROpt c # ts) s =
     (regexp_test ts s \<or> (case s of [] \<Rightarrow> False | d # s' \<Rightarrow> char_ceq c d \<and> regexp_test ts s'))"
| "regexp_test (RAny # ts) s =
     (regexp_test ts s \<or>
      (case s of [] \<Rightarrow> False | d # s' \<Rightarrow> \<not> is_newline d \<and> regexp_test (RAny # ts) s'))"

text \<open>
  \<open>matchesPattern\<close>: no or empty patterns match everything, an undefined value is matched by a
  literal star only, and otherwise one pattern has to match (the constructor may throw).
\<close>

definition matchesPattern :: "string option \<Rightarrow> string list option \<Rightarrow> bool res" where
  "matchesPattern value patterns =
     (case patterns of
        None \<Rightarrow> Inr True
      | Some ps \<Rightarrow>
          if ps = [] then Inr True
          else (case value of
              None \<Rightarrow> Inr (''*'' \<in> set ps)
            | Some v \<Rightarrow> rsome (\<lambda>p. rbind (wildcardToRegExp p) (\<lambda>ts. Inr (regexp_test ts v))) ps))"

section \<open>The reference relation\<close>

inductive glob :: "string \<Rightarrow> string \<Rightarrow> bool" where
  Nil: "glob [] []"
| Lit: "c \<noteq> CHR ''*'' \<Longrightarrow> char_ceq c d \<Longrightarrow> glob p s \<Longrightarrow> glob (c # p) (d # s)"
| Star: "list_all (\<lambda>c. \<not> is_newline c) x \<Longrightarrow> glob p s \<Longrightarrow> glob (CHR ''*'' # p) (x @ s)"

inductive_simps glob_Nil [simp]: "glob [] s"
inductive_simps glob_Cons: "glob (c # p) s"

lemma glob_star_step:
  "glob (CHR ''*'' # p) s \<longleftrightarrow>
     glob p s \<or> (\<exists>d s'. s = d # s' \<and> \<not> is_newline d \<and> glob (CHR ''*'' # p) s')"
  (is "?L \<longleftrightarrow> ?R")
proof
  assume ?L
  then obtain x t where x: "s = x @ t" "list_all (\<lambda>c. \<not> is_newline c) x" "glob p t"
    by (auto simp: glob_Cons)
  show ?R
  proof (cases x)
    case Nil
    then show ?thesis using x by simp
  next
    case (Cons d x')
    then show ?thesis using x by (auto intro: glob.Star)
  qed
next
  assume ?R
  then show ?L
  proof
    assume "glob p s"
    then show ?L using glob.Star[of "[]" p s] by simp
  next
    assume "\<exists>d s'. s = d # s' \<and> \<not> is_newline d \<and> glob (CHR ''*'' # p) s'"
    then obtain d s' where d: "s = d # s'" "\<not> is_newline d" "glob (CHR ''*'' # p) s'"
      by blast
    from d(3) obtain x t where "s' = x @ t" "list_all (\<lambda>c. \<not> is_newline c) x" "glob p t"
      by (auto simp: glob_Cons)
    then show ?L using d glob.Star[of "d # x" p t] by simp
  qed
qed

lemma glob_lit_step:
  "c \<noteq> CHR ''*'' \<Longrightarrow> glob (c # p) s \<longleftrightarrow> (\<exists>d s'. s = d # s' \<and> char_ceq c d \<and> glob p s')"
  by (auto simp: glob_Cons)

lemma glob_code [code]:
  "glob [] s \<longleftrightarrow> s = []"
  "glob (c # p) s \<longleftrightarrow>
     (if c = CHR ''*'' then glob p s \<or> (case s of [] \<Rightarrow> False | d # s' \<Rightarrow> \<not> is_newline d \<and> glob (c # p) s')
      else (case s of [] \<Rightarrow> False | d # s' \<Rightarrow> char_ceq c d \<and> glob p s'))"
proof -
  show "glob [] s \<longleftrightarrow> s = []" by auto
  show "glob (c # p) s \<longleftrightarrow>
     (if c = CHR ''*'' then glob p s \<or> (case s of [] \<Rightarrow> False | d # s' \<Rightarrow> \<not> is_newline d \<and> glob (c # p) s')
      else (case s of [] \<Rightarrow> False | d # s' \<Rightarrow> char_ceq c d \<and> glob p s'))"
    by (cases "c = CHR ''*''"; cases s)
      (auto simp: glob_lit_step glob_star_step[of p "[]"] glob_star_step[of p "_ # _"])
qed

lemma regexp_test_any_iff:
  assumes "\<And>s. regexp_test ts s \<longleftrightarrow> glob p s"
  shows "regexp_test (RAny # ts) s \<longleftrightarrow> glob (CHR ''*'' # p) s"
proof (induction s)
  case Nil
  then show ?case by (subst glob_star_step) (simp add: assms)
next
  case (Cons d s)
  have "regexp_test (RAny # ts) (d # s) \<longleftrightarrow>
      regexp_test ts (d # s) \<or> \<not> is_newline d \<and> regexp_test (RAny # ts) s"
    by (simp del: regexp_test.simps add: regexp_test.simps(4)[of ts "d # s"])
  also have "\<dots> \<longleftrightarrow> glob (CHR ''*'' # p) (d # s)"
    unfolding Cons assms by (subst (2) glob_star_step) simp
  finally show ?case .
qed

lemma regexp_tokens_glob:
  "CHR ''?'' \<notin> set p \<Longrightarrow> \<exists>ts. regexp_tokens z p = Inr ts \<and> (\<forall>s. regexp_test ts s \<longleftrightarrow> glob p s)"
proof (induction p arbitrary: z)
  case Nil
  then show ?case by simp
next
  case (Cons c p)
  show ?case
  proof (cases "c = CHR ''*''")
    case True
    from Cons obtain ts where ts: "regexp_tokens True p = Inr ts" "\<forall>s. regexp_test ts s \<longleftrightarrow> glob p s"
      by fastforce
    then show ?thesis using Cons.prems True regexp_test_any_iff[of ts p] by auto
  next
    case False
    from Cons obtain ts where ts: "regexp_tokens False p = Inr ts" "\<forall>s. regexp_test ts s \<longleftrightarrow> glob p s"
      by fastforce
    then have "regexp_tokens z (c # p) = Inr (RLit c # ts)"
      using Cons.prems False by (cases p) auto
    moreover have "regexp_test (RLit c # ts) s \<longleftrightarrow> glob (c # p) s" for s
      using ts(2) False by (cases s) (auto simp: glob_lit_step)
    ultimately show ?thesis by blast
  qed
qed

lemma wildcardToRegExp_glob_ex:
  "CHR ''?'' \<notin> set p \<Longrightarrow> \<exists>ts. wildcardToRegExp p = Inr ts \<and> (\<forall>s. regexp_test ts s \<longleftrightarrow> glob p s)"
  by (simp add: wildcardToRegExp_def regexp_tokens_glob)

section \<open>Selectors\<close>

definition plain_pattern :: "string \<Rightarrow> bool" where
  "plain_pattern p \<longleftrightarrow> CHR ''?'' \<notin> set p"

lemma rsome_glob:
  assumes "list_all plain_pattern ps"
  shows "rsome (\<lambda>p. rbind (wildcardToRegExp p) (\<lambda>ts. Inr (regexp_test ts v))) ps
       = Inr (\<exists>p\<in>set ps. glob p v)"
proof -
  have "rbind (wildcardToRegExp p) (\<lambda>ts. Inr (regexp_test ts v)) = Inr (glob p v)" if "p \<in> set ps" for p
    using wildcardToRegExp_glob_ex[of p] that assms
    by (auto simp: plain_pattern_def list_all_iff)
  then show ?thesis by (simp add: rsome_total list_ex_iff)
qed

lemma matchesPattern_glob:
  assumes "list_all plain_pattern ps" "ps \<noteq> []"
  shows "matchesPattern (Some v) (Some ps) = Inr (\<exists>p\<in>set ps. glob p v)"
  using assms by (simp add: matchesPattern_def rsome_glob)

lemma matchesPattern_simps [simp]:
  "matchesPattern v None = Inr True"
  "matchesPattern v (Some []) = Inr True"
  by (simp_all add: matchesPattern_def)

lemma glob_star_all: "glob ''*'' v \<longleftrightarrow> list_all (\<lambda>c. \<not> is_newline c) v"
  by (auto simp: glob_Cons)

text \<open>A pattern without star matches exactly the strings equal up to case.\<close>

lemma glob_literal:
  "CHR ''*'' \<notin> set p \<Longrightarrow> glob p v \<longleftrightarrow> list_all2 char_ceq p v"
  by (induction p arbitrary: v) (auto simp: glob_lit_step list_all2_Cons1)

lemma glob_case_insensitive:
  "glob p s \<Longrightarrow> map canon_char s = map canon_char t \<Longrightarrow>
     list_all (\<lambda>c. \<not> is_newline c) t \<Longrightarrow> glob p t"
proof (induction arbitrary: t rule: glob.induct)
  case Nil
  then show ?case by simp
next
  case (Lit c d p s)
  then obtain e u where t: "t = e # u" "canon_char d = canon_char e"
      "map canon_char s = map canon_char u"
    by (auto simp: Cons_eq_map_conv)
  then show ?case using Lit by (auto intro!: glob.Lit simp: char_ceq_def)
next
  case (Star x p s)
  then have "map canon_char t = map canon_char x @ map canon_char s" by simp
  then obtain t1 t2 where t: "t = t1 @ t2" "map canon_char t1 = map canon_char x"
      "map canon_char t2 = map canon_char s"
    by (metis map_eq_append_conv)
  then show ?case using Star by (auto intro!: glob.Star)
qed

end
