(* ===== verification/Policy.thy ===== *)
theory Policy
  imports Types Wildcard
begin

text \<open>
  The policy engine of src/policy.ts: the fold that turns the configured rules into the effective
  policy of a target, and the assertions that the services call before every effect.  All of them
  may also throw the \<open>SyntaxError\<close> of a malformed selector.
\<close>

section \<open>Folding the rules\<close>

definition targetIdForPolicy :: "target_kind \<Rightarrow> string option \<Rightarrow> int option \<Rightarrow> string" where
  "targetIdForPolicy kind node vmid =
     (if kind = KNode then (case node of None \<Rightarrow> ''*'' | Some n \<Rightarrow> n)
      else (case vmid of Some v \<Rightarrow> int_str v | None \<Rightarrow> kind_str kind))"

definition defaultPolicy :: effective_policy where
  "defaultPolicy =
     \<lparr> ep_allowApiRead = True,
       ep_allowApiWrite = False,
       ep_allowCliFamilies = [],
       ep_allowRawCli = False,
       ep_allowShell = False,
       ep_allowFileRead = True,
       ep_allowFileWrite = False,
       ep_allowSudo = False,
       ep_maxTimeoutMs = 300000 \<rparr>"

definition matchesPolicy :: "policy_config \<Rightarrow> target_ref \<Rightarrow> bool res" where
  "matchesPolicy policy target =
     rand (matchesPattern (Some (tg_cluster target)) (pm_clusters (pc_match policy)))
    (rand (matchesPattern (Some (kind_str (tg_kind target))) (pm_targetKinds (pc_match policy)))
    (rand (matchesPattern
             (Some (targetIdForPolicy (tg_kind target) (tg_node target) (tg_vmid target)))
             (pm_targetIds (pc_match policy)))
          (matchesPattern (tg_node target) (pm_nodeNames (pc_match policy)))))"

definition applyPolicy :: "effective_policy \<Rightarrow> policy_config \<Rightarrow> effective_policy" where
  "applyPolicy current policy =
     \<lparr> ep_allowApiRead = pc_allowApiRead policy,
       ep_allowApiWrite = pc_allowApiWrite policy,
       ep_allowCliFamilies =
         set_spread (ep_allowCliFamilies current @ pc_allowCliFamilies policy),
       ep_allowRawCli = pc_allowRawCli policy,
       ep_allowShell = pc_allowShell policy,
       ep_allowFileRead = pc_allowFileRead policy,
       ep_allowFileWrite = pc_allowFileWrite policy,
       ep_allowSudo = pc_allowSudo policy,
       ep_maxTimeoutMs = pc_maxTimeoutMs policy \<rparr>"

fun foldPolicies :: "target_ref \<Rightarrow> effective_policy \<Rightarrow> policy_config list \<Rightarrow> effective_policy res" where
  "foldPolicies target current [] = Inr current"
| "foldPolicies target current (p # ps) =
     rbind (matchesPolicy p target)
       (\<lambda>m. foldPolicies target (if m then applyPolicy current p else current) ps)"

definition getPolicy :: "policy_config list \<Rightarrow> target_ref \<Rightarrow> effective_policy res" where
  "getPolicy policies target = foldPolicies target defaultPolicy policies"

section \<open>Assertions\<close>

definition clampTimeout :: "policy_config list \<Rightarrow> target_ref \<Rightarrow> int option \<Rightarrow> int \<Rightarrow> int res" where
  "clampTimeout policies target requested fallback =
     rbind (getPolicy policies target) (\<lambda>effective.
       let desired = (case requested of Some r \<Rightarrow> r | None \<Rightarrow> fallback)
       in Inr (min desired (ep_maxTimeoutMs effective)))"

definition on_target :: "target_ref \<Rightarrow> string" where
  "on_target target = '' for '' @ kind_str (tg_kind target) @ '' on cluster '' @ tg_cluster target"

definition assertApiAccess :: "policy_config list \<Rightarrow> target_ref \<Rightarrow> string \<Rightarrow> unit res" where
  "assertApiAccess policies target method =
     rbind (getPolicy policies target) (\<lambda>effective.
       let isRead = (js_toUpperCase method = ''GET'');
           allowed = (if isRead then ep_allowApiRead effective else ep_allowApiWrite effective)
       in if \<not> allowed
          then Inl (''Policy denies '' @ js_toUpperCase method @ '' access'' @ on_target target)
          else Inr ())"

definition assertCliAccess ::
    "policy_config list \<Rightarrow> target_ref \<Rightarrow> string \<Rightarrow> bool \<Rightarrow> unit res" where
  "assertCliAccess policies target family raw =
     rbind (getPolicy policies target) (\<lambda>effective.
       if family \<notin> set (ep_allowCliFamilies effective)
       then Inl (''Policy denies CLI family '' @ squoted family @ on_target target)
       else if raw \<and> \<not> ep_allowRawCli effective
       then Inl (''Policy denies raw CLI mode'' @ on_target target)
       else Inr ())"

definition assertShellAccess :: "policy_config list \<Rightarrow> target_ref \<Rightarrow> unit res" where
  "assertShellAccess policies target =
     rbind (getPolicy policies target) (\<lambda>effective.
       if \<not> ep_allowShell effective
       then Inl (''Policy denies shell access'' @ on_target target)
       else Inr ())"

datatype file_mode = FileRead | FileWrite

fun file_mode_str :: "file_mode \<Rightarrow> string" where
  "file_mode_str FileRead = ''read''"
| "file_mode_str FileWrite = ''write''"

definition assertFileAccess :: "policy_config list \<Rightarrow> target_ref \<Rightarrow> file_mode \<Rightarrow> unit res" where
  "assertFileAccess policies target mode =
     rbind (getPolicy policies target) (\<lambda>effective.
       let allowed = (if mode = FileRead then ep_allowFileRead effective
                      else ep_allowFileWrite effective)
       in if \<not> allowed
          then Inl (''Policy denies file '' @ file_mode_str mode @ '' access'' @ on_target target)
          else Inr ())"

definition assertSudoAccess :: "policy_config list \<Rightarrow> target_ref \<Rightarrow> unit res" where
  "assertSudoAccess policies target =
     rbind (getPolicy policies target) (\<lambda>effective.
       if \<not> ep_allowSudo effective
       then Inl (''Policy denies sudo access'' @ on_target target)
       else Inr ())"

section \<open>What a rule list means\<close>

text \<open>
  The declarative reading of a selector and of a rule list.  A rule list is well formed when no
  selector contains a question mark, the one character the pattern compiler leaves unescaped.
\<close>

definition selects :: "string list option \<Rightarrow> string option \<Rightarrow> bool" where
  "selects patterns value =
     (case patterns of
        None \<Rightarrow> True
      | Some ps \<Rightarrow> ps = [] \<or>
          (case value of None \<Rightarrow> ''*'' \<in> set ps | Some v \<Rightarrow> \<exists>p\<in>set ps. glob p v))"

definition applies :: "target_ref \<Rightarrow> policy_config \<Rightarrow> bool" where
  "applies t p \<longleftrightarrow>
     selects (pm_clusters (pc_match p)) (Some (tg_cluster t)) \<and>
     selects (pm_targetKinds (pc_match p)) (Some (kind_str (tg_kind t))) \<and>
     selects (pm_targetIds (pc_match p))
       (Some (targetIdForPolicy (tg_kind t) (tg_node t) (tg_vmid t))) \<and>
     selects (pm_nodeNames (pc_match p)) (tg_node t)"

definition plain_selector :: "string list option \<Rightarrow> bool" where
  "plain_selector sel = (case sel of None \<Rightarrow> True | Some ps \<Rightarrow> list_all plain_pattern ps)"

definition plain_policy :: "policy_config \<Rightarrow> bool" where
  "plain_policy p \<longleftrightarrow>
     plain_selector (pm_clusters (pc_match p)) \<and> plain_selector (pm_targetKinds (pc_match p)) \<and>
     plain_selector (pm_targetIds (pc_match p)) \<and> plain_selector (pm_nodeNames (pc_match p))"

text \<open>The last applicable rule decides, and the command families of all of them are allowed.\<close>

definition effective_spec :: "(policy_config \<Rightarrow> bool) \<Rightarrow> policy_config list \<Rightarrow> effective_policy" where
  "effective_spec rel ps =
     (let hits = filter rel ps in
      if hits = [] then defaultPolicy
      else (applyPolicy defaultPolicy (last hits))
             \<lparr>ep_allowCliFamilies := set_spread (concat (map pc_allowCliFamilies hits))\<rparr>)"

lemma matchesPattern_selects:
  "plain_selector sel \<Longrightarrow> matchesPattern v sel = Inr (selects sel v)"
  by (cases sel; cases v)
    (auto simp: plain_selector_def selects_def matchesPattern_def rsome_glob)

lemma matchesPolicy_applies: "plain_policy p \<Longrightarrow> matchesPolicy p t = Inr (applies t p)"
  by (simp add: matchesPolicy_def plain_policy_def applies_def matchesPattern_selects)

lemma effective_policy_eqI:
  "ep_allowApiRead a = ep_allowApiRead b \<Longrightarrow> ep_allowApiWrite a = ep_allowApiWrite b \<Longrightarrow>
   ep_allowCliFamilies a = ep_allowCliFamilies b \<Longrightarrow> ep_allowRawCli a = ep_allowRawCli b \<Longrightarrow>
   ep_allowShell a = ep_allowShell b \<Longrightarrow> ep_allowFileRead a = ep_allowFileRead b \<Longrightarrow>
   ep_allowFileWrite a = ep_allowFileWrite b \<Longrightarrow> ep_allowSudo a = ep_allowSudo b \<Longrightarrow>
   ep_maxTimeoutMs a = ep_maxTimeoutMs b \<Longrightarrow> (a::effective_policy) = b"
  by simp

lemma foldPolicies_snoc:
  "foldPolicies t e (ps @ [p]) =
     rbind (foldPolicies t e ps) (\<lambda>e'. rbind (matchesPolicy p t)
       (\<lambda>m. Inr (if m then applyPolicy e' p else e')))"
proof (induction ps arbitrary: e)
  case (Cons q ps)
  then show ?case by (cases "matchesPolicy q t") auto
qed simp

lemma effective_spec_snoc:
  "effective_spec rel (ps @ [p]) =
     (if rel p then applyPolicy (effective_spec rel ps) p else effective_spec rel ps)"
  by (rule effective_policy_eqI)
    (auto simp: effective_spec_def Let_def applyPolicy_def defaultPolicy_def)

lemma getPolicy_effective:
  "(\<And>p. p \<in> set ps \<Longrightarrow> matchesPolicy p t = Inr (rel p)) \<Longrightarrow>
     getPolicy ps t = Inr (effective_spec rel ps)"
proof (induction ps rule: rev_induct)
  case Nil
  then show ?case by (simp add: getPolicy_def effective_spec_def)
next
  case (snoc p ps)
  then show ?case by (simp add: getPolicy_def foldPolicies_snoc effective_spec_snoc)
qed

lemma getPolicy_plain: "list_all plain_policy ps \<Longrightarrow> getPolicy ps t = Inr (effective_spec (applies t) ps)"
  by (rule getPolicy_effective) (simp add: matchesPolicy_applies list_all_iff)

lemma effective_spec_last:
  "effective_spec rel (xs @ p # ys) = (applyPolicy (effective_spec rel xs) p)"
  if "rel p" "\<forall>q\<in>set ys. \<not> rel q"
  using that by (induction ys rule: rev_induct)
    (auto simp: effective_spec_snoc simp flip: append_assoc append_Cons simp del: append_assoc)

section \<open>Properties\<close>

lemma assertApiAccess_iff:
  "getPolicy ps t = Inr e \<Longrightarrow>
     assertApiAccess ps t m = Inr () \<longleftrightarrow>
       (if js_toUpperCase m = ''GET'' then ep_allowApiRead e else ep_allowApiWrite e)"
  by (simp add: assertApiAccess_def Let_def)

lemma assertCliAccess_iff:
  "getPolicy ps t = Inr e \<Longrightarrow>
     assertCliAccess ps t f raw = Inr () \<longleftrightarrow>
       f \<in> set (ep_allowCliFamilies e) \<and> (raw \<longrightarrow> ep_allowRawCli e)"
  by (simp add: assertCliAccess_def)

lemma assertShellAccess_iff:
  "getPolicy ps t = Inr e \<Longrightarrow> assertShellAccess ps t = Inr () \<longleftrightarrow> ep_allowShell e"
  by (simp add: assertShellAccess_def)

lemma assertFileAccess_iff:
  "getPolicy ps t = Inr e \<Longrightarrow>
     assertFileAccess ps t m = Inr () \<longleftrightarrow>
       (case m of FileRead \<Rightarrow> ep_allowFileRead e | FileWrite \<Rightarrow> ep_allowFileWrite e)"
  by (cases m) (simp_all add: assertFileAccess_def)

lemma assertSudoAccess_iff:
  "getPolicy ps t = Inr e \<Longrightarrow> assertSudoAccess ps t = Inr () \<longleftrightarrow> ep_allowSudo e"
  by (simp add: assertSudoAccess_def)

lemma clampTimeout_ceiling:
  "getPolicy ps t = Inr e \<Longrightarrow> clampTimeout ps t r fb = Inr n \<Longrightarrow> n \<le> ep_maxTimeoutMs e"
  by (auto simp: clampTimeout_def Let_def)

definition sample_read_rule :: policy_config where
  "sample_read_rule =
     \<lparr> pc_name = ''lab'', pc_match = \<lparr>pm_clusters = Some [''lab*''], pm_targetKinds = None,
         pm_targetIds = None, pm_nodeNames = None\<rparr>,
       pc_allowApiRead = True, pc_allowApiWrite = False, pc_allowCliFamilies = [''qm''],
       pc_allowRawCli = False, pc_allowShell = False, pc_allowFileRead = False,
       pc_allowFileWrite = False, pc_allowSudo = False, pc_maxTimeoutMs = 1000 \<rparr>"

definition sample_vm_rule :: policy_config where
  "sample_vm_rule = sample_read_rule
     \<lparr> pc_match := \<lparr>pm_clusters = None, pm_targetKinds = Some [''QEMU_VM''],
         pm_targetIds = Some [''1*''], pm_nodeNames = None\<rparr>,
       pc_allowApiWrite := True, pc_allowCliFamilies := [''pvesh'', ''qm''] \<rparr>"

definition sample_target :: target_ref where
  "sample_target = target_of ''lab1'' KQemuVm (Some ''pve'') (Some 101)"

text \<open>
  C3. The effective policy of a target is decided by the last rule whose selectors all match it
  (the deny-by-default baseline when none does), while the CLI families of every matching rule
  accumulate; the selectors are read as case-insensitive globs.  The rules may not contain the
  question mark that the pattern compiler leaves unescaped.
\<close>

theorem getPolicy_last_rule_decides:
  assumes "list_all plain_policy ps"
  shows "getPolicy ps t = Inr (effective_spec (applies t) ps)"
  using assms by (rule getPolicy_plain)

theorem getPolicy_last_rule_decides_witness:
  "getPolicy [sample_vm_rule, sample_read_rule] sample_target
     = Inr (effective_spec (applies sample_target) [sample_vm_rule, sample_read_rule])"
  by (rule getPolicy_last_rule_decides) code_simp

text \<open>
  Deny by default: a target that no rule selects may be read over the API and nothing else;
  a mutating request, every CLI family, the shell, sudo and file writes are all refused.
\<close>

lemma unmatched_target_read_only:
  assumes "list_all plain_policy ps" and "\<not> list_ex (applies t) ps"
    and "js_toUpperCase m \<noteq> ''GET''"
  shows "assertApiAccess ps t ''GET'' = Inr () \<and> assertFileAccess ps t FileRead = Inr () \<and>
    \<not> is_ok (assertApiAccess ps t m) \<and> \<not> is_ok (assertCliAccess ps t family raw) \<and>
    \<not> is_ok (assertShellAccess ps t) \<and> \<not> is_ok (assertSudoAccess ps t) \<and>
    \<not> is_ok (assertFileAccess ps t FileWrite)"
proof -
  have "filter (applies t) ps = []"
    using assms(2) by (simp add: filter_empty_conv list_ex_iff)
  then have pol: "getPolicy ps t = Inr defaultPolicy"
    using getPolicy_plain[OF assms(1), of t] by (simp add: effective_spec_def)
  have get: "js_toUpperCase ''GET'' = ''GET''" by code_simp
  show ?thesis
    using get assms(3) by (simp add: pol assertApiAccess_def assertCliAccess_def assertShellAccess_def
        assertSudoAccess_def assertFileAccess_def defaultPolicy_def Let_def)
qed

end
