(* ===== verification/Config.thy ===== *)
theory Config
  imports Utils Policy
begin

text \<open>
  src/config.ts: reading the environment, the default policies, the checks of \<open>loadConfig\<close> and the
  lookup maps.  The environment is a function from variable names; the schema library that
  validates the assembled object is a parameter of \<open>loadConfig\<close>.
\<close>

section \<open>Lookup maps\<close>

definition index_by_name :: "('a \<Rightarrow> string) \<Rightarrow> 'a list \<Rightarrow> (string, 'a) omap" where
  "index_by_name name xs = map_from_entries (map (\<lambda>x. (name x, x)) xs)"

definition index_positions :: "('a \<Rightarrow> string) \<Rightarrow> 'a list \<Rightarrow> (string, nat) omap" where
  "index_positions name xs = map_from_entries (zip (map name xs) [0..<length xs])"

definition refreshRuntimeIndexes :: "runtime_config \<Rightarrow> runtime_config" where
  "refreshRuntimeIndexes config = config
     \<lparr> rt_clusterMap := index_positions cl_name (sc_clusters config),
       rt_sshProfileMap := index_by_name sp_name (sc_sshProfiles config),
       rt_winrmProfileMap := index_by_name wp_name (sc_winrmProfiles config) \<rparr>"

section \<open>Environment values\<close>

type_synonym env = "string \<Rightarrow> string option"

definition env_trim :: "env \<Rightarrow> string \<Rightarrow> string option" where
  "env_trim env n = map_option js_trim (env n)"

definition parseOptionalPositiveInt :: "string option \<Rightarrow> int option res" where
  "parseOptionalPositiveInt value =
     (case value of
        None \<Rightarrow> Inr None
      | Some v \<Rightarrow>
          if js_trim v = [] then Inr None
          else (case parseInt10 v of
              Some n \<Rightarrow> if n \<le> 0 then Inl (''Expected a positive integer, received '' @ squoted v) else Inr (Some n)
            | None \<Rightarrow> Inl (''Expected a positive integer, received '' @ squoted v)))"

definition parseOptionalBoolean :: "string option \<Rightarrow> bool option" where
  "parseOptionalBoolean value =
     (case value of
        None \<Rightarrow> None
      | Some v \<Rightarrow> if js_trim v = [] then None
          else Some (js_toLowerCase v \<in> set [''1'', ''true'', ''yes'', ''on'']))"

definition default_to :: "'a \<Rightarrow> 'a option \<Rightarrow> 'a" where
  "default_to d v = (case v of None \<Rightarrow> d | Some x \<Rightarrow> x)"

lemma default_to_simps [simp]: "default_to d None = d" "default_to d (Some x) = x"
  by (simp_all add: default_to_def)

section \<open>Policies by default\<close>

definition maintainer_families :: "string list" where
  "maintainer_families = [''pvesh'', ''qm'', ''pct'', ''pvesm'', ''pveum'', ''pvenode'', ''pvecm'',
     ''pveceph'', ''pvesr'', ''vzdump'', ''apt'']"

definition match_all_targets :: policy_match where
  "match_all_targets =
     \<lparr> pm_clusters = Some [''*''],
       pm_targetKinds = Some [''cluster'', ''node'', ''qemu_vm'', ''lxc_container'', ''linux_guest'', ''windows_guest''],
       pm_targetIds = None, pm_nodeNames = None \<rparr>"

definition defaultAdminPolicy :: policy_config where
  "defaultAdminPolicy =
     \<lparr> pc_name = ''default-maintainer'', pc_match = match_all_targets,
       pc_allowApiRead = True, pc_allowApiWrite = True, pc_allowCliFamilies = maintainer_families,
       pc_allowRawCli = False, pc_allowShell = True, pc_allowFileRead = True,
       pc_allowFileWrite = True, pc_allowSudo = True, pc_maxTimeoutMs = 300000 \<rparr>"

definition defaultProductionPolicy :: policy_config where
  "defaultProductionPolicy =
     \<lparr> pc_name = ''default-production'', pc_match = match_all_targets,
       pc_allowApiRead = True, pc_allowApiWrite = True, pc_allowCliFamilies = [],
       pc_allowRawCli = False, pc_allowShell = False, pc_allowFileRead = False,
       pc_allowFileWrite = False, pc_allowSudo = False, pc_maxTimeoutMs = 300000 \<rparr>"

definition buildPolicyDefaults :: "'b server_config_scheme \<Rightarrow> policy_config list" where
  "buildPolicyDefaults config =
     (if sc_policies config \<noteq> [] then sc_policies config
      else if sc_mode config = ''stdio'' \<and> sc_mcpAuth config = McpNone \<and>
              lb_enabled (sc_localBootstrap config)
      then [defaultAdminPolicy]
      else if sc_escapeEnabled config
      then [defaultProductionPolicy
              \<lparr> pc_name := ''default-production-with-escape'',
                pc_allowCliFamilies := pc_allowCliFamilies defaultAdminPolicy,
                pc_allowShell := True, pc_allowFileRead := True, pc_allowFileWrite := True,
                pc_allowSudo := True \<rparr>]
      else [defaultProductionPolicy])"

definition applyRuntimeDefaults :: "server_config \<Rightarrow> server_config" where
  "applyRuntimeDefaults config = config\<lparr> sc_policies := buildPolicyDefaults config \<rparr>"

section \<open>The environment-only configuration\<close>

definition runtimeShellProfileName :: "string \<Rightarrow> string" where
  "runtimeShellProfileName clusterName = ''__runtime_shell_'' @ clusterName"

definition env_secretStore :: "env \<Rightarrow> secret_store_config" where
  "env_secretStore env =
     (let t = default_to ''env'' (env_trim env ''PROXMOX_MCP_SECRET_BACKEND'') in
      if t = ''file''
      then StoreFile (js_or (env_trim env ''PROXMOX_MCP_SECRET_FILE_PATH'') ''.proxmox-mcp-secrets.json'')
      else if t = ''vault''
      then StoreVault
        \<lparr> va_address = js_or (env_trim env ''PROXMOX_MCP_SECRET_VAULT_ADDR'') [],
          va_path = js_or (env_trim env ''PROXMOX_MCP_SECRET_VAULT_PATH'') ''secret/proxmox-mcp'',
          va_token = env ''PROXMOX_MCP_SECRET_VAULT_TOKEN'',
          va_tokenEnvVar = js_or (env_trim env ''PROXMOX_MCP_SECRET_VAULT_TOKEN_ENV'') ''VAULT_TOKEN'',
          va_namespace = js_or_undefined (env_trim env ''PROXMOX_MCP_SECRET_VAULT_NAMESPACE''),
          va_kvVersion = default_to ''v2'' (env_trim env ''PROXMOX_MCP_SECRET_VAULT_KV_VERSION'') \<rparr>
      else StoreEnv)"

definition env_localBootstrap :: "env \<Rightarrow> bool \<Rightarrow> int \<Rightarrow> local_bootstrap" where
  "env_localBootstrap env enabled sshPort =
     \<lparr> lb_enabled = enabled,
       lb_sshUsername = (case js_or_undefined (env_trim env ''PROXMOX_BOOTSTRAP_SSH_USERNAME'') of
           Some u \<Rightarrow> Some u | None \<Rightarrow> js_or_undefined (env_trim env ''PROXMOX_SSH_USERNAME'')),
       lb_sshPassword = (case env ''PROXMOX_BOOTSTRAP_SSH_PASSWORD'' of
           Some p \<Rightarrow> Some p | None \<Rightarrow> env ''PROXMOX_SSH_PASSWORD''),
       lb_sshPort = sshPort,
       lb_hostKeyPolicy = default_to ''strict'' (env_trim env ''PROXMOX_BOOTSTRAP_HOST_KEY_POLICY''),
       lb_expectedHostKey = js_or_undefined (env_trim env ''PROXMOX_BOOTSTRAP_EXPECTED_HOST_KEY''),
       lb_apiUser = js_or (env_trim env ''PROXMOX_BOOTSTRAP_API_USER'') ''root'',
       lb_apiRealm = js_or (env_trim env ''PROXMOX_BOOTSTRAP_API_REALM'') ''pam'',
       lb_tokenId = js_or (env_trim env ''PROXMOX_BOOTSTRAP_TOKEN_ID'') ''proxmox-mcp'',
       lb_comment = js_or (env_trim env ''PROXMOX_BOOTSTRAP_COMMENT'') ''proxmox-mcp local bootstrap'',
       lb_privsep = default_to False (parseOptionalBoolean (env ''PROXMOX_BOOTSTRAP_PRIVSEP'')) \<rparr>"

definition env_mcpAuth :: "env \<Rightarrow> string \<Rightarrow> mcp_auth" where
  "env_mcpAuth env authMode =
     (if authMode = ''oidc''
      then McpOidc
        \<lparr> oi_issuer = js_or (env_trim env ''PROXMOX_MCP_OIDC_ISSUER'') [],
          oi_audience = js_or (env_trim env ''PROXMOX_MCP_OIDC_AUDIENCE'') [],
          oi_jwksUrl = js_or_undefined (env_trim env ''PROXMOX_MCP_OIDC_JWKS_URL''),
          oi_resource = js_or_undefined (env_trim env ''PROXMOX_MCP_OIDC_RESOURCE'') \<rparr>
      else McpNone)"

definition env_clusterAuth :: "local_bootstrap \<Rightarrow> string \<Rightarrow> cluster_auth" where
  "env_clusterAuth lb clusterName =
     (if lb_enabled lb
      then SshBootstrap
        \<lparr> sb_sshUsername = default_to [] (lb_sshUsername lb),
          sb_sshPassword = default_to [] (lb_sshPassword lb),
          sb_sshPort = lb_sshPort lb, sb_hostKeyPolicy = lb_hostKeyPolicy lb,
          sb_expectedHostKey = lb_expectedHostKey lb, sb_apiUser = lb_apiUser lb,
          sb_apiRealm = lb_apiRealm lb, sb_tokenId = lb_tokenId lb, sb_comment = lb_comment lb,
          sb_privsep = lb_privsep lb \<rparr>
      else SecretRef (Some clusterName))"

definition env_cluster :: "env \<Rightarrow> string \<Rightarrow> int \<Rightarrow> int \<Rightarrow> local_bootstrap \<Rightarrow> cluster_config" where
  "env_cluster env host apiPort sshPort lb =
     (let defaultNode = js_or_undefined (env_trim env ''PROXMOX_DEFAULT_NODE'');
          clusterName = ''default''
      in \<lparr> cl_name = clusterName, cl_host = host, cl_apiPort = apiPort, cl_sshPort = sshPort,
           cl_defaultNode = defaultNode,
           cl_defaultBridge = js_or (env_trim env ''PROXMOX_DEFAULT_BRIDGE'') ''vmbr0'',
           cl_defaultVmStorage = js_or_undefined (env_trim env ''PROXMOX_DEFAULT_VM_STORAGE''),
           cl_defaultSnippetStorage = js_or (env_trim env ''PROXMOX_DEFAULT_SNIPPET_STORAGE'') ''local'',
           cl_apiUrl = ''https://'' @ host @ '':'' @ int_str apiPort,
           cl_auth = env_clusterAuth lb clusterName,
           cl_tls = \<lparr> tls_rejectUnauthorized =
               default_to False (parseOptionalBoolean (env ''PROXMOX_TLS_REJECT_UNAUTHORIZED'')),
             tls_caFile = js_or_undefined (env_trim env ''PROXMOX_TLS_CA_FILE'') \<rparr>,
           cl_nodes = (case defaultNode of
               Some n \<Rightarrow> [\<lparr>cn_name = n, cn_host = host, cn_port = sshPort,
                  cn_sshProfile = runtimeShellProfileName clusterName\<rparr>]
             | None \<Rightarrow> []) \<rparr>)"

text \<open>\<open>devNull\<close> is the null device of the platform.\<close>

definition buildEnvOnlyConfig :: "string \<Rightarrow> env \<Rightarrow> server_config option res" where
  "buildEnvOnlyConfig devNull env =
     (case env_trim env ''PROXMOX_HOST'' of
        None \<Rightarrow> Inr None
      | Some host \<Rightarrow>
          if host = [] then Inr None
          else
            let mode = default_to ''stdio'' (env_trim env ''PROXMOX_MCP_MODE'');
                authMode = default_to ''none'' (env_trim env ''PROXMOX_MCP_AUTH_MODE'') in
            rbind (parseOptionalPositiveInt (env ''PROXMOX_API_PORT'')) (\<lambda>apiPort.
            rbind (parseOptionalPositiveInt (env ''PROXMOX_SSH_PORT'')) (\<lambda>sshPort.
            rbind (parseOptionalPositiveInt (env ''PROXMOX_MCP_HTTP_PORT'')) (\<lambda>httpPort.
            let enabled = default_to False (parseOptionalBoolean (env ''PROXMOX_MCP_LOCAL_BOOTSTRAP''));
                isLocalDevMode = (mode = ''stdio'' \<and> authMode = ''none'');
                escapeEnabled = default_to (isLocalDevMode \<and> enabled)
                  (parseOptionalBoolean (env ''PROXMOX_MCP_ENABLE_ESCAPE''));
                lb = env_localBootstrap env enabled (default_to 22 sshPort)
            in Inr (Some
              \<lparr> sc_mode = mode, sc_mcpAuth = env_mcpAuth env authMode,
                sc_http =
                  \<lparr> hc_host = js_or (env_trim env ''PROXMOX_MCP_HTTP_HOST'') ''127.0.0.1'',
                    hc_port = default_to 8080 httpPort,
                    hc_path = js_or (env_trim env ''PROXMOX_MCP_HTTP_PATH'') ''/mcp'',
                    hc_publicBaseUrl = js_or_undefined (env_trim env ''PROXMOX_MCP_HTTP_PUBLIC_BASE_URL''),
                    hc_stateless = default_to False (parseOptionalBoolean (env ''PROXMOX_MCP_HTTP_STATELESS'')) \<rparr>,
                sc_secretStore = env_secretStore env, sc_localBootstrap = lb,
                sc_escapeEnabled = escapeEnabled,
                sc_clusters = [env_cluster env host (default_to 8006 apiPort) (default_to 22 sshPort) lb],
                sc_sshProfiles = [], sc_winrmProfiles = [], sc_linuxGuests = [], sc_windowsGuests = [],
                sc_policies = [],
                sc_auditLogPath = js_or (env_trim env ''PROXMOX_MCP_AUDIT_LOG_PATH'')
                  (if isLocalDevMode then devNull else ''.proxmox-mcp-audit.log''),
                sc_inventoryCacheTtlMs = 15000, sc_defaultTimeoutMs = 60000 \<rparr>)))))"

section \<open>Loading\<close>

definition checkHydrated :: "server_config \<Rightarrow> unit res" where
  "checkHydrated hydrated =
     (if sc_mode hydrated \<noteq> ''stdio'' \<and> sc_mcpAuth hydrated = McpNone
      then Inl ''HTTP mode requires PROXMOX_MCP_AUTH_MODE=oidc or explicit local stdio-only mode.''
      else if (case sc_mcpAuth hydrated of McpOidc oa \<Rightarrow> oi_issuer oa = [] \<or> oi_audience oa = [] | McpNone \<Rightarrow> False)
      then Inl ''OIDC auth requires PROXMOX_MCP_OIDC_ISSUER and PROXMOX_MCP_OIDC_AUDIENCE.''
      else if (case sc_secretStore hydrated of StoreVault v \<Rightarrow> va_address v = [] | _ \<Rightarrow> False)
      then Inl ''Vault secret backend requires PROXMOX_MCP_SECRET_VAULT_ADDR.''
      else if lb_enabled (sc_localBootstrap hydrated) \<and>
              (\<not> js_truthy (lb_sshUsername (sc_localBootstrap hydrated)) \<or>
               \<not> js_truthy (lb_sshPassword (sc_localBootstrap hydrated)))
      then Inl ''Local bootstrap mode requires PROXMOX_BOOTSTRAP_SSH_USERNAME/PROXMOX_BOOTSTRAP_SSH_PASSWORD or legacy PROXMOX_SSH_USERNAME/PROXMOX_SSH_PASSWORD.''
      else Inr ())"

definition to_runtime :: "server_config \<Rightarrow> runtime_config" where
  "to_runtime c = server_config.extend c
     (runtime_config.fields ''[env]'' [] [] [])"

definition loadConfig :: "(server_config \<Rightarrow> server_config res) \<Rightarrow> string \<Rightarrow> env \<Rightarrow> runtime_config res" where
  "loadConfig schema_parse devNull env =
     rbind (buildEnvOnlyConfig devNull env) (\<lambda>envOnlyConfig.
     (case envOnlyConfig of
        None \<Rightarrow> Inl ''Missing required MCP env config. Set PROXMOX_HOST and choose either steady-state secrets (for example PROXMOX_API_TOKEN_*) or explicit local bootstrap envs in your client config.''
      | Some c \<Rightarrow>
          rbind (schema_parse c) (\<lambda>parsed.
          let hydrated = applyRuntimeDefaults parsed in
          rbind (checkHydrated hydrated) (\<lambda>_.
          Inr (refreshRuntimeIndexes (to_runtime hydrated))))))"

text \<open>The refinement and the transformation that the cluster schema declares.\<close>

definition clusterIssues :: "raw_cluster \<Rightarrow> string list" where
  "clusterIssues c =
     (if \<not> js_truthy (rc_apiUrl c) \<and> \<not> js_truthy (rc_host c)
      then [''Cluster config must include either apiUrl or host''] else []) @
     concat (map (\<lambda>n. if \<not> js_truthy (rn_host n) \<and> \<not> js_truthy (rc_host c)
        then [''Node host is required when cluster host is not set''] else []) (rc_nodes c))"

text \<open>\<open>hostname\<close> is the host part of a URL, as the \<open>URL\<close> class computes it.\<close>

definition clusterTransform :: "(string \<Rightarrow> string) \<Rightarrow> raw_cluster \<Rightarrow> cluster_config" where
  "clusterTransform hostname c =
     (let derivedHost = (case rc_host c of Some h \<Rightarrow> Some h
            | None \<Rightarrow> map_option hostname (js_or_undefined (rc_apiUrl c)));
          apiUrl = default_to
            (''https://'' @ default_to ''undefined'' derivedHost @ '':'' @ int_str (rc_apiPort c)) (rc_apiUrl c)
      in \<lparr> cl_name = rc_name c, cl_host = default_to [] derivedHost, cl_apiPort = rc_apiPort c,
           cl_sshPort = rc_sshPort c, cl_defaultNode = rc_defaultNode c,
           cl_defaultBridge = rc_defaultBridge c, cl_defaultVmStorage = rc_defaultVmStorage c,
           cl_defaultSnippetStorage = rc_defaultSnippetStorage c, cl_apiUrl = apiUrl,
           cl_auth = rc_auth c, cl_tls = rc_tls c,
           cl_nodes = map (\<lambda>n. \<lparr> cn_name = rn_name n,
              cn_host = default_to (default_to [] derivedHost) (rn_host n),
              cn_port = default_to (rc_sshPort c) (rn_port n),
              cn_sshProfile = rn_sshProfile n \<rparr>) (rc_nodes c) \<rparr>)"

section \<open>Properties\<close>

lemma map_of_index_by_name:
  "map_of (index_by_name name xs) k = map_of (rev (map (\<lambda>x. (name x, x)) xs)) k"
  by (simp add: index_by_name_def map_of_map_from_entries rev_map)

lemma index_by_name_Some:
  "map_of (index_by_name name xs) k = Some x \<Longrightarrow> x \<in> set xs \<and> name x = k"
  by (auto simp: map_of_index_by_name dest!: map_of_SomeD)

lemma index_by_name_None_iff:
  "map_of (index_by_name name xs) k = None \<longleftrightarrow> k \<notin> name ` set xs"
  by (auto simp: map_of_index_by_name map_of_eq_None_iff image_iff)

lemma index_positions_Some:
  "map_of (index_positions name xs) k = Some i \<Longrightarrow> i < length xs \<and> name (xs ! i) = k"
  by (auto simp: index_positions_def map_of_map_from_entries in_set_zip dest!: map_of_SomeD)

lemma index_positions_None_iff:
  "map_of (index_positions name xs) k = None \<longleftrightarrow> k \<notin> name ` set xs"
proof -
  have "fst ` set (zip (map name xs) [0..<length xs]) = name ` set xs"
    by (metis length_map length_upt list.set_map map_fst_zip diff_zero)
  then show ?thesis
    by (simp add: index_positions_def map_of_map_from_entries map_of_eq_None_iff)
qed

text \<open>The lookup maps agree with the lists they index.\<close>

definition indexed :: "runtime_config \<Rightarrow> bool" where
  "indexed c \<longleftrightarrow>
     (\<forall>k i. map_of (rt_clusterMap c) k = Some i \<longrightarrow>
        i < length (sc_clusters c) \<and> cl_name (sc_clusters c ! i) = k) \<and>
     (\<forall>cl\<in>set (sc_clusters c). map_of (rt_clusterMap c) (cl_name cl) \<noteq> None) \<and>
     (\<forall>k p. map_of (rt_sshProfileMap c) k = Some p \<longrightarrow> p \<in> set (sc_sshProfiles c) \<and> sp_name p = k) \<and>
     (\<forall>p\<in>set (sc_sshProfiles c). map_of (rt_sshProfileMap c) (sp_name p) \<noteq> None) \<and>
     (\<forall>k p. map_of (rt_winrmProfileMap c) k = Some p \<longrightarrow> p \<in> set (sc_winrmProfiles c) \<and> wp_name p = k)"

lemma indexed_refresh: "indexed (refreshRuntimeIndexes c)"
  unfolding indexed_def
proof (intro conjI allI ballI impI)
  fix k i assume "map_of (rt_clusterMap (refreshRuntimeIndexes c)) k = Some i"
  then show "i < length (sc_clusters (refreshRuntimeIndexes c))"
    and "cl_name (sc_clusters (refreshRuntimeIndexes c) ! i) = k"
    using index_positions_Some by (fastforce simp: refreshRuntimeIndexes_def)+
next
  fix cl assume "cl \<in> set (sc_clusters (refreshRuntimeIndexes c))"
  then show "map_of (rt_clusterMap (refreshRuntimeIndexes c)) (cl_name cl) \<noteq> None"
    using index_positions_None_iff[of cl_name "sc_clusters c" "cl_name cl"]
    by (simp add: refreshRuntimeIndexes_def)
next
  fix k p assume "map_of (rt_sshProfileMap (refreshRuntimeIndexes c)) k = Some p"
  then show "p \<in> set (sc_sshProfiles (refreshRuntimeIndexes c))" and "sp_name p = k"
    using index_by_name_Some[of sp_name "sc_sshProfiles c" k p] by (simp_all add: refreshRuntimeIndexes_def)
next
  fix p assume "p \<in> set (sc_sshProfiles (refreshRuntimeIndexes c))"
  then show "map_of (rt_sshProfileMap (refreshRuntimeIndexes c)) (sp_name p) \<noteq> None"
    using index_by_name_None_iff[of sp_name "sc_sshProfiles c" "sp_name p"]
    by (simp add: refreshRuntimeIndexes_def)
next
  fix k p assume "map_of (rt_winrmProfileMap (refreshRuntimeIndexes c)) k = Some p"
  then show "p \<in> set (sc_winrmProfiles (refreshRuntimeIndexes c))" and "wp_name p = k"
    using index_by_name_Some[of wp_name "sc_winrmProfiles c" k p] by (simp_all add: refreshRuntimeIndexes_def)
qed

lemma to_runtime_simps [simp]:
  "sc_mode (to_runtime c) = sc_mode c" "sc_mcpAuth (to_runtime c) = sc_mcpAuth c"
  "sc_secretStore (to_runtime c) = sc_secretStore c" "sc_localBootstrap (to_runtime c) = sc_localBootstrap c"
  "sc_policies (to_runtime c) = sc_policies c"
  by (simp_all add: to_runtime_def server_config.defs runtime_config.defs)

lemma refresh_simps [simp]:
  "sc_mode (refreshRuntimeIndexes r) = sc_mode r" "sc_mcpAuth (refreshRuntimeIndexes r) = sc_mcpAuth r"
  "sc_secretStore (refreshRuntimeIndexes r) = sc_secretStore r"
  "sc_localBootstrap (refreshRuntimeIndexes r) = sc_localBootstrap r"
  "sc_policies (refreshRuntimeIndexes r) = sc_policies r"
  "sc_clusters (refreshRuntimeIndexes r) = sc_clusters r"
  "sc_sshProfiles (refreshRuntimeIndexes r) = sc_sshProfiles r"
  by (simp_all add: refreshRuntimeIndexes_def)

lemma buildPolicyDefaults_ne: "buildPolicyDefaults c \<noteq> []"
  by (simp add: buildPolicyDefaults_def)


definition sample_env :: env where
  "sample_env n =
     (if n = ''PROXMOX_HOST'' then Some '' pve.lab ''
      else if n = ''PROXMOX_MCP_MODE'' then Some ''http''
      else if n = ''PROXMOX_MCP_AUTH_MODE'' then Some ''oidc''
      else if n = ''PROXMOX_MCP_OIDC_ISSUER'' then Some ''https://idp''
      else if n = ''PROXMOX_MCP_OIDC_AUDIENCE'' then Some ''mcp''
      else None)"

lemma sample_load:
  "\<exists>c. loadConfig Inr ''/dev/null'' sample_env = Inr c \<and> sc_mode c = ''http'' \<and> \<not> sc_escapeEnabled c"
  by (simp add: loadConfig_def buildEnvOnlyConfig_def env_trim_def sample_env_def js_trim_def js_space_def
      parseOptionalPositiveInt_def parseOptionalBoolean_def Let_def checkHydrated_def applyRuntimeDefaults_def
      env_mcpAuth_def env_secretStore_def env_localBootstrap_def js_or_def default_to_def
      refreshRuntimeIndexes_def to_runtime_def server_config.defs runtime_config.defs)


lemma default_policies_plain:
  "sc_policies c = [] \<Longrightarrow> list_all plain_policy (buildPolicyDefaults c)"
  by (auto simp: buildPolicyDefaults_def plain_policy_def plain_selector_def plain_pattern_def
      defaultAdminPolicy_def defaultProductionPolicy_def match_all_targets_def)

text \<open>The default lists have one rule, so a target gets that rule or the baseline.\<close>

lemma effective_single:
  "effective_spec (applies t) [p] = (if applies t p then applyPolicy defaultPolicy p else defaultPolicy)"
  using effective_spec_snoc[of "applies t" "[]" p] by (simp add: effective_spec_def)



end
