(* ===== verification/ManagedAuth.thy ===== *)
theory ManagedAuth
  imports AuditLog Config
begin

text \<open>
  The managed credentials of src/managed-auth.ts: after the bootstrap login, a cluster runs on a
  generated account whose token and password live in memory, are rotated before they expire and
  repaired after an authentication failure.

  Repairs run to completion here, so the promise that concurrent callers share is set only while
  a reconcile pass runs.
\<close>

section \<open>State\<close>

definition DEFAULT_MANAGED_USERNAME :: string where "DEFAULT_MANAGED_USERNAME = ''mcp''"
definition DEFAULT_MANAGED_REALM :: string where "DEFAULT_MANAGED_REALM = ''pam''"
definition DEFAULT_MANAGED_TOKEN_ID :: string where "DEFAULT_MANAGED_TOKEN_ID = ''mcp''"
definition DEFAULT_ROTATION_INTERVAL_MS :: int where "DEFAULT_ROTATION_INTERVAL_MS = 900000"
definition DEFAULT_TOKEN_EXPIRE_SECONDS :: int where "DEFAULT_TOKEN_EXPIRE_SECONDS = 1200"
definition ROTATION_SAFETY_WINDOW_MS :: int where "ROTATION_SAFETY_WINDOW_MS = 30000"
definition MAX_SAFE_INTEGER :: int where "MAX_SAFE_INTEGER = 9007199254740991"

definition managed_start :: "cluster_config \<Rightarrow> ssh_bootstrap_auth \<Rightarrow> managed_state" where
  "managed_start cl au =
     \<lparr> ms_bootstrap =
         \<lparr> bs_clusterName = cl_name cl, bs_host = cl_host cl, bs_sshPort = sb_sshPort au,
           bs_username = sb_sshUsername au, bs_password = sb_sshPassword au,
           bs_hostKeyPolicy = sb_hostKeyPolicy au, bs_expectedHostKey = sb_expectedHostKey au \<rparr>,
       ms_nodeName = None, ms_currentPassword = None, ms_currentToken = None,
       ms_lastReconciledAt = None, ms_passwordExpiresAt = None, ms_tokenExpiresAt = None,
       ms_bootstrapMode = None, ms_repairing = False, ms_rotationTimer = None \<rparr>"

text \<open>The constructor: one entry per cluster still configured for bootstrap.\<close>

definition managedClusters :: "cluster_config list \<Rightarrow> (string, managed_state) omap" where
  "managedClusters clusters =
     map_from_entries (concat (map (\<lambda>cl. case cl_auth cl of
        SshBootstrap au \<Rightarrow> [(cl_name cl, managed_start cl au)] | _ \<Rightarrow> []) clusters))"

definition resolveManagedClusterName :: "(string, managed_state) omap \<Rightarrow> string \<Rightarrow> string option" where
  "resolveManagedClusterName m clusterName =
     (if map_of m clusterName \<noteq> None then Some clusterName
      else if length m = 1 then Some (fst (hd m))
      else None)"

definition hasManagedCluster :: "'b svc_scheme \<Rightarrow> string \<Rightarrow> bool" where
  "hasManagedCluster s clusterName = (resolveManagedClusterName (sv_managed s) clusterName \<noteq> None)"

text \<open>The snapshot leaves out the credentials.\<close>

record managed_snapshot =
  sn_nodeName :: "string option"
  sn_lastReconciledAt :: "string option"
  sn_passwordExpiresAt :: "int option"
  sn_tokenExpiresAt :: "int option"
  sn_bootstrapMode :: "bootstrap_mode option"
  sn_bootstrapUsername :: string
  sn_bootstrapHost :: string

definition getStateSnapshot :: "'b svc_scheme \<Rightarrow> string \<Rightarrow> managed_snapshot option" where
  "getStateSnapshot s clusterName =
     map_option (\<lambda>m. \<lparr> sn_nodeName = ms_nodeName m, sn_lastReconciledAt = ms_lastReconciledAt m,
         sn_passwordExpiresAt = ms_passwordExpiresAt m, sn_tokenExpiresAt = ms_tokenExpiresAt m,
         sn_bootstrapMode = ms_bootstrapMode m, sn_bootstrapUsername = bs_username (ms_bootstrap m),
         sn_bootstrapHost = bs_host (ms_bootstrap m) \<rparr>)
       (map_of (sv_managed s) clusterName)"

definition managed_of :: "'b svc_scheme \<Rightarrow> string \<Rightarrow> managed_state" where
  "managed_of s n = the (map_of (sv_managed s) n)"

definition set_managed :: "string \<Rightarrow> (managed_state \<Rightarrow> managed_state) \<Rightarrow> 'b svc_scheme \<Rightarrow> 'b svc_scheme" where
  "set_managed n f s = s\<lparr>sv_managed := AList.update n (f (managed_of s n)) (sv_managed s)\<rparr>"

section \<open>Profiles\<close>

definition buildBootstrapProfile :: "bootstrap_spec \<Rightarrow> ssh_profile" where
  "buildBootstrapProfile b =
     \<lparr> sp_name = ''__bootstrap_'' @ bs_clusterName b, sp_username = bs_username b,
       sp_port = bs_sshPort b, sp_privateKeyPath = None, sp_privateKey = None,
       sp_publicKeyPath = None, sp_publicKey = None, sp_passphrase = None,
       sp_password = Some (bs_password b), sp_hostKeyPolicy = bs_hostKeyPolicy b,
       sp_expectedHostKey = bs_expectedHostKey b, sp_shell = ''/bin/sh'', sp_prefixCommand = [] \<rparr>"

definition buildManagedProfile ::
    "string \<Rightarrow> string \<Rightarrow> int \<Rightarrow> host_key_policy \<Rightarrow> string option \<Rightarrow> ssh_profile" where
  "buildManagedProfile clusterName password port hostKeyPolicy expectedHostKey =
     \<lparr> sp_name = ''__managed_'' @ clusterName, sp_username = DEFAULT_MANAGED_USERNAME,
       sp_port = port, sp_privateKeyPath = None, sp_privateKey = None,
       sp_publicKeyPath = None, sp_publicKey = None, sp_passphrase = None,
       sp_password = Some password, sp_hostKeyPolicy = hostKeyPolicy,
       sp_expectedHostKey = expectedHostKey, sp_shell = ''/bin/sh'', sp_prefixCommand = [] \<rparr>"

fun upsert_by :: "('a \<Rightarrow> bool) \<Rightarrow> 'a \<Rightarrow> 'a list \<Rightarrow> 'a list" where
  "upsert_by same x [] = [x]"
| "upsert_by same x (y # ys) = (if same y then x # ys else y # upsert_by same x ys)"

definition upsertProfile :: "ssh_profile \<Rightarrow> ssh_profile list \<Rightarrow> ssh_profile list" where
  "upsertProfile profile ps = upsert_by (\<lambda>q. sp_name q = sp_name profile) profile ps"

definition password_alphabet :: string where
  "password_alphabet =
     ''ABCDEFGHJKLMNPQRSTUVWXYZabcdefghijkmnopqrstuvwxyz23456789!@#$%^&*()-_=+[]{}:,.?''"

text \<open>\<open>crypto.randomInt(0, n)\<close> answers a number below \<open>n\<close>; the index tells the calls apart.\<close>

definition generatePassword :: "world \<Rightarrow> event list \<Rightarrow> string" where
  "generatePassword w tr =
     map (\<lambda>i. password_alphabet ! (w_random w tr i mod length password_alphabet)) [0..<32]"

section \<open>The bootstrap channel\<close>

definition or_text :: "string \<Rightarrow> string \<Rightarrow> string" where
  "or_text a b = (if a = [] then b else a)"

definition execBootstrapRaw :: "world \<Rightarrow> bootstrap_spec \<Rightarrow> string \<Rightarrow> ('b svc_scheme, string) act" where
  "execBootstrapRaw w b command =
     bindA (sshA w \<lparr>st_host = bs_host b, st_port = Some (bs_sshPort b), st_profile = buildBootstrapProfile b\<rparr>
              command) (\<lambda>result.
       if cr_exitCode result \<noteq> 0
       then raise (or_text (cr_stderr result)
              (''Bootstrap SSH command failed for cluster '' @ bs_clusterName b))
       else ret (js_trim (cr_stdout result)))"

definition sudo_stdin :: "string \<Rightarrow> string \<Rightarrow> string" where
  "sudo_stdin password command =
     lit ''printf `%s#n` '' @ shellQuote password @ lit '' | sudo -S -p `` '' @ command"

definition detectBootstrapMode :: "world \<Rightarrow> string \<Rightarrow> ('b svc_scheme, bootstrap_mode) act" where
  "detectBootstrapMode w n =
     bindA (getsA (\<lambda>s. managed_of s n)) (\<lambda>m.
     (case ms_bootstrapMode m of
        Some mode \<Rightarrow> ret mode
      | None \<Rightarrow>
          let b = ms_bootstrap m in
          bindA (execBootstrapRaw w b (lit ''/bin/sh -lc `id -u`'')) (\<lambda>direct.
          if js_trim direct = ''0''
          then seqA (modifyA (set_managed n (\<lambda>m. m\<lparr>ms_bootstrapMode := Some BootRoot\<rparr>))) (ret BootRoot)
          else
            bindA (execBootstrapRaw w b (''/bin/sh -lc '' @ shellQuote (sudo_stdin (bs_password b) ''id -u'')))
            (\<lambda>sudoCheck.
              if js_trim sudoCheck \<noteq> ''0''
              then raise (''Bootstrap account for cluster '' @ bs_clusterName b @
                     '' does not have root or password-based sudo access'')
              else seqA (modifyA (set_managed n (\<lambda>m. m\<lparr>ms_bootstrapMode := Some BootSudo\<rparr>))) (ret BootSudo)))))"

definition runBootstrapScript :: "world \<Rightarrow> string \<Rightarrow> string \<Rightarrow> ('b svc_scheme, string) act" where
  "runBootstrapScript w n script =
     (let body = ''printf %s '' @ shellQuote (base64_encode (utf8_encode script)) @ '' | base64 -d | bash'' in
      bindA (detectBootstrapMode w n) (\<lambda>mode.
      bindA (getsA (\<lambda>s. ms_bootstrap (managed_of s n))) (\<lambda>b.
        if mode = BootRoot then execBootstrapRaw w b (''/bin/sh -lc '' @ shellQuote body)
        else execBootstrapRaw w b (''/bin/sh -lc '' @
          shellQuote (sudo_stdin (bs_password b) (''/bin/bash -lc '' @ shellQuote body))))))"

definition buildReconcileScript :: "int \<Rightarrow> string \<Rightarrow> int \<Rightarrow> string" where
  "buildReconcileScript now password tokenExpireSeconds =
     (let expire = int_str (now div 1000 + tokenExpireSeconds) in
      lines_text
       [''set -euo pipefail'',
        ''managed_user='' @ shellQuote DEFAULT_MANAGED_USERNAME,
        ''managed_password='' @ shellQuote password,
        ''managed_userid='' @ shellQuote (DEFAULT_MANAGED_USERNAME @ ''@'' @ DEFAULT_MANAGED_REALM),
        ''managed_token_id='' @ shellQuote DEFAULT_MANAGED_TOKEN_ID,
        ''managed_comment='' @ shellQuote ''proxmox-mcp managed auth lifecycle'',
        ''managed_expire='' @ shellQuote expire,
        ''node_name=$(hostname -s 2>/dev/null || hostname)'',
        ''if ! id -u \"$managed_user\" >/dev/null 2>&1; then useradd -m -s /bin/bash \"$managed_user\"; fi'',
        lit ''printf `%s:%s#n` \"$managed_user\" \"$managed_password\" | chpasswd'',
        ''install -d -m 0755 /etc/sudoers.d'',
        lit ''cat > /etc/sudoers.d/proxmox-mcp-mcp <<`EOF`'',
        DEFAULT_MANAGED_USERNAME @ '' ALL=(ALL) NOPASSWD:ALL'',
        ''EOF'',
        ''chmod 0440 /etc/sudoers.d/proxmox-mcp-mcp'',
        ''sudo_available=0'',
        ''if command -v sudo >/dev/null 2>&1; then sudo_available=1; fi'',
        ''if command -v visudo >/dev/null 2>&1; then visudo -cf /etc/sudoers.d/proxmox-mcp-mcp >/dev/null; fi'',
        ''pveum user add \"$managed_userid\" --comment \"$managed_comment\" >/dev/null 2>&1 || true'',
        ''pveum user modify \"$managed_userid\" --enable 1 --comment \"$managed_comment\" >/dev/null 2>&1 || true'',
        ''pveum acl modify / --users \"$managed_userid\" --roles Administrator >/dev/null'',
        ''pveum user token delete \"$managed_userid\" \"$managed_token_id\" >/dev/null 2>&1 || true'',
        ''token_json=$(pveum user token add \"$managed_userid\" \"$managed_token_id\" --comment \"$managed_comment\" --privsep 0 --expire \"$managed_expire\" --output-format json)'',
        ''export TOKEN_JSON=\"$token_json\"'',
        ''export NODE_NAME=\"$node_name\"'',
        ''export SUDO_AVAILABLE=\"$sudo_available\"'',
        lit ''python3 - <<`PY`'',
        ''import json, os'',
        lit ''token = json.loads(os.environ[`TOKEN_JSON`])'',
        ''print(json.dumps({'',
        lit ''  `node`: os.environ[`NODE_NAME`],'',
        lit ''  `fullTokenId`: token[`full-tokenid`],'',
        lit ''  `value`: token[`value`],'',
        lit ''  `expire`: '' @ expire @ '','',
        lit ''  `sudoAvailable`: os.environ.get(`SUDO_AVAILABLE`, `0`) == `1`,'',
        ''}))'',
        ''PY''])"

section \<open>Reconciling\<close>

definition upsertNode :: "cluster_node \<Rightarrow> cluster_node list \<Rightarrow> cluster_node list" where
  "upsertNode n ns = upsert_by (\<lambda>e. cn_name e = cn_name n) n ns"

definition set_cluster :: "nat \<Rightarrow> (cluster_config \<Rightarrow> cluster_config) \<Rightarrow> runtime_config \<Rightarrow> runtime_config" where
  "set_cluster i f c = c\<lparr>sc_clusters := (sc_clusters c)[i := f (sc_clusters c ! i)]\<rparr>"

definition upsertRuntimeProfiles ::
    "bootstrap_spec \<Rightarrow> string \<Rightarrow> string \<Rightarrow> runtime_config \<Rightarrow> runtime_config res" where
  "upsertRuntimeProfiles b password nodeName config =
     (case map_of (rt_clusterMap config) (bs_clusterName b) of
        None \<Rightarrow> Inl (''Unknown cluster '' @ squoted (bs_clusterName b))
      | Some i \<Rightarrow>
          let managedProfile = buildManagedProfile (bs_clusterName b) password (bs_sshPort b)
                (bs_hostKeyPolicy b) (bs_expectedHostKey b);
              bootstrapProfile = buildBootstrapProfile b;
              nodeEntry = \<lparr>cn_name = nodeName, cn_host = bs_host b, cn_port = bs_sshPort b,
                cn_sshProfile = sp_name bootstrapProfile\<rparr>;
              config' = config\<lparr>sc_sshProfiles :=
                upsertProfile bootstrapProfile (upsertProfile managedProfile (sc_sshProfiles config))\<rparr>
          in Inr (set_cluster i (\<lambda>cl. cl
               \<lparr> cl_nodes := upsertNode nodeEntry (cl_nodes cl),
                 cl_defaultNode := (if js_truthy (cl_defaultNode cl) then cl_defaultNode cl
                    else Some nodeName) \<rparr>) config'))"

definition modify_config :: "(runtime_config \<Rightarrow> runtime_config) \<Rightarrow> ('b svc_scheme, unit) act" where
  "modify_config f = modifyA (\<lambda>s. s\<lparr>sv_config := f (sv_config s)\<rparr>)"

definition scheduleRotation :: "string \<Rightarrow> int \<Rightarrow> ('b svc_scheme, unit) act" where
  "scheduleRotation n intervalMs =
     modifyA (\<lambda>s. if map_of (sv_managed s) n = None then s
        else set_managed n (\<lambda>m. m\<lparr>ms_rotationTimer := Some intervalMs\<rparr>) s)"

text \<open>\<open>parsed.expire * 1000\<close>: a value that is no number gives \<open>NaN\<close>, which every deadline test treats as passed.\<close>

definition token_deadline :: "jsval \<Rightarrow> int" where
  "token_deadline v = (case v of JNum n \<Rightarrow> n * 1000 | _ \<Rightarrow> 0)"

definition managed_audit_entry :: "string \<Rightarrow> string \<Rightarrow> bootstrap_spec \<Rightarrow> (string \<times> jsval) list" where
  "managed_audit_entry n reason b =
     [(''action'', JStr ''managed_auth_reconcile''), (''cluster'', JStr n), (''reason'', JStr reason),
      (''bootstrapUsername'', JStr (bs_username b)),
      (''managedUser'', JStr (DEFAULT_MANAGED_USERNAME @ ''@'' @ DEFAULT_MANAGED_REALM)),
      (''tokenId'', JStr DEFAULT_MANAGED_TOKEN_ID)]"

definition applyCredentials :: "world \<Rightarrow> string \<Rightarrow> nat \<Rightarrow> string \<Rightarrow> jsval \<Rightarrow> ('b svc_scheme, unit) act" where
  "applyCredentials w n i password parsed =
     (let node = js_String (jget parsed ''node''); token = js_String (jget parsed ''value'') in
      bindA (nowIsoA w) (\<lambda>iso. bindA (nowA w) (\<lambda>now.
      seqA (modifyA (set_managed n (\<lambda>m. m
        \<lparr> ms_nodeName := Some node, ms_currentPassword := Some password, ms_currentToken := Some token,
          ms_lastReconciledAt := Some iso,
          ms_passwordExpiresAt := Some (now + DEFAULT_ROTATION_INTERVAL_MS),
          ms_tokenExpiresAt := Some (token_deadline (jget parsed ''expire'')) \<rparr>)))
     (seqA (modify_config (set_cluster i (\<lambda>cl. cl\<lparr>cl_auth := ApiToken
        \<lparr>at_user = DEFAULT_MANAGED_USERNAME, at_realm = DEFAULT_MANAGED_REALM,
         at_tokenId = DEFAULT_MANAGED_TOKEN_ID, at_secret = token\<rparr>\<rparr>)))
     (bindA (getsA (\<lambda>s. upsertRuntimeProfiles (ms_bootstrap (managed_of s n)) password node (sv_config s)))
        (\<lambda>r. bindA (liftR r) (\<lambda>config.
     seqA (modify_config (\<lambda>_. refreshRuntimeIndexes config))
       (scheduleRotation n DEFAULT_ROTATION_INTERVAL_MS))))))))"

definition reconcileCluster :: "world \<Rightarrow> string \<Rightarrow> string \<Rightarrow> ('b svc_scheme, unit) act" where
  "reconcileCluster w n reason =
     bindA (getsA (\<lambda>s. (map_of (sv_managed s) n, map_of (rt_clusterMap (sv_config s)) n, sv_config s)))
     (\<lambda>(state, cluster, config).
     (case (state, cluster) of
        (Some m, Some i) \<Rightarrow>
          bindA (getsA (\<lambda>s. generatePassword w (io_trace s))) (\<lambda>password.
          seqA (auditRecord w (sc_auditLogPath config) (managed_audit_entry n reason (ms_bootstrap m)))
         (bindA (nowA w) (\<lambda>now.
          bindA (runBootstrapScript w n (buildReconcileScript now password DEFAULT_TOKEN_EXPIRE_SECONDS)) (\<lambda>out.
          (case JSON_parse out of
             None \<Rightarrow> raise ''SyntaxError''
           | Some parsed \<Rightarrow>
               if parsed = JNull then raise ''TypeError''
               else applyCredentials w n i password parsed)))))
      | _ \<Rightarrow> raise (''Unknown managed cluster '' @ squoted n)))"

definition set_repairing :: "string \<Rightarrow> bool \<Rightarrow> ('b svc_scheme, unit) act" where
  "set_repairing n b = modifyA (\<lambda>s. if map_of (sv_managed s) n = None then s
     else set_managed n (\<lambda>m. m\<lparr>ms_repairing := b\<rparr>) s)"

text \<open>\<open>finally\<close>: the second action runs whatever the first one did, and its outcome is kept.\<close>

definition finallyA :: "('s, 'a) act \<Rightarrow> ('s, unit) act \<Rightarrow> ('s, 'a) act" where
  "finallyA m f = (\<lambda>s. (fst (m s), snd (f (snd (m s)))))"

definition repairCluster :: "world \<Rightarrow> string \<Rightarrow> string \<Rightarrow> ('b svc_scheme, unit) act" where
  "repairCluster w clusterName reason =
     bindA (getsA (\<lambda>s. Option.bind (resolveManagedClusterName (sv_managed s) clusterName)
        (\<lambda>n. map_option (Pair n) (map_of (sv_managed s) n)))) (\<lambda>found.
     (case found of
        None \<Rightarrow> ret ()
      | Some (n, m) \<Rightarrow>
          if ms_repairing m then ret ()
          else seqA (set_repairing n True)
            (finallyA (reconcileCluster w n reason) (set_repairing n False))))"

definition ensureCluster :: "world \<Rightarrow> string \<Rightarrow> ('b svc_scheme, unit) act" where
  "ensureCluster w clusterName =
     bindA (getsA (\<lambda>s. Option.bind (resolveManagedClusterName (sv_managed s) clusterName)
        (\<lambda>n. map_option (Pair n) (map_of (sv_managed s) n)))) (\<lambda>found.
     (case found of
        None \<Rightarrow> ret ()
      | Some (n, m) \<Rightarrow>
          if ms_repairing m then ret ()
          else bindA (nowA w) (\<lambda>now.
            let deadline = min (default_to MAX_SAFE_INTEGER (ms_passwordExpiresAt m))
                               (default_to MAX_SAFE_INTEGER (ms_tokenExpiresAt m))
            in if now + ROTATION_SAFETY_WINDOW_MS < deadline then ret ()
               else repairCluster w n ''scheduled_rotation'')))"

text \<open>The rotation timer fires: a failed repair is left to the next request.\<close>

definition rotationTick :: "world \<Rightarrow> string \<Rightarrow> ('b svc_scheme, unit) act" where
  "rotationTick w n = catchA (repairCluster w n ''timer_rotation'') (\<lambda>_. ret ())"

fun repairAll :: "world \<Rightarrow> string list \<Rightarrow> ('b svc_scheme, unit) act" where
  "repairAll w [] = ret ()"
| "repairAll w (n # ns) = seqA (repairCluster w n ''startup'') (repairAll w ns)"

definition initializeManaged :: "world \<Rightarrow> ('b svc_scheme, unit) act" where
  "initializeManaged w =
     bindA (getsA (\<lambda>s. map fst (sv_managed s))) (\<lambda>names.
     seqA (repairAll w names) (modify_config refreshRuntimeIndexes))"

section \<open>The trace\<close>

lemma set_managed_frame [simp]:
  "io_trace (set_managed n f s) = io_trace s" "svc.more (set_managed n f s) = svc.more s"
  by (simp_all add: set_managed_def)

lemma modify_config_grows [grows_rules]: "keeps svc_step (modify_config f)"
  by (auto simp: modify_config_def intro!: grows_rules)

lemma finallyA_grows [grows_rules]:
  "keeps svc_step m \<Longrightarrow> keeps svc_step f \<Longrightarrow> keeps svc_step (finallyA m f)"
  by (auto simp: keeps_def finallyA_def intro: steps.trans)

lemma execBootstrapRaw_grows [grows_rules]: "keeps svc_step (execBootstrapRaw w b c)"
  by (auto simp: execBootstrapRaw_def intro!: grows_rules)

lemma detectBootstrapMode_grows [grows_rules]: "keeps svc_step (detectBootstrapMode w n)"
  by (auto simp: detectBootstrapMode_def Let_def intro!: grows_rules split: option.split)

lemma runBootstrapScript_grows [grows_rules]: "keeps svc_step (runBootstrapScript w n script)"
  by (auto simp: runBootstrapScript_def Let_def intro!: grows_rules)

lemma scheduleRotation_grows [grows_rules]: "keeps svc_step (scheduleRotation n i)"
  by (auto simp: scheduleRotation_def intro!: grows_rules)

lemma applyCredentials_grows [grows_rules]: "keeps svc_step (applyCredentials w n i p parsed)"
  by (auto simp: applyCredentials_def Let_def intro!: grows_rules)

lemma reconcileCluster_grows [grows_rules]: "keeps svc_step (reconcileCluster w n r)"
  by (auto simp: reconcileCluster_def intro!: grows_rules split: option.split prod.split)

lemma set_repairing_grows [grows_rules]: "keeps svc_step (set_repairing n b)"
  by (auto simp: set_repairing_def intro!: grows_rules)

lemma repairCluster_grows [grows_rules]: "keeps svc_step (repairCluster w n r)"
  by (auto simp: repairCluster_def intro!: grows_rules split: option.split prod.split)

lemma ensureCluster_grows [grows_rules]: "keeps svc_step (ensureCluster w n)"
  by (auto simp: ensureCluster_def Let_def intro!: grows_rules split: option.split prod.split)

section \<open>Consistency of the credentials\<close>

text \<open>
  A cluster is converged when the managed state, the credentials of its cluster object and the SSH
  profiles tell the same story.
\<close>

definition converged :: "'b svc_scheme \<Rightarrow> string \<Rightarrow> bool" where
  "converged s n \<longleftrightarrow>
     (case (map_of (sv_managed s) n, map_of (rt_clusterMap (sv_config s)) n) of
        (Some m, Some i) \<Rightarrow>
          (\<exists>token password node.
             ms_currentToken m = Some token \<and> ms_currentPassword m = Some password \<and>
             ms_nodeName m = Some node \<and> ms_passwordExpiresAt m \<noteq> None \<and>
             ms_rotationTimer m = Some DEFAULT_ROTATION_INTERVAL_MS \<and>
             cl_auth (sc_clusters (sv_config s) ! i) = ApiToken
               \<lparr>at_user = DEFAULT_MANAGED_USERNAME, at_realm = DEFAULT_MANAGED_REALM,
                at_tokenId = DEFAULT_MANAGED_TOKEN_ID, at_secret = token\<rparr> \<and>
             map_option sp_password (map_of (rt_sshProfileMap (sv_config s)) (''__managed_'' @ n))
               = Some (Some password) \<and>
             (\<exists>e\<in>set (cl_nodes (sc_clusters (sv_config s) ! i)).
                cn_name e = node \<and> cn_sshProfile e = ''__bootstrap_'' @ n))
      | _ \<Rightarrow> False)"

lemma set_upsert_by_in: "x \<in> set (upsert_by P x ys)"
  by (induction ys) auto

lemma upsert_by_keeps: "y \<in> set ys \<Longrightarrow> \<not> P y \<Longrightarrow> y \<in> set (upsert_by P x ys)"
  by (induction ys) auto

lemma upsert_by_subset: "set (upsert_by P x ys) \<subseteq> insert x (set ys)"
  by (induction ys) auto

lemma distinct_upsert_by:
  "distinct (map f ys) \<Longrightarrow> distinct (map f (upsert_by (\<lambda>y. f y = f x) x ys))"
proof (induction ys)
  case (Cons y ys)
  have "f ` set (upsert_by (\<lambda>y. f y = f x) x ys) \<subseteq> insert (f x) (f ` set ys)"
    using upsert_by_subset[of "\<lambda>y. f y = f x" x ys] by blast
  then show ?case using Cons by auto
qed simp

lemma lookup_distinct_profile:
  assumes "distinct (map sp_name ps)" "p \<in> set ps"
  shows "map_of (index_by_name sp_name ps) (sp_name p) = Some p"
proof -
  have "map_of (index_by_name sp_name ps) (sp_name p) \<noteq> None"
    using assms(2) by (simp add: index_by_name_None_iff)
  then obtain q where q: "map_of (index_by_name sp_name ps) (sp_name p) = Some q" by blast
  have "q \<in> set ps" "sp_name q = sp_name p" using index_by_name_Some[OF q] by simp_all
  moreover have "inj_on sp_name (set ps)" using assms(1) by (simp add: distinct_map)
  ultimately have "q = p" using assms(2) by (auto dest: inj_onD)
  with q show ?thesis by simp
qed

text \<open>The invariant of the shared configuration: current maps, and one profile per name.\<close>

definition config_ok :: "runtime_config \<Rightarrow> bool" where
  "config_ok c \<longleftrightarrow> refreshRuntimeIndexes c = c \<and> distinct (map sp_name (sc_sshProfiles c))"

lemma config_ok_clusterMap:
  assumes "config_ok c"
  shows "rt_clusterMap c = index_positions cl_name (sc_clusters c)"
proof -
  have "rt_clusterMap (refreshRuntimeIndexes c) = index_positions cl_name (sc_clusters c)"
    by (simp add: refreshRuntimeIndexes_def)
  moreover have "refreshRuntimeIndexes c = c" using assms unfolding config_ok_def ..
  ultimately show ?thesis by metis
qed

lemma index_positions_cong:
  "map name xs = map name ys \<Longrightarrow> index_positions name xs = index_positions name ys"
  using map_eq_imp_length_eq[of name xs name ys] by (simp add: index_positions_def)

lemma names_set_cluster:
  "i < length xs \<Longrightarrow> cl_name c = cl_name (xs ! i) \<Longrightarrow> map cl_name (xs[i := c]) = map cl_name xs"
  by (simp add: map_update list_update_same_conv)

lemma set_cluster_simps [simp]:
  "sc_clusters (set_cluster i f c) = (sc_clusters c)[i := f (sc_clusters c ! i)]"
  "sc_sshProfiles (set_cluster i f c) = sc_sshProfiles c"
  "rt_clusterMap (set_cluster i f c) = rt_clusterMap c"
  by (simp_all add: set_cluster_def)

lemma profile_names [simp]:
  "sp_name (buildBootstrapProfile b) = ''__bootstrap_'' @ bs_clusterName b"
  "sp_name (buildManagedProfile n pw port hk ek) = ''__managed_'' @ n"
  "sp_password (buildManagedProfile n pw port hk ek) = Some pw"
  by (simp_all add: buildBootstrapProfile_def buildManagedProfile_def)

lemma managed_profile_lookup:
  assumes "distinct (map sp_name ps)" "bs_clusterName b = n"
  shows "map_of (index_by_name sp_name (upsertProfile (buildBootstrapProfile b)
      (upsertProfile (buildManagedProfile n pw port hk ek) ps))) (''__managed_'' @ n)
    = Some (buildManagedProfile n pw port hk ek)"
proof -
  let ?m = "buildManagedProfile n pw port hk ek"
  let ?ps = "upsertProfile (buildBootstrapProfile b) (upsertProfile ?m ps)"
  have "distinct (map sp_name ?ps)"
    using assms unfolding upsertProfile_def by (intro distinct_upsert_by)
  moreover have "?m \<in> set ?ps"
    unfolding upsertProfile_def by (rule upsert_by_keeps) (simp_all add: set_upsert_by_in assms(2))
  ultimately show ?thesis using lookup_distinct_profile[of ?ps ?m] by simp
qed

lemma applyCredentials_converges:
  assumes m: "map_of (sv_managed s) n = Some m" "bs_clusterName (ms_bootstrap m) = n"
    and c: "config_ok (sv_config s)" "map_of (rt_clusterMap (sv_config s)) n = Some i"
  shows "fst (applyCredentials w n i pw parsed s) = Inr ()"
    and "converged (snd (applyCredentials w n i pw parsed s)) n"
proof -
  let ?cfg = "sv_config s"
  let ?token = "js_String (jget parsed ''value'')" and ?node = "js_String (jget parsed ''node'')"
  have i: "i < length (sc_clusters ?cfg)"
    using c config_ok_clusterMap[OF c(1)] index_positions_Some by metis
  define cfg1 where "cfg1 = set_cluster i (\<lambda>cl. cl\<lparr>cl_auth := ApiToken
        \<lparr>at_user = DEFAULT_MANAGED_USERNAME, at_realm = DEFAULT_MANAGED_REALM,
         at_tokenId = DEFAULT_MANAGED_TOKEN_ID, at_secret = ?token\<rparr>\<rparr>) ?cfg"
  obtain cfg2 where cfg2: "upsertRuntimeProfiles (ms_bootstrap m) pw ?node cfg1 = Inr cfg2"
    using m(2) c(2) by (simp add: upsertRuntimeProfiles_def cfg1_def Let_def)
  define m2 where "m2 = m
        \<lparr> ms_nodeName := Some ?node, ms_currentPassword := Some pw, ms_currentToken := Some ?token,
          ms_lastReconciledAt := Some (w_nowIso w (io_trace s)),
          ms_passwordExpiresAt := Some (w_now w (io_trace s) + DEFAULT_ROTATION_INTERVAL_MS),
          ms_tokenExpiresAt := Some (token_deadline (jget parsed ''expire'')) \<rparr>"
  have b: "ms_bootstrap m2 = ms_bootstrap m" by (simp add: m2_def)
  have run: "applyCredentials w n i pw parsed s = (Inr (),
      set_managed n (\<lambda>m. m\<lparr>ms_rotationTimer := Some DEFAULT_ROTATION_INTERVAL_MS\<rparr>)
        (s\<lparr>sv_managed := AList.update n m2 (sv_managed s), sv_config := refreshRuntimeIndexes cfg2\<rparr>))"
    using m cfg2 b
    by (simp add: applyCredentials_def Let_def nowIsoA_def nowA_def modify_config_def
        set_managed_def managed_of_def bindA_liftR_apply scheduleRotation_def flip: cfg1_def m2_def)
  show "fst (applyCredentials w n i pw parsed s) = Inr ()" by (simp add: run)
  have names: "map cl_name (sc_clusters cfg2) = map cl_name (sc_clusters ?cfg)"
    and mine: "cl_auth (sc_clusters cfg2 ! i) = ApiToken
        \<lparr>at_user = DEFAULT_MANAGED_USERNAME, at_realm = DEFAULT_MANAGED_REALM,
         at_tokenId = DEFAULT_MANAGED_TOKEN_ID, at_secret = ?token\<rparr>"
    and node: "\<exists>e\<in>set (cl_nodes (sc_clusters cfg2 ! i)). cn_name e = ?node \<and> cn_sshProfile e = ''__bootstrap_'' @ n"
    and profiles: "sc_sshProfiles cfg2 = upsertProfile (buildBootstrapProfile (ms_bootstrap m))
       (upsertProfile (buildManagedProfile n pw (bs_sshPort (ms_bootstrap m))
          (bs_hostKeyPolicy (ms_bootstrap m)) (bs_expectedHostKey (ms_bootstrap m))) (sc_sshProfiles ?cfg))"
    using cfg2 c(2) m(2) i
    by (auto simp: upsertRuntimeProfiles_def cfg1_def Let_def names_set_cluster upsertNode_def
        intro!: bexI[OF _ set_upsert_by_in])
  have "map_of (index_positions cl_name (sc_clusters cfg2)) n = Some i"
    using index_positions_cong[OF names] config_ok_clusterMap[OF c(1)] c(2) by simp
  moreover have "map_of (index_by_name sp_name (sc_sshProfiles cfg2)) (''__managed_'' @ n)
      = Some (buildManagedProfile n pw (bs_sshPort (ms_bootstrap m))
          (bs_hostKeyPolicy (ms_bootstrap m)) (bs_expectedHostKey (ms_bootstrap m)))"
    unfolding profiles using c(1) m(2) by (intro managed_profile_lookup) (simp_all add: config_ok_def)
  ultimately show "converged (snd (applyCredentials w n i pw parsed s)) n"
    using mine node
    by (simp add: run converged_def set_managed_def managed_of_def refreshRuntimeIndexes_def m2_def)
qed

section \<open>A repair from start to end\<close>

text \<open>Until the credentials are applied, the configuration and the bootstrap data stay as they are.\<close>

definition boot_frame :: "string \<Rightarrow> 'b svc_scheme \<Rightarrow> 'b svc_scheme \<Rightarrow> bool" where
  "boot_frame n s t \<longleftrightarrow> sv_config t = sv_config s \<and>
     (\<forall>m. map_of (sv_managed s) n = Some m \<longrightarrow>
        (\<exists>m'. map_of (sv_managed t) n = Some m' \<and> ms_bootstrap m' = ms_bootstrap m))"

interpretation bootFrame: preorder_rel "boot_frame n"
  by unfold_locales (auto simp: boot_frame_def)

named_theorems boot_rules "actions that leave configuration and bootstrap data alone"

lemmas [boot_rules] = bootFrame.keeps_intros

lemma boot_interact [boot_rules]: "keeps (boot_frame n) (interact e f)"
  by (simp add: keeps_def boot_frame_def interact_def)

lemma boot_io [boot_rules]:
  "keeps (boot_frame n) (sshA w tg c)" "keeps (boot_frame n) (auditRecord w p e)"
  "keeps (boot_frame n) (nowA w)"
  by (auto simp: sshA_def auditRecord_def nowIsoA_def appendFileA_def nowA_def intro!: boot_rules)

lemma boot_set_managed [boot_rules]:
  "(\<And>m. ms_bootstrap (f m) = ms_bootstrap m) \<Longrightarrow> keeps (boot_frame n) (modifyA (set_managed n f))"
  by (auto simp: keeps_def boot_frame_def set_managed_def managed_of_def)

lemma boot_exec [boot_rules]: "keeps (boot_frame n) (execBootstrapRaw w b c)"
  by (auto simp: execBootstrapRaw_def intro!: boot_rules)

lemma boot_detect [boot_rules]: "keeps (boot_frame n) (detectBootstrapMode w n)"
  by (auto simp: detectBootstrapMode_def Let_def intro!: boot_rules split: option.split)

lemma boot_script [boot_rules]: "keeps (boot_frame n) (runBootstrapScript w n script)"
  by (auto simp: runBootstrapScript_def Let_def intro!: boot_rules)

lemma keepsD: "keeps R m \<Longrightarrow> m s = (r, t) \<Longrightarrow> R s t"
  by (metis keeps_def snd_conv)

lemma bindA_casesE:
  assumes "bindA m f s = (r, u)"
  obtains (Err) e where "m s = (Inl e, u)" "r = Inl e"
  | (Ok) x t where "m s = (Inr x, t)" "f x t = (r, u)"
  using assms by (auto simp: bindA_def split: prod.splits sum.splits)

lemma reconcileCluster_outcome:
  assumes m: "map_of (sv_managed s) n = Some m" "bs_clusterName (ms_bootstrap m) = n"
    and c: "config_ok (sv_config s)"
    and run: "reconcileCluster w n reason s = (r, u)"
  shows "(r = Inr () \<and> converged u n) \<or> (\<exists>e. r = Inl e \<and> boot_frame n s u)"
proof (cases "map_of (rt_clusterMap (sv_config s)) n")
  case None
  then show ?thesis using m run by (auto simp: reconcileCluster_def)
next
  case (Some i)
  let ?pw = "generatePassword w (io_trace s)"
  let ?prefix = "seqA (auditRecord w (sc_auditLogPath (sv_config s)) (managed_audit_entry n reason (ms_bootstrap m)))
         (bindA (nowA w) (\<lambda>now.
          runBootstrapScript w n (buildReconcileScript now ?pw DEFAULT_TOKEN_EXPIRE_SECONDS)))"
  have keep: "keeps (boot_frame n) ?prefix" by (auto intro!: boot_rules)
  have run': "bindA ?prefix (\<lambda>out. case JSON_parse out of
             None \<Rightarrow> raise ''SyntaxError''
           | Some parsed \<Rightarrow>
               if parsed = JNull then raise ''TypeError''
               else applyCredentials w n i ?pw parsed) s = (r, u)"
    using run m Some by (simp add: reconcileCluster_def seqA_def bindA_assoc)
  from run' show ?thesis
  proof (cases rule: bindA_casesE)
    case (Err e)
    then show ?thesis using keepsD[OF keep] by auto
  next
    case (Ok out t)
    from keepsD[OF keep Ok(1)] have fr: "boot_frame n s t" .
    then obtain m' where m': "map_of (sv_managed t) n = Some m'" "bs_clusterName (ms_bootstrap m') = n"
      "sv_config t = sv_config s"
      using m by (auto simp: boot_frame_def)
    show ?thesis
    proof (cases "JSON_parse out")
      case None
      then show ?thesis using Ok(2) fr by auto
    next
      case P: (Some parsed)
      show ?thesis
      proof (cases "parsed = JNull")
        case True
        then show ?thesis using Ok(2) P fr by auto
      next
        case False
        then have "applyCredentials w n i ?pw parsed t = (r, u)" using Ok(2) P by simp
        then show ?thesis
          using applyCredentials_converges[OF m'(1,2), of i w ?pw parsed] c Some m'(3) by simp
      qed
    qed
  qed
qed

lemma converged_repairing:
  "map_of (sv_managed u) n \<noteq> None \<Longrightarrow>
     converged (set_managed n (\<lambda>m. m\<lparr>ms_repairing := b\<rparr>) u) n = converged u n"
  by (auto simp: converged_def set_managed_def managed_of_def split: option.splits)


section \<open>A concrete run\<close>

definition sample_bootstrap :: ssh_bootstrap_auth where
  "sample_bootstrap = \<lparr>sb_sshUsername = ''root'', sb_sshPassword = ''pw'', sb_sshPort = 22,
     sb_hostKeyPolicy = ''accept-new'', sb_expectedHostKey = None, sb_apiUser = ''root'', sb_apiRealm = ''pam'',
     sb_tokenId = ''proxmox-mcp'', sb_comment = [], sb_privsep = False\<rparr>"

definition sample_cluster :: cluster_config where
  "sample_cluster = \<lparr>cl_name = ''lab'', cl_host = ''10.0.0.1'', cl_apiPort = 8006, cl_sshPort = 22,
     cl_defaultNode = None, cl_defaultBridge = ''vmbr0'', cl_defaultVmStorage = None,
     cl_defaultSnippetStorage = ''local'', cl_apiUrl = ''https://10.0.0.1:8006'',
     cl_auth = SshBootstrap sample_bootstrap,
     cl_tls = \<lparr>tls_rejectUnauthorized = True, tls_caFile = None\<rparr>, cl_nodes = []\<rparr>"

definition sample_server :: server_config where
  "sample_server = \<lparr>sc_mode = ''stdio'', sc_mcpAuth = McpNone,
     sc_http = \<lparr>hc_host = ''127.0.0.1'', hc_port = 8080, hc_path = ''/mcp'', hc_publicBaseUrl = None,
       hc_stateless = False\<rparr>,
     sc_secretStore = StoreEnv,
     sc_localBootstrap = \<lparr>lb_enabled = True, lb_sshUsername = Some ''root'', lb_sshPassword = Some ''pw'',
       lb_sshPort = 22, lb_hostKeyPolicy = ''accept-new'', lb_expectedHostKey = None, lb_apiUser = ''root'',
       lb_apiRealm = ''pam'', lb_tokenId = ''proxmox-mcp'', lb_comment = [], lb_privsep = False\<rparr>,
     sc_escapeEnabled = False, sc_clusters = [sample_cluster], sc_sshProfiles = [], sc_winrmProfiles = [],
     sc_linuxGuests = [], sc_windowsGuests = [], sc_policies = [defaultAdminPolicy],
     sc_auditLogPath = ''audit.log'', sc_inventoryCacheTtlMs = 15000, sc_defaultTimeoutMs = 60000\<rparr>"

definition sample_runtime :: runtime_config where
  "sample_runtime = refreshRuntimeIndexes (to_runtime sample_server)"

definition ok_command :: "string \<Rightarrow> command_result" where
  "ok_command out = \<lparr>cr_stdout = out, cr_stderr = [], cr_exitCode = 0, cr_signal = None\<rparr>"

definition sample_world :: world where
  "sample_world =
     \<lparr> w_fetch = (\<lambda>_ _. Inr \<lparr>rs_status = 200, rs_text = ''{}''\<rparr>),
       w_ssh = (\<lambda>tr _ _. Inr (ok_command
          (if length tr \<le> 1 then ''0'' else ''{\"node\":\"pve\",\"value\":\"t0\",\"expire\":9}''))),
       w_spawn = (\<lambda>_ _ _. Inr (ok_command [])), w_append = (\<lambda>_ _ _. Inr ()),
       w_read = (\<lambda>_ _. Inl ''ENOENT''), w_sleep = (\<lambda>_ _. Inr ()), w_aborted = (\<lambda>_. False),
       w_now = (\<lambda>_. 0), w_nowIso = (\<lambda>_. ''1970-01-01T00:00:00.000Z''), w_utf8 = id,
       w_random = (\<lambda>_ i. i), w_uuid = (\<lambda>_. ''u''), w_tempDir = (\<lambda>_. ''/tmp/x''), w_diskError = (\<lambda>_ _. None),
       w_late = (\<lambda>_. False), w_chunks = (\<lambda>_. []), w_collate = (\<lambda>_ _. 0), w_pid = 1, w_keyPair = (\<lambda>_ _. ([], [])) \<rparr>"

definition sample_svc :: svc where
  "sample_svc = \<lparr>io_trace = [], sv_config = sample_runtime, sv_clients = [], sv_fingerprints = [],
     sv_cache = [], sv_managed = managedClusters (sc_clusters sample_runtime)\<rparr>"

lemma sample_config_ok: "config_ok sample_runtime"
  by (simp add: config_ok_def sample_runtime_def refreshRuntimeIndexes_def to_runtime_def sample_server_def
      server_config.defs runtime_config.defs)

lemma sample_managed: "sv_managed sample_svc = [(''lab'', managed_start sample_cluster sample_bootstrap)]"
  by (simp add: sample_svc_def sample_runtime_def refreshRuntimeIndexes_def to_runtime_def sample_server_def
      server_config.defs runtime_config.defs managedClusters_def map_from_entries_def sample_cluster_def)


end
