(* ===== verification/Service.thy ===== *)
theory Service
  imports Api Schema Ssh ManagedAuth
begin

text \<open>
  The core of \<open>ProxmoxService\<close> in src/services.ts: cluster lookup, cached API clients, requests and
  SSH commands with one repair and retry, the policy-gated REST, CLI, shell and file operations,
  task polling and inventory lookups.  Progress callbacks are events of the trace; output callbacks
  do not influence the results and are left out.
\<close>

section \<open>The service object\<close>

text \<open>
  The constructor arguments: the world, whether a managed-credentials lifecycle was given, the API
  catalogue and the path of the audit log.
\<close>

record service =
  se_world :: world
  se_auth :: bool
  se_catalog :: "api_method list"
  se_auditLogPath :: string

definition omitUndefined :: "(string \<times> jsval) list \<Rightarrow> (string \<times> jsval) list" where
  "omitUndefined ps = filter (\<lambda>(k, v). v \<noteq> JUndef) ps"

definition lookupCluster :: "runtime_config \<Rightarrow> string \<Rightarrow> nat res" where
  "lookupCluster config clusterName =
     (case map_of (rt_clusterMap config) clusterName of
        Some i \<Rightarrow> Inr i
      | None \<Rightarrow> if length (sc_clusters config) = 1 then Inr 0
          else Inl (''Unknown cluster '' @ squoted clusterName))"

definition getCluster :: "runtime_config \<Rightarrow> string \<Rightarrow> cluster_config res" where
  "getCluster config clusterName =
     rbind (lookupCluster config clusterName) (\<lambda>i. Inr (sc_clusters config ! i))"

definition resolveDefaultNode :: "runtime_config \<Rightarrow> string \<Rightarrow> string option \<Rightarrow> string res" where
  "resolveDefaultNode config clusterName requestedNode =
     (case js_or_undefined requestedNode of
        Some n \<Rightarrow> Inr n
      | None \<Rightarrow> rbind (getCluster config clusterName) (\<lambda>cl.
          case js_or_undefined (cl_defaultNode cl) of
            Some n \<Rightarrow> Inr n
          | None \<Rightarrow>
              if length (cl_nodes cl) = 1 then Inr (cn_name (cl_nodes cl ! 0))
              else Inl (''Cluster '' @ clusterName @ '' requires an explicit node because no defaultNode is configured and multiple nodes are present'')))"

definition resolveDefaultBridge :: "runtime_config \<Rightarrow> string \<Rightarrow> string option \<Rightarrow> string res" where
  "resolveDefaultBridge config clusterName requested =
     (case requested of Some b \<Rightarrow> Inr b
      | None \<Rightarrow> rbind (getCluster config clusterName) (\<lambda>cl. Inr (cl_defaultBridge cl)))"

definition resolveDefaultSnippetStorage :: "runtime_config \<Rightarrow> string \<Rightarrow> string option \<Rightarrow> string res" where
  "resolveDefaultSnippetStorage config clusterName requested =
     (case requested of Some b \<Rightarrow> Inr b
      | None \<Rightarrow> rbind (getCluster config clusterName) (\<lambda>cl. Inr (cl_defaultSnippetStorage cl)))"

definition resolveDefaultVmStorage :: "runtime_config \<Rightarrow> string \<Rightarrow> string option \<Rightarrow> string res" where
  "resolveDefaultVmStorage config clusterName requested =
     rbind (case requested of Some b \<Rightarrow> Inr (Some b)
        | None \<Rightarrow> rbind (getCluster config clusterName) (\<lambda>cl. Inr (cl_defaultVmStorage cl)))
     (\<lambda>resolved. case js_or_undefined resolved of
        Some r \<Rightarrow> Inr r
      | None \<Rightarrow> Inl (''Cluster '' @ clusterName @ '' requires a storage argument because no defaultVmStorage is configured''))"

section \<open>API clients\<close>

definition getApiClientFingerprint :: "cluster_config \<Rightarrow> string" where
  "getApiClientFingerprint cl =
     (case cl_auth cl of
        ApiToken a \<Rightarrow> ''api_token:'' @ at_user a @ '':'' @ at_realm a @ '':'' @ at_tokenId a @ '':'' @ at_secret a
      | Ticket a \<Rightarrow> ''ticket:'' @ ti_username a @ '':'' @ ti_realm a @ '':'' @ ti_password a @ '':'' @
          default_to [] (ti_otp a)
      | SecretRef sc \<Rightarrow> ''secret_ref:'' @ default_to (cl_name cl) sc
      | SshBootstrap b \<Rightarrow> ''ssh_bootstrap:'' @ sb_sshUsername b @ '':'' @ sb_apiUser b @ '':'' @
          sb_apiRealm b @ '':'' @ sb_tokenId b)"

definition newClient :: "world \<Rightarrow> nat \<Rightarrow> cluster_config \<Rightarrow> ('b svc_scheme, api_client) act" where
  "newClient w i cl =
     (let client = (\<lambda>ca. \<lparr>ac_cluster = i, ac_rejectUnauthorized = tls_rejectUnauthorized (cl_tls cl),
            ac_ca = ca, ac_ticketCookie = None, ac_csrfToken = None\<rparr>)
      in case js_or_undefined (tls_caFile (cl_tls cl)) of
           Some f \<Rightarrow> bindA (readFileA w f) (\<lambda>ca. ret (client (Some ca)))
         | None \<Rightarrow> ret (client None))"

definition getApiClient :: "world \<Rightarrow> string \<Rightarrow> ('b svc_scheme, string) act" where
  "getApiClient w clusterName =
     bindA (getsA (\<lambda>s. (sv_config s, sv_clients s, sv_fingerprints s))) (\<lambda>(config, clients, fps).
     bindA (liftR (lookupCluster config clusterName)) (\<lambda>i.
     let cl = sc_clusters config ! i; fingerprint = getApiClientFingerprint cl in
     if map_of clients clusterName \<noteq> None \<and> map_of fps clusterName = Some fingerprint
     then ret clusterName
     else bindA (newClient w i cl) (\<lambda>client.
       seqA (modifyA (\<lambda>s. s\<lparr>sv_clients := AList.update clusterName client (sv_clients s),
                            sv_fingerprints := AList.update clusterName fingerprint (sv_fingerprints s)\<rparr>))
         (ret clusterName))))"

section \<open>Requests with one repair\<close>

definition word_char :: "char \<Rightarrow> bool" where
  "word_char c \<longleftrightarrow> is_digit c \<or> (65 \<le> code c \<and> code c \<le> 90) \<or> (97 \<le> code c \<and> code c \<le> 122) \<or> c = CHR ''_''"

text \<open>\<open>/\b401\b/\<close>: an occurrence whose neighbours are no word characters.\<close>

fun word_at :: "bool \<Rightarrow> string \<Rightarrow> string \<Rightarrow> bool" where
  "word_at prev w [] = False"
| "word_at prev w (c # s) =
     ((\<not> prev \<and> js_startsWith (c # s) w \<and>
       (case drop (length w) (c # s) of [] \<Rightarrow> True | d # r \<Rightarrow> \<not> word_char d))
      \<or> word_at (word_char c) w s)"

definition isApiAuthError :: "string \<Rightarrow> bool" where
  "isApiAuthError message \<longleftrightarrow>
     word_at False ''401'' message \<or> includes_ci message ''ticket authentication failed'' \<or>
     includes_ci message ''authentication''"

definition isSshAuthError :: "string \<Rightarrow> bool" where
  "isSshAuthError message \<longleftrightarrow>
     includes_ci message ''permission denied'' \<or> includes_ci message ''authentication failed'' \<or>
     includes_ci message ''all configured authentication methods failed''"

definition ensureAuth :: "service \<Rightarrow> string \<Rightarrow> ('b svc_scheme, unit) act" where
  "ensureAuth S clusterName = (if se_auth S then ensureCluster (se_world S) clusterName else ret ())"

definition canRepair :: "service \<Rightarrow> 'b svc_scheme \<Rightarrow> string \<Rightarrow> bool" where
  "canRepair S s clusterName \<longleftrightarrow> se_auth S \<and> hasManagedCluster s clusterName"

text \<open>
  One attempt, and on an authentication failure one repair and one second attempt, which is not
  repaired again.
\<close>

definition withRepair ::
    "service \<Rightarrow> string \<Rightarrow> (string \<Rightarrow> bool) \<Rightarrow> string \<Rightarrow> ('b svc_scheme, 'a) act \<Rightarrow> ('b svc_scheme, 'a) act" where
  "withRepair S clusterName isAuthError reason attempt =
     seqA (ensureAuth S clusterName)
       (catchA attempt (\<lambda>e.
          bindA (getsA (\<lambda>s. canRepair S s clusterName)) (\<lambda>can.
          if can \<and> isAuthError e
          then seqA (repairCluster (se_world S) clusterName reason)
                (seqA (ensureAuth S clusterName) attempt)
          else raise e)))"

definition apiAttempt ::
    "service \<Rightarrow> string \<Rightarrow> string \<Rightarrow> string \<Rightarrow> (string \<times> jsval) list \<Rightarrow> int option \<Rightarrow> ('b svc_scheme, jsval) act" where
  "apiAttempt S clusterName method path args timeoutMs =
     bindA (getApiClient (se_world S) clusterName)
       (\<lambda>key. clientRequest (se_world S) key method path args timeoutMs)"

definition apiRequest ::
    "service \<Rightarrow> string \<Rightarrow> string \<Rightarrow> string \<Rightarrow> (string \<times> jsval) list \<Rightarrow> int option \<Rightarrow> ('b svc_scheme, jsval) act" where
  "apiRequest S clusterName method path args timeoutMs =
     withRepair S clusterName isApiAuthError ''api_auth_failure''
       (apiAttempt S clusterName method path args timeoutMs)"

record node_target =
  nt_cluster :: string
  nt_node :: string
  nt_host :: string
  nt_port :: int
  nt_sshProfile :: string

definition getNodeTarget :: "runtime_config \<Rightarrow> string \<Rightarrow> string \<Rightarrow> node_target res" where
  "getNodeTarget config cluster node =
     rbind (getCluster config cluster) (\<lambda>cl.
     case find (\<lambda>e. cn_name e = node) (cl_nodes cl) of
       None \<Rightarrow> Inl (''No shell-capable node mapping is configured for '' @ cluster @ ''/'' @ node @
         ''. Enroll a shell identity or configure steady-state shell SSH secrets for this cluster.'')
     | Some n \<Rightarrow> Inr \<lparr>nt_cluster = cluster, nt_node = node, nt_host = cn_host n, nt_port = cn_port n,
         nt_sshProfile = cn_sshProfile n\<rparr>)"

definition getNodeSshTarget :: "runtime_config \<Rightarrow> node_target \<Rightarrow> ssh_target res" where
  "getNodeSshTarget config target =
     (case map_of (rt_sshProfileMap config) (nt_sshProfile target) of
        None \<Rightarrow> Inl (''Shell access is not configured for '' @ nt_cluster target @ ''/'' @ nt_node target @
          ''. Missing SSH profile '' @ squoted (nt_sshProfile target) @
          ''. Configure or enroll the steady-state shell identity first.'')
      | Some p \<Rightarrow> Inr \<lparr>st_host = nt_host target, st_port = Some (nt_port target), st_profile = p\<rparr>)"

definition sshAttempt :: "service \<Rightarrow> node_target \<Rightarrow> string \<Rightarrow> ('b svc_scheme, command_result) act" where
  "sshAttempt S resolved command =
     bindA (getsA (\<lambda>s. getNodeSshTarget (sv_config s) resolved)) (\<lambda>r.
     bindA (liftR r) (\<lambda>target. sshA (se_world S) target command))"

definition runSshCommand :: "service \<Rightarrow> node_target \<Rightarrow> string \<Rightarrow> ('b svc_scheme, command_result) act" where
  "runSshCommand S resolved command =
     withRepair S (nt_cluster resolved) isSshAuthError ''ssh_auth_failure'' (sshAttempt S resolved command)"

definition nodeTargetA :: "string \<Rightarrow> string \<Rightarrow> ('b svc_scheme, node_target) act" where
  "nodeTargetA cluster node =
     bindA (getsA (\<lambda>s. getNodeTarget (sv_config s) cluster node)) liftR"

definition runNodeScript :: "service \<Rightarrow> string \<Rightarrow> string \<Rightarrow> string \<Rightarrow> ('b svc_scheme, command_result) act" where
  "runNodeScript S cluster node script =
     bindA (nodeTargetA cluster node) (\<lambda>resolved.
       runSshCommand S resolved (''/bin/sh -lc '' @ shellQuote (''printf %s '' @
         shellQuote (base64_encode (utf8_encode script)) @ '' | base64 -d | bash'')))"

section \<open>The REST call\<close>

definition auditA :: "service \<Rightarrow> (string \<times> jsval) list \<Rightarrow> ('b svc_scheme, unit) act" where
  "auditA S entry = auditRecord (se_world S) (se_auditLogPath S) entry"

record api_call_result =
  ar_data :: jsval
  ar_upid :: "string option"

definition upid_of :: "jsval \<Rightarrow> string option" where
  "upid_of data = (if isUpid data then jstr_opt data else None)"

definition apiCallCheck ::
    "service \<Rightarrow> target_ref \<Rightarrow> string \<Rightarrow> string \<Rightarrow> (string \<times> jsval) list \<Rightarrow> policy_config list \<Rightarrow> api_match res" where
  "apiCallCheck S target method path args policies =
     rbind (assertApiAccess policies target method) (\<lambda>_.
       validate (se_catalog S) method path args)"

definition apiCallEntry ::
    "target_ref \<Rightarrow> string \<Rightarrow> string \<Rightarrow> (string \<times> jsval) list \<Rightarrow> (string \<times> jsval) list" where
  "apiCallEntry target method path args =
     [(''action'', JStr ''proxmox_api_call''), (''target'', target_json target), (''method'', JStr method),
      (''path'', JStr path), (''args'', JObj args)]"

definition proxmoxApiCall ::
    "service \<Rightarrow> target_ref \<Rightarrow> string \<Rightarrow> string \<Rightarrow> (string \<times> jsval) list \<Rightarrow> int option \<Rightarrow>
     ('b svc_scheme, api_call_result) act" where
  "proxmoxApiCall S target method path args timeoutMs =
     bindA (getsA (\<lambda>s. apiCallCheck S target method path args (sc_policies (sv_config s)))) (\<lambda>checked.
     bindA (liftR checked) (\<lambda>validated.
     seqA (auditA S (apiCallEntry target method path (ma_args validated)))
    (bindA (apiRequest S (tg_cluster target) method path (ma_args validated) timeoutMs) (\<lambda>data.
     ret \<lparr>ar_data = data, ar_upid = upid_of data\<rparr>))))"

section \<open>Tasks\<close>

definition upid_node :: "string \<Rightarrow> string res" where
  "upid_node upid =
     (case js_split (CHR '':'') upid of
        p # node # ps \<Rightarrow> if node = [] then Inl (''Invalid UPID '' @ squoted upid) else Inr node
      | _ \<Rightarrow> Inl (''Invalid UPID '' @ squoted upid))"

text \<open>The polling loop with the number of rounds as fuel: \<open>None\<close> means still polling.\<close>

fun pollUpid ::
    "service \<Rightarrow> string \<Rightarrow> string \<Rightarrow> string \<Rightarrow> int \<Rightarrow> nat \<Rightarrow> int \<Rightarrow> ('b svc_scheme, jsval option) act" where
  "pollUpid S cluster node upid poll 0 attempts = ret None"
| "pollUpid S cluster node upid poll (Suc fuel) attempts =
     bindA (abortedA (se_world S)) (\<lambda>ab.
     if ab then raise ''Task wait aborted''
     else bindA (apiRequest S cluster ''GET'' (task_path node upid ''/status'') [] None) (\<lambda>status.
       bindA (liftR (jfield status ''status'')) (\<lambda>st.
       if st = JStr ''stopped'' then ret (Some status)
       else
         seqA (progressA (attempts + 1) (''Waiting for task '' @ upid))
        (seqA (sleepA (se_world S) poll)
          (pollUpid S cluster node upid poll fuel (attempts + 1))))))"

definition waitForUpid ::
    "service \<Rightarrow> nat \<Rightarrow> string \<Rightarrow> string \<Rightarrow> int \<Rightarrow> ('b svc_scheme, (jsval \<times> jsval) option) act" where
  "waitForUpid S fuel cluster upid pollIntervalMs =
     bindA (liftR (upid_node upid)) (\<lambda>node.
     bindA (pollUpid S cluster node upid pollIntervalMs fuel 0) (\<lambda>r.
     case r of
       None \<Rightarrow> ret None
     | Some status \<Rightarrow>
         bindA (apiRequest S cluster ''GET'' (task_path node upid ''/log'') [] None) (\<lambda>log.
           ret (Some (status, log)))))"

definition cancelUpid :: "service \<Rightarrow> string \<Rightarrow> string \<Rightarrow> ('b svc_scheme, unit) act" where
  "cancelUpid S cluster upid =
     bindA (liftR (upid_node upid)) (\<lambda>node.
     bindA (apiRequest S cluster ''DELETE'' (task_path node upid []) [] None) (\<lambda>_. ret ()))"

definition getTaskStatus :: "service \<Rightarrow> string \<Rightarrow> string \<Rightarrow> string \<Rightarrow> ('b svc_scheme, jsval) act" where
  "getTaskStatus S cluster node upid = apiRequest S cluster ''GET'' (task_path node upid ''/status'') [] None"

definition getTaskLog :: "service \<Rightarrow> string \<Rightarrow> string \<Rightarrow> string \<Rightarrow> ('b svc_scheme, jsval) act" where
  "getTaskLog S cluster node upid = apiRequest S cluster ''GET'' (task_path node upid ''/log'') [] None"

end
