(* ===== verification/ServiceCalls.thy ===== *)
theory ServiceCalls
  imports Service
begin

text \<open>
  Properties of the service core: the trace of every building block only grows, a request costs a
  bounded number of HTTP exchanges, the REST call is checked and audited before anything else, and
  the polling loops end when the task does.
\<close>

section \<open>The trace\<close>

lemma powerShellExec_step [grows_rules]: "keeps svc_step (powerShellExec w c p h cmd)"
  by (auto simp: powerShellExec_def intro!: grows_rules split: option.split)

lemma newClient_grows [grows_rules]: "keeps svc_step (newClient w i cl)"
  by (auto simp: newClient_def Let_def intro!: grows_rules split: option.split)

lemma getApiClient_grows [grows_rules]: "keeps svc_step (getApiClient w c)"
  by (auto simp: getApiClient_def Let_def intro!: grows_rules split: prod.split)

lemma ensureAuth_grows [grows_rules]: "keeps svc_step (ensureAuth S c)"
  by (auto simp: ensureAuth_def intro!: grows_rules)

lemma withRepair_grows [grows_rules]:
  "keeps svc_step attempt \<Longrightarrow> keeps svc_step (withRepair S c p r attempt)"
  by (auto simp: withRepair_def intro!: grows_rules)

lemma apiAttempt_grows [grows_rules]: "keeps svc_step (apiAttempt S c m p a t)"
  by (auto simp: apiAttempt_def intro!: grows_rules)

lemma apiRequest_grows [grows_rules]: "keeps svc_step (apiRequest S c m p a t)"
  by (auto simp: apiRequest_def intro!: grows_rules)

lemma sshAttempt_grows [grows_rules]: "keeps svc_step (sshAttempt S t c)"
  by (auto simp: sshAttempt_def intro!: grows_rules)

lemma runSshCommand_grows [grows_rules]: "keeps svc_step (runSshCommand S t c)"
  by (auto simp: runSshCommand_def intro!: grows_rules)

lemma nodeTargetA_grows [grows_rules]: "keeps svc_step (nodeTargetA c n)"
  by (auto simp: nodeTargetA_def intro!: grows_rules)

lemma runNodeScript_grows [grows_rules]: "keeps svc_step (runNodeScript S c n s)"
  by (auto simp: runNodeScript_def intro!: grows_rules)

lemma auditA_grows [grows_rules]: "keeps svc_step (auditA S e)"
  by (auto simp: auditA_def intro!: grows_rules)

lemma proxmoxApiCall_grows [grows_rules]: "keeps svc_step (proxmoxApiCall S tg m p a t)"
  by (auto simp: proxmoxApiCall_def intro!: grows_rules)

section \<open>The REST call is checked, audited, then sent\<close>

definition validatedArgs :: "service \<Rightarrow> string \<Rightarrow> string \<Rightarrow> (string \<times> jsval) list \<Rightarrow> (string \<times> jsval) list" where
  "validatedArgs S method path args =
     (case validate (se_catalog S) method path args of Inr v \<Rightarrow> ma_args v | Inl e \<Rightarrow> [])"

definition apiCallBody ::
    "service \<Rightarrow> target_ref \<Rightarrow> string \<Rightarrow> string \<Rightarrow> (string \<times> jsval) list \<Rightarrow> int option \<Rightarrow>
     ('b svc_scheme, api_call_result) act" where
  "apiCallBody S target method path args timeoutMs =
     bindA (apiRequest S (tg_cluster target) method path (validatedArgs S method path args) timeoutMs) (\<lambda>data.
       ret \<lparr>ar_data = data, ar_upid = upid_of data\<rparr>)"

interpretation apiCall: gated_op
  "se_world S"
  "\<lambda>s. rbind (apiCallCheck S target meth path args (sc_policies (sv_config s))) (\<lambda>_. Inr ())"
  "\<lambda>_. se_auditLogPath S"
  "\<lambda>_. apiCallEntry target meth path (validatedArgs S meth path args)"
  "apiCallBody S target meth path args timeoutMs"
  "proxmoxApiCall S target meth path args timeoutMs"
  for S target meth path args timeoutMs
proof
  show "keeps trace_grows (apiCallBody S target meth path args timeoutMs)"
    by (auto simp: apiCallBody_def intro!: grows_rules)
  have chk: "v = (case validate (se_catalog S) meth path args of Inr v \<Rightarrow> v)"
    if "apiCallCheck S target meth path args ps = Inr v" for v ps
    using that by (auto simp: apiCallCheck_def res_simps)
  show "gated (se_world S)
     (\<lambda>s. rbind (apiCallCheck S target meth path args (sc_policies (sv_config s))) (\<lambda>_. Inr ()))
     (\<lambda>_. se_auditLogPath S) (\<lambda>_. apiCallEntry target meth path (validatedArgs S meth path args))
     (apiCallBody S target meth path args timeoutMs) (proxmoxApiCall S target meth path args timeoutMs)"
    unfolding gated_def
  proof
    fix s
    show "proxmoxApiCall S target meth path args timeoutMs s =
      (case rbind (apiCallCheck S target meth path args (sc_policies (sv_config s))) (\<lambda>_. Inr ()) of
        Inl e \<Rightarrow> (Inl e, s)
      | Inr u \<Rightarrow> seqA (auditRecord (se_world S) (se_auditLogPath S)
          (apiCallEntry target meth path (validatedArgs S meth path args)))
          (apiCallBody S target meth path args timeoutMs) s)"
    proof (cases "apiCallCheck S target meth path args (sc_policies (sv_config s))")
      case (Inr v)
      then have "validatedArgs S meth path args = ma_args v"
        by (auto simp: validatedArgs_def apiCallCheck_def res_simps)
      then show ?thesis using Inr by (simp add: proxmoxApiCall_def apiCallBody_def auditA_def)
    qed (simp add: proxmoxApiCall_def)
  qed
qed

text \<open>
  C5. The hard boundary of the REST call: when the policy or the schema rejects it, the state is
  exactly as before and nothing was sent; otherwise the first thing that leaves the process is one
  audit line with the redacted arguments, before any HTTP or SSH exchange.
\<close>

theorem proxmoxApiCall_gated:
  "(snd (proxmoxApiCall S target meth path args timeoutMs s) = s \<and>
    (\<exists>e. apiCallCheck S target meth path args (sc_policies (sv_config s)) = Inl e \<and>
         fst (proxmoxApiCall S target meth path args timeoutMs s) = Inl e)) \<or>
   (is_ok (assertApiAccess (sc_policies (sv_config s)) target meth) \<and>
    is_ok (validate (se_catalog S) meth path args) \<and>
    (\<exists>rest. io_trace (snd (proxmoxApiCall S target meth path args timeoutMs s)) = io_trace s @
        EvAppend (se_auditLogPath S) (auditLine (w_nowIso (se_world S) (io_trace s))
          (apiCallEntry target meth path (validatedArgs S meth path args))) # rest))"
  using apiCall.audit_first[of S target meth path args timeoutMs s]
  by (auto simp: apiCallCheck_def res_simps is_ok_iff)

section \<open>The cost of a request\<close>

fun is_fetch :: "event \<Rightarrow> bool" where
  "is_fetch (EvFetch r) = True"
| "is_fetch _ = False"

definition fetches :: "'b io_scheme \<Rightarrow> nat" where
  "fetches s = length (filter is_fetch (io_trace s))"

definition costs :: "nat \<Rightarrow> ('b io_scheme, 'a) act \<Rightarrow> bool" where
  "costs k m \<longleftrightarrow> (\<forall>s. fetches (snd (m s)) \<le> fetches s + k)"

lemma costs_bind: "costs a m \<Longrightarrow> (\<And>x. costs b (f x)) \<Longrightarrow> costs (a + b) (bindA m f)"
  unfolding costs_def bindA_def
  by (auto split: prod.splits sum.splits) (metis add.assoc add_le_mono1 le_trans snd_conv le_add1 trans_le_add1)+

lemma costs_mono: "costs a m \<Longrightarrow> a \<le> b \<Longrightarrow> costs b m"
  unfolding costs_def by (meson add_le_mono le_trans order_refl)

lemma costs_seq: "costs a m \<Longrightarrow> costs b k \<Longrightarrow> costs (a + b) (seqA m k)"
  by (simp add: seqA_def costs_bind)

lemma costs_catch: "costs a m \<Longrightarrow> (\<And>e. costs b (h e)) \<Longrightarrow> costs (a + b) (catchA m h)"
  unfolding costs_def catchA_def
  by (auto split: prod.splits sum.splits)
    (metis add.assoc add_le_mono1 le_trans snd_conv le_add1 trans_le_add1)+

text \<open>Everything but the HTTP client costs nothing.\<close>

definition same_fetches :: "'b io_scheme \<Rightarrow> 'b io_scheme \<Rightarrow> bool" where
  "same_fetches s t \<longleftrightarrow> fetches t = fetches s"

interpretation noFetch: preorder_rel same_fetches
  by unfold_locales (simp_all add: same_fetches_def)

named_theorems free_rules "actions without an HTTP exchange"

lemmas [free_rules] = noFetch.keeps_intros

lemma free_interact [free_rules]: "\<not> is_fetch e \<Longrightarrow> keeps same_fetches (interact e f)"
  by (simp add: keeps_def same_fetches_def fetches_def interact_def)

lemma free_modify [free_rules]: "(\<And>s. io_trace (f s) = io_trace s) \<Longrightarrow> keeps same_fetches (modifyA f)"
  by (simp add: keeps_def same_fetches_def fetches_def)

lemma free_io [free_rules]:
  "keeps same_fetches (sshA w tg c)" "keeps same_fetches (auditRecord w p e)" "keeps same_fetches (nowA w)"
  "keeps same_fetches (nowIsoA w)" "keeps same_fetches (readFileA w p)" "keeps same_fetches (modify_config g)"
  by (auto simp: sshA_def auditRecord_def nowIsoA_def appendFileA_def nowA_def readFileA_def modify_config_def
      intro!: free_rules)

lemma free_managed [free_rules]:
  "keeps same_fetches (execBootstrapRaw w b c)" "keeps same_fetches (scheduleRotation n i)"
  "keeps same_fetches (set_repairing n x)"
  by (auto simp: execBootstrapRaw_def scheduleRotation_def set_repairing_def intro!: free_rules)

lemma free_detect [free_rules]: "keeps same_fetches (detectBootstrapMode w n)"
  by (auto simp: detectBootstrapMode_def Let_def intro!: free_rules split: option.split)

lemma free_script [free_rules]: "keeps same_fetches (runBootstrapScript w n script)"
  by (auto simp: runBootstrapScript_def Let_def intro!: free_rules)

lemma free_apply [free_rules]: "keeps same_fetches (applyCredentials w n i p parsed)"
  by (auto simp: applyCredentials_def Let_def intro!: free_rules)

lemma free_reconcile [free_rules]: "keeps same_fetches (reconcileCluster w n r)"
  by (auto simp: reconcileCluster_def intro!: free_rules split: option.split prod.split)

lemma free_finally [free_rules]:
  "keeps same_fetches m \<Longrightarrow> keeps same_fetches f \<Longrightarrow> keeps same_fetches (finallyA m f)"
  by (auto simp: keeps_def finallyA_def same_fetches_def)

lemma free_repair [free_rules]: "keeps same_fetches (repairCluster w n r)"
  by (auto simp: repairCluster_def intro!: free_rules split: option.split prod.split)

lemma free_ensure [free_rules]: "keeps same_fetches (ensureAuth S n)"
  by (auto simp: ensureAuth_def ensureCluster_def Let_def intro!: free_rules split: option.split prod.split)

lemma free_new_client [free_rules]: "keeps same_fetches (newClient w i cl)"
  by (auto simp: newClient_def Let_def intro!: free_rules split: option.split)

lemma free_client [free_rules]: "keeps same_fetches (getApiClient w c)"
  by (auto simp: getApiClient_def Let_def intro!: free_rules split: prod.split)

lemma costs_free: "keeps same_fetches m \<Longrightarrow> costs k m"
  by (simp add: keeps_def same_fetches_def costs_def)

lemma costs_fetch: "costs 1 (fetchA w r)"
  by (simp add: costs_def fetchA_def interact_def fetches_def)

lemma costs_fetch_then: "(\<And>r. costs 0 (k r)) \<Longrightarrow> costs 1 (bindA (fetchA w rq) k)"
  using costs_bind[OF costs_fetch, of 0 k w rq] by simp

lemma costs_gets: "(\<And>x. costs k (f x)) \<Longrightarrow> costs k (bindA (getsA g) f)"
  using costs_bind[OF costs_free[OF noFetch.keeps_gets], of k f 0 g] by simp

lemma costs_ticket: "costs 1 (ensureTicket w key)"
  unfolding ensureTicket_def
proof (rule costs_gets, goal_cases)
  case (1 x)
  show ?case
    by (cases x; cases "cl_auth (fst x)")
      (auto intro!: costs_fetch_then costs_free[where k = 0] costs_free[OF noFetch.keeps_ret] free_rules
        simp del: One_nat_def simp: Let_def)
qed

lemma costs_headers: "costs 1 (buildHeaders w key m)"
  unfolding buildHeaders_def
proof (rule costs_gets, goal_cases)
  case (1 cl)
  have "costs (1 + 0) (seqA (ensureTicket w key) k)" if "keeps same_fetches k"
    for k :: "('b svc_scheme, (string \<times> string) list) act"
    using costs_ticket costs_free[OF that] by (rule costs_seq)
  then have seq: "costs 1 (seqA (ensureTicket w key) k)" if "keeps same_fetches k"
    for k :: "('b svc_scheme, (string \<times> string) list) act" using that by simp
  show ?case
    by (cases "cl_auth cl") (auto intro!: seq costs_free[OF noFetch.keeps_ret] costs_free[OF noFetch.keeps_raise]
        free_rules simp del: One_nat_def)
qed

lemma costs_request: "costs 2 (clientRequest w key m p a t)"
proof -
  have "costs (0 + (1 + (1 + 0))) (clientRequest w key m p a t)"
    unfolding clientRequest_def Let_def
    by (intro costs_bind costs_headers costs_fetch) (auto intro!: costs_free free_rules)
  then show ?thesis by (simp add: numeral_2_eq_2)
qed

lemma costs_attempt: "costs 2 (apiAttempt S c m p a t)"
proof -
  have "costs (0 + 2) (apiAttempt S c m p a t)"
    unfolding apiAttempt_def by (intro costs_bind costs_request) (auto intro!: costs_free free_rules)
  then show ?thesis unfolding add_0 .
qed

lemma costs_withRepair:
  assumes "costs k attempt"
  shows "costs (k + k) (withRepair S c p r attempt)"
proof -
  have retry: "costs (0 + (0 + k)) (seqA (repairCluster (se_world S) c r) (seqA (ensureAuth S c) attempt))"
    by (intro costs_seq assms) (auto intro!: costs_free free_rules)
  have "costs (0 + (k + (0 + k))) (withRepair S c p r attempt)"
    unfolding withRepair_def
    by (intro costs_seq costs_catch costs_bind assms)
      (use retry in \<open>auto intro!: costs_free free_rules\<close>)
  then show ?thesis by simp
qed

lemma withRepair_no_lifecycle:
  "\<not> se_auth S \<Longrightarrow> withRepair S c p r attempt = catchA attempt raise"
  by (simp add: withRepair_def ensureAuth_def canRepair_def fun_eq_iff catchA_def
      bindA_def getsA_def split: prod.split sum.split)

text \<open>
  C39. A request is repaired at most once: it costs at most two attempts, that is four HTTP exchanges
  (two of them logins), whatever the servers answer; without a credentials lifecycle it costs one
  attempt.
\<close>

theorem apiRequest_bounded:
  "fetches (snd (apiRequest S c m p a t s)) \<le> fetches s + (if se_auth S then 4 else 2)"
proof (cases "se_auth S")
  case True
  have "costs (2 + 2) (apiRequest S c m p a t)"
    unfolding apiRequest_def by (rule costs_withRepair[OF costs_attempt])
  then have "fetches (snd (apiRequest S c m p a t s)) \<le> fetches s + (2 + 2)"
    unfolding costs_def by blast
  then show ?thesis using True by simp
next
  case False
  have "costs (2 + 0) (apiRequest S c m p a t)"
    unfolding apiRequest_def withRepair_no_lifecycle[OF False]
    by (rule costs_catch[OF costs_attempt]) (auto intro!: costs_free free_rules)
  then have "fetches (snd (apiRequest S c m p a t s)) \<le> fetches s + (2 + 0)"
    unfolding costs_def by blast
  then show ?thesis using False by simp
qed

end
