(* ===== verification/ServiceGuest.thy ===== *)
theory ServiceGuest
  imports ServiceCalls
begin

text \<open>
  Commands and files on nodes, containers and virtual machines: src/services.ts from
  \<open>getClusterResources\<close> to \<open>proxmoxFileWrite\<close>.  A transport is chosen by the kind of the target: SSH
  to the node, \<open>pct exec\<close> over that SSH, the QEMU guest agent over REST, direct SSH, or WinRM.
\<close>

section \<open>Resources\<close>

definition fetchResources :: "service \<Rightarrow> string \<Rightarrow> ('b svc_scheme, jsval) act" where
  "fetchResources S cluster =
     bindA (apiRequest S cluster ''GET'' ''/cluster/resources'' [] None) (\<lambda>resources.
     bindA (nowA (se_world S)) (\<lambda>now.
     seqA (modifyA (\<lambda>s. s\<lparr>sv_cache := AList.update cluster
             \<lparr>ca_fetchedAt = now, ca_resources = resources\<rparr> (sv_cache s)\<rparr>))
       (ret resources)))"

definition getClusterResources :: "service \<Rightarrow> string \<Rightarrow> bool \<Rightarrow> ('b svc_scheme, jsval) act" where
  "getClusterResources S cluster forceRefresh =
     bindA (getsA (\<lambda>s. (map_of (sv_cache s) cluster, sc_inventoryCacheTtlMs (sv_config s)))) (\<lambda>(cached, ttl).
     bindA (nowA (se_world S)) (\<lambda>now.
     (case cached of
        Some c \<Rightarrow> if \<not> forceRefresh \<and> now - ca_fetchedAt c < ttl then ret (ca_resources c)
          else fetchResources S cluster
      | None \<Rightarrow> fetchResources S cluster)))"

definition elements :: "jsval \<Rightarrow> jsval list res" where
  "elements v = (case v of JArr vs \<Rightarrow> Inr vs | _ \<Rightarrow> Inl ''TypeError'')"

definition is_resource :: "string \<Rightarrow> int \<Rightarrow> jsval \<Rightarrow> bool" where
  "is_resource kind vmid e \<longleftrightarrow> jget e ''type'' = JStr kind \<and> jget e ''vmid'' = JNum vmid"

definition getVmLocation :: "service \<Rightarrow> string \<Rightarrow> string \<Rightarrow> int \<Rightarrow> ('b svc_scheme, string) act" where
  "getVmLocation S cluster kind vmid =
     bindA (getClusterResources S cluster True) (\<lambda>resources.
     bindA (liftR (elements resources)) (\<lambda>es.
     let missing = raise (''Unable to locate '' @ kind @ '' '' @ int_str vmid @ '' in cluster '' @ cluster) in
     case find (is_resource kind vmid) es of
       None \<Rightarrow> missing
     | Some r \<Rightarrow> if js_truth (jget r ''node'') then ret (js_String (jget r ''node'')) else missing))"

datatype guest_kind = GkLinux | GkWindows | GkUnknown

record vm_guest =
  vg_guestKind :: guest_kind
  vg_agent :: bool

definition qemu_path :: "string \<Rightarrow> int \<Rightarrow> string \<Rightarrow> string" where
  "qemu_path node vmid leaf = ''/nodes/'' @ encodeURIComponent node @ ''/qemu/'' @ int_str vmid @ leaf"

definition classifyGuest :: "jsval \<Rightarrow> vm_guest" where
  "classifyGuest config =
     (let v = jget config ''ostype''; ostype = (if v = JUndef \<or> v = JNull then [] else js_String v) in
      \<lparr> vg_guestKind = (if js_startsWith ostype ''win'' then GkWindows
          else if ostype \<noteq> [] then GkLinux else GkUnknown),
        vg_agent = normalizeBoolean (jget config ''agent'') \<rparr>)"

definition detectVmGuest :: "service \<Rightarrow> string \<Rightarrow> string \<Rightarrow> int \<Rightarrow> ('b svc_scheme, vm_guest) act" where
  "detectVmGuest S cluster node vmid =
     bindA (apiRequest S cluster ''GET'' (qemu_path node vmid ''/config'') [] None) (\<lambda>config.
     if config = JUndef \<or> config = JNull then raise ''TypeError'' else ret (classifyGuest config))"

definition getLinuxGuestConfig :: "runtime_config \<Rightarrow> string \<Rightarrow> target_kind \<Rightarrow> int \<Rightarrow> linux_guest option" where
  "getLinuxGuestConfig config cluster kind vmid =
     find (\<lambda>e. lg_cluster e = cluster \<and> lg_kind e = kind \<and> lg_vmid e = vmid) (sc_linuxGuests config)"

definition getWindowsGuestConfig :: "runtime_config \<Rightarrow> string \<Rightarrow> int \<Rightarrow> windows_guest option" where
  "getWindowsGuestConfig config cluster vmid =
     find (\<lambda>e. wg_cluster e = cluster \<and> wg_vmid e = vmid) (sc_windowsGuests config)"

section \<open>Enrollment of the node key\<close>

definition getSshPublicKey :: "service \<Rightarrow> string \<Rightarrow> ('b svc_scheme, string) act" where
  "getSshPublicKey S profileName =
     bindA (getsA (\<lambda>s. map_of (rt_sshProfileMap (sv_config s)) profileName)) (\<lambda>profile.
     (case profile of
        None \<Rightarrow> raise (''Unknown SSH profile '' @ squoted profileName)
      | Some p \<Rightarrow>
          bindA (case sp_publicKey p of Some k \<Rightarrow> ret (Some k)
             | None \<Rightarrow> (case js_or_undefined (sp_publicKeyPath p) of
                 Some f \<Rightarrow> bindA (readFileA (se_world S) f) (\<lambda>t. ret (Some t))
               | None \<Rightarrow> ret None)) (\<lambda>publicKey.
          case js_or_undefined (map_option js_trim publicKey) of
            Some k \<Rightarrow> ret k
          | None \<Rightarrow> raise (''SSH profile '' @ squoted profileName @
              '' is missing publicKey or publicKeyPath for enrollment''))))"

definition failOnExit :: "string \<Rightarrow> command_result \<Rightarrow> ('b svc_scheme, command_result) act" where
  "failOnExit message result =
     (if cr_exitCode result \<noteq> 0 then raise (or_text (cr_stderr result) message) else ret result)"

definition installNodePublicKey :: "service \<Rightarrow> string \<Rightarrow> string \<Rightarrow> ('b svc_scheme, unit) act" where
  "installNodePublicKey S cluster node =
     bindA (nodeTargetA cluster node) (\<lambda>resolved.
     bindA (getSshPublicKey S (nt_sshProfile resolved)) (\<lambda>publicKey.
     let installCommand = js_join '' && ''
           [''umask 077'', ''mkdir -p ~/.ssh'', ''touch ~/.ssh/authorized_keys'',
            ''grep -qxF '' @ shellQuote publicKey @ lit '' ~/.ssh/authorized_keys || printf `%s#n` '' @
              shellQuote publicKey @ '' >> ~/.ssh/authorized_keys'']
     in bindA (runSshCommand S resolved (''/bin/sh -lc '' @ shellQuote installCommand)) (\<lambda>result.
        bindA (failOnExit (''Failed to install SSH public key on '' @ cluster @ ''/'' @ node) result)
          (\<lambda>_. ret ()))))"

definition setClusterAuth :: "string \<Rightarrow> cluster_auth \<Rightarrow> ('b svc_scheme, unit) act" where
  "setClusterAuth clusterName auth =
     bindA (getsA (\<lambda>s. lookupCluster (sv_config s) clusterName)) (\<lambda>r.
     bindA (liftR r) (\<lambda>i.
     modifyA (\<lambda>s. s\<lparr>sv_config := set_cluster i (\<lambda>cl. cl\<lparr>cl_auth := auth\<rparr>) (sv_config s),
                     sv_clients := AList.delete clusterName (sv_clients s)\<rparr>)))"

section \<open>CLI\<close>

text \<open>The timeout argument of the code is not used by it.\<close>

definition cliCheck :: "target_ref \<Rightarrow> string \<Rightarrow> string list \<Rightarrow> string option \<Rightarrow> runtime_config \<Rightarrow> (node_target \<times> string) res" where
  "cliCheck target family args rawCommand config =
     (case (tg_kind target, js_or_undefined (tg_node target)) of
        (KNode, Some node) \<Rightarrow>
          rbind (assertCliAccess (sc_policies config) target family (rawCommand \<noteq> None)) (\<lambda>_.
          rbind (getNodeTarget config (tg_cluster target) node) (\<lambda>resolved.
          Inr (resolved, (case rawCommand of Some c \<Rightarrow> c | None \<Rightarrow> shellJoin (family # args)))))
      | _ \<Rightarrow> Inl ''CLI execution requires a node target'')"

definition cliEntry :: "target_ref \<Rightarrow> string \<Rightarrow> string option \<Rightarrow> string list \<Rightarrow> (string \<times> jsval) list" where
  "cliEntry target family rawCommand args =
     [(''action'', JStr ''proxmox_cli_run''), (''target'', target_json target), (''family'', JStr family),
      (''rawCommand'', of_str_opt rawCommand), (''args'', JArr (map JStr args))]"

definition proxmoxCliRun ::
    "service \<Rightarrow> target_ref \<Rightarrow> string \<Rightarrow> string list \<Rightarrow> string option \<Rightarrow> ('b svc_scheme, command_result) act" where
  "proxmoxCliRun S target family args rawCommand =
     bindA (getsA (\<lambda>s. cliCheck target family args rawCommand (sv_config s))) (\<lambda>checked.
     bindA (liftR checked) (\<lambda>(resolved, command).
     seqA (auditA S (cliEntry target family rawCommand args))
       (runSshCommand S resolved command)))"

section \<open>The guest agent\<close>

definition agentResult :: "jsval \<Rightarrow> command_result" where
  "agentResult status =
     \<lparr> cr_stdout = decodeMaybeBase64 (jstr_opt (jget status ''out-data'')),
       cr_stderr = decodeMaybeBase64 (jstr_opt (jget status ''err-data'')),
       cr_exitCode = (case jnum_opt (jget status ''exitcode'') of Some n \<Rightarrow> n | None \<Rightarrow> 0),
       cr_signal = map_option int_str (jnum_opt (jget status ''signal'')) \<rparr>"

fun pollAgent ::
    "service \<Rightarrow> string \<Rightarrow> string \<Rightarrow> int \<Rightarrow> jsval \<Rightarrow> nat \<Rightarrow> int \<Rightarrow> ('b svc_scheme, command_result option) act" where
  "pollAgent S cluster node vmid pid 0 attempts = ret None"
| "pollAgent S cluster node vmid pid (Suc fuel) attempts =
     bindA (abortedA (se_world S)) (\<lambda>ab.
     if ab then raise ''Guest agent command aborted''
     else bindA (apiRequest S cluster ''GET'' (qemu_path node vmid ''/agent/exec-status'') [(''pid'', pid)] None)
       (\<lambda>status.
       bindA (liftR (jfield status ''exited'')) (\<lambda>exited.
       if normalizeBoolean exited then ret (Some (agentResult status))
       else
         seqA (progressA (attempts + 1) (''Waiting for guest-agent command PID '' @ js_String pid))
        (seqA (delayA 1000) (pollAgent S cluster node vmid pid fuel (attempts + 1))))))"

definition runQemuGuestAgentCommand ::
    "service \<Rightarrow> nat \<Rightarrow> string \<Rightarrow> string \<Rightarrow> int \<Rightarrow> string list \<Rightarrow> ('b svc_scheme, command_result option) act" where
  "runQemuGuestAgentCommand S fuel cluster node vmid command =
     bindA (apiRequest S cluster ''POST'' (qemu_path node vmid ''/agent/exec'')
        [(''command'', JArr (map JStr command))] None) (\<lambda>start.
     bindA (liftR (jfield start ''pid'')) (\<lambda>pid.
       pollAgent S cluster node vmid pid fuel 0))"

section \<open>Shell\<close>

record shell_input =
  si_command :: string
  si_interpreter :: interpreter
  si_useSudo :: bool

fun interpreter_str :: "interpreter \<Rightarrow> string" where
  "interpreter_str ISh = ''sh''"
| "interpreter_str IBash = ''bash''"
| "interpreter_str IPowershell = ''powershell''"
| "interpreter_str ICmd = ''cmd''"

definition shellCheck :: "target_ref \<Rightarrow> shell_input \<Rightarrow> runtime_config \<Rightarrow> unit res" where
  "shellCheck target input config =
     rbind (assertShellAccess (sc_policies config) target) (\<lambda>_.
     if si_useSudo input then assertSudoAccess (sc_policies config) target else Inr ())"

definition input_json :: "shell_input \<Rightarrow> jsval" where
  "input_json i = JObj [(''command'', JStr (si_command i)),
     (''interpreter'', JStr (interpreter_str (si_interpreter i))), (''useSudo'', JBool (si_useSudo i))]"

definition shellEntry :: "target_ref \<Rightarrow> shell_input \<Rightarrow> (string \<times> jsval) list" where
  "shellEntry target input =
     [(''action'', JStr ''proxmox_shell_run''), (''target'', target_json target), (''input'', input_json input)]"

definition linux_command :: "shell_input \<Rightarrow> string" where
  "linux_command i =
     buildLinuxShellCommand (if si_interpreter i = IBash then IBash else ISh) (si_command i)"

definition sudo_prefix :: "shell_input \<Rightarrow> string" where
  "sudo_prefix i = (if si_useSudo i then ''sudo -n '' @ linux_command i else linux_command i)"

definition agentCommand :: "guest_kind \<Rightarrow> shell_input \<Rightarrow> string list" where
  "agentCommand gk i =
     (if gk = GkWindows \<or> si_interpreter i = IPowershell \<or> si_interpreter i = ICmd then
        (if si_interpreter i = ICmd then [''cmd.exe'', ''/c'', si_command i]
         else [''powershell.exe'', ''-NoProfile'', ''-NonInteractive'', ''-Command'', si_command i])
      else [if si_interpreter i = IBash then ''/bin/bash'' else ''/bin/sh'', ''-lc'', si_command i])"

definition noShell :: "target_ref \<Rightarrow> ('b svc_scheme, 'a) act" where
  "noShell target = raise (''No supported shell transport found for '' @ kind_str (tg_kind target) @
     '' on cluster '' @ tg_cluster target)"

definition some_result :: "('b svc_scheme, 'a) act \<Rightarrow> ('b svc_scheme, 'a option) act" where
  "some_result m = bindA m (\<lambda>x. ret (Some x))"

definition directLinuxShell :: "service \<Rightarrow> target_ref \<Rightarrow> int \<Rightarrow> shell_input \<Rightarrow> ('b svc_scheme, command_result) act" where
  "directLinuxShell S target vmid input =
     bindA (getsA sv_config) (\<lambda>config.
     (case getLinuxGuestConfig config (tg_cluster target) KQemuVm vmid of
        None \<Rightarrow> noShell target
      | Some guest \<Rightarrow>
          (case (js_or_undefined (lg_host guest), js_or_undefined (lg_sshProfile guest)) of
             (Some host, Some profileName) \<Rightarrow>
               (case map_of (rt_sshProfileMap config) profileName of
                  None \<Rightarrow> raise (''Unknown SSH profile '' @ squoted profileName)
                | Some profile \<Rightarrow> sshA (se_world S)
                    \<lparr>st_host = host, st_port = None, st_profile = profile\<rparr> (linux_command input))
           | _ \<Rightarrow> noShell target)))"

definition directWindowsShell :: "service \<Rightarrow> target_ref \<Rightarrow> int \<Rightarrow> shell_input \<Rightarrow> ('b svc_scheme, command_result) act" where
  "directWindowsShell S target vmid input =
     bindA (getsA sv_config) (\<lambda>config.
     (case getWindowsGuestConfig config (tg_cluster target) vmid of
        None \<Rightarrow> noShell target
      | Some guest \<Rightarrow>
          (case (js_or_undefined (wg_host guest), js_or_undefined (wg_winrmProfile guest)) of
             (Some host, Some profileName) \<Rightarrow>
               powerShellExec (se_world S) config profileName host (si_command input)
           | _ \<Rightarrow> noShell target)))"

definition shellBody :: "service \<Rightarrow> nat \<Rightarrow> target_ref \<Rightarrow> shell_input \<Rightarrow> ('b svc_scheme, command_result option) act" where
  "shellBody S fuel target input =
     (case (tg_kind target, js_or_undefined (tg_node target), tg_vmid target) of
        (KNode, Some node, _) \<Rightarrow>
          bindA (nodeTargetA (tg_cluster target) node) (\<lambda>resolved.
            some_result (runSshCommand S resolved (sudo_prefix input)))
      | (KLxcContainer, _, Some vmid) \<Rightarrow>
          bindA (getVmLocation S (tg_cluster target) ''lxc'' vmid) (\<lambda>node.
          bindA (nodeTargetA (tg_cluster target) node) (\<lambda>resolved.
            some_result (runSshCommand S resolved (''pct exec '' @ int_str vmid @ '' -- '' @ sudo_prefix input))))
      | (kind, _, Some vmid) \<Rightarrow>
          if kind = KQemuVm \<or> kind = KLinuxGuest \<or> kind = KWindowsGuest then
            bindA (getVmLocation S (tg_cluster target) ''qemu'' vmid) (\<lambda>node.
            bindA (detectVmGuest S (tg_cluster target) node vmid) (\<lambda>details.
              if vg_agent details then
                runQemuGuestAgentCommand S fuel (tg_cluster target) node vmid
                  (agentCommand (vg_guestKind details) input)
              else if vg_guestKind details \<noteq> GkWindows then
                some_result (directLinuxShell S target vmid input)
              else some_result (directWindowsShell S target vmid input)))
          else noShell target
      | _ \<Rightarrow> noShell target)"

definition proxmoxShellRun ::
    "service \<Rightarrow> nat \<Rightarrow> target_ref \<Rightarrow> shell_input \<Rightarrow> ('b svc_scheme, command_result option) act" where
  "proxmoxShellRun S fuel target input =
     bindA (getsA (\<lambda>s. shellCheck target input (sv_config s))) (\<lambda>checked.
     seqA (liftR checked)
    (seqA (auditA S (shellEntry target input)) (shellBody S fuel target input)))"

definition nodeTerminalEntry :: "target_ref \<Rightarrow> shell_input \<Rightarrow> (string \<times> jsval) list" where
  "nodeTerminalEntry target input =
     [(''action'', JStr ''proxmox_node_terminal_run''), (''target'', target_json target),
      (''input'', input_json input)]"

definition nodeTerminalRun :: "service \<Rightarrow> string \<Rightarrow> string \<Rightarrow> shell_input \<Rightarrow> ('b svc_scheme, command_result) act" where
  "nodeTerminalRun S cluster node input =
     (let target = target_of cluster KNode (Some node) None in
      bindA (getsA (\<lambda>s. shellCheck target input (sv_config s))) (\<lambda>checked.
      seqA (liftR checked)
     (seqA (auditA S (nodeTerminalEntry target input))
     (bindA (nodeTargetA cluster node) (\<lambda>resolved.
        runSshCommand S resolved (sudo_prefix input))))))"

definition probeDocker :: "service \<Rightarrow> nat \<Rightarrow> target_ref \<Rightarrow> ('b svc_scheme, bool option) act" where
  "probeDocker S fuel target =
     catchA
       (bindA (proxmoxShellRun S fuel target
          \<lparr> si_command = (if tg_kind target = KWindowsGuest then ''Get-Command docker -ErrorAction SilentlyContinue''
              else ''command -v docker''),
            si_interpreter = (if tg_kind target = KWindowsGuest then IPowershell else ISh),
            si_useSudo = False \<rparr>) (\<lambda>r. ret (map_option (\<lambda>c. cr_exitCode c = 0) r)))
       (\<lambda>_. ret (Some False))"

section \<open>Files\<close>

datatype file_source = FsSsh | FsPct | FsGuestAgent

definition read_command :: "string \<Rightarrow> string" where
  "read_command filePath = ''base64 -w0 -- '' @ shellQuote filePath"

definition write_command :: "buffer \<Rightarrow> string \<Rightarrow> string" where
  "write_command content filePath =
     ''printf %s '' @ shellQuote (base64_encode content) @ '' | base64 -d > '' @ shellQuote filePath"

definition pct_command :: "int \<Rightarrow> string \<Rightarrow> string" where
  "pct_command vmid inner = ''pct exec '' @ int_str vmid @ '' -- /bin/sh -lc '' @ shellQuote inner"

definition fileReadEntry :: "target_ref \<Rightarrow> string \<Rightarrow> (string \<times> jsval) list" where
  "fileReadEntry target filePath =
     [(''action'', JStr ''proxmox_file_read''), (''target'', target_json target), (''filePath'', JStr filePath)]"

definition readOverSsh :: "service \<Rightarrow> node_target \<Rightarrow> string \<Rightarrow> string \<Rightarrow> ('b svc_scheme, buffer) act" where
  "readOverSsh S resolved command filePath =
     bindA (runSshCommand S resolved command) (\<lambda>result.
     bindA (failOnExit (''Failed to read '' @ filePath) result) (\<lambda>result.
       ret (base64_decode (js_trim (cr_stdout result)))))"

definition noRead :: "target_ref \<Rightarrow> ('b svc_scheme, 'a) act" where
  "noRead target = raise (''No supported file read transport found for '' @ kind_str (tg_kind target))"

definition agentRead :: "service \<Rightarrow> target_ref \<Rightarrow> int \<Rightarrow> string \<Rightarrow> ('b svc_scheme, buffer \<times> file_source) act" where
  "agentRead S target vmid filePath =
     bindA (getVmLocation S (tg_cluster target) ''qemu'' vmid) (\<lambda>node.
     bindA (detectVmGuest S (tg_cluster target) node vmid) (\<lambda>details.
       if vg_agent details then
         bindA (apiRequest S (tg_cluster target) ''GET'' (qemu_path node vmid ''/agent/file-read'')
            [(''file'', JStr filePath)] None) (\<lambda>data.
         bindA (liftR (jfield data ''content'')) (\<lambda>content.
           ret (decodeMaybeBase64Buffer (jstr_opt content), FsGuestAgent)))
       else noRead target))"

definition fileReadBody :: "service \<Rightarrow> target_ref \<Rightarrow> string \<Rightarrow> ('b svc_scheme, buffer \<times> file_source) act" where
  "fileReadBody S target filePath =
     (case (tg_kind target, js_or_undefined (tg_node target), tg_vmid target) of
        (KNode, Some node, _) \<Rightarrow>
          bindA (nodeTargetA (tg_cluster target) node) (\<lambda>resolved.
          bindA (readOverSsh S resolved (read_command filePath) filePath) (\<lambda>b. ret (b, FsSsh)))
      | (KLxcContainer, _, Some vmid) \<Rightarrow>
          bindA (getVmLocation S (tg_cluster target) ''lxc'' vmid) (\<lambda>node.
          bindA (nodeTargetA (tg_cluster target) node) (\<lambda>resolved.
          bindA (readOverSsh S resolved (pct_command vmid (read_command filePath)) filePath) (\<lambda>b. ret (b, FsPct))))
      | (_, _, Some vmid) \<Rightarrow> agentRead S target vmid filePath
      | _ \<Rightarrow> noRead target)"

definition proxmoxFileReadBytes ::
    "service \<Rightarrow> target_ref \<Rightarrow> string \<Rightarrow> ('b svc_scheme, buffer \<times> file_source) act" where
  "proxmoxFileReadBytes S target filePath =
     bindA (getsA (\<lambda>s. assertFileAccess (sc_policies (sv_config s)) target FileRead)) (\<lambda>checked.
     seqA (liftR checked)
    (seqA (auditA S (fileReadEntry target filePath)) (fileReadBody S target filePath)))"

definition proxmoxFileRead :: "service \<Rightarrow> target_ref \<Rightarrow> string \<Rightarrow> ('b svc_scheme, string \<times> file_source) act" where
  "proxmoxFileRead S target filePath =
     bindA (proxmoxFileReadBytes S target filePath) (\<lambda>(b, src). ret (utf8_text (se_world S) b, src))"

definition fileWriteEntry :: "target_ref \<Rightarrow> string \<Rightarrow> buffer \<Rightarrow> (string \<times> jsval) list" where
  "fileWriteEntry target filePath content =
     [(''action'', JStr ''proxmox_file_write''), (''target'', target_json target), (''filePath'', JStr filePath),
      (''contentLength'', JNum (int (length content)))]"

definition writeOverSsh :: "service \<Rightarrow> node_target \<Rightarrow> string \<Rightarrow> string \<Rightarrow> ('b svc_scheme, unit) act" where
  "writeOverSsh S resolved command filePath =
     bindA (runSshCommand S resolved command) (\<lambda>result.
     bindA (failOnExit (''Failed to write '' @ filePath) result) (\<lambda>_. ret ()))"

definition noWrite :: "target_ref \<Rightarrow> ('b svc_scheme, 'a) act" where
  "noWrite target = raise (''No supported file write transport found for '' @ kind_str (tg_kind target))"

definition agentWrite :: "service \<Rightarrow> target_ref \<Rightarrow> int \<Rightarrow> string \<Rightarrow> buffer \<Rightarrow> ('b svc_scheme, file_source) act" where
  "agentWrite S target vmid filePath content =
     bindA (getVmLocation S (tg_cluster target) ''qemu'' vmid) (\<lambda>node.
     bindA (detectVmGuest S (tg_cluster target) node vmid) (\<lambda>details.
       if vg_agent details then
         bindA (apiRequest S (tg_cluster target) ''POST'' (qemu_path node vmid ''/agent/file-write'')
            [(''file'', JStr filePath), (''content'', JStr (base64_encode content)), (''encode'', JBool True)] None)
           (\<lambda>_. ret FsGuestAgent)
       else noWrite target))"

definition fileWriteBody :: "service \<Rightarrow> target_ref \<Rightarrow> string \<Rightarrow> buffer \<Rightarrow> ('b svc_scheme, file_source) act" where
  "fileWriteBody S target filePath content =
     (case (tg_kind target, js_or_undefined (tg_node target), tg_vmid target) of
        (KNode, Some node, _) \<Rightarrow>
          bindA (nodeTargetA (tg_cluster target) node) (\<lambda>resolved.
          seqA (writeOverSsh S resolved (''/bin/sh -lc '' @ shellQuote (write_command content filePath)) filePath)
            (ret FsSsh))
      | (KLxcContainer, _, Some vmid) \<Rightarrow>
          bindA (getVmLocation S (tg_cluster target) ''lxc'' vmid) (\<lambda>node.
          bindA (nodeTargetA (tg_cluster target) node) (\<lambda>resolved.
          seqA (writeOverSsh S resolved (pct_command vmid (write_command content filePath)) filePath)
            (ret FsPct)))
      | (_, _, Some vmid) \<Rightarrow> agentWrite S target vmid filePath content
      | _ \<Rightarrow> noWrite target)"

definition proxmoxFileWriteBytes ::
    "service \<Rightarrow> target_ref \<Rightarrow> string \<Rightarrow> buffer \<Rightarrow> ('b svc_scheme, file_source) act" where
  "proxmoxFileWriteBytes S target filePath content =
     bindA (getsA (\<lambda>s. assertFileAccess (sc_policies (sv_config s)) target FileWrite)) (\<lambda>checked.
     seqA (liftR checked)
    (seqA (auditA S (fileWriteEntry target filePath content)) (fileWriteBody S target filePath content)))"

definition proxmoxFileWrite :: "service \<Rightarrow> target_ref \<Rightarrow> string \<Rightarrow> string \<Rightarrow> ('b svc_scheme, file_source) act" where
  "proxmoxFileWrite S target filePath content =
     proxmoxFileWriteBytes S target filePath (utf8_encode content)"

section \<open>The trace\<close>

lemma fetchResources_grows [grows_rules]: "keeps svc_step (fetchResources S c)"
  by (auto simp: fetchResources_def intro!: grows_rules)

lemma getClusterResources_grows [grows_rules]: "keeps svc_step (getClusterResources S c f)"
  by (auto simp: getClusterResources_def intro!: grows_rules split: prod.split option.split)

lemma getVmLocation_grows [grows_rules]: "keeps svc_step (getVmLocation S c k v)"
  by (auto simp: getVmLocation_def Let_def intro!: grows_rules split: option.split)

lemma detectVmGuest_grows [grows_rules]: "keeps svc_step (detectVmGuest S c n v)"
  by (auto simp: detectVmGuest_def intro!: grows_rules)

lemma failOnExit_grows [grows_rules]: "keeps svc_step (failOnExit m r)"
  by (auto simp: failOnExit_def intro!: grows_rules)

lemma some_result_grows [grows_rules]: "keeps svc_step m \<Longrightarrow> keeps svc_step (some_result m)"
  by (auto simp: some_result_def intro!: grows_rules)

lemma noTransport_grows [grows_rules]:
  "keeps svc_step (noShell t)" "keeps svc_step (noRead t)" "keeps svc_step (noWrite t)"
  by (auto simp: noShell_def noRead_def noWrite_def intro!: grows_rules)

lemma pollAgent_grows [grows_rules]: "keeps svc_step (pollAgent S c n v pid fuel k)"
  by (induction fuel arbitrary: k) (auto intro!: grows_rules)

lemma runQemuGuestAgentCommand_grows [grows_rules]:
  "keeps svc_step (runQemuGuestAgentCommand S fuel c n v cmd)"
  by (auto simp: runQemuGuestAgentCommand_def intro!: grows_rules)

lemma directLinuxShell_grows [grows_rules]: "keeps svc_step (directLinuxShell S t v i)"
  by (auto simp: directLinuxShell_def intro!: grows_rules split: option.split)

lemma directWindowsShell_grows [grows_rules]: "keeps svc_step (directWindowsShell S t v i)"
  by (auto simp: directWindowsShell_def intro!: grows_rules split: option.split)

lemma shellBody_grows [grows_rules]: "keeps svc_step (shellBody S fuel t i)"
  by (cases "tg_kind t") (auto simp: shellBody_def intro!: grows_rules split: option.split)

lemma readOverSsh_grows [grows_rules]: "keeps svc_step (readOverSsh S r c f)"
  by (auto simp: readOverSsh_def intro!: grows_rules)

lemma writeOverSsh_grows [grows_rules]: "keeps svc_step (writeOverSsh S r c f)"
  by (auto simp: writeOverSsh_def intro!: grows_rules)

lemma agentRead_grows [grows_rules]: "keeps svc_step (agentRead S t v f)"
  by (auto simp: agentRead_def intro!: grows_rules)

lemma agentWrite_grows [grows_rules]: "keeps svc_step (agentWrite S t v f c)"
  by (auto simp: agentWrite_def intro!: grows_rules)

lemma fileReadBody_grows [grows_rules]: "keeps svc_step (fileReadBody S t f)"
  by (cases "tg_kind t") (auto simp: fileReadBody_def intro!: grows_rules split: option.split)

lemma fileWriteBody_grows [grows_rules]: "keeps svc_step (fileWriteBody S t f c)"
  by (cases "tg_kind t") (auto simp: fileWriteBody_def intro!: grows_rules split: option.split)

section \<open>Every operation is checked, audited, then carried out\<close>

lemma gatedI:
  "(\<And>s e. check s = Inl e \<Longrightarrow> op s = (Inl e, s)) \<Longrightarrow>
   (\<And>s. check s = Inr () \<Longrightarrow> op s = seqA (auditRecord w (path s) (entry s)) body s) \<Longrightarrow>
   gated w check path entry body op"
  by (auto simp: gated_def split: sum.split)

interpretation shellRun: gated_op
  "se_world S" "\<lambda>s. shellCheck target input (sv_config s)" "\<lambda>_. se_auditLogPath S"
  "\<lambda>_. shellEntry target input" "shellBody S fuel target input" "proxmoxShellRun S fuel target input"
  for S fuel target input
  by unfold_locales (auto intro!: gatedI grows_rules simp: proxmoxShellRun_def auditA_def)

interpretation fileRead: gated_op
  "se_world S" "\<lambda>s. assertFileAccess (sc_policies (sv_config s)) target FileRead" "\<lambda>_. se_auditLogPath S"
  "\<lambda>_. fileReadEntry target filePath" "fileReadBody S target filePath" "proxmoxFileReadBytes S target filePath"
  for S target filePath
  by unfold_locales (auto intro!: gatedI grows_rules simp: proxmoxFileReadBytes_def auditA_def)

interpretation fileWrite: gated_op
  "se_world S" "\<lambda>s. assertFileAccess (sc_policies (sv_config s)) target FileWrite" "\<lambda>_. se_auditLogPath S"
  "\<lambda>_. fileWriteEntry target filePath content" "fileWriteBody S target filePath content"
  "proxmoxFileWriteBytes S target filePath content"
  for S target filePath content
  by unfold_locales (auto intro!: gatedI grows_rules simp: proxmoxFileWriteBytes_def auditA_def)

text \<open>The body of a CLI run needs the target that its check resolved on the same configuration.\<close>

definition cliBody :: "service \<Rightarrow> target_ref \<Rightarrow> string \<Rightarrow> string list \<Rightarrow> string option \<Rightarrow> ('b svc_scheme, command_result) act" where
  "cliBody S target family args rawCommand =
     bindA (getsA (\<lambda>s. cliCheck target family args rawCommand (sv_config s))) (\<lambda>checked.
     bindA (liftR checked) (\<lambda>(resolved, command). runSshCommand S resolved command))"

lemma auditRecord_config: "sv_config (snd (auditRecord w p e s)) = sv_config s"
  by (simp add: auditRecord_event)

interpretation cliRun: gated_op
  "se_world S" "\<lambda>s. rbind (cliCheck target family args rawCommand (sv_config s)) (\<lambda>_. Inr ())"
  "\<lambda>_. se_auditLogPath S" "\<lambda>_. cliEntry target family rawCommand args"
  "cliBody S target family args rawCommand" "proxmoxCliRun S target family args rawCommand"
  for S target family args rawCommand
proof
  show "keeps trace_grows (cliBody S target family args rawCommand)"
    by (auto simp: cliBody_def intro!: grows_rules split: prod.split)
  show "gated (se_world S) (\<lambda>s. rbind (cliCheck target family args rawCommand (sv_config s)) (\<lambda>_. Inr ()))
     (\<lambda>_. se_auditLogPath S) (\<lambda>_. cliEntry target family rawCommand args)
     (cliBody S target family args rawCommand) (proxmoxCliRun S target family args rawCommand)"
  proof (rule gatedI)
    fix s e assume "rbind (cliCheck target family args rawCommand (sv_config s)) (\<lambda>_. Inr ()) = Inl e"
    then show "proxmoxCliRun S target family args rawCommand s = (Inl e, s)"
      by (simp add: proxmoxCliRun_def res_simps)
  next
    fix s assume "rbind (cliCheck target family args rawCommand (sv_config s)) (\<lambda>_. Inr ()) = Inr ()"
    then obtain rc where rc: "cliCheck target family args rawCommand (sv_config s) = Inr rc"
      by (auto simp: res_simps)
    obtain r t where rt: "auditRecord (se_world S) (se_auditLogPath S) (cliEntry target family rawCommand args) s = (r, t)"
      by force
    then have "sv_config t = sv_config s"
      using auditRecord_config[of "se_world S" "se_auditLogPath S" "cliEntry target family rawCommand args" s] by simp
    then show "proxmoxCliRun S target family args rawCommand s =
        seqA (auditRecord (se_world S) (se_auditLogPath S) (cliEntry target family rawCommand args))
          (cliBody S target family args rawCommand) s"
      using rc rt by (cases rc; cases r)
        (simp_all add: proxmoxCliRun_def auditA_def cliBody_def seqA_def bindA_apply)
  qed
qed

text \<open>
  C6. The hard boundary of CLI, shell and file access: for each of the four operations, either its
  policy check failed and the state is exactly as before, or the first interaction with the outside
  is the audit record of the operation.
\<close>

theorem guest_operations_gated:
  "((\<exists>e. proxmoxCliRun S target family args rawCommand s = (Inl e, s)) \<or>
     (is_ok (assertCliAccess (sc_policies (sv_config s)) target family (rawCommand \<noteq> None)) \<and>
      (\<exists>line rest. io_trace (snd (proxmoxCliRun S target family args rawCommand s)) =
         io_trace s @ EvAppend (se_auditLogPath S) line # rest))) \<and>
   ((\<exists>e. proxmoxShellRun S fuel target input s = (Inl e, s)) \<or>
     (is_ok (assertShellAccess (sc_policies (sv_config s)) target) \<and>
      (si_useSudo input \<longrightarrow> is_ok (assertSudoAccess (sc_policies (sv_config s)) target)) \<and>
      (\<exists>line rest. io_trace (snd (proxmoxShellRun S fuel target input s)) =
         io_trace s @ EvAppend (se_auditLogPath S) line # rest))) \<and>
   ((\<exists>e. proxmoxFileReadBytes S target filePath s = (Inl e, s)) \<or>
     (is_ok (assertFileAccess (sc_policies (sv_config s)) target FileRead) \<and>
      (\<exists>line rest. io_trace (snd (proxmoxFileReadBytes S target filePath s)) =
         io_trace s @ EvAppend (se_auditLogPath S) line # rest))) \<and>
   ((\<exists>e. proxmoxFileWriteBytes S target filePath content s = (Inl e, s)) \<or>
     (is_ok (assertFileAccess (sc_policies (sv_config s)) target FileWrite) \<and>
      (\<exists>line rest. io_trace (snd (proxmoxFileWriteBytes S target filePath content s)) =
         io_trace s @ EvAppend (se_auditLogPath S) line # rest)))"
  (is "?A \<and> ?B \<and> ?C \<and> ?D")
proof (intro conjI)
  show ?A
    using cliRun.audit_first[of S target family args rawCommand s]
    by (fastforce simp: cliCheck_def res_simps is_ok_iff prod_eq_iff split: target_kind.splits option.splits)
  show ?B
    using shellRun.audit_first[of S fuel target input s]
    by (fastforce simp: shellCheck_def res_simps is_ok_iff prod_eq_iff split: if_splits)
  show ?C
    using fileRead.audit_first[of S target filePath s]
    by (fastforce simp: is_ok_iff prod_eq_iff)
  show ?D
    using fileWrite.audit_first[of S target filePath content s]
    by (fastforce simp: is_ok_iff prod_eq_iff)
qed

theorem guest_operations_gated_witness:
  "(\<exists>e. proxmoxShellRun \<lparr>se_world = sample_world, se_auth = False, se_catalog = [], se_auditLogPath = ''a''\<rparr> 5
      sample_target \<lparr>si_command = ''id'', si_interpreter = ISh, si_useSudo = False\<rparr>
      (sample_svc\<lparr>sv_config := sample_runtime\<lparr>sc_policies := []\<rparr>\<rparr>)
    = (Inl e, sample_svc\<lparr>sv_config := sample_runtime\<lparr>sc_policies := []\<rparr>\<rparr>))"
proof -
  let ?s = "sample_svc\<lparr>sv_config := sample_runtime\<lparr>sc_policies := []\<rparr>\<rparr>"
  have "\<not> is_ok (assertShellAccess (sc_policies (sv_config ?s)) sample_target)"
    by (simp add: assertShellAccess_def getPolicy_def defaultPolicy_def)
  then show ?thesis
    using guest_operations_gated[of "\<lparr>se_world = sample_world, se_auth = False, se_catalog = [], se_auditLogPath = ''a''\<rparr>"
        sample_target _ _ _ ?s 5 "\<lparr>si_command = ''id'', si_interpreter = ISh, si_useSudo = False\<rparr>"]
    by blast
qed

end
