(* ===== verification/ServiceSnippets.thy ===== *)
theory ServiceSnippets
  imports ServiceGuest
begin

text \<open>
  Cloud-init snippets of src/services.ts: the path check, the generated storage scripts and the
  list, get, put, delete and dump operations.  The operations share one shape, a check on the
  configuration whose result the audit record and the body use, stated as the locale \<open>checked_op\<close>.
\<close>

section \<open>Checked operations with a result\<close>

definition checkedOp ::
    "service \<Rightarrow> (runtime_config \<Rightarrow> 'c res) \<Rightarrow> ('c \<Rightarrow> (string \<times> jsval) list) \<Rightarrow> ('c \<Rightarrow> ('b svc_scheme, 'a) act) \<Rightarrow>
     ('b svc_scheme, 'a) act" where
  "checkedOp S check entry body =
     bindA (getsA (\<lambda>s. check (sv_config s))) (\<lambda>r.
     bindA (liftR r) (\<lambda>x.
     seqA (auditA S (entry x)) (body x)))"

locale checked_op =
  fixes S :: service
    and check :: "runtime_config \<Rightarrow> 'c res"
    and entry :: "'c \<Rightarrow> (string \<times> jsval) list"
    and body :: "'c \<Rightarrow> ('b svc_scheme, 'a) act"
    and op :: "('b svc_scheme, 'a) act"
  assumes op_checked: "op = checkedOp S check entry body"
    and body_grows: "keeps trace_grows (body x)"
begin

lemma denied: "check (sv_config s) = Inl e \<Longrightarrow> op s = (Inl e, s)"
  by (simp add: op_checked checkedOp_def)

lemma allowed:
  "check (sv_config s) = Inr x \<Longrightarrow> op s = seqA (auditA S (entry x)) (body x) s"
  by (simp add: op_checked checkedOp_def)

text \<open>With the outcome of the check fixed, the operation is gated in the sense of the audit log.\<close>

lemma audit_first:
  "(\<exists>e. check (sv_config s) = Inl e \<and> op s = (Inl e, s)) \<or>
   (\<exists>x rest. check (sv_config s) = Inr x \<and> io_trace (snd (op s)) = io_trace s @
      EvAppend (se_auditLogPath S) (auditLine (w_nowIso (se_world S) (io_trace s)) (entry x)) # rest)"
proof (cases "check (sv_config s)")
  case (Inl e)
  then show ?thesis by (simp add: denied)
next
  case (Inr x)
  have "gated_op (se_world S) (\<lambda>_. Inr ()) (\<lambda>_. se_auditLogPath S) (\<lambda>_. entry x) (body x)
      (seqA (auditA S (entry x)) (body x))"
    by unfold_locales (simp_all add: gated_def auditA_def body_grows)
  from gated_op.audit_first[OF this, of s] Inr show ?thesis
    by (auto simp: allowed)
qed

end

section \<open>Paths\<close>

definition normalizeSnippetPath :: "string \<Rightarrow> string res" where
  "normalizeSnippetPath snippetPath =
     (let normalized = js_trim (dropWhile (\<lambda>c. c = CHR ''/'')
            (map (\<lambda>c. if c = CHR 0x5C then CHR ''/'' else c) snippetPath))
      in if normalized = [] \<or> js_includes normalized ''..''
         then Inl (''Invalid snippet path '' @ squoted snippetPath) else Inr normalized)"

definition snippetVolumeId :: "string \<Rightarrow> string \<Rightarrow> string res" where
  "snippetVolumeId storage snippetPath =
     rbind (normalizeSnippetPath snippetPath) (\<lambda>p. Inr (storage @ '':snippets/'' @ p))"

definition snippetDirectory :: "string \<Rightarrow> string" where
  "snippetDirectory p =
     (if CHR ''/'' \<in> set p then rev (tl (dropWhile (\<lambda>c. c \<noteq> CHR ''/'') (rev p))) else [])"

text \<open>What a path names: the walk along its segments, where \<open>..\<close> goes up.\<close>

definition path_step :: "string list \<Rightarrow> string \<Rightarrow> string list" where
  "path_step d seg = (if seg = [] \<or> seg = ''.'' then d else if seg = ''..'' then butlast d else d @ [seg])"

definition path_dir :: "string \<Rightarrow> string list" where
  "path_dir p = foldl path_step [] (js_split (CHR ''/'') p)"

lemma path_steps_below:
  "''..'' \<notin> set segs \<Longrightarrow> \<exists>rest. foldl path_step d segs = d @ rest"
proof (induction segs arbitrary: d)
  case (Cons seg segs)
  then obtain rest where "foldl path_step (path_step d seg) segs = path_step d seg @ rest" by fastforce
  moreover have "\<exists>r. path_step d seg = d @ r" using Cons.prems by (auto simp: path_step_def)
  ultimately show ?case by auto
qed simp

lemma js_split_concat: "js_split d (a @ d # b) = js_split d a @ js_split d b"
  by (induction a) (auto split: list.splits)

lemma js_split_infix: "w \<in> set (js_split d s) \<Longrightarrow> \<exists>a b. s = a @ w @ b"
proof (induction s arbitrary: w)
  case (Cons c s)
  obtain x xs where sp: "js_split d s = x # xs" by (cases "js_split d s") auto
  have tail: "\<exists>a b. c # s = a @ v @ b" if "v \<in> set (js_split d s)" for v
    using Cons.IH[OF that] by (metis append_Cons)
  show ?case
  proof (cases "c = d")
    case True
    then show ?thesis using Cons.prems tail by (cases "w = []") auto
  next
    case False
    have "\<exists>b. s = x @ b"
      by (metis sp js_join_split js_join.simps(2,3) append_Nil2 append.assoc list.exhaust)
    then have whole: "\<exists>a b. c # s = a @ (c # x) @ b" by (metis append_Cons append_Nil)
    from Cons.prems False sp have "w = c # x \<or> w \<in> set (js_split d s)" by auto
    then show ?thesis using whole tail by blast
  qed
qed auto

lemma normalizeSnippetPath_segments:
  "normalizeSnippetPath p = Inr q \<Longrightarrow> ''..'' \<notin> set (js_split (CHR ''/'') q)"
  using js_split_infix[of "''..''" "CHR ''/''" q]
  by (auto simp: normalizeSnippetPath_def Let_def js_includes_iff split: if_splits)

text \<open>
  C22. A snippet path never leaves its storage: whatever a client sends, an accepted path names a
  place at or below the \<open>snippets\<close> directory of the storage root, also after resolution of \<open>.\<close>,
  \<open>..\<close>, repeated and backward slashes.
\<close>

theorem snippet_path_contained:
  assumes "normalizeSnippetPath snippetPath = Inr p"
  shows "p \<noteq> [] \<and> (\<exists>rest. path_dir (root @ ''/snippets/'' @ p) = path_dir (root @ ''/snippets'') @ rest) \<and>
    (\<exists>rest. path_dir (root @ ''/snippets/'' @ snippetDirectory p) = path_dir (root @ ''/snippets'') @ rest)"
proof -
  have ne: "p \<noteq> []" using assms by (auto simp: normalizeSnippetPath_def Let_def split: if_splits)
  have sp: "js_split (CHR ''/'') (root @ ''/snippets/'' @ q) =
      js_split (CHR ''/'') (root @ ''/snippets'') @ js_split (CHR ''/'') q" for q
    using js_split_concat[of "CHR ''/''" "root @ ''/snippets''" q] by simp
  have dir: "''..'' \<notin> set (js_split (CHR ''/'') (snippetDirectory p))"
  proof (cases "CHR ''/'' \<in> set p")
    case True
    then obtain a b where ab: "p = a @ CHR ''/'' # b" "CHR ''/'' \<notin> set b"
      by (metis split_list_last)
    then have "dropWhile (\<lambda>c. c \<noteq> CHR ''/'') (rev p) = CHR ''/'' # rev a"
      using dropWhile_append2[of "rev b" "\<lambda>c. c \<noteq> CHR ''/''" "CHR ''/'' # rev a"] by auto
    then have "snippetDirectory p = a" using ab by (simp add: snippetDirectory_def)
    then show ?thesis
      using normalizeSnippetPath_segments[OF assms] js_split_concat[of "CHR ''/''" a b] ab by auto
  qed (simp add: snippetDirectory_def)
  show ?thesis
    unfolding path_dir_def sp foldl_append
    using ne path_steps_below[OF normalizeSnippetPath_segments[OF assms]] path_steps_below[OF dir]
    by blast
qed

theorem snippet_path_contained_witness:
  "\<exists>rest. path_dir (''/var/lib/vz'' @ ''/snippets/'' @ ''users/a.yaml'') =
      path_dir (''/var/lib/vz'' @ ''/snippets'') @ rest"
proof -
  have "normalizeSnippetPath (CHR 0x5C # ''users/a.yaml '') = Inr ''users/a.yaml''" by code_simp
  then show ?thesis using snippet_path_contained by blast
qed

section \<open>Storage scripts\<close>

text \<open>The \<open>awk\<close> lookup of a field of one storage of the cluster file system.\<close>

definition storage_field :: "string \<Rightarrow> string \<Rightarrow> string list" where
  "storage_field var field =
     [var @ ''=$('', lit ''  awk -v storage=\"$STORAGE\" `'',
      ''    $1 ~ /^[^'' @ ''[:space:]'' @ '']+:$/ && $2 == storage { in_block=1; next }'',
      ''    $1 ~ /^[^'' @ ''[:space:]'' @ '']+:$/ { if (in_block) exit; in_block=0 }'',
      ''    in_block && $1 == \"'' @ field @ ''\" {'', ''      $1 = \"\"'',
      ''      sub(/^['' @ ''[:space:]'' @ '']+/, \"\", $0)'', ''      print'', ''      exit'', ''    }'',
      lit ''  ` /etc/pve/storage.cfg'', '')'']"

definition storage_path_check :: "string list" where
  "storage_path_check =
     [''if [ -z \"$root_path\" ]; then'',
      lit ''  echo \"Storage `$STORAGE` does not expose a filesystem path.\" >&2'',
      ''  exit 1'', ''fi'', ''mkdir -p \"$root_path/snippets\"'']"

definition storage_root_script :: "string \<Rightarrow> bool \<Rightarrow> string" where
  "storage_root_script storage ensureSnippets = lines_text
     ([''set -euo pipefail'', ''STORAGE='' @ shellQuote storage] @
      storage_field ''current'' ''content'' @
      [''if [ -z \"$current\" ]; then'',
       lit ''  echo \"Unable to determine content types for storage `$STORAGE`.\" >&2'',
       ''  exit 1'', ''fi'', ''case \",$current,\" in'', ''  *,snippets,*) ;;'',
       ''  *) '' @ (if ensureSnippets then ''pvesm set \"$STORAGE\" --content \"$current,snippets\" >/dev/null''
          else lit ''echo \"Storage `\"$STORAGE\"` does not support snippets.\" >&2; exit 1'') @ '' ;;'',
       ''esac''] @
      storage_field ''root_path'' ''path'' @ storage_path_check @
      [lit ''printf `%s` \"$root_path\"''])"

definition snippet_list_script :: "string \<Rightarrow> string" where
  "snippet_list_script storage = lines_text
     ([''set -euo pipefail'', ''STORAGE='' @ shellQuote storage] @
      storage_field ''current'' ''content'' @
      [''case \",$current,\" in'', ''  *,snippets,*) ;;'',
       lit ''  *) echo \"Storage `$STORAGE` does not support snippets.\" >&2; exit 1 ;;'', ''esac''] @
      storage_field ''root_path'' ''path'' @ storage_path_check @
      [''find \"$root_path/snippets\" -type f | sed \"s|^$root_path/snippets/||\" | sort''])"

definition getSnippetStorageRoot :: "service \<Rightarrow> string \<Rightarrow> string \<Rightarrow> string \<Rightarrow> bool \<Rightarrow> ('b svc_scheme, string) act" where
  "getSnippetStorageRoot S cluster node storage ensureSnippets =
     bindA (runNodeScript S cluster node (storage_root_script storage ensureSnippets)) (\<lambda>result.
     bindA (failOnExit (''Failed to resolve snippet storage root for '' @ storage) result) (\<lambda>result.
       ret (js_trim (cr_stdout result))))"

section \<open>Operations\<close>

record snippet_ref =
  sn_cluster :: string
  sn_node :: string
  sn_storage :: string
  sn_path :: string
  sn_volumeId :: string

definition snippetRef :: "string \<Rightarrow> string \<Rightarrow> string \<Rightarrow> string \<Rightarrow> snippet_ref res" where
  "snippetRef cluster node storage path =
     rbind (snippetVolumeId storage path) (\<lambda>v. Inr \<lparr>sn_cluster = cluster, sn_node = node,
       sn_storage = storage, sn_path = path, sn_volumeId = v\<rparr>)"

definition node_of :: "string \<Rightarrow> string \<Rightarrow> target_ref" where
  "node_of cluster node = target_of cluster KNode (Some node) None"

text \<open>Resolution of the defaults, the path check and both permissions; a listing has no path.\<close>

definition snippetCheck ::
    "file_mode \<Rightarrow> string \<Rightarrow> string option \<Rightarrow> string option \<Rightarrow> string option \<Rightarrow> runtime_config \<Rightarrow>
     (string \<times> string \<times> string) res" where
  "snippetCheck mode cluster nodeInput storageInput snippetPath config =
     rbind (resolveDefaultNode config cluster nodeInput) (\<lambda>node.
     rbind (resolveDefaultSnippetStorage config cluster storageInput) (\<lambda>storage.
     rbind (case snippetPath of None \<Rightarrow> Inr [] | Some p \<Rightarrow> normalizeSnippetPath p) (\<lambda>path.
     rbind (assertShellAccess (sc_policies config) (node_of cluster node)) (\<lambda>_.
     rbind (assertFileAccess (sc_policies config) (node_of cluster node) mode) (\<lambda>_.
       Inr (node, storage, path))))))"

definition snippetEntry ::
    "string \<Rightarrow> string \<Rightarrow> (string \<times> jsval) list \<Rightarrow> string \<times> string \<times> string \<Rightarrow> (string \<times> jsval) list" where
  "snippetEntry action cluster extra = (\<lambda>(node, storage, path).
     [(''action'', JStr action), (''target'', target_json (node_of cluster node)), (''storage'', JStr storage)] @
     (if path = [] then [] else [(''path'', JStr path)]) @ extra)"

definition snippetListBody :: "service \<Rightarrow> string \<Rightarrow> string \<times> string \<times> string \<Rightarrow> ('b svc_scheme, snippet_ref list) act" where
  "snippetListBody S cluster = (\<lambda>(node, storage, _).
     bindA (runNodeScript S cluster node (snippet_list_script storage)) (\<lambda>result.
     bindA (failOnExit (''Failed to list snippets for '' @ cluster @ ''/'' @ node) result) (\<lambda>result.
     mapA (\<lambda>path. liftR (snippetRef cluster node storage path))
       (filter (\<lambda>e. e \<noteq> []) (map js_trim (js_split (CHR 0x0A) (cr_stdout result)))))))"

definition listCloudInitSnippets ::
    "service \<Rightarrow> string \<Rightarrow> string option \<Rightarrow> string option \<Rightarrow> ('b svc_scheme, snippet_ref list) act" where
  "listCloudInitSnippets S cluster nodeInput storageInput =
     checkedOp S (snippetCheck FileRead cluster nodeInput storageInput None)
       (snippetEntry ''proxmox_cloud_init_snippet_list'' cluster []) (snippetListBody S cluster)"

definition snippetGetBody ::
    "service \<Rightarrow> string \<Rightarrow> string \<times> string \<times> string \<Rightarrow> ('b svc_scheme, snippet_ref \<times> string) act" where
  "snippetGetBody S cluster = (\<lambda>(node, storage, path).
     bindA (getSnippetStorageRoot S cluster node storage False) (\<lambda>storageRoot.
     bindA (proxmoxFileRead S (node_of cluster node) (storageRoot @ ''/snippets/'' @ path)) (\<lambda>(content, _).
     bindA (liftR (snippetRef cluster node storage path)) (\<lambda>r.
       ret (r, content)))))"

definition getCloudInitSnippet ::
    "service \<Rightarrow> string \<Rightarrow> string option \<Rightarrow> string option \<Rightarrow> string \<Rightarrow> ('b svc_scheme, snippet_ref \<times> string) act" where
  "getCloudInitSnippet S cluster nodeInput storageInput snippetPath =
     checkedOp S (snippetCheck FileRead cluster nodeInput storageInput (Some snippetPath))
       (snippetEntry ''proxmox_cloud_init_snippet_get'' cluster []) (snippetGetBody S cluster)"

definition mkdir_script :: "string \<Rightarrow> string" where
  "mkdir_script dir = lines_text [''set -euo pipefail'', ''mkdir -p '' @ shellQuote dir]"

definition snippetPutBody ::
    "service \<Rightarrow> string \<Rightarrow> string \<Rightarrow> string \<times> string \<times> string \<Rightarrow> ('b svc_scheme, snippet_ref) act" where
  "snippetPutBody S cluster content = (\<lambda>(node, storage, path).
     bindA (getSnippetStorageRoot S cluster node storage True) (\<lambda>storageRoot.
     seqA (if snippetDirectory path = [] then ret () else
         bindA (runNodeScript S cluster node (mkdir_script (storageRoot @ ''/snippets/'' @ snippetDirectory path)))
           (\<lambda>r. bindA (failOnExit (''Failed to prepare snippet directory '' @ snippetDirectory path) r) (\<lambda>_. ret ())))
    (bindA (proxmoxFileWrite S (node_of cluster node) (storageRoot @ ''/snippets/'' @ path) content) (\<lambda>_.
       liftR (snippetRef cluster node storage path)))))"

definition putCloudInitSnippet ::
    "service \<Rightarrow> string \<Rightarrow> string option \<Rightarrow> string option \<Rightarrow> string \<Rightarrow> string \<Rightarrow> ('b svc_scheme, snippet_ref) act" where
  "putCloudInitSnippet S cluster nodeInput storageInput snippetPath content =
     checkedOp S (snippetCheck FileWrite cluster nodeInput storageInput (Some snippetPath))
       (snippetEntry ''proxmox_cloud_init_snippet_put'' cluster [(''contentLength'', JNum (int (length content)))])
       (snippetPutBody S cluster content)"

definition snippetDeleteBody ::
    "service \<Rightarrow> string \<Rightarrow> string \<times> string \<times> string \<Rightarrow> ('b svc_scheme, snippet_ref) act" where
  "snippetDeleteBody S cluster = (\<lambda>(node, storage, path).
     bindA (getSnippetStorageRoot S cluster node storage False) (\<lambda>storageRoot.
     bindA (runNodeScript S cluster node (lines_text [''set -euo pipefail'',
        ''rm -f '' @ shellQuote (storageRoot @ ''/snippets/'' @ path)])) (\<lambda>result.
     bindA (failOnExit (''Failed to delete snippet '' @ path) result) (\<lambda>_.
       liftR (snippetRef cluster node storage path)))))"

definition deleteCloudInitSnippet ::
    "service \<Rightarrow> string \<Rightarrow> string option \<Rightarrow> string option \<Rightarrow> string \<Rightarrow> ('b svc_scheme, snippet_ref) act" where
  "deleteCloudInitSnippet S cluster nodeInput storageInput snippetPath =
     checkedOp S (snippetCheck FileWrite cluster nodeInput storageInput (Some snippetPath))
       (snippetEntry ''proxmox_cloud_init_snippet_delete'' cluster []) (snippetDeleteBody S cluster)"

text \<open>The dump checks and audits the call once more inside \<open>proxmoxCliRun\<close>.\<close>

definition dumpVmCloudInit :: "service \<Rightarrow> string \<Rightarrow> int \<Rightarrow> string \<Rightarrow> ('b svc_scheme, string \<times> string) act" where
  "dumpVmCloudInit S cluster vmid section_name =
     bindA (getVmLocation S cluster ''qemu'' vmid) (\<lambda>node.
     checkedOp S (\<lambda>config. assertCliAccess (sc_policies config) (node_of cluster node) ''qm'' False)
       (\<lambda>_. [(''action'', JStr ''proxmox_vm_cloud_init_dump''), (''target'', target_json (node_of cluster node)),
             (''section'', JStr section_name)])
       (\<lambda>_. bindA (proxmoxCliRun S (node_of cluster node) ''qm'' [''cloudinit'', ''dump'', int_str vmid, section_name] None)
          (\<lambda>result. bindA (failOnExit (''Failed to dump cloud-init '' @ section_name @ '' for VM '' @ int_str vmid) result)
          (\<lambda>result. ret (node, cr_stdout result)))))"

section \<open>The trace\<close>

lemma proxmoxFileRead_grows [grows_rules]: "keeps svc_step (proxmoxFileRead S t f)"
  by (auto simp: proxmoxFileRead_def proxmoxFileReadBytes_def intro!: grows_rules split: prod.split)

lemma proxmoxFileWrite_grows [grows_rules]: "keeps svc_step (proxmoxFileWrite S t f c)"
  by (auto simp: proxmoxFileWrite_def proxmoxFileWriteBytes_def intro!: grows_rules split: prod.split)

lemma getSnippetStorageRoot_grows [grows_rules]: "keeps svc_step (getSnippetStorageRoot S c n st e)"
  by (auto simp: getSnippetStorageRoot_def intro!: grows_rules)

interpretation snippetList: checked_op
  S "snippetCheck FileRead cluster nodeInput storageInput None"
  "snippetEntry ''proxmox_cloud_init_snippet_list'' cluster []" "snippetListBody S cluster"
  "listCloudInitSnippets S cluster nodeInput storageInput"
  for S cluster nodeInput storageInput
  by unfold_locales
    (auto simp: listCloudInitSnippets_def snippetListBody_def intro!: grows_rules steps.keeps_mapA split: prod.split)

interpretation snippetGet: checked_op
  S "snippetCheck FileRead cluster nodeInput storageInput (Some p)"
  "snippetEntry ''proxmox_cloud_init_snippet_get'' cluster []" "snippetGetBody S cluster"
  "getCloudInitSnippet S cluster nodeInput storageInput p"
  for S cluster nodeInput storageInput p
  by unfold_locales (auto simp: getCloudInitSnippet_def snippetGetBody_def intro!: grows_rules split: prod.split)

interpretation snippetPut: checked_op
  S "snippetCheck FileWrite cluster nodeInput storageInput (Some p)"
  "snippetEntry ''proxmox_cloud_init_snippet_put'' cluster [(''contentLength'', JNum (int (length content)))]"
  "snippetPutBody S cluster content" "putCloudInitSnippet S cluster nodeInput storageInput p content"
  for S cluster nodeInput storageInput p content
  by unfold_locales (auto simp: putCloudInitSnippet_def snippetPutBody_def intro!: grows_rules split: prod.split)

interpretation snippetDelete: checked_op
  S "snippetCheck FileWrite cluster nodeInput storageInput (Some p)"
  "snippetEntry ''proxmox_cloud_init_snippet_delete'' cluster []" "snippetDeleteBody S cluster"
  "deleteCloudInitSnippet S cluster nodeInput storageInput p"
  for S cluster nodeInput storageInput p
  by unfold_locales (auto simp: deleteCloudInitSnippet_def snippetDeleteBody_def intro!: grows_rules split: prod.split)

text \<open>
  The outcome of a gated snippet operation: refused without any effect, or started by its audit
  record with all permissions granted and a harmless path.
\<close>

definition snippet_gated ::
    "service \<Rightarrow> file_mode \<Rightarrow> string \<Rightarrow> string option \<Rightarrow> string option \<Rightarrow> string \<Rightarrow> 'b svc_scheme \<Rightarrow>
     'a res \<times> 'b svc_scheme \<Rightarrow> bool" where
  "snippet_gated S mode cluster nodeInput storageInput p s outcome \<longleftrightarrow>
     (\<exists>e. outcome = (Inl e, s)) \<or>
     (\<exists>node storage q line rest.
        snippetCheck mode cluster nodeInput storageInput (Some p) (sv_config s) = Inr (node, storage, q) \<and>
        ''..'' \<notin> set (js_split (CHR ''/'') q) \<and>
        is_ok (assertShellAccess (sc_policies (sv_config s)) (node_of cluster node)) \<and>
        is_ok (assertFileAccess (sc_policies (sv_config s)) (node_of cluster node) mode) \<and>
        io_trace (snd outcome) = io_trace s @ EvAppend (se_auditLogPath S) line # rest)"

lemma snippet_gatedI:
  assumes "(\<exists>e. snippetCheck mode cluster n st (Some p) (sv_config s) = Inl e \<and> outcome = (Inl e, s)) \<or>
    (\<exists>x rest. snippetCheck mode cluster n st (Some p) (sv_config s) = Inr x \<and>
       io_trace (snd outcome) = io_trace s @ EvAppend (se_auditLogPath S) (line x) # rest)"
  shows "snippet_gated S mode cluster n st p s outcome"
proof (cases "snippetCheck mode cluster n st (Some p) (sv_config s)")
  case (Inl e)
  then show ?thesis using assms by (auto simp: snippet_gated_def)
next
  case (Inr x)
  obtain node storage q where x: "x = (node, storage, q)" by (cases x)
  have "''..'' \<notin> set (js_split (CHR ''/'') q) \<and>
       is_ok (assertShellAccess (sc_policies (sv_config s)) (node_of cluster node)) \<and>
       is_ok (assertFileAccess (sc_policies (sv_config s)) (node_of cluster node) mode)"
    using Inr normalizeSnippetPath_segments by (auto simp: x snippetCheck_def res_simps is_ok_iff)
  then show ?thesis using assms Inr by (auto simp: x snippet_gated_def)
qed

text \<open>
  C23. Snippet access is gated: reading, writing and deleting a snippet either fail without any
  effect, or shell access and the matching file access of the resolved node were granted, the path
  is normalized and free of \<open>..\<close>, and the audit record comes before everything else.
\<close>

theorem snippet_operations_gated:
  "snippet_gated S FileRead cluster n st p s (getCloudInitSnippet S cluster n st p s) \<and>
   snippet_gated S FileWrite cluster n st p s (putCloudInitSnippet S cluster n st p content s) \<and>
   snippet_gated S FileWrite cluster n st p s (deleteCloudInitSnippet S cluster n st p s)"
  using snippet_gatedI[OF snippetGet.audit_first] snippet_gatedI[OF snippetPut.audit_first]
    snippet_gatedI[OF snippetDelete.audit_first]
  by blast

end
