(* ===== verification/ServiceTasks.thy ===== *)
theory ServiceTasks
  imports ServiceGuest
begin

text \<open>
  Waiting for tasks terminates: once the cluster answers \<open>stopped\<close> from some point of the history
  on, the polling loop of src/services.ts returns.  The argument is that every round extends the
  trace, and that a successful request carries an answer the world gave to the current history.
\<close>

section \<open>Where an answer comes from\<close>

definition answers :: "world \<Rightarrow> event list \<Rightarrow> jsval \<Rightarrow> bool" where
  "answers w tr v \<longleftrightarrow>
     (\<exists>es rq resp. w_fetch w (tr @ es) rq = Inr resp \<and> v = unwrap_data (response_payload resp))"

lemma answers_later: "answers w (tr @ es) v \<Longrightarrow> answers w tr v"
  by (auto simp: answers_def)

lemma fetchA_answer:
  "fetchA w rq s = (Inr resp, t) \<Longrightarrow> w_fetch w (io_trace s) rq = Inr resp"
  by (auto simp: fetchA_def interact_def split: if_splits)

lemma clientRequest_answers:
  assumes "clientRequest w key m p a t s = (Inr v, u)"
  shows "answers w (io_trace s) v"
  using assms unfolding clientRequest_def Let_def bindA_gets
proof (cases rule: bindA_casesE)
  case (Ok headers s1)
  from buildHeaders_grows Ok(1) have "trace_grows s s1" by (rule growsD)
  then obtain es where es: "io_trace s1 = io_trace s @ es" by (auto simp: trace_grows_def)
  from Ok(2) show ?thesis
  proof (cases rule: bindA_casesE)
    case (Ok resp s2)
    then have "v = unwrap_data (response_payload resp)" by (auto split: if_splits)
    then show ?thesis using fetchA_answer[OF Ok(1)] es by (auto simp: answers_def)
  qed simp
qed simp

lemma answers_grows: "trace_grows s t \<Longrightarrow> answers w (io_trace t) v \<Longrightarrow> answers w (io_trace s) v"
  by (auto simp: trace_grows_def dest: answers_later)

lemma apiAttempt_answers:
  assumes "apiAttempt S c m p a t s = (Inr v, u)"
  shows "answers (se_world S) (io_trace s) v"
  using assms unfolding apiAttempt_def
proof (cases rule: bindA_casesE)
  case (Ok key s1)
  then show ?thesis
    using growsD[OF getApiClient_grows Ok(1)] clientRequest_answers answers_grows by blast
qed simp

lemma catchA_casesE:
  assumes "catchA m h s = (r, u)"
  obtains (Ok) x where "m s = (Inr x, u)" "r = Inr x"
  | (Err) e t where "m s = (Inl e, t)" "h e t = (r, u)"
  using assms by (auto simp: catchA_def split: prod.splits sum.splits)

lemma seqA_InrE:
  assumes "seqA m k s = (Inr v, u)"
  obtains t where "m s = (Inr (), t)" "k t = (Inr v, u)"
  using assms unfolding seqA_def by (cases rule: bindA_casesE) auto

lemma apiRequest_answers:
  assumes "apiRequest S c m p a t s = (Inr v, u)"
  shows "answers (se_world S) (io_trace s) v"
proof -
  let ?att = "apiAttempt S c m p a t"
  from assms obtain s1 where s1: "ensureAuth S c s = (Inr (), s1)" and
    body: "catchA ?att (\<lambda>e. bindA (getsA (\<lambda>s. canRepair S s c)) (\<lambda>can.
          if can \<and> isApiAuthError e
          then seqA (repairCluster (se_world S) c ''api_auth_failure'') (seqA (ensureAuth S c) ?att)
          else raise e)) s1 = (Inr v, u)"
    unfolding apiRequest_def withRepair_def by (rule seqA_InrE)
  have g1: "trace_grows s s1" using growsD[OF ensureAuth_grows s1] .
  from body show ?thesis
  proof (cases rule: catchA_casesE)
    case (Ok x)
    then show ?thesis using answers_grows[OF g1 apiAttempt_answers] by auto
  next
    case (Err e s2)
    have g2: "trace_grows s1 s2" using growsD[OF apiAttempt_grows Err(1)] .
    from Err(2) have "seqA (repairCluster (se_world S) c ''api_auth_failure'') (seqA (ensureAuth S c) ?att) s2
        = (Inr v, u)" by (auto split: if_splits)
    then obtain s3 s4 where s3: "repairCluster (se_world S) c ''api_auth_failure'' s2 = (Inr (), s3)"
      and s4: "ensureAuth S c s3 = (Inr (), s4)" "?att s4 = (Inr v, u)"
      by (elim seqA_InrE) auto
    have "trace_grows s s4"
      using g1 g2 growsD[OF repairCluster_grows s3] growsD[OF ensureAuth_grows s4(1)]
      by (meson grows.trans)
    then show ?thesis using apiAttempt_answers[OF s4(2)] answers_grows by blast
  qed
qed

section \<open>Termination of the polling loop\<close>

definition stops_from :: "nat \<Rightarrow> world \<Rightarrow> bool" where
  "stops_from n w \<longleftrightarrow> (\<forall>tr rq resp. n \<le> length tr \<longrightarrow> w_fetch w tr rq = Inr resp \<longrightarrow>
     jget (unwrap_data (response_payload resp)) ''status'' = JStr ''stopped'')"

lemma stops_answers: "stops_from n w \<Longrightarrow> n \<le> length tr \<Longrightarrow> answers w tr v \<Longrightarrow> jget v ''status'' = JStr ''stopped''"
  unfolding stops_from_def answers_def by (metis length_append trans_le_add1)

lemma trace_grows_length: "trace_grows s t \<Longrightarrow> length (io_trace s) \<le> length (io_trace t)"
  by (auto simp: trace_grows_def)

lemma progress_length: "progressA k m s = (r, u) \<Longrightarrow> length (io_trace u) = Suc (length (io_trace s))"
  by (auto simp: progressA_def interact_def)

lemma pollUpid_returns:
  "stops_from n (se_world S) \<Longrightarrow> n - length (io_trace s) < fuel \<Longrightarrow>
     fst (pollUpid S c node upid poll fuel k s) \<noteq> Inr None"
proof (induction fuel arbitrary: s k)
  case (Suc fuel)
  show ?case
  proof
    assume none: "fst (pollUpid S c node upid poll (Suc fuel) k s) = Inr None"
    let ?req = "apiRequest S c ''GET'' (task_path node upid ''/status'') [] None"
    from none have na: "\<not> w_aborted (se_world S) (io_trace s)"
      by (auto simp: abortedA_def)
    with none obtain status s1 where st: "?req s = (Inr status, s1)"
      by (cases "?req s"; cases "fst (?req s)") (auto simp: abortedA_def bindA_apply)
    have g1: "trace_grows s s1" using growsD[OF apiRequest_grows st] .
    from none na st obtain v where v: "jfield status ''status'' = Inr v" "v \<noteq> JStr ''stopped''"
      by (cases "jfield status ''status''") (auto simp: abortedA_def bindA_apply split: if_splits)
    then have "jget status ''status'' \<noteq> JStr ''stopped''"
      by (auto simp: jfield_def split: if_splits)
    then have small: "length (io_trace s) < n"
      using stops_answers[OF Suc.prems(1)] apiRequest_answers[OF st] by force
    have tail: "fst (seqA (progressA (k + 1) (''Waiting for task '' @ upid))
        (seqA (sleepA (se_world S) poll) (pollUpid S c node upid poll fuel (k + 1))) s1) = Inr None"
      using none na st v by (simp add: abortedA_def bindA_apply)
    obtain r s2 where s2: "progressA (k + 1) (''Waiting for task '' @ upid) s1 = (r, s2)" by force
    have len2: "length (io_trace s) < length (io_trace s2)"
      using progress_length[OF s2] trace_grows_length[OF g1] by simp
    have "r = Inr ()" using s2 by (simp add: progressA_def interact_def)
    obtain q s3 where s3: "sleepA (se_world S) poll s2 = (q, s3)" by force
    have len3: "length (io_trace s) < length (io_trace s3)"
      using len2 trace_grows_length[OF keepsD[OF io_grows(6) s3]] by simp
    have "q = Inr ()" using tail s2 s3 \<open>r = Inr ()\<close>
      by (cases q) (simp_all add: seqA_def bindA_apply)
    then have "fst (pollUpid S c node upid poll fuel (k + 1) s3) = Inr None"
      using tail s2 s3 \<open>r = Inr ()\<close> by (simp add: seqA_def bindA_apply)
    moreover have "n - length (io_trace s3) < fuel" using Suc.prems(2) len3 small by linarith
    ultimately show False using Suc.IH[OF Suc.prems(1)] by blast
  qed
qed simp

lemma waitForUpid_stops:
  assumes "stops_from n (se_world S)" "n < fuel"
  shows "fst (waitForUpid S fuel cluster upid poll s) \<noteq> Inr None"
proof
  assume none: "fst (waitForUpid S fuel cluster upid poll s) = Inr None"
  then obtain node where node: "upid_node upid = Inr node"
    by (cases "upid_node upid") (auto simp: waitForUpid_def)
  have "fst (pollUpid S cluster node upid poll fuel 0 s) \<noteq> Inr None"
    using assms by (intro pollUpid_returns) auto
  with none node show False
    by (cases "pollUpid S cluster node upid poll fuel 0 s"; cases "fst (pollUpid S cluster node upid poll fuel 0 s)")
      (auto simp: waitForUpid_def bindA_apply ret_def split: option.splits prod.splits sum.splits)
qed


definition stopped_world :: world where
  "stopped_world = sample_world
     \<lparr>w_fetch := (\<lambda>tr _. Inr \<lparr>rs_status = 200,
        rs_text = (if length tr < 9 then ''{\"data\":{\"status\":\"running\"}}'' else ''{\"data\":{\"status\":\"stopped\"}}'')\<rparr>)\<rparr>"

lemma stopped_world_stops: "stops_from 9 stopped_world"
proof -
  have "JSON_parse ''{\"data\":{\"status\":\"stopped\"}}'' = Some (JObj [(''data'', JObj [(''status'', JStr ''stopped'')])])"
    by code_simp
  then show ?thesis
    by (auto simp: stops_from_def stopped_world_def response_payload_def unwrap_data_def jget_def)
qed


section \<open>Command lines\<close>

text \<open>
  C31. What the shell of the node runs is what was asked for: the command line of a CLI call reads
  back as the family followed by its arguments, whatever characters they contain, and the line of a
  shell call as the shell, \<open>-lc\<close> and the command.
\<close>

theorem command_lines_read_back:
  assumes "cliCheck target family args None config = Inr (resolved, command)"
  shows "sh_words command = Some (family # args) \<and>
    sh_words (linux_command input) =
      Some [if si_interpreter input = IBash then ''/bin/bash'' else ''/bin/sh'', ''-lc'', si_command input]"
proof -
  have "command = shellJoin (family # args)"
    using assms by (auto simp: cliCheck_def res_simps split: target_kind.splits option.splits)
  then show ?thesis
    by (simp only: sh_words_shellJoin linux_command_def sh_words_buildLinuxShellCommand) simp
qed

definition sample_node_config :: runtime_config where
  "sample_node_config = refreshRuntimeIndexes (to_runtime (sample_server\<lparr>sc_clusters := [sample_cluster
     \<lparr>cl_nodes := [\<lparr>cn_name = ''pve'', cn_host = ''10.0.0.1'', cn_port = 22, cn_sshProfile = ''p''\<rparr>]\<rparr>]\<rparr>))"

lemma sample_cli_check:
  "\<exists>rc. cliCheck (target_of ''lab'' KNode (Some ''pve'') None) ''qm'' [''set'', [CHR 0x27], ''a b''] None
     sample_node_config = Inr rc"
proof -
  have pol: "sc_policies sample_node_config = [defaultAdminPolicy]"
    by (simp add: sample_node_config_def sample_server_def)
  have "is_ok (assertCliAccess [defaultAdminPolicy] (target_of ''lab'' KNode (Some ''pve'') None) ''qm'' False)"
    by code_simp
  moreover have "getCluster sample_node_config ''lab'' = Inr (sample_cluster
     \<lparr>cl_nodes := [\<lparr>cn_name = ''pve'', cn_host = ''10.0.0.1'', cn_port = 22, cn_sshProfile = ''p''\<rparr>]\<rparr>)"
    by (simp add: getCluster_def lookupCluster_def sample_node_config_def refreshRuntimeIndexes_def
        to_runtime_def sample_server_def server_config.defs runtime_config.defs index_positions_def
        map_from_entries_def sample_cluster_def)
  ultimately show ?thesis
    by (auto simp: cliCheck_def js_or_undefined_def pol is_ok_iff getNodeTarget_def)
qed

theorem command_lines_read_back_witness:
  "\<exists>resolved command. cliCheck (target_of ''lab'' KNode (Some ''pve'') None) ''qm'' [''set'', [CHR 0x27], ''a b''] None
     sample_node_config = Inr (resolved, command) \<and>
     sh_words command = Some [''qm'', ''set'', [CHR 0x27], ''a b'']"
  using sample_cli_check command_lines_read_back by fastforce

end
