(* ===== verification/ServiceVms.thy ===== *)
theory ServiceVms
  imports ServiceTasks
begin

text \<open>
  The workflow operations of src/services.ts over the gated REST and CLI calls: templates, VM
  creation, clone and destruction, PCI passthrough with its CLI fallback, node, VM and container
  actions, console tickets, and the first-time bootstrap of a node.
\<close>

section \<open>Templates\<close>

definition res_node :: "jsval \<Rightarrow> string option" where
  "res_node e = jstr_opt (jget e ''node'')"

definition res_vmid :: "jsval \<Rightarrow> int option" where
  "res_vmid e = jnum_opt (jget e ''vmid'')"

text \<open>\<open>entry.type === kind && entry.vmid !== undefined && entry.node\<close>, with the two fields it guarantees.\<close>

definition guest_entry :: "string \<Rightarrow> jsval \<Rightarrow> (string \<times> int) option" where
  "guest_entry kind e =
     (if jget e ''type'' \<noteq> JStr kind then None
      else (case (js_or_undefined (res_node e), res_vmid e) of (Some n, Some v) \<Rightarrow> Some (n, v) | _ \<Rightarrow> None))"

record template_summary =
  te_cluster :: string
  te_vmid :: int
  te_node :: string
  te_name :: string
  te_status :: "string option"

definition templateOf :: "string \<Rightarrow> jsval \<Rightarrow> template_summary option" where
  "templateOf cluster e =
     (if jget e ''template'' \<noteq> JNum 1 then None
      else map_option (\<lambda>(node, vmid). \<lparr>te_cluster = cluster, te_vmid = vmid, te_node = node,
          te_name = (case jstr_opt (jget e ''name'') of Some n \<Rightarrow> n | None \<Rightarrow> ''vm-'' @ int_str vmid),
          te_status = jstr_opt (jget e ''status'')\<rparr>) (guest_entry ''qemu'' e))"

definition listVmTemplates :: "service \<Rightarrow> string \<Rightarrow> ('b svc_scheme, template_summary list) act" where
  "listVmTemplates S cluster =
     bindA (getClusterResources S cluster True) (\<lambda>resources.
     bindA (liftR (elements resources)) (\<lambda>es. ret (List.map_filter (templateOf cluster) es)))"

definition qemu_target :: "string \<Rightarrow> string \<Rightarrow> int \<Rightarrow> target_ref" where
  "qemu_target cluster node vmid = target_of cluster KQemuVm (Some node) (Some vmid)"

text \<open>The REST paths of the workflows are built without URL encoding.\<close>

definition vm_path :: "string \<Rightarrow> int \<Rightarrow> string \<Rightarrow> string" where
  "vm_path node vmid leaf = ''/nodes/'' @ node @ ''/qemu/'' @ int_str vmid @ leaf"

definition getVmTemplate :: "service \<Rightarrow> string \<Rightarrow> int \<Rightarrow> ('b svc_scheme, template_summary \<times> jsval) act" where
  "getVmTemplate S cluster vmid =
     bindA (listVmTemplates S cluster) (\<lambda>templates.
     case find (\<lambda>t. te_vmid t = vmid) templates of
       None \<Rightarrow> raise (''Template '' @ int_str vmid @ '' not found in cluster '' @ cluster)
     | Some t \<Rightarrow>
         bindA (proxmoxApiCall S (qemu_target cluster (te_node t) vmid) ''GET'' (vm_path (te_node t) vmid ''/config'') [] None)
           (\<lambda>r. ret (t, ar_data r)))"

section \<open>Virtual machines\<close>

record download_options =
  do_content :: string
  do_filename :: string
  do_url :: string
  do_verifyCertificates :: "bool option"
  do_checksum :: "string option"
  do_checksumAlgorithm :: "string option"

definition node_target_of :: "string \<Rightarrow> string \<Rightarrow> target_ref" where
  "node_target_of cluster node = target_of cluster KNode (Some node) None"

definition truthy_field :: "string \<Rightarrow> string option \<Rightarrow> (string \<times> jsval) list" where
  "truthy_field k v = (case js_or_undefined v of Some s \<Rightarrow> [(k, JStr s)] | None \<Rightarrow> [])"

definition storageDownloadUrl ::
    "service \<Rightarrow> string \<Rightarrow> string \<Rightarrow> string \<Rightarrow> download_options \<Rightarrow> int option \<Rightarrow> ('b svc_scheme, api_call_result) act" where
  "storageDownloadUrl S cluster node storage d timeoutMs =
     proxmoxApiCall S (node_target_of cluster node) ''POST''
       (''/nodes/'' @ node @ ''/storage/'' @ storage @ ''/download-url'')
       ([(''storage'', JStr storage), (''node'', JStr node), (''content'', JStr (do_content d)),
         (''filename'', JStr (do_filename d)), (''url'', JStr (do_url d))] @
        (case do_verifyCertificates d of Some b \<Rightarrow> [(''verify-certificates'', JBool b)] | None \<Rightarrow> []) @
        truthy_field ''checksum'' (do_checksum d) @
        truthy_field ''checksum-algorithm'' (do_checksumAlgorithm d))
       timeoutMs"

definition vmCreate ::
    "service \<Rightarrow> string \<Rightarrow> string \<Rightarrow> int \<Rightarrow> (string \<times> jsval) list \<Rightarrow> int option \<Rightarrow> ('b svc_scheme, api_call_result) act" where
  "vmCreate S cluster node vmid args timeoutMs =
     proxmoxApiCall S (node_target_of cluster node) ''POST'' (''/nodes/'' @ node @ ''/qemu'')
       (map_from_entries (args @ [(''vmid'', JNum vmid)])) timeoutMs"

text \<open>\<open>nodeInput ?? (await this.getVmLocation(...)).node\<close>\<close>

definition vm_node :: "service \<Rightarrow> string \<Rightarrow> int \<Rightarrow> string option \<Rightarrow> ('b svc_scheme, string) act" where
  "vm_node S cluster vmid nodeInput =
     (case nodeInput of Some n \<Rightarrow> ret n | None \<Rightarrow> getVmLocation S cluster ''qemu'' vmid)"

definition vmUpdateConfig ::
    "service \<Rightarrow> string \<Rightarrow> int \<Rightarrow> (string \<times> jsval) list \<Rightarrow> string option \<Rightarrow> int option \<Rightarrow>
     ('b svc_scheme, api_call_result) act" where
  "vmUpdateConfig S cluster vmid args nodeInput timeoutMs =
     bindA (vm_node S cluster vmid nodeInput) (\<lambda>node.
       proxmoxApiCall S (qemu_target cluster node vmid) ''PUT'' (vm_path node vmid ''/config'') args timeoutMs)"

definition vmConvertToTemplate ::
    "service \<Rightarrow> string \<Rightarrow> int \<Rightarrow> (string \<times> jsval) list \<Rightarrow> string option \<Rightarrow> int option \<Rightarrow>
     ('b svc_scheme, api_call_result) act" where
  "vmConvertToTemplate S cluster vmid args nodeInput timeoutMs =
     bindA (vm_node S cluster vmid nodeInput) (\<lambda>node.
       proxmoxApiCall S (qemu_target cluster node vmid) ''POST'' (vm_path node vmid ''/template'') args timeoutMs)"

definition vmClone ::
    "service \<Rightarrow> string \<Rightarrow> int \<Rightarrow> (string \<times> jsval) list \<Rightarrow> string option \<Rightarrow> int option \<Rightarrow>
     ('b svc_scheme, api_call_result) act" where
  "vmClone S cluster vmid options nodeInput timeoutMs =
     bindA (vm_node S cluster vmid nodeInput) (\<lambda>node.
       proxmoxApiCall S (qemu_target cluster node vmid) ''POST'' (vm_path node vmid ''/clone'')
         (omitUndefined options) timeoutMs)"

definition vmDestroy ::
    "service \<Rightarrow> string \<Rightarrow> int \<Rightarrow> (string \<times> jsval) list \<Rightarrow> string option \<Rightarrow> int option \<Rightarrow>
     ('b svc_scheme, api_call_result) act" where
  "vmDestroy S cluster vmid args nodeInput timeoutMs =
     bindA (vm_node S cluster vmid nodeInput) (\<lambda>node.
     bindA (proxmoxApiCall S (qemu_target cluster node vmid) ''DELETE'' (vm_path node vmid []) args timeoutMs)
       (\<lambda>response.
     seqA (modifyA (\<lambda>s. s\<lparr>sv_cache := AList.delete cluster (sv_cache s)\<rparr>)) (ret response)))"

section \<open>PCI passthrough\<close>

record pci_options =
  po_slot :: int
  po_host :: "string option"
  po_mapping :: "string option"
  po_deviceId :: "string option"
  po_driver :: "string option"
  po_legacyIgd :: "bool option"
  po_mdev :: "string option"
  po_pcie :: "bool option"
  po_rombar :: "bool option"
  po_romfile :: "string option"
  po_subDeviceId :: "string option"
  po_subVendorId :: "string option"
  po_vendorId :: "string option"
  po_xVga :: "bool option"

definition parseBooleanFlag :: "bool option \<Rightarrow> string option" where
  "parseBooleanFlag v = map_option (\<lambda>b. if b then ''1'' else ''0'') v"

definition text_part :: "string \<Rightarrow> string option \<Rightarrow> string list" where
  "text_part k v = (case js_or_undefined v of Some s \<Rightarrow> [k @ ''='' @ s] | None \<Rightarrow> [])"

definition flag_part :: "string \<Rightarrow> bool option \<Rightarrow> string list" where
  "flag_part k v = (case parseBooleanFlag v of Some s \<Rightarrow> [k @ ''='' @ s] | None \<Rightarrow> [])"

definition buildHostpciConfigValue :: "pci_options \<Rightarrow> string" where
  "buildHostpciConfigValue p = js_join '',''
     (text_part ''host'' (po_host p) @ text_part ''mapping'' (po_mapping p) @
      text_part ''device-id'' (po_deviceId p) @ text_part ''driver'' (po_driver p) @
      flag_part ''legacy-igd'' (po_legacyIgd p) @ text_part ''mdev'' (po_mdev p) @
      flag_part ''pcie'' (po_pcie p) @ flag_part ''rombar'' (po_rombar p) @
      text_part ''romfile'' (po_romfile p) @ text_part ''sub-device-id'' (po_subDeviceId p) @
      text_part ''sub-vendor-id'' (po_subVendorId p) @ text_part ''vendor-id'' (po_vendorId p) @
      flag_part ''x-vga'' (po_xVga p))"

definition isHostpciPermissionFallbackError :: "string \<Rightarrow> string \<Rightarrow> bool" where
  "isHostpciPermissionFallbackError message configKey =
     includes_ci message (''only root can set '' @ squoted configKey @ '' config for non-mapped devices'')"

datatype applied_via = AvRest | AvQmCliFallback

record pci_result =
  pr_node :: string
  pr_slot :: int
  pr_configKey :: string
  pr_configValue :: "string option"
  pr_appliedVia :: applied_via
  pr_fallbackReason :: "string option"
  pr_data :: "jsval + command_result"
  pr_upid :: "string option"

definition hostpci_key :: "int \<Rightarrow> string" where
  "hostpci_key slot = ''hostpci'' @ int_str slot"

definition pciViaRest ::
    "service \<Rightarrow> string \<Rightarrow> int \<Rightarrow> string \<Rightarrow> int \<Rightarrow> string option \<Rightarrow> (string \<times> jsval) list \<Rightarrow> int option \<Rightarrow>
     ('b svc_scheme, pci_result) act" where
  "pciViaRest S cluster vmid node slot configValue args timeoutMs =
     bindA (proxmoxApiCall S (qemu_target cluster node vmid) ''PUT'' (vm_path node vmid ''/config'') args timeoutMs)
       (\<lambda>response. ret \<lparr>pr_node = node, pr_slot = slot, pr_configKey = hostpci_key slot, pr_configValue = configValue,
          pr_appliedVia = AvRest, pr_fallbackReason = None, pr_data = Inl (ar_data response), pr_upid = ar_upid response\<rparr>)"

definition pciViaCli ::
    "service \<Rightarrow> string \<Rightarrow> int \<Rightarrow> string \<Rightarrow> int \<Rightarrow> string option \<Rightarrow> string list \<Rightarrow> string \<Rightarrow> string \<Rightarrow>
     ('b svc_scheme, pci_result) act" where
  "pciViaCli S cluster vmid node slot configValue args failure reason =
     bindA (proxmoxCliRun S (node_target_of cluster node) ''qm'' ([''set'', int_str vmid] @ args) None) (\<lambda>cliResult.
     bindA (failOnExit failure cliResult) (\<lambda>cliResult.
       ret \<lparr>pr_node = node, pr_slot = slot, pr_configKey = hostpci_key slot, pr_configValue = configValue,
          pr_appliedVia = AvQmCliFallback, pr_fallbackReason = Some reason, pr_data = Inr cliResult, pr_upid = None\<rparr>))"

definition vmAttachPciDevice ::
    "service \<Rightarrow> string \<Rightarrow> int \<Rightarrow> pci_options \<Rightarrow> string option \<Rightarrow> int option \<Rightarrow> ('b svc_scheme, pci_result) act" where
  "vmAttachPciDevice S cluster vmid p nodeInput timeoutMs =
     (if js_truthy (po_host p) = js_truthy (po_mapping p)
      then raise ''PCI attach requires exactly one of host or mapping.''
      else bindA (vm_node S cluster vmid nodeInput) (\<lambda>node.
        let configKey = hostpci_key (po_slot p); configValue = buildHostpciConfigValue p in
        catchA (pciViaRest S cluster vmid node (po_slot p) (Some configValue) [(configKey, JStr configValue)] timeoutMs)
          (\<lambda>e. if \<not> js_truthy (po_host p) \<or> js_truthy (po_mapping p) \<or> \<not> isHostpciPermissionFallbackError e configKey
            then raise e
            else pciViaCli S cluster vmid node (po_slot p) (Some configValue) [''-'' @ configKey, configValue]
              (''qm set failed for '' @ configKey) e)))"

definition vmDetachPciDevice ::
    "service \<Rightarrow> string \<Rightarrow> int \<Rightarrow> int \<Rightarrow> string option \<Rightarrow> int option \<Rightarrow> ('b svc_scheme, pci_result) act" where
  "vmDetachPciDevice S cluster vmid slot nodeInput timeoutMs =
     bindA (vm_node S cluster vmid nodeInput) (\<lambda>node.
     let configKey = hostpci_key slot in
     catchA (pciViaRest S cluster vmid node slot None [(''delete'', JStr configKey)] timeoutMs)
       (\<lambda>e. if \<not> isHostpciPermissionFallbackError e configKey then raise e
         else pciViaCli S cluster vmid node slot None [''-delete'', configKey]
           (''qm set -delete failed for '' @ configKey) e))"

section \<open>Actions\<close>

definition nodeActionMapping :: "string \<Rightarrow> string \<Rightarrow> (string \<times> string \<times> (string \<times> jsval) list) option" where
  "nodeActionMapping node action =
     (if action = ''reboot'' then Some (''POST'', ''/nodes/'' @ node @ ''/status'', [(''command'', JStr ''reboot'')])
      else if action = ''shutdown'' then Some (''POST'', ''/nodes/'' @ node @ ''/status'', [(''command'', JStr ''shutdown'')])
      else if action \<in> {''wakeonlan'', ''startall'', ''stopall'', ''suspendall'', ''migrateall''}
      then Some (''POST'', ''/nodes/'' @ node @ ''/'' @ action, [])
      else None)"

text \<open>
  A name of \<open>Object.prototype\<close> is found by the lookup but has no method, so that the call throws.
\<close>

definition nodeAction ::
    "service \<Rightarrow> string \<Rightarrow> string \<Rightarrow> string \<Rightarrow> (string \<times> jsval) list \<Rightarrow> int option \<Rightarrow>
     ('b svc_scheme, api_call_result) act" where
  "nodeAction S cluster node action args timeoutMs =
     (case nodeActionMapping node action of
        Some (m, path, defaultArgs) \<Rightarrow>
          proxmoxApiCall S (node_target_of cluster node) m path (map_from_entries (defaultArgs @ args)) timeoutMs
      | None \<Rightarrow> if action \<in> set prototype_keys then raise ''TypeError''
          else raise (''Unsupported node action '' @ squoted action))"

definition vmAction ::
    "service \<Rightarrow> string \<Rightarrow> int \<Rightarrow> string \<Rightarrow> (string \<times> jsval) list \<Rightarrow> int option \<Rightarrow> ('b svc_scheme, api_call_result) act" where
  "vmAction S cluster vmid action args timeoutMs =
     bindA (getVmLocation S cluster ''qemu'' vmid) (\<lambda>node.
       proxmoxApiCall S (qemu_target cluster node vmid) ''POST'' (vm_path node vmid (''/status/'' @ action)) args timeoutMs)"

definition lxc_target :: "string \<Rightarrow> string \<Rightarrow> int \<Rightarrow> target_ref" where
  "lxc_target cluster node vmid = target_of cluster KLxcContainer (Some node) (Some vmid)"

definition lxcAction ::
    "service \<Rightarrow> string \<Rightarrow> int \<Rightarrow> string \<Rightarrow> (string \<times> jsval) list \<Rightarrow> int option \<Rightarrow> ('b svc_scheme, api_call_result) act" where
  "lxcAction S cluster vmid action args timeoutMs =
     bindA (getVmLocation S cluster ''lxc'' vmid) (\<lambda>node.
       proxmoxApiCall S (lxc_target cluster node vmid) ''POST''
         (''/nodes/'' @ node @ ''/lxc/'' @ int_str vmid @ ''/status/'' @ action) args timeoutMs)"

datatype console_scope = CsShell | CsVnc

definition consoleTicket ::
    "service \<Rightarrow> string \<Rightarrow> target_kind \<Rightarrow> string option \<Rightarrow> int option \<Rightarrow> console_scope \<Rightarrow>
     ('b svc_scheme, api_call_result) act" where
  "consoleTicket S cluster targetKind nodeInput vmid scope =
     (let proxy = (if scope = CsVnc then ''vncproxy'' else ''termproxy'') in
      case (targetKind, js_or_undefined nodeInput, vmid) of
        (KNode, Some node, _) \<Rightarrow>
          proxmoxApiCall S (node_target_of cluster node) ''POST''
            (''/nodes/'' @ node @ (if scope = CsVnc then ''/vncshell'' else ''/termproxy'')) [] None
      | (KQemuVm, Some node, Some v) \<Rightarrow>
          proxmoxApiCall S (qemu_target cluster node v) ''POST'' (vm_path node v (''/'' @ proxy)) [] None
      | (KLxcContainer, Some node, Some v) \<Rightarrow>
          proxmoxApiCall S (lxc_target cluster node v) ''POST''
            (''/nodes/'' @ node @ ''/lxc/'' @ int_str v @ ''/'' @ proxy) [] None
      | _ \<Rightarrow> raise ''Unsupported console target'')"

section \<open>Bootstrap of a node\<close>

record bootstrap_options =
  bo_apiUser :: string
  bo_apiRealm :: string
  bo_tokenId :: string
  bo_comment :: "string option"
  bo_expire :: "int option"
  bo_privsep :: bool
  bo_replaceExistingToken :: bool
  bo_installSshPublicKey :: bool
  bo_activateApiToken :: bool

record token_info =
  tk_user :: string
  tk_realm :: string
  tk_tokenId :: string
  tk_fullTokenId :: jsval
  tk_value :: jsval
  tk_privsep :: jsval
  tk_expire :: jsval
  tk_comment :: jsval

record bootstrap_result =
  br_sshPublicKeyInstalled :: bool
  br_tokenGenerated :: bool
  br_tokenAuthActivated :: bool
  br_tokenInfo :: "token_info option"

definition bootstrap_json :: "bootstrap_options \<Rightarrow> jsval" where
  "bootstrap_json b = JObj
     [(''apiUser'', JStr (bo_apiUser b)), (''apiRealm'', JStr (bo_apiRealm b)), (''tokenId'', JStr (bo_tokenId b)),
      (''comment'', of_str_opt (bo_comment b)), (''expire'', of_int_opt (bo_expire b)),
      (''privsep'', JBool (bo_privsep b)), (''replaceExistingToken'', JBool (bo_replaceExistingToken b)),
      (''installSshPublicKey'', JBool (bo_installSshPublicKey b)), (''activateApiToken'', JBool (bo_activateApiToken b))]"

definition token_path :: "bootstrap_options \<Rightarrow> string" where
  "token_path b = ''/access/users/'' @ encodeURIComponent (bo_apiUser b @ ''@'' @ bo_apiRealm b) @
     ''/token/'' @ encodeURIComponent (bo_tokenId b)"

definition or_value :: "jsval \<Rightarrow> jsval \<Rightarrow> jsval" where
  "or_value v d = (if v = JUndef \<or> v = JNull then d else v)"

definition tokenInfoOf :: "bootstrap_options \<Rightarrow> jsval \<Rightarrow> token_info" where
  "tokenInfoOf b response =
     (let info = jget response ''info'' in
      \<lparr>tk_user = bo_apiUser b, tk_realm = bo_apiRealm b, tk_tokenId = bo_tokenId b,
       tk_fullTokenId = jget response ''full-tokenid'', tk_value = jget response ''value'',
       tk_privsep = or_value (jget info ''privsep'') (JBool (bo_privsep b)),
       tk_expire = jget info ''expire'', tk_comment = jget info ''comment''\<rparr>)"

definition bootstrapKey :: "service \<Rightarrow> string \<Rightarrow> string \<Rightarrow> bootstrap_options \<Rightarrow> ('b svc_scheme, unit) act" where
  "bootstrapKey S cluster node b =
     (if bo_installSshPublicKey b then
        bindA (getsA (\<lambda>s. rbind (assertShellAccess (sc_policies (sv_config s)) (node_target_of cluster node)) (\<lambda>_.
            assertFileAccess (sc_policies (sv_config s)) (node_target_of cluster node) FileWrite))) (\<lambda>checked.
        seqA (liftR checked) (installNodePublicKey S cluster node))
      else ret ())"

definition bootstrapRevoke :: "service \<Rightarrow> string \<Rightarrow> bootstrap_options \<Rightarrow> ('b svc_scheme, unit) act" where
  "bootstrapRevoke S cluster b =
     (if bo_replaceExistingToken b then
        catchA (bindA (proxmoxApiCall S (target_of cluster KCluster None None) ''DELETE'' (token_path b) [] None)
          (\<lambda>_. ret ())) (\<lambda>_. ret ())
      else ret ())"

definition bootstrapNodeAccess ::
    "service \<Rightarrow> string \<Rightarrow> string \<Rightarrow> bootstrap_options \<Rightarrow> ('b svc_scheme, bootstrap_result) act" where
  "bootstrapNodeAccess S cluster node b =
     seqA (auditA S [(''action'', JStr ''proxmox_bootstrap_node_access''),
            (''target'', target_json (node_target_of cluster node)), (''options'', bootstrap_json b)])
    (seqA (bootstrapKey S cluster node b)
    (seqA (bootstrapRevoke S cluster b)
    (bindA (proxmoxApiCall S (target_of cluster KCluster None None) ''POST'' (token_path b)
        (truthy_field ''comment'' (bo_comment b) @
         (case bo_expire b of Some n \<Rightarrow> [(''expire'', JNum n)] | None \<Rightarrow> []) @
         [(''privsep'', JBool (bo_privsep b))]) None) (\<lambda>r.
     let response = ar_data r in
     bindA (liftR (jfield response ''full-tokenid'')) (\<lambda>_.
     seqA (if bo_activateApiToken b
         then setClusterAuth cluster (ApiToken \<lparr>at_user = bo_apiUser b, at_realm = bo_apiRealm b,
                at_tokenId = bo_tokenId b, at_secret = js_String (jget response ''value'')\<rparr>)
         else ret ())
       (ret \<lparr>br_sshPublicKeyInstalled = bo_installSshPublicKey b, br_tokenGenerated = True,
             br_tokenAuthActivated = bo_activateApiToken b, br_tokenInfo = Some (tokenInfoOf b response)\<rparr>))))))"

section \<open>What a PCI value says\<close>

definition text_pair :: "string \<Rightarrow> string option \<Rightarrow> (string \<times> string) list" where
  "text_pair k v = (case js_or_undefined v of Some s \<Rightarrow> [(k, s)] | None \<Rightarrow> [])"

definition flag_pair :: "string \<Rightarrow> bool option \<Rightarrow> (string \<times> string) list" where
  "flag_pair k v = (case v of Some b \<Rightarrow> [(k, if b then ''1'' else ''0'')] | None \<Rightarrow> [])"

definition hostpci_pairs :: "pci_options \<Rightarrow> (string \<times> string) list" where
  "hostpci_pairs p =
     text_pair ''host'' (po_host p) @ text_pair ''mapping'' (po_mapping p) @
     text_pair ''device-id'' (po_deviceId p) @ text_pair ''driver'' (po_driver p) @
     flag_pair ''legacy-igd'' (po_legacyIgd p) @ text_pair ''mdev'' (po_mdev p) @
     flag_pair ''pcie'' (po_pcie p) @ flag_pair ''rombar'' (po_rombar p) @
     text_pair ''romfile'' (po_romfile p) @ text_pair ''sub-device-id'' (po_subDeviceId p) @
     text_pair ''sub-vendor-id'' (po_subVendorId p) @ text_pair ''vendor-id'' (po_vendorId p) @
     flag_pair ''x-vga'' (po_xVga p)"

definition show_pair :: "string \<times> string \<Rightarrow> string" where
  "show_pair kv = fst kv @ CHR ''='' # snd kv"

definition read_pair :: "string \<Rightarrow> string \<times> string" where
  "read_pair s = (takeWhile (\<lambda>c. c \<noteq> CHR ''='') s, tl (dropWhile (\<lambda>c. c \<noteq> CHR ''='') s))"

lemma pair_parts:
  "text_part k v = map show_pair (text_pair k v)" "flag_part k b = map show_pair (flag_pair k b)"
  by (auto simp: text_part_def text_pair_def flag_part_def flag_pair_def parseBooleanFlag_def show_pair_def
      split: option.splits)

lemma hostpci_join: "buildHostpciConfigValue p = js_join '','' (map show_pair (hostpci_pairs p))"
  by (simp only: buildHostpciConfigValue_def hostpci_pairs_def pair_parts map_append)

lemma pair_keys:
  "kv \<in> set (text_pair k v) \<Longrightarrow> fst kv = k" "kv \<in> set (flag_pair k b) \<Longrightarrow> fst kv = k"
  by (auto simp: text_pair_def flag_pair_def split: option.splits)

lemma hostpci_keys:
  "kv \<in> set (hostpci_pairs p) \<Longrightarrow> CHR ''='' \<notin> set (fst kv) \<and> CHR '','' \<notin> set (fst kv)"
  by (auto simp: hostpci_pairs_def dest!: pair_keys)

lemma read_show_pair: "CHR ''='' \<notin> set (fst kv) \<Longrightarrow> read_pair (show_pair kv) = kv"
proof -
  assume no: "CHR ''='' \<notin> set (fst kv)"
  then have "takeWhile (\<lambda>c. c \<noteq> CHR ''='') (fst kv) = fst kv" by (auto simp: takeWhile_eq_all_conv)
  then show ?thesis using no
    by (auto simp: read_pair_def show_pair_def takeWhile_append dropWhile_append prod_eq_iff)
qed

text \<open>
  C32. A PCI passthrough value says what was asked for: read as a comma-separated list of
  assignments it yields exactly the requested settings, in the order of the documentation, as long
  as no text among them contains a comma.
\<close>

theorem hostpci_value_reads_back:
  assumes "js_truthy (po_host p) \<or> js_truthy (po_mapping p)"
    and "\<forall>kv \<in> set (hostpci_pairs p). CHR '','' \<notin> set (snd kv)"
  shows "map read_pair (js_split (CHR '','') (buildHostpciConfigValue p)) = hostpci_pairs p"
proof -
  have "hostpci_pairs p \<noteq> []"
    using assms(1) by (auto simp: hostpci_pairs_def text_pair_def js_truthy_def js_or_undefined_def)
  moreover have "CHR '','' \<notin> set (show_pair kv)" if "kv \<in> set (hostpci_pairs p)" for kv
    using hostpci_keys[OF that] assms(2) that by (auto simp: show_pair_def)
  ultimately have "js_split (CHR '','') (buildHostpciConfigValue p) = map show_pair (hostpci_pairs p)"
    by (auto simp: hostpci_join intro!: js_split_join)
  then show ?thesis
    using hostpci_keys read_show_pair by (simp add: map_idI)
qed

definition sample_pci :: pci_options where
  "sample_pci = \<lparr>po_slot = 0, po_host = Some ''0000:01:00'', po_mapping = None, po_deviceId = None,
     po_driver = None, po_legacyIgd = None, po_mdev = Some [], po_pcie = Some True, po_rombar = Some False,
     po_romfile = None, po_subDeviceId = None, po_subVendorId = None, po_vendorId = None, po_xVga = None\<rparr>"

theorem hostpci_value_reads_back_witness:
  "map read_pair (js_split (CHR '','') ''host=0000:01:00,pcie=1,rombar=0'') =
     [(''host'', ''0000:01:00''), (''pcie'', ''1''), (''rombar'', ''0'')]"
proof -
  have "js_truthy (po_host sample_pci) \<or> js_truthy (po_mapping sample_pci)" by code_simp
  moreover have pairs: "hostpci_pairs sample_pci = [(''host'', ''0000:01:00''), (''pcie'', ''1''), (''rombar'', ''0'')]"
    by code_simp
  moreover have "\<forall>kv \<in> set (hostpci_pairs sample_pci). CHR '','' \<notin> set (snd kv)"
    by (simp add: pairs)
  moreover have "buildHostpciConfigValue sample_pci = ''host=0000:01:00,pcie=1,rombar=0''" by code_simp
  ultimately show ?thesis using hostpci_value_reads_back[of sample_pci] by simp
qed

text \<open>
  C29. A PCI device is attached by exactly one of an address and a mapping, and falls back to the
  node's command line only for the error that requires it: with both or neither the call fails
  without any effect; a result is either the answer of the REST call, or that of a successful
  \<open>qm set\<close>, and then an address was given and the REST call had failed because only root may set
  that very slot.
\<close>

theorem pci_attach_fallback:
  "(js_truthy (po_host p) = js_truthy (po_mapping p) \<and>
      vmAttachPciDevice S cluster vmid p n t s = (Inl ''PCI attach requires exactly one of host or mapping.'', s)) \<or>
   (js_truthy (po_host p) \<noteq> js_truthy (po_mapping p) \<and>
     (case vmAttachPciDevice S cluster vmid p n t s of
        (Inl e, u) \<Rightarrow> True
      | (Inr r, u) \<Rightarrow>
          pr_configKey r = hostpci_key (po_slot p) \<and> pr_configValue r = Some (buildHostpciConfigValue p) \<and>
          ((pr_appliedVia r = AvRest \<and> (\<exists>d. pr_data r = Inl d)) \<or>
           (pr_appliedVia r = AvQmCliFallback \<and> js_truthy (po_host p) \<and>
             (\<exists>reason. pr_fallbackReason r = Some reason \<and>
                isHostpciPermissionFallbackError reason (hostpci_key (po_slot p))) \<and>
             (\<exists>c. pr_data r = Inr c \<and> cr_exitCode c = 0)))))"
proof (cases "js_truthy (po_host p) = js_truthy (po_mapping p)")
  case True
  then show ?thesis by (simp add: vmAttachPciDevice_def)
next
  case False
  let ?key = "hostpci_key (po_slot p)" and ?val = "buildHostpciConfigValue p"
  have rest: "pr_configKey r = ?key \<and> pr_configValue r = Some ?val \<and> pr_appliedVia r = AvRest \<and> (\<exists>d. pr_data r = Inl d)"
    if "pciViaRest S cluster vmid node (po_slot p) (Some ?val) args t s1 = (Inr r, u)" for node args s1 r u
    using that unfolding pciViaRest_def by (cases rule: bindA_casesE) auto
  have cli: "pr_configKey r = ?key \<and> pr_configValue r = Some ?val \<and> pr_appliedVia r = AvQmCliFallback \<and>
      pr_fallbackReason r = Some e \<and> (\<exists>c. pr_data r = Inr c \<and> cr_exitCode c = 0)"
    if "pciViaCli S cluster vmid node (po_slot p) (Some ?val) args msg e s1 = (Inr r, u)" for node args msg e s1 r u
    using that unfolding pciViaCli_def by (auto elim!: bindA_casesE simp: failOnExit_def split: if_splits)
  obtain res u where run: "vmAttachPciDevice S cluster vmid p n t s = (res, u)" by force
  show ?thesis
  proof (cases res)
    case (Inr r)
    from run have "bindA (vm_node S cluster vmid n) (\<lambda>node.
        catchA (pciViaRest S cluster vmid node (po_slot p) (Some ?val) [(?key, JStr ?val)] t)
          (\<lambda>e. if \<not> js_truthy (po_host p) \<or> js_truthy (po_mapping p) \<or> \<not> isHostpciPermissionFallbackError e ?key
            then raise e
            else pciViaCli S cluster vmid node (po_slot p) (Some ?val) [''-'' @ ?key, ?val]
              (''qm set failed for '' @ ?key) e)) s = (Inr r, u)"
      by (simp only: vmAttachPciDevice_def Let_def Inr if_not_P[OF False])
    then obtain node s1 where "catchA (pciViaRest S cluster vmid node (po_slot p) (Some ?val) [(?key, JStr ?val)] t)
          (\<lambda>e. if \<not> js_truthy (po_host p) \<or> js_truthy (po_mapping p) \<or> \<not> isHostpciPermissionFallbackError e ?key
            then raise e
            else pciViaCli S cluster vmid node (po_slot p) (Some ?val) [''-'' @ ?key, ?val]
              (''qm set failed for '' @ ?key) e) s1 = (Inr r, u)"
      by (cases rule: bindA_casesE) auto
    then show ?thesis
    proof (cases rule: catchA_casesE)
      case (Ok x)
      then show ?thesis using rest[OF Ok(1)] False by (simp add: run Inr)
    next
      case (Err e s2)
      then have ok: "js_truthy (po_host p) \<and> isHostpciPermissionFallbackError e ?key"
        and "pciViaCli S cluster vmid node (po_slot p) (Some ?val) [''-'' @ ?key, ?val]
              (''qm set failed for '' @ ?key) e s2 = (Inr r, u)" by (auto split: if_splits)
      then show ?thesis using cli[of node "[''-'' @ ?key, ?val]" "''qm set failed for '' @ ?key" e s2 r u] False
        by (simp add: run Inr)
    qed
  qed (use False run in simp)
qed

lemma setClusterAuth_sets:
  assumes "setClusterAuth cluster auth s = (Inr (), u)"
    and "\<And>i. lookupCluster (sv_config u) cluster = Inr i \<Longrightarrow> i < length (sc_clusters (sv_config u))"
  shows "map_of (sv_clients u) cluster = None \<and> (\<exists>cl. getCluster (sv_config u) cluster = Inr cl \<and> cl_auth cl = auth)"
proof -
  from assms(1) obtain i where i: "lookupCluster (sv_config s) cluster = Inr i"
    and u: "u = s\<lparr>sv_config := set_cluster i (\<lambda>cl. cl\<lparr>cl_auth := auth\<rparr>) (sv_config s),
                 sv_clients := AList.delete cluster (sv_clients s)\<rparr>"
    by (cases "lookupCluster (sv_config s) cluster") (simp_all add: setClusterAuth_def)
  have "lookupCluster (sv_config u) cluster = Inr i"
    using i by (simp add: u lookupCluster_def set_cluster_def split: option.splits if_splits)
  moreover from assms(2)[OF this] have "i < length (sc_clusters (sv_config s))"
    by (simp add: u set_cluster_def)
  ultimately show ?thesis by (simp add: u getCluster_def set_cluster_def delete_conv')
qed

text \<open>
  C28. A bootstrap that was asked to activate its token does: when it succeeds, the credentials of
  the cluster are the new token of the requested account, and no cached client of the cluster is
  left, so that the next request signs with the token that the result reports.
\<close>

theorem bootstrap_activates:
  assumes "bootstrapNodeAccess S cluster node b s = (Inr r, u)" "bo_activateApiToken b"
    and "\<And>i. lookupCluster (sv_config u) cluster = Inr i \<Longrightarrow> i < length (sc_clusters (sv_config u))"
  shows "br_tokenAuthActivated r \<and> map_of (sv_clients u) cluster = None \<and>
    (\<exists>cl info. getCluster (sv_config u) cluster = Inr cl \<and> br_tokenInfo r = Some info \<and>
       cl_auth cl = ApiToken \<lparr>at_user = bo_apiUser b, at_realm = bo_apiRealm b,
            at_tokenId = bo_tokenId b, at_secret = js_String (tk_value info)\<rparr>)"
proof -
  from assms(1) obtain s1 where "bindA (proxmoxApiCall S (target_of cluster KCluster None None) ''POST'' (token_path b)
        (truthy_field ''comment'' (bo_comment b) @
         (case bo_expire b of Some n \<Rightarrow> [(''expire'', JNum n)] | None \<Rightarrow> []) @
         [(''privsep'', JBool (bo_privsep b))]) None) (\<lambda>r.
     let response = ar_data r in
     bindA (liftR (jfield response ''full-tokenid'')) (\<lambda>_.
     seqA (if bo_activateApiToken b
         then setClusterAuth cluster (ApiToken \<lparr>at_user = bo_apiUser b, at_realm = bo_apiRealm b,
                at_tokenId = bo_tokenId b, at_secret = js_String (jget response ''value'')\<rparr>)
         else ret ())
       (ret \<lparr>br_sshPublicKeyInstalled = bo_installSshPublicKey b, br_tokenGenerated = True,
             br_tokenAuthActivated = bo_activateApiToken b, br_tokenInfo = Some (tokenInfoOf b response)\<rparr>))) s1
     = (Inr r, u)"
    unfolding bootstrapNodeAccess_def by (elim seqA_InrE)
  then obtain response s2 where "bindA (liftR (jfield response ''full-tokenid'')) (\<lambda>_.
     seqA (setClusterAuth cluster (ApiToken \<lparr>at_user = bo_apiUser b, at_realm = bo_apiRealm b,
                at_tokenId = bo_tokenId b, at_secret = js_String (jget response ''value'')\<rparr>))
       (ret \<lparr>br_sshPublicKeyInstalled = bo_installSshPublicKey b, br_tokenGenerated = True,
             br_tokenAuthActivated = True, br_tokenInfo = Some (tokenInfoOf b response)\<rparr>)) s2 = (Inr r, u)"
    using assms(2) by (cases rule: bindA_casesE) (auto simp: Let_def)
  then have "seqA (setClusterAuth cluster (ApiToken \<lparr>at_user = bo_apiUser b, at_realm = bo_apiRealm b,
                at_tokenId = bo_tokenId b, at_secret = js_String (jget response ''value'')\<rparr>))
       (ret \<lparr>br_sshPublicKeyInstalled = bo_installSshPublicKey b, br_tokenGenerated = True,
             br_tokenAuthActivated = True, br_tokenInfo = Some (tokenInfoOf b response)\<rparr>) s2 = (Inr r, u)"
    by (auto simp: bindA_liftR_apply split: sum.splits)
  then obtain s3 where "setClusterAuth cluster (ApiToken \<lparr>at_user = bo_apiUser b, at_realm = bo_apiRealm b,
                at_tokenId = bo_tokenId b, at_secret = js_String (jget response ''value'')\<rparr>) s2 = (Inr (), s3)"
    and "s3 = u" "r = \<lparr>br_sshPublicKeyInstalled = bo_installSshPublicKey b, br_tokenGenerated = True,
             br_tokenAuthActivated = True, br_tokenInfo = Some (tokenInfoOf b response)\<rparr>"
    by (auto elim: seqA_InrE)
  then show ?thesis
    using setClusterAuth_sets[OF _ assms(3)] by (auto simp: tokenInfoOf_def Let_def)
qed

section \<open>A concrete bootstrap\<close>

definition token_cluster :: cluster_config where
  "token_cluster = sample_cluster\<lparr>cl_auth := ApiToken \<lparr>at_user = ''root'', at_realm = ''pam'', at_tokenId = ''a'', at_secret = ''s''\<rparr>\<rparr>"

definition token_config :: runtime_config where
  "token_config = refreshRuntimeIndexes (to_runtime (sample_server\<lparr>sc_clusters := [token_cluster]\<rparr>))"

definition token_svc :: svc where
  "token_svc = sample_svc\<lparr>sv_config := token_config\<rparr>"

definition token_text :: string where
  "token_text = ''{\"data\":{\"full-tokenid\":\"mcp@pam!t\",\"value\":\"v1\"}}''"

definition token_world :: world where
  "token_world = sample_world\<lparr>w_fetch := (\<lambda>_ _. Inr \<lparr>rs_status = 200,
     rs_text = token_text\<rparr>)\<rparr>"

definition token_service :: service where
  "token_service = \<lparr>se_world = token_world, se_auth = False,
     se_catalog = catalogOf [RawNode (Some ''/access/users/{userid}/token/{tokenid}'')
       (Some [(''POST'', \<lparr>mi_additionalProperties = Some 0, mi_properties = Some
         [(''privsep'', \<lparr>pr_type = Some ''boolean'', pr_optional = Some 1, pr_format = None\<rparr>)]\<rparr>)]) []],
     se_auditLogPath = ''a''\<rparr>"

definition token_options :: bootstrap_options where
  "token_options = \<lparr>bo_apiUser = ''mcp'', bo_apiRealm = ''pam'', bo_tokenId = ''t'', bo_comment = None, bo_expire = None,
     bo_privsep = False, bo_replaceExistingToken = False, bo_installSshPublicKey = False, bo_activateApiToken = True\<rparr>"

lemma token_config_simps:
  "sc_clusters token_config = [token_cluster]" "map_of (rt_clusterMap token_config) ''lab'' = Some 0"
  "sc_policies token_config = [defaultAdminPolicy]"
  by (simp_all add: token_config_def refreshRuntimeIndexes_def to_runtime_def sample_server_def
      server_config.defs runtime_config.defs index_positions_def map_from_entries_def token_cluster_def sample_cluster_def)

lemma token_text_ne: "token_text \<noteq> []"
  by (simp add: token_text_def)

lemma token_request:
  assumes "sv_config s = token_config" "sv_clients s = []"
  shows "\<exists>t. apiRequest token_service ''lab'' ''POST'' path args None s =
      (Inr (JObj [(''full-tokenid'', JStr ''mcp@pam!t''), (''value'', JStr ''v1'')]), t) \<and> sv_config t = token_config"
proof -
  have parse: "JSON_parse token_text =
      Some (JObj [(''data'', JObj [(''full-tokenid'', JStr ''mcp@pam!t''), (''value'', JStr ''v1'')])])"
    by code_simp
  have up: "js_toUpperCase ''POST'' = ''POST''" by code_simp
  show ?thesis using assms parse
    by (simp add: apiRequest_def withRepair_def apiAttempt_def ensureAuth_def token_service_def getApiClient_def
        bindA_def catchA_def lookupCluster_def token_config_simps Let_def newClient_def token_cluster_def
        sample_cluster_def clientRequest_def up buildHeaders_def client_cluster_def client_of_def fetchA_def
        interact_def token_world_def sample_world_def ok_status_def response_payload_def unwrap_data_def
        js_or_undefined_def token_text_ne)
qed

lemma audit_ok: "auditA token_service e s = (Inr (), snd (auditA token_service e s))"
  by (simp add: prod_eq_iff auditA_def token_service_def auditRecord_def token_world_def sample_world_def nowIsoA_def appendFileA_def interact_def)

lemma token_options_simps:
  "bo_comment token_options = None" "bo_expire token_options = None" "\<not> bo_privsep token_options"
  "\<not> bo_replaceExistingToken token_options" "\<not> bo_installSshPublicKey token_options"
  "bo_activateApiToken token_options"
  by (simp_all add: token_options_def)

theorem bootstrap_activates_witness:
  "\<exists>r u cl. bootstrapNodeAccess token_service ''lab'' ''pve'' token_options token_svc = (Inr r, u) \<and>
     getCluster (sv_config u) ''lab'' = Inr cl \<and>
     cl_auth cl = ApiToken \<lparr>at_user = ''mcp'', at_realm = ''pam'', at_tokenId = ''t'', at_secret = ''v1''\<rparr>"
proof -
  let ?args = "[(''privsep'', JBool False)]"
  let ?t = "target_of ''lab'' KCluster None None"
  have pol: "assertApiAccess [defaultAdminPolicy] ?t ''POST'' = Inr ()" by code_simp
  have path: "token_path token_options = ''/access/users/mcp%40pam/token/t''" by code_simp
  have "is_ok (validate (se_catalog token_service) ''POST'' ''/access/users/mcp%40pam/token/t'' ?args)" by code_simp
  then obtain v where v: "validate (se_catalog token_service) ''POST'' ''/access/users/mcp%40pam/token/t'' ?args = Inr v"
    by (auto simp: is_ok_iff)
  define D where "D = JObj [(''full-tokenid'', JStr ''mcp@pam!t''), (''value'', JStr ''v1'')]"
  define s0 where "s0 = snd (auditA token_service [(''action'', JStr ''proxmox_bootstrap_node_access''),
        (''target'', target_json (node_target_of ''lab'' ''pve'')), (''options'', bootstrap_json token_options)] token_svc)"
  have a0: "auditA token_service [(''action'', JStr ''proxmox_bootstrap_node_access''),
        (''target'', target_json (node_target_of ''lab'' ''pve'')), (''options'', bootstrap_json token_options)] token_svc = (Inr (), s0)"
    unfolding s0_def by (rule audit_ok)
  have s0: "sv_config s0 = token_config" "sv_clients s0 = []"
    by (simp_all add: s0_def auditA_def auditRecord_event token_svc_def sample_svc_def)
  define s1 where "s1 = snd (auditA token_service (apiCallEntry ?t ''POST'' ''/access/users/mcp%40pam/token/t'' (ma_args v)) s0)"
  have a1: "auditA token_service (apiCallEntry ?t ''POST'' ''/access/users/mcp%40pam/token/t'' (ma_args v)) s0 = (Inr (), s1)"
    unfolding s1_def by (rule audit_ok)
  have s1: "sv_config s1 = token_config" "sv_clients s1 = []"
    by (simp_all add: s1_def auditA_def auditRecord_event s0)
  obtain t where t: "apiRequest token_service ''lab'' ''POST'' ''/access/users/mcp%40pam/token/t'' (ma_args v) None s1 = (Inr D, t)"
      "sv_config t = token_config"
    unfolding D_def using token_request[OF s1] by blast
  have api: "proxmoxApiCall token_service ?t ''POST'' ''/access/users/mcp%40pam/token/t'' ?args None s0 =
      (Inr \<lparr>ar_data = D, ar_upid = upid_of D\<rparr>, t)"
    using pol v t a1
    by (simp add: proxmoxApiCall_def apiCallCheck_def s0 token_config_simps seqA_def bindA_apply)
  have D: "jfield D ''full-tokenid'' = Inr (JStr ''mcp@pam!t'')" "jget D ''value'' = JStr ''v1''"
    by (simp_all add: D_def jfield_def jget_def)
  have run: "\<exists>r u. bootstrapNodeAccess token_service ''lab'' ''pve'' token_options token_svc = (Inr r, u) \<and>
      br_tokenInfo r = Some (tokenInfoOf token_options D) \<and>
      length (sc_clusters (sv_config u)) = 1 \<and> rt_clusterMap (sv_config u) = rt_clusterMap token_config"
    using api a0 D t(2) path
    by (simp add: bootstrapNodeAccess_def seqA_def bindA_apply bootstrapKey_def bootstrapRevoke_def
        token_options_simps truthy_field_def js_or_undefined_def Let_def setClusterAuth_def lookupCluster_def
        set_cluster_def token_config_simps)
  then obtain r u where ru: "bootstrapNodeAccess token_service ''lab'' ''pve'' token_options token_svc = (Inr r, u)"
      "br_tokenInfo r = Some (tokenInfoOf token_options D)"
      "length (sc_clusters (sv_config u)) = 1" "rt_clusterMap (sv_config u) = rt_clusterMap token_config" by blast
  then have "i < length (sc_clusters (sv_config u))" if "lookupCluster (sv_config u) ''lab'' = Inr i" for i
    using that by (simp add: lookupCluster_def token_config_simps)
  from bootstrap_activates[OF ru(1) _ this] ru(1,2) show ?thesis
    by (auto simp: token_options_def tokenInfoOf_def D Let_def)
qed

end
