(* ===== verification/ServiceInventory.thy ===== *)
theory ServiceInventory
  imports ServiceVms
begin

text \<open>
  \<open>inventoryOverview\<close> of src/services.ts: the capability summaries of the nodes, virtual machines
  and containers of a cluster, and the agreement of the advertised capabilities with what the
  shell and file operations can do.
\<close>

section \<open>Summaries\<close>

record summary =
  su_target :: target_ref
  su_displayName :: string
  su_status :: "string option"
  su_capabilities :: "capability list"
  su_preferredTransport :: string
  su_reachable :: "bool option"

record guest_summary = summary +
  su_vmid :: int
  su_node :: string

record vm_summary = guest_summary +
  su_guestKind :: guest_kind
  su_guestAgentAvailable :: bool

record cluster_summary =
  cs_cluster :: string
  cs_version :: jsval
  cs_status :: jsval
  cs_nodes :: "summary list"
  cs_qemuVms :: "vm_summary list"
  cs_lxcContainers :: "guest_summary list"
  cs_storages :: "jsval list"

definition nodeConfigured :: "runtime_config \<Rightarrow> string \<Rightarrow> string option \<Rightarrow> bool res" where
  "nodeConfigured config cluster node =
     rbind (getCluster config cluster) (\<lambda>cl. Inr (list_ex (\<lambda>n. Some (cn_name n) = node) (cl_nodes cl)))"

text \<open>\<open>entry.node ?? entry.id\<close>\<close>

definition node_name :: "jsval \<Rightarrow> string" where
  "node_name e = (case res_node e of Some n \<Rightarrow> n | None \<Rightarrow> default_to [] (jstr_opt (jget e ''id'')))"

definition nodeSummary :: "runtime_config \<Rightarrow> string \<Rightarrow> bool \<Rightarrow> jsval \<Rightarrow> summary res" where
  "nodeSummary config cluster probeRemote e =
     rbind (nodeConfigured config cluster (res_node e)) (\<lambda>configured.
     Inr \<lparr> su_target = target_of cluster KNode (Some (node_name e)) None,
           su_displayName = node_name e, su_status = jstr_opt (jget e ''status''),
           su_capabilities = [CapInventory, CapConfig, CapTaskWait, CapConsole] @ (if configured then [CapHostShell] else []),
           su_preferredTransport = (if configured then ''ssh'' else ''api_only''),
           su_reachable = (if probeRemote then Some configured else None) \<rparr>)"

definition vm_capabilities :: "runtime_config \<Rightarrow> string \<Rightarrow> int \<Rightarrow> vm_guest \<Rightarrow> capability list" where
  "vm_capabilities config cluster vmid details =
     [CapInventory, CapLifecycle, CapConfig, CapTaskWait, CapConsole] @
     (if vg_agent details then [CapGuestExec, CapGuestFileIo, CapGuestShell]
      else if vg_guestKind details = GkLinux \<and> getLinuxGuestConfig config cluster KQemuVm vmid \<noteq> None then [CapGuestShell]
      else if vg_guestKind details = GkWindows \<and> getWindowsGuestConfig config cluster vmid \<noteq> None then [CapGuestShell]
      else [])"

definition display_name :: "string \<Rightarrow> int \<Rightarrow> jsval \<Rightarrow> string" where
  "display_name prefix vmid e = default_to (prefix @ int_str vmid) (jstr_opt (jget e ''name''))"

text \<open>The probe runs a shell command in the guest; \<open>None\<close> means that its fuel ran out.\<close>

definition vmSummary ::
    "service \<Rightarrow> nat \<Rightarrow> string \<Rightarrow> bool \<Rightarrow> jsval \<times> string \<times> int \<Rightarrow> ('b svc_scheme, vm_summary option) act" where
  "vmSummary S fuel cluster probeRemote = (\<lambda>(e, node, vmid).
     bindA (detectVmGuest S cluster node vmid) (\<lambda>details.
     bindA (getsA (\<lambda>s. vm_capabilities (sv_config s) cluster vmid details)) (\<lambda>caps.
     bindA (if probeRemote \<and> CapGuestShell \<in> set caps
         then probeDocker S fuel (target_of cluster
                (if vg_guestKind details = GkWindows then KWindowsGuest else KLinuxGuest) (Some node) (Some vmid))
         else ret (Some False)) (\<lambda>docker.
     ret (map_option (\<lambda>d.
       \<lparr> su_target = qemu_target cluster node vmid, su_displayName = display_name ''vm-'' vmid e,
         su_status = jstr_opt (jget e ''status''),
         su_capabilities = caps @ (if d then [CapDockerShell] else []),
         su_preferredTransport = (if vg_agent details then ''proxmox_guest_agent''
            else if vg_guestKind details = GkWindows then ''winrm'' else ''ssh''),
         su_reachable = None, su_vmid = vmid, su_node = node,
         su_guestKind = vg_guestKind details, su_guestAgentAvailable = vg_agent details \<rparr>) docker)))))"

definition lxcSummary :: "runtime_config \<Rightarrow> string \<Rightarrow> jsval \<times> string \<times> int \<Rightarrow> guest_summary res" where
  "lxcSummary config cluster = (\<lambda>(e, node, vmid).
     rbind (nodeConfigured config cluster (Some node)) (\<lambda>configured.
     Inr \<lparr> su_target = lxc_target cluster node vmid, su_displayName = display_name ''ct-'' vmid e,
           su_status = jstr_opt (jget e ''status''),
           su_capabilities = [CapInventory, CapLifecycle, CapConfig, CapTaskWait, CapConsole] @
             (if configured then [CapGuestShell, CapGuestFileIo] else []),
           su_preferredTransport = (if configured then ''pct_over_ssh'' else ''api_only''),
           su_reachable = None, su_vmid = vmid, su_node = node \<rparr>))"

definition guest_entries :: "string \<Rightarrow> jsval list \<Rightarrow> (jsval \<times> string \<times> int) list" where
  "guest_entries kind es = List.map_filter (\<lambda>e. map_option (\<lambda>g. (e, g)) (guest_entry kind e)) es"

definition inventoryOverview ::
    "service \<Rightarrow> nat \<Rightarrow> string \<Rightarrow> bool \<Rightarrow> bool \<Rightarrow> ('b svc_scheme, cluster_summary option) act" where
  "inventoryOverview S fuel cluster probeRemote forceRefresh =
     bindA (getClusterResources S cluster forceRefresh) (\<lambda>resources.
     bindA (apiRequest S cluster ''GET'' ''/version'' [] None) (\<lambda>version.
     bindA (apiRequest S cluster ''GET'' ''/cluster/status'' [] None) (\<lambda>status.
     bindA (liftR (elements resources)) (\<lambda>es.
     bindA (getsA sv_config) (\<lambda>config.
     bindA (liftR (rmap (nodeSummary config cluster probeRemote) (filter (\<lambda>e. jget e ''type'' = JStr ''node'') es))) (\<lambda>nodes.
     bindA (mapA (vmSummary S fuel cluster probeRemote) (guest_entries ''qemu'' es)) (\<lambda>vms.
     bindA (getsA sv_config) (\<lambda>config.
     bindA (liftR (rmap (lxcSummary config cluster) (guest_entries ''lxc'' es))) (\<lambda>lxcs.
     ret (map_option (\<lambda>vms.
       \<lparr> cs_cluster = cluster, cs_version = version, cs_status = status, cs_nodes = nodes, cs_qemuVms = vms,
         cs_lxcContainers = lxcs, cs_storages = filter (\<lambda>e. jget e ''type'' = JStr ''storage'') es \<rparr>)
       (those vms)))))))))))"

section \<open>What the capabilities mean\<close>

lemma nodeConfigured_target:
  "nodeConfigured config cluster (Some node) = Inr b \<Longrightarrow> b = is_ok (getNodeTarget config cluster node)"
proof -
  have "list_ex (\<lambda>n. cn_name n = node) ns = (find (\<lambda>e. cn_name e = node) ns \<noteq> None)" for ns
    by (auto simp: find_None_iff list_ex_iff)
  then show "nodeConfigured config cluster (Some node) = Inr b \<Longrightarrow> ?thesis"
    by (cases "getCluster config cluster")
      (auto simp: nodeConfigured_def getNodeTarget_def is_ok_iff split: option.split)
qed

text \<open>
  C30. The inventory advertises what the node operations can resolve: the summary of a node lists the
  host shell exactly when the shell operation finds an SSH mapping for it, and the summary of a
  container lists guest shell and guest files exactly when they find one for its node; the
  transports agree with the capabilities.
\<close>

theorem inventory_capabilities_resolve:
  assumes "nodeSummary config cluster probe e = Inr n" "res_node e = Some node"
    and "lxcSummary config cluster (e', node', vmid) = Inr c"
  shows "(CapHostShell \<in> set (su_capabilities n)) = is_ok (getNodeTarget config cluster node) \<and>
    (su_preferredTransport n = ''ssh'') = (CapHostShell \<in> set (su_capabilities n)) \<and>
    tg_node (su_target n) = Some node \<and>
    (CapGuestShell \<in> set (su_capabilities c)) = is_ok (getNodeTarget config cluster node') \<and>
    (CapGuestFileIo \<in> set (su_capabilities c)) = is_ok (getNodeTarget config cluster node') \<and>
    (su_preferredTransport c = ''pct_over_ssh'') = (CapGuestShell \<in> set (su_capabilities c))"
proof -
  from assms(1,2) obtain b where b: "nodeConfigured config cluster (Some node) = Inr b"
    and n: "n = \<lparr> su_target = target_of cluster KNode (Some node) None,
           su_displayName = node, su_status = jstr_opt (jget e ''status''),
           su_capabilities = [CapInventory, CapConfig, CapTaskWait, CapConsole] @ (if b then [CapHostShell] else []),
           su_preferredTransport = (if b then ''ssh'' else ''api_only''),
           su_reachable = (if probe then Some b else None) \<rparr>"
    by (auto simp: nodeSummary_def res_simps node_name_def)
  from assms(3) obtain b' where b': "nodeConfigured config cluster (Some node') = Inr b'"
    and c: "su_capabilities c = [CapInventory, CapLifecycle, CapConfig, CapTaskWait, CapConsole] @
             (if b' then [CapGuestShell, CapGuestFileIo] else [])"
       "su_preferredTransport c = (if b' then ''pct_over_ssh'' else ''api_only'')"
    by (auto simp: lxcSummary_def res_simps)
  show ?thesis
    using nodeConfigured_target[OF b] nodeConfigured_target[OF b'] by (simp add: n c)
qed

definition sample_entry :: "string \<Rightarrow> jsval" where
  "sample_entry kind = JObj [(''id'', JStr ''x''), (''type'', JStr kind), (''node'', JStr ''pve''), (''vmid'', JNum 100)]"

theorem inventory_capabilities_resolve_witness:
  "\<exists>n. nodeSummary sample_node_config ''lab'' False (sample_entry ''node'') = Inr n \<and>
     CapHostShell \<in> set (su_capabilities n) \<and> is_ok (getNodeTarget sample_node_config ''lab'' ''pve'')"
proof -
  have cl: "getCluster sample_node_config ''lab'' = Inr (sample_cluster
     \<lparr>cl_nodes := [\<lparr>cn_name = ''pve'', cn_host = ''10.0.0.1'', cn_port = 22, cn_sshProfile = ''p''\<rparr>]\<rparr>)"
    by (simp add: getCluster_def lookupCluster_def sample_node_config_def refreshRuntimeIndexes_def
        to_runtime_def sample_server_def server_config.defs runtime_config.defs index_positions_def
        map_from_entries_def sample_cluster_def)
  have "res_node (sample_entry ''node'') = Some ''pve''"
    by (simp add: sample_entry_def res_node_def jget_def jstr_opt_def)
  moreover from this cl obtain n c where
    "nodeSummary sample_node_config ''lab'' False (sample_entry ''node'') = Inr n"
    "lxcSummary sample_node_config ''lab'' (sample_entry ''lxc'', ''pve'', 100) = Inr c"
    by (simp add: nodeSummary_def lxcSummary_def nodeConfigured_def)
  moreover have "is_ok (getNodeTarget sample_node_config ''lab'' ''pve'')"
    using cl by (simp add: getNodeTarget_def)
  ultimately show ?thesis using inventory_capabilities_resolve by blast
qed

end
