(* ===== verification/InventoryJson.thy ===== *)
theory InventoryJson
  imports ServiceInventory
begin

text \<open>
  The objects of the inventory as the tools and resources hand them out: the field names and their
  order are those of the object literals in \<open>inventoryOverview\<close> of src/services.ts.
\<close>

fun capability_str :: "capability \<Rightarrow> string" where
  "capability_str CapInventory = ''inventory''"
| "capability_str CapLifecycle = ''lifecycle''"
| "capability_str CapConfig = ''config''"
| "capability_str CapTaskWait = ''task_wait''"
| "capability_str CapConsole = ''console''"
| "capability_str CapGuestExec = ''guest_exec''"
| "capability_str CapGuestFileIo = ''guest_file_io''"
| "capability_str CapHostShell = ''host_shell''"
| "capability_str CapGuestShell = ''guest_shell''"
| "capability_str CapDockerShell = ''docker_shell''"

definition CAPABILITY_NAMES :: "string list" where
  "CAPABILITY_NAMES = map capability_str [CapInventory, CapLifecycle, CapConfig, CapTaskWait, CapConsole,
     CapGuestExec, CapGuestFileIo, CapHostShell, CapGuestShell, CapDockerShell]"

fun guest_kind_str :: "guest_kind \<Rightarrow> string" where
  "guest_kind_str GkLinux = ''linux_guest''"
| "guest_kind_str GkWindows = ''windows_guest''"
| "guest_kind_str GkUnknown = ''unknown''"

text \<open>The fields every summary ends with.\<close>

definition summary_tail :: "'b summary_scheme \<Rightarrow> (string \<times> jsval) list" where
  "summary_tail u =
     [(''status'', of_str_opt (su_status u)),
      (''capabilities'', JArr (map (\<lambda>c. JStr (capability_str c)) (su_capabilities u))),
      (''preferredTransport'', JStr (su_preferredTransport u)),
      (''reachable'', case su_reachable u of Some b \<Rightarrow> JBool b | None \<Rightarrow> JNull)]"

definition node_summary_json :: "summary \<Rightarrow> jsval" where
  "node_summary_json u = JObj ([(''target'', target_json (su_target u)), (''displayName'', JStr (su_displayName u)),
     (''node'', JStr (su_displayName u))] @ summary_tail u)"

definition guest_fields :: "'b guest_summary_scheme \<Rightarrow> (string \<times> jsval) list" where
  "guest_fields u = [(''target'', target_json (su_target u)), (''displayName'', JStr (su_displayName u)),
     (''vmid'', JNum (su_vmid u)), (''node'', JStr (su_node u))] @ summary_tail u"

definition lxc_summary_json :: "guest_summary \<Rightarrow> jsval" where
  "lxc_summary_json u = JObj (guest_fields u)"

definition vm_summary_json :: "vm_summary \<Rightarrow> jsval" where
  "vm_summary_json u = JObj (guest_fields u @
     [(''guestKind'', JStr (guest_kind_str (su_guestKind u))), (''guestAgentAvailable'', JBool (su_guestAgentAvailable u))])"

definition cluster_summary_json :: "cluster_summary \<Rightarrow> jsval" where
  "cluster_summary_json i = JObj
     [(''cluster'', JStr (cs_cluster i)), (''version'', cs_version i), (''status'', cs_status i),
      (''nodes'', JArr (map node_summary_json (cs_nodes i))),
      (''qemuVms'', JArr (map vm_summary_json (cs_qemuVms i))),
      (''lxcContainers'', JArr (map lxc_summary_json (cs_lxcContainers i))),
      (''storages'', JArr (cs_storages i))]"

end
