(* ===== verification/Domains.thy ===== *)
theory Domains
  imports ServiceSnippets InventoryJson
begin

text \<open>
  The domain services of src/domain-services.ts: thin wrappers that name a target and a REST path for
  every resource family, lookups through the inventory, and the guest-agent diagnosis.  The
  operations that only pass their arguments on are the operations of the shared service.
\<close>

section \<open>Shared lookups\<close>

text \<open>Without a remote probe the inventory never waits on a guest agent, so no fuel is needed.\<close>

definition inventoryA :: "service \<Rightarrow> string \<Rightarrow> ('b svc_scheme, cluster_summary) act" where
  "inventoryA S cluster =
     bindA (inventoryOverview S 0 cluster False False) (\<lambda>r.
     case r of Some i \<Rightarrow> ret i | None \<Rightarrow> raise ''probe pending'')"

definition cluster_target :: "string \<Rightarrow> target_ref" where
  "cluster_target cluster = target_of cluster KCluster None None"

abbreviation clusterGet :: "service \<Rightarrow> string \<Rightarrow> string \<Rightarrow> ('b svc_scheme, api_call_result) act" where
  "clusterGet S cluster path \<equiv> proxmoxApiCall S (cluster_target cluster) ''GET'' path [] None"

abbreviation nodeGet :: "service \<Rightarrow> string \<Rightarrow> string \<Rightarrow> string \<Rightarrow> ('b svc_scheme, api_call_result) act" where
  "nodeGet S cluster node leaf \<equiv>
     proxmoxApiCall S (node_target_of cluster node) ''GET'' (''/nodes/'' @ node @ leaf) [] None"

section \<open>Clusters\<close>

definition clusterGetStatus :: "service \<Rightarrow> string \<Rightarrow> ('b svc_scheme, jsval \<times> jsval) act" where
  "clusterGetStatus S cluster =
     bindA (clusterGet S cluster ''/cluster/status'') (\<lambda>status.
     bindA (clusterGet S cluster ''/version'') (\<lambda>version.
     ret (ar_data status, ar_data version)))"

definition pci_mapping_path :: "string \<Rightarrow> string" where
  "pci_mapping_path i = ''/cluster/mapping/pci/'' @ encodeURIComponent i"

definition listPciMappings :: "service \<Rightarrow> string \<Rightarrow> string option \<Rightarrow> ('b svc_scheme, api_call_result) act" where
  "listPciMappings S cluster checkNode =
     proxmoxApiCall S (cluster_target cluster) ''GET'' ''/cluster/mapping/pci'' (truthy_field ''check-node'' checkNode) None"

definition getPciMapping :: "service \<Rightarrow> string \<Rightarrow> string \<Rightarrow> ('b svc_scheme, api_call_result) act" where
  "getPciMapping S cluster i = clusterGet S cluster (pci_mapping_path i)"

definition createPciMapping ::
    "service \<Rightarrow> string \<Rightarrow> (string \<times> jsval) list \<Rightarrow> int option \<Rightarrow> ('b svc_scheme, api_call_result) act" where
  "createPciMapping S cluster args timeoutMs =
     proxmoxApiCall S (cluster_target cluster) ''POST'' ''/cluster/mapping/pci'' args timeoutMs"

definition updatePciMapping ::
    "service \<Rightarrow> string \<Rightarrow> string \<Rightarrow> (string \<times> jsval) list \<Rightarrow> int option \<Rightarrow> ('b svc_scheme, api_call_result) act" where
  "updatePciMapping S cluster i args timeoutMs =
     proxmoxApiCall S (cluster_target cluster) ''PUT'' (pci_mapping_path i) args timeoutMs"

definition deletePciMapping ::
    "service \<Rightarrow> string \<Rightarrow> string \<Rightarrow> int option \<Rightarrow> ('b svc_scheme, api_call_result) act" where
  "deletePciMapping S cluster i timeoutMs =
     proxmoxApiCall S (cluster_target cluster) ''DELETE'' (pci_mapping_path i) [(''id'', JStr i)] timeoutMs"

section \<open>Nodes\<close>

definition nodeList :: "service \<Rightarrow> string \<Rightarrow> ('b svc_scheme, summary list) act" where
  "nodeList S cluster = bindA (inventoryA S cluster) (\<lambda>i. ret (cs_nodes i))"

definition nodeGetStatus :: "service \<Rightarrow> string \<Rightarrow> string \<Rightarrow> ('b svc_scheme, api_call_result) act" where
  "nodeGetStatus S cluster node = nodeGet S cluster node ''/status''"

definition listNetwork :: "service \<Rightarrow> string \<Rightarrow> string \<Rightarrow> ('b svc_scheme, api_call_result) act" where
  "listNetwork S cluster node = nodeGet S cluster node ''/network''"

section \<open>Virtual machines\<close>

definition key_value :: "string \<Rightarrow> string \<times> string" where
  "key_value entry = (case js_split (CHR ''='') entry of k # rest \<Rightarrow> (k, js_join ''='' rest) | [] \<Rightarrow> ([], []))"

definition parseCiCustom :: "jsval \<Rightarrow> (string, string) omap" where
  "parseCiCustom v =
     (case v of
        JStr s \<Rightarrow>
          if js_trim s = [] then []
          else map_from_entries (map key_value (filter (\<lambda>e. e \<noteq> [] \<and> CHR ''='' \<in> set e)
            (map js_trim (js_split (CHR '','') s))))
      | _ \<Rightarrow> [])"

record guest_details =
  gd_inventory :: jsval
  gd_node :: string
  gd_name :: string
  gd_inventoryStatus :: "string option"
  gd_status :: jsval
  gd_config :: jsval

definition guestDetails ::
    "service \<Rightarrow> target_ref \<Rightarrow> string \<Rightarrow> jsval \<Rightarrow> 'c guest_summary_scheme \<Rightarrow> ('b svc_scheme, guest_details) act" where
  "guestDetails S target path inventory u =
     bindA (proxmoxApiCall S target ''GET'' (path @ ''/status/current'') [] None) (\<lambda>status.
     bindA (proxmoxApiCall S target ''GET'' (path @ ''/config'') [] None) (\<lambda>config.
     ret \<lparr>gd_inventory = inventory, gd_node = su_node u, gd_name = su_displayName u, gd_inventoryStatus = su_status u,
          gd_status = ar_data status, gd_config = ar_data config\<rparr>))"

definition qemuGet :: "service \<Rightarrow> string \<Rightarrow> int \<Rightarrow> ('b svc_scheme, guest_details) act" where
  "qemuGet S cluster vmid =
     bindA (inventoryA S cluster) (\<lambda>i.
     case find (\<lambda>e. su_vmid e = vmid) (cs_qemuVms i) of
       None \<Rightarrow> raise (''VM '' @ int_str vmid @ '' not found in cluster '' @ cluster)
     | Some vm \<Rightarrow> guestDetails S (qemu_target cluster (su_node vm) vmid) (vm_path (su_node vm) vmid [])
         (vm_summary_json vm) vm)"

definition qemuList :: "service \<Rightarrow> string \<Rightarrow> ('b svc_scheme, vm_summary list) act" where
  "qemuList S cluster = bindA (inventoryA S cluster) (\<lambda>i. ret (cs_qemuVms i))"

text \<open>The node is the given one or that of the inventory; an empty name counts as missing.\<close>

definition agent_node :: "service \<Rightarrow> string \<Rightarrow> int \<Rightarrow> string option \<Rightarrow> ('b svc_scheme, string) act" where
  "agent_node S cluster vmid nodeInput =
     bindA (case nodeInput of
         Some n \<Rightarrow> ret (Some n)
       | None \<Rightarrow> bindA (qemuList S cluster) (\<lambda>vms. ret (map_option su_node (find (\<lambda>e. su_vmid e = vmid) vms)))) (\<lambda>node.
     case js_or_undefined node of
       Some n \<Rightarrow> ret n
     | None \<Rightarrow> raise (''VM '' @ int_str vmid @ '' not found in cluster '' @ cluster))"

definition agentPing ::
    "service \<Rightarrow> string \<Rightarrow> int \<Rightarrow> string option \<Rightarrow> int option \<Rightarrow> ('b svc_scheme, api_call_result) act" where
  "agentPing S cluster vmid nodeInput timeoutMs =
     bindA (agent_node S cluster vmid nodeInput) (\<lambda>node.
       proxmoxApiCall S (qemu_target cluster node vmid) ''POST'' (vm_path node vmid ''/agent/ping'') [] timeoutMs)"

definition agentInfo ::
    "service \<Rightarrow> string \<Rightarrow> int \<Rightarrow> string option \<Rightarrow> int option \<Rightarrow> ('b svc_scheme, api_call_result) act" where
  "agentInfo S cluster vmid nodeInput timeoutMs =
     bindA (agent_node S cluster vmid nodeInput) (\<lambda>node.
       proxmoxApiCall S (qemu_target cluster node vmid) ''GET'' (vm_path node vmid ''/agent/info'') [] timeoutMs)"

section \<open>Diagnosis of the guest agent\<close>

text \<open>A failure becomes part of the result instead of ending the diagnosis.\<close>

definition attemptA :: "('s, 'a) act \<Rightarrow> ('s, 'a res) act" where
  "attemptA m = (\<lambda>s. case m s of (r, s') \<Rightarrow> (Inr r, s'))"

record guest_diagnosis =
  dg_node :: string
  dg_name :: string
  dg_status :: jsval
  dg_memory :: "jsval \<times> jsval \<times> jsval"
  dg_configured :: bool
  dg_ping :: "jsval res"
  dg_info :: "jsval res"
  dg_cicustomRaw :: "string option"
  dg_cicustom :: "(string, string) omap"
  dg_dumps :: "(string \<times> string res) list"
  dg_serialConfigured :: bool
  dg_vga :: jsval
  dg_suggestedConsole :: console_scope
  dg_findings :: "string list"

definition or_null :: "jsval \<Rightarrow> jsval" where
  "or_null v = (if v = JUndef then JNull else v)"

definition agent_configured :: "jsval \<Rightarrow> bool" where
  "agent_configured v = (case v of JStr s \<Rightarrow> js_includes s ''enabled=1'' | _ \<Rightarrow> v = JNum 1)"

definition guestFindings :: "bool \<Rightarrow> bool \<Rightarrow> string option \<Rightarrow> jsval \<Rightarrow> string list" where
  "guestFindings agentConfigured pingOk vendor status =
     (if agentConfigured then [] else [''Proxmox VM config does not show the guest agent as enabled.'']) @
     (if agentConfigured \<and> \<not> pingOk
      then [''Proxmox VM config enables the guest agent, but the guest agent ping endpoint is failing.''] else []) @
     (case js_or_undefined vendor of
        Some v \<Rightarrow> [''A vendor cloud-init snippet is attached: '' @ v]
      | None \<Rightarrow> if pingOk then []
          else [''No vendor cloud-init snippet is attached, so template-carried first-boot bootstrap may be missing.'']) @
     (if status = JStr ''running'' \<and> \<not> pingOk
      then [''The VM is running, so the issue is likely inside guest boot/bootstrap rather than Proxmox power state.'']
      else [])"

definition cloud_init_sections :: "string list" where
  "cloud_init_sections = [''user'', ''network'', ''meta'']"

definition dumpSection :: "service \<Rightarrow> string \<Rightarrow> int \<Rightarrow> string \<Rightarrow> ('b svc_scheme, string \<times> string res) act" where
  "dumpSection S cluster vmid sec =
     bindA (attemptA (bindA (dumpVmCloudInit S cluster vmid sec) (\<lambda>(node, content). ret content))) (\<lambda>r. ret (sec, r))"

definition diagnosisOf ::
    "string \<Rightarrow> guest_details \<Rightarrow> jsval res \<Rightarrow> jsval res \<Rightarrow> (string \<times> string res) list \<Rightarrow> jsval \<Rightarrow> guest_diagnosis" where
  "diagnosisOf node vm ping info dumps st =
     (let config = gd_config vm; status = gd_status vm;
          ciCustom = parseCiCustom (jget config ''cicustom'');
          configured = agent_configured (jget config ''agent'')
      in \<lparr> dg_node = node, dg_name = gd_name vm,
           dg_status = (if st = JUndef \<or> st = JNull then or_null (of_str_opt (gd_inventoryStatus vm)) else st),
           dg_memory = (or_null (jget status ''mem''), or_null (jget status ''maxmem''), or_null (jget status ''balloon'')),
           dg_configured = configured, dg_ping = ping, dg_info = info,
           dg_cicustomRaw = jstr_opt (jget config ''cicustom''), dg_cicustom = ciCustom, dg_dumps = dumps,
           dg_serialConfigured = js_truth (jget config ''serial0''), dg_vga = or_null (jget config ''vga''),
           dg_suggestedConsole = (if js_truth (jget config ''serial0'') then CsShell else CsVnc),
           dg_findings = guestFindings configured (is_ok ping) (map_of ciCustom ''vendor'') st \<rparr>)"

definition diagnoseGuestAgent ::
    "service \<Rightarrow> string \<Rightarrow> int \<Rightarrow> string option \<Rightarrow> int option \<Rightarrow> ('b svc_scheme, guest_diagnosis) act" where
  "diagnoseGuestAgent S cluster vmid nodeInput timeoutMs =
     bindA (qemuGet S cluster vmid) (\<lambda>vm.
     let node = (case nodeInput of Some n \<Rightarrow> n | None \<Rightarrow> gd_node vm) in
     bindA (liftR (jfield (gd_config vm) ''cicustom'')) (\<lambda>_.
     bindA (attemptA (bindA (agentPing S cluster vmid (Some node) timeoutMs) (\<lambda>r. ret (ar_data r)))) (\<lambda>ping.
     bindA (attemptA (bindA (agentInfo S cluster vmid (Some node) timeoutMs) (\<lambda>r. ret (ar_data r)))) (\<lambda>info.
     bindA (mapA (dumpSection S cluster vmid) cloud_init_sections) (\<lambda>dumps.
     bindA (liftR (jfield (gd_status vm) ''status'')) (\<lambda>st.
     ret (diagnosisOf node vm ping info dumps st)))))))"

section \<open>Containers, storage, access and infrastructure\<close>

definition lxcList :: "service \<Rightarrow> string \<Rightarrow> ('b svc_scheme, guest_summary list) act" where
  "lxcList S cluster = bindA (inventoryA S cluster) (\<lambda>i. ret (cs_lxcContainers i))"

definition lxcGet :: "service \<Rightarrow> string \<Rightarrow> int \<Rightarrow> ('b svc_scheme, guest_details) act" where
  "lxcGet S cluster vmid =
     bindA (inventoryA S cluster) (\<lambda>i.
     case find (\<lambda>e. su_vmid e = vmid) (cs_lxcContainers i) of
       None \<Rightarrow> raise (''Container '' @ int_str vmid @ '' not found in cluster '' @ cluster)
     | Some c \<Rightarrow> guestDetails S (lxc_target cluster (su_node c) vmid)
         (''/nodes/'' @ su_node c @ ''/lxc/'' @ int_str vmid) (lxc_summary_json c) c)"

definition storageList :: "service \<Rightarrow> string \<Rightarrow> ('b svc_scheme, api_call_result) act" where
  "storageList S cluster = clusterGet S cluster ''/storage''"

definition storageGet :: "service \<Rightarrow> string \<Rightarrow> string \<Rightarrow> ('b svc_scheme, api_call_result) act" where
  "storageGet S cluster storage = clusterGet S cluster (''/storage/'' @ storage)"

definition listUsers :: "service \<Rightarrow> string \<Rightarrow> ('b svc_scheme, api_call_result) act" where
  "listUsers S cluster = clusterGet S cluster ''/access/users''"

definition firewallGet :: "service \<Rightarrow> target_ref \<Rightarrow> string \<Rightarrow> ('b svc_scheme, api_call_result) act" where
  "firewallGet S target path = proxmoxApiCall S target ''GET'' path [] None"

definition backupJobs :: "service \<Rightarrow> string \<Rightarrow> ('b svc_scheme, api_call_result) act" where
  "backupJobs S cluster = clusterGet S cluster ''/cluster/backup''"

definition cephStatus :: "service \<Rightarrow> string \<Rightarrow> ('b svc_scheme, api_call_result) act" where
  "cephStatus S cluster = clusterGet S cluster ''/cluster/ceph/status''"

definition sdnList :: "service \<Rightarrow> string \<Rightarrow> ('b svc_scheme, api_call_result) act" where
  "sdnList S cluster = clusterGet S cluster ''/cluster/sdn''"

definition taskList :: "service \<Rightarrow> string \<Rightarrow> string \<Rightarrow> ('b svc_scheme, api_call_result) act" where
  "taskList S cluster node = nodeGet S cluster node ''/tasks''"

definition taskGet :: "service \<Rightarrow> string \<Rightarrow> string \<Rightarrow> string \<Rightarrow> ('b svc_scheme, jsval \<times> jsval) act" where
  "taskGet S cluster node upid =
     bindA (getTaskStatus S cluster node upid) (\<lambda>status.
     bindA (getTaskLog S cluster node upid) (\<lambda>log. ret (status, log)))"

end
