(* ===== verification/Diagnostics.thy ===== *)
theory Diagnostics
  imports Effects
begin

text \<open>
  Offline boot inspection, src/boot/diagnostics.ts: the script that a node runs on the disk of a
  guest, and the parser that reads the marked output back.
\<close>

section \<open>The script\<close>

text \<open>\<open>addSection\<close> frames the output of a command by two markers.\<close>

definition begin_marker :: string where "begin_marker = ''__RCMCP_BEGIN__:''"
definition end_marker :: string where "end_marker = ''__RCMCP_END__:''"
definition mount_marker :: string where "mount_marker = ''__RCMCP_MOUNT__:''"
definition error_marker :: string where "error_marker = ''__RCMCP_ERROR__:''"

lemmas marker_defs = begin_marker_def end_marker_def mount_marker_def error_marker_def

definition addSection :: "string list \<Rightarrow> string \<Rightarrow> string \<Rightarrow> string list" where
  "addSection ls key body =
     ls @ [''echo '' @ squoted (begin_marker @ key), body, ''echo '' @ squoted (end_marker @ key)]"

definition bootstrap_stack_body :: string where
  "bootstrap_stack_body = lines_text
     [''if [ -f \"$WORKDIR/etc/tiny-cloud.conf\" ]; then echo tiny-cloud; fi'',
      ''if [ -x \"$WORKDIR/usr/bin/cloud-init\" ] || [ -d \"$WORKDIR/etc/cloud\" ]; then echo cloud-init; fi'',
      ''if [ ! -f \"$WORKDIR/etc/tiny-cloud.conf\" ] && [ ! -x \"$WORKDIR/usr/bin/cloud-init\" ] && [ ! -d \"$WORKDIR/etc/cloud\" ]; then echo unknown; fi'']"

definition offline_sections :: "(string \<times> string) list" where
  "offline_sections =
    [(''OS_RELEASE'', ''cat \"$WORKDIR/etc/os-release\" 2>/dev/null || true''),
     (''BOOTSTRAP_STACK'', bootstrap_stack_body),
     (''CLOUD_STATE_FILES'', lit ''find \"$WORKDIR/var/lib/cloud\" -maxdepth 4 -type f 2>/dev/null | sort | sed -n `1,120p` || true''),
     (''CLOUD_INIT_OUTPUT'', lit ''sed -n `1,220p` \"$WORKDIR/var/log/cloud-init-output.log\" 2>/dev/null || true''),
     (''CLOUD_INIT_JOURNAL'', lit ''journalctl --directory=\"$WORKDIR/var/log/journal\" --no-pager 2>/dev/null | egrep `cloud-init|ds-identify|DataSource|NoCloud|qemu-guest-agent` | sed -n `1,220p` || true''),
     (''TINY_CLOUD_MESSAGES'', lit ''egrep -i `tiny-cloud|cloud|qemu|apk|rc-service|doas` \"$WORKDIR/var/log/messages\" 2>/dev/null | sed -n `1,220p` || true''),
     (''APK_LOG'', lit ''sed -n `1,220p` \"$WORKDIR/var/log/apk.log\" 2>/dev/null || true''),
     (''DPKG_STATUS'', lit ''grep -E `Package: (cloud-init|qemu-guest-agent)$` -A3 \"$WORKDIR/var/lib/dpkg/status\" 2>/dev/null || true'')]"

definition offline_preamble :: "string \<Rightarrow> string \<Rightarrow> string list" where
  "offline_preamble blockDevicePath workDir = map lit
    [''set -euo pipefail'',
     ''if [ \"$(id -u)\" -ne 0 ]; then'',
     ''  echo `__RCMCP_ERROR__:root_required`'',
     ''  exit 0'',
     ''fi''] @
    [''BLOCK_DEVICE='' @ shellQuote blockDevicePath,
     ''WORKDIR='' @ shellQuote workDir] @ map lit
    [''mkdir -p \"$WORKDIR\"'',
     ''mountpoint -q \"$WORKDIR\" && umount \"$WORKDIR\" || true'',
     ''losetup -D >/dev/null 2>&1 || true'',
     ''if [ ! -b \"$BLOCK_DEVICE\" ]; then'',
     ''  echo `__RCMCP_ERROR__:block_device_missing`'',
     ''  exit 0'',
     ''fi'',
     ''loopdev=$(losetup -Pf --show \"$BLOCK_DEVICE\")'',
     ''mounted=``'',
     ''for candidate in \"$loopdev\" \"${loopdev}p1\" \"${loopdev}p2\" \"${loopdev}p3\" \"${loopdev}p4\" \"${loopdev}p5\"; do'',
     ''  if [ -b \"$candidate\" ] && mount \"$candidate\" \"$WORKDIR\" 2>/dev/null; then'',
     ''    mounted=\"$candidate\"'',
     ''    if [ -f \"$WORKDIR/etc/os-release\" ]; then'',
     ''      break'',
     ''    fi'',
     ''    umount \"$WORKDIR\"'',
     ''    mounted=``'',
     ''  fi'',
     ''done'',
     ''if [ -z \"$mounted\" ]; then'',
     ''  echo `__RCMCP_ERROR__:mount_failed`'',
     ''  losetup -d \"$loopdev\" >/dev/null 2>&1 || true'',
     ''  exit 0'',
     ''fi'',
     ''cleanup() {'',
     ''  mountpoint -q \"$WORKDIR\" && umount \"$WORKDIR\" || true'',
     ''  losetup -d \"$loopdev\" >/dev/null 2>&1 || true'',
     ''}'',
     ''trap cleanup EXIT'',
     ''echo `__RCMCP_MOUNT__:`\"$mounted\"'']"

definition buildOfflineVmBootInspectionScript :: "string \<Rightarrow> int \<Rightarrow> string" where
  "buildOfflineVmBootInspectionScript blockDevicePath vmid = lines_text
     (foldl (\<lambda>ls (key, body). addSection ls key body)
       (offline_preamble blockDevicePath (''/tmp/rcmcp-boot-'' @ int_str vmid)) offline_sections)"

section \<open>The parser\<close>

text \<open>\<open>split(/\r?\n/)\<close>\<close>

definition strip_cr :: "string \<Rightarrow> string" where
  "strip_cr l = (if l \<noteq> [] \<and> last l = CHR 0x0D then butlast l else l)"

definition crlf_lines :: "string \<Rightarrow> string list" where
  "crlf_lines s = (let ls = js_split (CHR 0x0A) s in map strip_cr (butlast ls) @ [last ls])"

datatype section_state = NoSection | InSection string "string list"

record inspection_state =
  is_sections :: "(string, string) omap"
  is_errors :: "string list"
  is_mount :: "string option"
  is_current :: section_state

definition after_marker :: "string \<Rightarrow> string \<Rightarrow> string" where
  "after_marker marker l = js_trim (js_slice_from (length marker) l)"

text \<open>A section with the empty name collects no lines, as its name is falsy.\<close>

definition inspect_line :: "inspection_state \<Rightarrow> string \<Rightarrow> inspection_state" where
  "inspect_line st l =
     (if js_startsWith l mount_marker then st\<lparr>is_mount := js_or_undefined (Some (after_marker mount_marker l))\<rparr>
      else if js_startsWith l error_marker then st\<lparr>is_errors := is_errors st @ [after_marker error_marker l]\<rparr>
      else if js_startsWith l begin_marker then st\<lparr>is_current := InSection (after_marker begin_marker l) []\<rparr>
      else if js_startsWith l end_marker then
        (case is_current st of
           InSection current buffer \<Rightarrow>
             if current = after_marker end_marker l
             then st\<lparr>is_sections := AList.update current (js_trim (js_join [CHR 0x0A] buffer)) (is_sections st),
                     is_current := NoSection\<rparr>
             else st
         | NoSection \<Rightarrow> st)
      else
        (case is_current st of
           InSection current buffer \<Rightarrow>
             if current = [] then st else st\<lparr>is_current := InSection current (buffer @ [l])\<rparr>
         | NoSection \<Rightarrow> st))"

definition no_inspection :: inspection_state where
  "no_inspection = \<lparr>is_sections = [], is_errors = [], is_mount = None, is_current = NoSection\<rparr>"

record offline_inspection =
  oi_attempted :: bool
  oi_supported :: bool
  oi_privilegedNodeShellRequired :: bool
  oi_blockDevicePath :: "string option"
  oi_mountSource :: "string option"
  oi_bootstrapStack :: string
  oi_osRelease :: "string option"
  oi_sections :: "(string, string) omap"
  oi_errors :: "string list"

definition first_line :: "string \<Rightarrow> string option" where
  "first_line s = (case filter (\<lambda>l. l \<noteq> []) (map js_trim (crlf_lines s)) of [] \<Rightarrow> None | l # ls \<Rightarrow> Some l)"

definition parseOfflineVmBootInspection :: "command_result \<Rightarrow> string \<Rightarrow> offline_inspection" where
  "parseOfflineVmBootInspection result blockDevicePath =
     (let st = foldl inspect_line no_inspection (crlf_lines (cr_stdout result));
          sections = is_sections st;
          errors = is_errors st @ (if js_trim (cr_stderr result) \<noteq> [] then [js_trim (cr_stderr result)] else [])
      in \<lparr> oi_attempted = True,
           oi_supported = (errors = [] \<or> map_of sections ''OS_RELEASE'' \<noteq> None),
           oi_privilegedNodeShellRequired = True,
           oi_blockDevicePath = Some blockDevicePath,
           oi_mountSource = is_mount st,
           oi_bootstrapStack = (case first_line (case map_of sections ''BOOTSTRAP_STACK'' of Some s \<Rightarrow> s | None \<Rightarrow> []) of
               Some l \<Rightarrow> l | None \<Rightarrow> ''unknown''),
           oi_osRelease = map_of sections ''OS_RELEASE'',
           oi_sections = sections,
           oi_errors = errors \<rparr>)"

section \<open>The parser reads back what the script frames\<close>

definition section_output :: "string \<times> string list \<Rightarrow> string list" where
  "section_output sec = (begin_marker @ fst sec) # snd sec @ [end_marker @ fst sec]"

definition printed :: "string list \<Rightarrow> string" where
  "printed ls = concat (map (\<lambda>l. l @ [CHR 0x0A]) ls)"

text \<open>What a run of the script prints after the disk was mounted, given the output of its commands.\<close>

definition offline_report :: "string \<Rightarrow> string list list \<Rightarrow> string" where
  "offline_report device outs =
     printed ((mount_marker @ device) # concat (map section_output (zip (map fst offline_sections) outs)))"

definition body_line :: "string \<Rightarrow> bool" where
  "body_line l \<longleftrightarrow> CHR 0x0A \<notin> set l \<and> (\<forall>m \<in> {begin_marker, end_marker, mount_marker, error_marker}. \<not> js_startsWith l m)"

lemma crlf_lines_printed:
  "\<forall>l \<in> set ls. CHR 0x0A \<notin> set l \<Longrightarrow> crlf_lines (printed ls) = map strip_cr ls @ [[]]"
proof (induction ls)
  case (Cons l ls)
  then have "crlf_lines (printed ls) = map strip_cr ls @ [[]]" by simp
  moreover have "js_split (CHR 0x0A) (printed (l # ls)) = l # js_split (CHR 0x0A) (printed ls)"
    using Cons by (simp add: printed_def js_split_append)
  ultimately show ?case by (simp add: crlf_lines_def Let_def)
qed (simp add: crlf_lines_def printed_def)

lemma strip_cr_prefix: "\<exists>t. l = strip_cr l @ t"
proof (cases "l \<noteq> [] \<and> last l = CHR 0x0D")
  case True
  then have "l = strip_cr l @ [last l]" using append_butlast_last_id[of l] by (simp add: strip_cr_def)
  then show ?thesis by blast
qed (auto simp: strip_cr_def)

lemma body_line_strip:
  assumes "body_line l"
  shows "body_line (strip_cr l)"
proof -
  obtain t where "l = strip_cr l @ t" using strip_cr_prefix by blast
  then have "set (strip_cr l) \<subseteq> set l" "js_startsWith (strip_cr l) m \<Longrightarrow> js_startsWith l m" for m
    by (metis set_append Un_upper1, metis js_startsWith_iff append_assoc)
  then show ?thesis using assms unfolding body_line_def by blast
qed

lemma inspect_body:
  "key \<noteq> [] \<Longrightarrow> list_all body_line ls \<Longrightarrow>
     foldl inspect_line (st\<lparr>is_current := InSection key buffer\<rparr>) ls = st\<lparr>is_current := InSection key (buffer @ ls)\<rparr>"
  by (induction ls arbitrary: buffer) (simp_all add: inspect_line_def body_line_def)

lemma markers_disjoint [simp]:
  "\<not> js_startsWith (begin_marker @ k) mount_marker" "\<not> js_startsWith (begin_marker @ k) error_marker"
  "\<not> js_startsWith (end_marker @ k) mount_marker" "\<not> js_startsWith (end_marker @ k) error_marker"
  "\<not> js_startsWith (end_marker @ k) begin_marker"
  by (simp_all add: marker_defs)

lemma after_marker_append [simp]: "after_marker m (m @ k) = js_trim k"
  by (simp add: after_marker_def js_slice_from_def)

lemma inspect_section:
  assumes "key \<noteq> []" "js_trim key = key" "list_all body_line out"
  shows "foldl inspect_line st (section_output (key, out)) =
    st\<lparr>is_sections := AList.update key (js_trim (js_join [CHR 0x0A] out)) (is_sections st), is_current := NoSection\<rparr>"
proof -
  have "inspect_line st (begin_marker @ key) = st\<lparr>is_current := InSection key []\<rparr>"
    using assms by (simp add: inspect_line_def)
  then show ?thesis
    using assms inspect_body[where key = key and ls = out and st = st and buffer = "[]"]
    by (simp add: section_output_def inspect_line_def)
qed

lemma inspect_sections:
  assumes "list_all (\<lambda>(key, out). key \<noteq> [] \<and> js_trim key = key \<and> list_all body_line out) secs"
    and "distinct (map fst (is_sections st) @ map fst secs)" "is_current st = NoSection"
  shows "foldl inspect_line st (concat (map section_output secs)) =
    st\<lparr>is_sections := is_sections st @ map (\<lambda>(key, out). (key, js_trim (js_join [CHR 0x0A] out))) secs\<rparr>"
  using assms
proof (induction secs arbitrary: st)
  case (Cons sec secs)
  obtain key out where sec: "sec = (key, out)" by (cases sec)
  let ?v = "js_trim (js_join [CHR 0x0A] out)"
  let ?st = "st\<lparr>is_sections := is_sections st @ [(key, ?v)]\<rparr>"
  have new: "AList.update key ?v (is_sections st) = is_sections st @ [(key, ?v)]"
    using Cons.prems(2) by (intro update_new) (auto simp: sec)
  have "foldl inspect_line st (section_output sec) = ?st"
    using Cons.prems inspect_section[where key = key and out = out and st = st] by (simp add: sec new)
  moreover have "foldl inspect_line ?st (concat (map section_output secs)) =
      ?st\<lparr>is_sections := is_sections ?st @ map (\<lambda>(key, out). (key, js_trim (js_join [CHR 0x0A] out))) secs\<rparr>"
    using Cons.prems by (intro Cons.IH) (auto simp: sec)
  ultimately show ?case by (simp add: sec)
qed simp

lemma strip_cr_markers: "js_trim k = k \<Longrightarrow> k \<noteq> [] \<Longrightarrow> strip_cr (m @ k) = m @ k"
proof -
  assume k: "js_trim k = k" "k \<noteq> []"
  have "\<not> js_space (last k)"
    using k unfolding js_trim_def by (metis dropWhile_eq_Cons_conv hd_rev list.collapse rev_is_Nil_conv rev_rev_ident)
  then have "last k \<noteq> CHR 0x0D" by (auto simp: js_space_def)
  then show "strip_cr (m @ k) = m @ k" using k by (simp add: strip_cr_def)
qed

lemma offline_keys:
  "list_all (\<lambda>key. key \<noteq> [] \<and> js_trim key = key \<and> CHR 0x0A \<notin> set key) (map fst offline_sections)"
  "distinct (map fst offline_sections)"
  by (code_simp, code_simp)

lemma zipped_key:
  assumes "(key, out) \<in> set (zip (map fst offline_sections) outs)"
  shows "key \<noteq> [] \<and> js_trim key = key \<and> CHR 0x0A \<notin> set key \<and> out \<in> set outs"
  using offline_keys(1) set_zip_leftD[OF assms] set_zip_rightD[OF assms] unfolding list_all_iff by blast

lemma crlf_report:
  assumes "list_all body_line (concat outs)" "CHR 0x0A \<notin> set device"
    and "js_trim device = device" "device \<noteq> []"
  shows "crlf_lines (offline_report device outs) =
    (mount_marker @ device) # concat (map section_output (zip (map fst offline_sections) (map (map strip_cr) outs))) @ [[]]"
proof -
  let ?secs = "zip (map fst offline_sections) outs"
  have keys: "fst sec \<noteq> [] \<and> js_trim (fst sec) = fst sec \<and> CHR 0x0A \<notin> set (fst sec) \<and> snd sec \<in> set outs"
    if "sec \<in> set ?secs" for sec
    using that zipped_key[of "fst sec" "snd sec"] by simp
  have lines: "CHR 0x0A \<notin> set l" if "sec \<in> set ?secs" "l \<in> set (section_output sec)" for sec l
    using that assms(1) keys[OF that(1)]
    by (auto simp: section_output_def marker_defs list_all_iff body_line_def)
  have strip: "map strip_cr (section_output sec) = section_output (fst sec, map strip_cr (snd sec))" if "sec \<in> set ?secs" for sec
    using keys[OF that] by (simp add: section_output_def strip_cr_markers)
  have "crlf_lines (offline_report device outs) =
      map strip_cr ((mount_marker @ device) # concat (map section_output ?secs)) @ [[]]"
    using lines assms(2) unfolding offline_report_def by (intro crlf_lines_printed) (auto simp: marker_defs)
  moreover have "map strip_cr (concat (map section_output ?secs)) =
      concat (map section_output (map (\<lambda>sec. (fst sec, map strip_cr (snd sec))) ?secs))"
    using strip by (simp add: map_concat comp_def cong: map_cong)
  moreover have "map (\<lambda>sec. (fst sec, map strip_cr (snd sec))) ?secs = zip (map fst offline_sections) (map (map strip_cr) outs)"
    by (simp add: zip_map2 case_prod_unfold)
  ultimately show ?thesis using strip_cr_markers[OF assms(3,4), of mount_marker] by (simp only: list.map append_Cons)
qed

text \<open>
  C33. The parser reads back what the script frames: if every command of the script prints whole lines
  that do not start like a marker, the sections of the inspection are exactly the outputs of the
  commands, each under its own key and in order (without outer white space and carriage returns),
  the mounted device is the one the script chose, the inspection counts as supported, and the only
  error there can be is the error output of the run.
\<close>

theorem offline_report_reads_back:
  assumes "length outs = length offline_sections" "list_all body_line (concat outs)"
    and "CHR 0x0A \<notin> set device" "js_trim device = device" "device \<noteq> []"
    and "cr_stdout result = offline_report device outs"
  shows "parseOfflineVmBootInspection result path =
    (let secs = map2 (\<lambda>key out. (key, js_trim (js_join [CHR 0x0A] (map strip_cr out)))) (map fst offline_sections) outs in
     \<lparr> oi_attempted = True, oi_supported = True, oi_privilegedNodeShellRequired = True,
       oi_blockDevicePath = Some path, oi_mountSource = Some device,
       oi_bootstrapStack = (case first_line (js_trim (js_join [CHR 0x0A] (map strip_cr (outs ! 1)))) of Some l \<Rightarrow> l | None \<Rightarrow> ''unknown''),
       oi_osRelease = Some (js_trim (js_join [CHR 0x0A] (map strip_cr (outs ! 0)))),
       oi_sections = secs,
       oi_errors = (if js_trim (cr_stderr result) \<noteq> [] then [js_trim (cr_stderr result)] else []) \<rparr>)"
proof -
  let ?join = "\<lambda>out. js_trim (js_join [CHR 0x0A] out)"
  let ?keys = "map fst offline_sections" and ?secs = "zip (map fst offline_sections) (map (map strip_cr) outs)"
  let ?st = "no_inspection\<lparr>is_mount := Some device\<rparr>"
  let ?done = "?st\<lparr>is_sections := map (\<lambda>(key, out). (key, ?join out)) ?secs\<rparr>"
  have "list_all body_line out" if "out \<in> set outs" for out
    using assms(2) that by (auto simp: list_all_iff)
  then have bodies: "list_all (\<lambda>(key, out). key \<noteq> [] \<and> js_trim key = key \<and> list_all body_line out) ?secs"
    using zipped_key by (fastforce simp: list_all_iff zip_map2 body_line_strip)
  have "map fst ?secs = ?keys" using assms(1) by simp
  then have run: "foldl inspect_line ?st (concat (map section_output ?secs)) = ?done"
    using inspect_sections[OF bodies, of ?st] offline_keys(2) by (simp add: no_inspection_def)
  have "inspect_line no_inspection (mount_marker @ device) = ?st"
    using assms(4,5) by (simp add: inspect_line_def js_or_undefined_def)
  moreover have "inspect_line ?done [] = ?done"
    by (simp add: inspect_line_def marker_defs no_inspection_def)
  ultimately have parsed: "foldl inspect_line no_inspection (crlf_lines (cr_stdout result)) = ?done"
    using assms run by (simp add: crlf_report)
  have keys: "?keys = [''OS_RELEASE'', ''BOOTSTRAP_STACK'', ''CLOUD_STATE_FILES'', ''CLOUD_INIT_OUTPUT'',
      ''CLOUD_INIT_JOURNAL'', ''TINY_CLOUD_MESSAGES'', ''APK_LOG'', ''DPKG_STATUS'']"
    by (simp add: offline_sections_def)
  obtain o0 o1 os where outs: "outs = o0 # o1 # os"
    using assms(1) by (auto simp: offline_sections_def length_Suc_conv)
  show ?thesis
    unfolding parseOfflineVmBootInspection_def parsed
    by (simp add: Let_def keys outs no_inspection_def zip_map2 split_def comp_def)
qed

definition sample_outs :: "string list list" where
  "sample_outs = [[''ID=alpine'', ''VERSION_ID=3.20 ''], [''tiny-cloud''], [], [], [], [''qemu''], [''ok''], []]"

theorem offline_report_reads_back_witness:
  "oi_sections (parseOfflineVmBootInspection
       \<lparr>cr_stdout = offline_report ''/dev/loop0p1'' sample_outs, cr_stderr = [], cr_exitCode = 0, cr_signal = None\<rparr> ''/dev/pve/vm-9-disk-0'') =
     map2 (\<lambda>key out. (key, js_trim (js_join [CHR 0x0A] (map strip_cr out)))) (map fst offline_sections) sample_outs"
proof -
  have "length sample_outs = length offline_sections" by (simp add: sample_outs_def offline_sections_def)
  moreover have "list_all body_line (concat sample_outs)" by code_simp
  moreover have "CHR 0x0A \<notin> set ''/dev/loop0p1''" "js_trim ''/dev/loop0p1'' = ''/dev/loop0p1''" by (code_simp, code_simp)
  ultimately show ?thesis
    by (subst offline_report_reads_back[where device = "''/dev/loop0p1''" and outs = sample_outs]) (simp_all add: Let_def)
qed

end
