(* ===== verification/BootDiagnosis.thy ===== *)
theory BootDiagnosis
  imports Domains Diagnostics
begin

text \<open>
  \<open>BootDomainService\<close> of src/domain-services.ts: the guest-agent diagnosis combined with an offline
  inspection of the root disk on the node, the choice of that disk, and what the diagnosis promises
  when its parts fail.
\<close>

section \<open>Reading the configuration of a guest\<close>

definition drop_first_quote :: "string \<Rightarrow> string" where
  "drop_first_quote s = (if js_startsWith s [CHR 0x22] then tl s else s)"

definition drop_last_quote :: "string \<Rightarrow> string" where
  "drop_last_quote s = (if js_endsWith s [CHR 0x22] then butlast s else s)"

definition os_release_fields :: "string \<Rightarrow> (string, string) omap" where
  "os_release_fields content = map_from_entries (map ((\<lambda>(k, v). (k, drop_last_quote (drop_first_quote v))) \<circ> key_value)
     (filter (\<lambda>l. l \<noteq> [] \<and> CHR ''='' \<in> set l) (map js_trim (crlf_lines content))))"

definition parseOsRelease :: "string option \<Rightarrow> string \<times> string option" where
  "parseOsRelease content =
     (let fields = os_release_fields (case content of Some c \<Rightarrow> c | None \<Rightarrow> []) in
      (js_toLowerCase (case map_of fields ''ID'' of Some i \<Rightarrow> i | None \<Rightarrow> ''unknown''), map_of fields ''VERSION_ID''))"

text \<open>\<open>/^(ide|scsi|sata|virtio)\d+$/\<close>, with the bus it finds.\<close>

definition drive_bus :: "string \<Rightarrow> string option" where
  "drive_bus key =
     find (\<lambda>b. js_startsWith key b \<and> drop (length b) key \<noteq> [] \<and> list_all is_digit (drop (length b) key))
       [''ide'', ''scsi'', ''sata'', ''virtio'']"

fun cloudInitDrive :: "(string \<times> jsval) list \<Rightarrow> string option" where
  "cloudInitDrive [] = None"
| "cloudInitDrive ((key, value) # es) =
     (case (drive_bus key, value) of
        (Some bus, JStr s) \<Rightarrow> if js_includes s ''cloudinit'' then Some bus else cloudInitDrive es
      | _ \<Rightarrow> cloudInitDrive es)"

definition inferCloudInitDriveBus :: "jsval \<Rightarrow> string option" where
  "inferCloudInitDriveBus config = (case config of JObj es \<Rightarrow> cloudInitDrive es | _ \<Rightarrow> None)"

text \<open>\<open>/order=([^,\s]+)/\<close>\<close>

definition order_char :: "char \<Rightarrow> bool" where
  "order_char c \<longleftrightarrow> c \<noteq> CHR '','' \<and> \<not> js_space c"

fun match_order :: "string \<Rightarrow> string option" where
  "match_order [] = None"
| "match_order (c # s) =
     (let w = takeWhile order_char (drop 6 (c # s)) in
      if js_startsWith (c # s) ''order='' \<and> w \<noteq> [] then Some w else match_order s)"

text \<open>\<open>/^(vm|base)-\d+-disk-\d+$/\<close>\<close>

definition disk_tail :: "string \<Rightarrow> bool" where
  "disk_tail s \<longleftrightarrow>
     (let ds = takeWhile is_digit s; r = dropWhile is_digit s; t = drop 6 r in
      ds \<noteq> [] \<and> js_startsWith r ''-disk-'' \<and> t \<noteq> [] \<and> list_all is_digit t)"

definition disk_volume :: "string \<Rightarrow> bool" where
  "disk_volume s \<longleftrightarrow>
     (js_startsWith s ''vm-'' \<and> disk_tail (drop 3 s)) \<or> (js_startsWith s ''base-'' \<and> disk_tail (drop 5 s))"

text \<open>The volume of one configuration entry, such as \<open>local-lvm:vm-100-disk-0,size=8G\<close>.\<close>

definition entry_volume :: "jsval \<Rightarrow> string option" where
  "entry_volume raw =
     (case raw of
        JStr s \<Rightarrow>
          (case js_split (CHR '':'') s of
             l # right # ps \<Rightarrow>
               let volumeId = js_trim (hd (js_split (CHR '','') right)) in
               if disk_volume volumeId then Some volumeId else None
           | _ \<Rightarrow> None)
      | _ \<Rightarrow> None)"

definition inferRootDiskVolumeId :: "int \<Rightarrow> jsval \<Rightarrow> string option" where
  "inferRootDiskVolumeId vmid config =
     (let bootOrder = (case jget config ''boot'' of JStr s \<Rightarrow> match_order s | _ \<Rightarrow> None);
          candidates = (case bootOrder of Some b \<Rightarrow> [b] | None \<Rightarrow> []) @ [''scsi0'', ''virtio0'', ''sata0'', ''ide0'']
      in case List.map_filter (\<lambda>key. entry_volume (jget config key)) candidates of
           v # vs \<Rightarrow> Some v
         | [] \<Rightarrow> Some (''vm-'' @ int_str vmid @ ''-disk-0''))"

section \<open>Findings\<close>

definition section_text :: "offline_inspection \<Rightarrow> string \<Rightarrow> string" where
  "section_text oi key = (case map_of (oi_sections oi) key of Some s \<Rightarrow> s | None \<Rightarrow> [])"

definition buildOfflineFindings :: "offline_inspection \<Rightarrow> string list" where
  "buildOfflineFindings oi =
     (if oi_bootstrapStack oi = ''cloud-init'' \<and> js_trim (section_text oi ''CLOUD_INIT_JOURNAL'') = []
      then [''Offline inspection found cloud-init installed but no cloud-init journal activity, which suggests datasource detection or generator activation failed.'']
      else []) @
     (if oi_bootstrapStack oi = ''tiny-cloud'' \<and> includes_ci (section_text oi ''APK_LOG'') ''No space left on device''
      then [''Offline inspection found an Alpine package upgrade failure caused by running out of disk space during first-boot bootstrap.'']
      else []) @
     (if oi_bootstrapStack oi = ''tiny-cloud'' \<and> includes_ci (section_text oi ''CLOUD_STATE_FILES'') ''vendor-data'' \<and>
          includes_ci (section_text oi ''TINY_CLOUD_MESSAGES'') ''userdata_'' \<and>
          \<not> includes_ci (section_text oi ''TINY_CLOUD_MESSAGES'') ''vendordata_''
      then [''Offline inspection suggests tiny-cloud processed user-data actions but did not expose matching vendor-data action handlers.'']
      else [])"

section \<open>The diagnosis\<close>

definition failed_inspection :: "bool \<Rightarrow> string option \<Rightarrow> string list \<Rightarrow> offline_inspection" where
  "failed_inspection attempted path errors =
     \<lparr> oi_attempted = attempted, oi_supported = False, oi_privilegedNodeShellRequired = True,
       oi_blockDevicePath = path, oi_mountSource = None, oi_bootstrapStack = ''unknown'',
       oi_osRelease = None, oi_sections = [], oi_errors = errors \<rparr>"

record boot_diagnosis =
  bd_guest :: guest_diagnosis
  bd_offline :: offline_inspection
  bd_findings :: "string list"

definition inspectDisk :: "service \<Rightarrow> string \<Rightarrow> string \<Rightarrow> int \<Rightarrow> string option \<Rightarrow> ('b svc_scheme, offline_inspection) act" where
  "inspectDisk S cluster node vmid blockDevicePath =
     (case blockDevicePath of
        None \<Rightarrow> ret (failed_inspection False None [''block_device_unresolved''])
      | Some path \<Rightarrow>
          catchA
            (bindA (nodeTerminalRun S cluster node
                 \<lparr>si_command = buildOfflineVmBootInspectionScript path vmid, si_interpreter = IBash, si_useSudo = False\<rparr>)
               (\<lambda>result. ret (parseOfflineVmBootInspection result path)))
            (\<lambda>e. ret (failed_inspection True (Some path) [e])))"

definition diagnoseVmBoot ::
    "service \<Rightarrow> string \<Rightarrow> int \<Rightarrow> string option \<Rightarrow> int option \<Rightarrow> ('b svc_scheme, boot_diagnosis) act" where
  "diagnoseVmBoot S cluster vmid nodeInput timeoutMs =
     bindA (diagnoseGuestAgent S cluster vmid nodeInput timeoutMs) (\<lambda>guest.
     bindA (qemuGet S cluster vmid) (\<lambda>vm.
     bindA (liftR (jfield (gd_config vm) ''boot'')) (\<lambda>_.
     let node = (case nodeInput of Some n \<Rightarrow> n | None \<Rightarrow> gd_node vm);
         volumeId = inferRootDiskVolumeId vmid (gd_config vm) in
     bindA (inspectDisk S cluster node vmid (map_option (\<lambda>v. ''/dev/pve/'' @ v) (volumeId))) (\<lambda>offline.
     ret \<lparr>bd_guest = guest, bd_offline = offline,
          bd_findings = dg_findings guest @ buildOfflineFindings offline\<rparr>))))"

section \<open>The inspected disk\<close>

definition volume_char :: "char \<Rightarrow> bool" where
  "volume_char c \<longleftrightarrow> is_digit c \<or> c \<in> set ''vmbasedisk-''"

lemma disk_tail_chars: "disk_tail s \<Longrightarrow> list_all volume_char s"
proof -
  assume t: "disk_tail s"
  let ?r = "dropWhile is_digit s"
  have "?r = ''-disk-'' @ drop 6 ?r" using t by (auto simp: disk_tail_def Let_def js_startsWith_iff)
  then have "s = takeWhile is_digit s @ ''-disk-'' @ drop 6 ?r" by (metis takeWhile_dropWhile_id)
  moreover have "list_all volume_char (takeWhile is_digit s)"
    by (auto simp: list_all_iff volume_char_def dest: set_takeWhileD)
  moreover have "list_all volume_char ''-disk-''" by (simp add: volume_char_def)
  moreover have "list_all volume_char (drop 6 ?r)"
  proof -
    have "list_all is_digit (drop 6 ?r)" using t by (simp add: disk_tail_def Let_def)
    then show ?thesis by (rule list.pred_mono_strong) (simp add: volume_char_def)
  qed
  ultimately show "list_all volume_char s" by (metis list_all_append)
qed

lemma disk_volume_chars: "disk_volume s \<Longrightarrow> list_all volume_char s"
proof -
  assume "disk_volume s"
  then have "\<exists>t. disk_tail t \<and> (s = ''vm-'' @ t \<or> s = ''base-'' @ t)"
    by (auto simp: disk_volume_def js_startsWith_iff)
  then show "list_all volume_char s" using disk_tail_chars by (auto simp: volume_char_def)
qed

lemma takeWhile_nat_str: "takeWhile is_digit (nat_str n @ CHR ''-'' # r) = nat_str n"
  "dropWhile is_digit (nat_str n @ CHR ''-'' # r) = CHR ''-'' # r"
  using nat_str_digits by (simp_all add: takeWhile_append2 dropWhile_append2)

lemma map_filter_hd: "List.map_filter f xs = u # us \<Longrightarrow> \<exists>x. f x = Some u"
  by (induction xs) (auto split: option.splits)

lemma default_volume: "0 \<le> vmid \<Longrightarrow> disk_volume (''vm-'' @ int_str vmid @ ''-disk-0'')"
  by (simp add: disk_volume_def disk_tail_def int_str_def takeWhile_nat_str Let_def is_digit_def)

lemma js_trim_segment: "\<exists>a b. s = a @ js_trim s @ b"
proof -
  let ?d = "dropWhile js_space s"
  have "rev ?d = takeWhile js_space (rev ?d) @ dropWhile js_space (rev ?d)" by simp
  then have "?d = rev (takeWhile js_space (rev ?d) @ dropWhile js_space (rev ?d))" by (metis rev_rev_ident)
  then have "?d = js_trim s @ rev (takeWhile js_space (rev ?d))" by (simp only: js_trim_def rev_append)
  then show ?thesis using takeWhile_dropWhile_id[of js_space s] by metis
qed

lemma entry_volume_Some: "entry_volume raw = Some v \<Longrightarrow> disk_volume v \<and> (\<exists>s. raw = JStr s \<and> js_includes s v)"
proof -
  assume v: "entry_volume raw = Some v"
  then obtain s l right ps where s: "raw = JStr s" "js_split (CHR '':'') s = l # right # ps"
    and vol: "disk_volume v" "v = js_trim (hd (js_split (CHR '','') right))"
    by (auto simp: entry_volume_def Let_def split: jsval.splits list.splits if_splits)
  obtain w ws where w: "js_split (CHR '','') right = w # ws" by (cases "js_split (CHR '','') right") auto
  obtain t where right: "right = w @ t"
    using js_join_split[of "CHR '',''" right] by (cases ws) (auto simp: w)
  obtain a b where "w = a @ js_trim w @ b" using js_trim_segment by blast
  moreover define rest where "rest = (if ps = [] then [] else CHR '':'' # js_join '':'' ps)"
  moreover have "s = l @ '':'' @ right @ rest"
    using js_join_split[of "CHR '':''" s] by (cases ps) (auto simp: s(2) rest_def)
  ultimately have "s = (l @ '':'' @ a) @ js_trim w @ (b @ t @ rest)" using right by simp
  then have "js_includes s v" unfolding js_includes_iff vol(2) w list.sel(1) by blast
  then show ?thesis using vol s by simp
qed

text \<open>
  C24. The disk that is mounted on the node is always a guest volume of the node's own volume group:
  whatever the configuration of the guest says, the chosen volume has the form of a guest disk, so
  that its path below /dev/pve contains no separator, quote or white space, and it is named by the
  configuration unless it is the default first disk of the guest.
\<close>

theorem root_disk_contained:
  assumes "0 \<le> vmid" "inferRootDiskVolumeId vmid config = Some v"
  shows "disk_volume v \<and> (\<forall>c \<in> set v. volume_char c) \<and>
    (v = ''vm-'' @ int_str vmid @ ''-disk-0'' \<or> (\<exists>key s. jget config key = JStr s \<and> js_includes s v))"
proof -
  have "disk_volume v \<and> (v = ''vm-'' @ int_str vmid @ ''-disk-0'' \<or> (\<exists>key s. jget config key = JStr s \<and> js_includes s v))"
  proof (cases "List.map_filter (\<lambda>key. entry_volume (jget config key))
      ((case (case jget config ''boot'' of JStr s \<Rightarrow> match_order s | _ \<Rightarrow> None) of Some b \<Rightarrow> [b] | None \<Rightarrow> []) @
        [''scsi0'', ''virtio0'', ''sata0'', ''ide0''])")
    case Nil
    then have "v = ''vm-'' @ int_str vmid @ ''-disk-0''" using assms(2) by (simp add: inferRootDiskVolumeId_def Let_def)
    then show ?thesis using default_volume[OF assms(1)] by blast
  next
    case (Cons u us)
    then have "v = u" using assms(2) by (simp add: inferRootDiskVolumeId_def Let_def)
    moreover obtain key where "entry_volume (jget config key) = Some u"
      using map_filter_hd[OF Cons] by blast
    ultimately show ?thesis using entry_volume_Some by blast
  qed
  then show ?thesis using disk_volume_chars[of v] by (simp add: list_all_iff)
qed

theorem root_disk_contained_witness:
  "disk_volume ''vm-9-disk-1'' \<and>
   inferRootDiskVolumeId 9 (JObj [(''scsi0'', JStr ''local-lvm:vm-9-disk-1,size=8G'')]) = Some ''vm-9-disk-1''"
proof -
  have v: "inferRootDiskVolumeId 9 (JObj [(''scsi0'', JStr ''local-lvm:vm-9-disk-1,size=8G'')]) = Some ''vm-9-disk-1''"
    by code_simp
  show ?thesis using root_disk_contained[OF _ v] v by simp
qed

section \<open>Failures are contained\<close>

lemma attemptA_cases: "\<exists>r u. attemptA m s = (Inr r, u)"
  by (cases "m s") (simp add: attemptA_def)

lemma bindA_attempt: "bindA (attemptA m) f s = f (fst (m s)) (snd (m s))"
  by (cases "m s") (simp add: attemptA_def bindA_def)

lemma dumpSection_apply:
  "dumpSection S cluster vmid sec s = (Inr (sec, fst (bindA (dumpVmCloudInit S cluster vmid sec) (\<lambda>(node, content). ret content) s)),
     snd (bindA (dumpVmCloudInit S cluster vmid sec) (\<lambda>(node, content). ret content) s))"
  by (simp add: dumpSection_def bindA_attempt)

lemma dumpSections_return: "\<exists>ds u. mapA (dumpSection S cluster vmid) secs s = (Inr ds, u) \<and> map fst ds = secs"
proof (induction secs arbitrary: s)
  case (Cons sec secs)
  obtain d t where "dumpSection S cluster vmid sec s = (Inr (sec, d), t)" using dumpSection_apply by blast
  moreover obtain ds u where "mapA (dumpSection S cluster vmid) secs t = (Inr ds, u)" "map fst ds = secs"
    using Cons.IH by blast
  ultimately show ?case by (simp add: bindA_apply)
qed simp

definition defined :: "jsval \<Rightarrow> bool" where
  "defined v \<longleftrightarrow> v \<noteq> JUndef \<and> v \<noteq> JNull"

lemma jfield_defined: "defined v \<Longrightarrow> jfield v k = Inr (jget v k)"
  by (simp add: defined_def jfield_def)

lemma diagnoseGuestAgent_returns:
  assumes "qemuGet S cluster vmid s = (Inr vm, s1)" "defined (gd_config vm)" "defined (gd_status vm)"
  shows "\<exists>ping info dumps u. diagnoseGuestAgent S cluster vmid nodeInput timeoutMs s =
      (Inr (diagnosisOf (case nodeInput of Some n \<Rightarrow> n | None \<Rightarrow> gd_node vm) vm ping info dumps (jget (gd_status vm) ''status'')), u) \<and>
    map fst dumps = cloud_init_sections"
proof -
  let ?node = "case nodeInput of Some n \<Rightarrow> n | None \<Rightarrow> gd_node vm"
  let ?p = "bindA (agentPing S cluster vmid (Some ?node) timeoutMs) (\<lambda>r. ret (ar_data r))"
  let ?i = "bindA (agentInfo S cluster vmid (Some ?node) timeoutMs) (\<lambda>r. ret (ar_data r))"
  obtain ds u where ds: "mapA (dumpSection S cluster vmid) cloud_init_sections (snd (?i (snd (?p s1)))) = (Inr ds, u)"
    "map fst ds = cloud_init_sections" using dumpSections_return by blast
  have "diagnoseGuestAgent S cluster vmid nodeInput timeoutMs s =
      (Inr (diagnosisOf ?node vm (fst (?p s1)) (fst (?i (snd (?p s1)))) ds (jget (gd_status vm) ''status'')), u)"
    unfolding diagnoseGuestAgent_def bindA_apply[of "qemuGet S cluster vmid"] assms(1)
    by (simp add: Let_def jfield_defined assms bindA_attempt bindA_apply[of "mapA f xs" for f xs] ds)
  then show ?thesis using ds(2) by blast
qed

lemma guestFindings_ping:
  "(''Proxmox VM config enables the guest agent, but the guest agent ping endpoint is failing.''
     \<in> set (guestFindings configured ok vendor st)) = (configured \<and> \<not> ok)"
  by (auto simp: guestFindings_def split: option.splits)

lemma guestFindings_none:
  "(guestFindings configured ok vendor st = []) = (configured \<and> ok \<and> \<not> js_truthy vendor)"
  by (cases vendor) (simp_all add: guestFindings_def js_or_undefined_def)

lemma diagnoseGuestAgent_fails:
  assumes "qemuGet S cluster vmid s = (Inr vm, s1)" "\<not> defined (gd_config vm) \<or> \<not> defined (gd_status vm)"
  shows "fst (diagnoseGuestAgent S cluster vmid nodeInput timeoutMs s) = Inl ''TypeError''"
proof (cases "defined (gd_config vm)")
  case True
  let ?node = "case nodeInput of Some n \<Rightarrow> n | None \<Rightarrow> gd_node vm"
  let ?p = "bindA (agentPing S cluster vmid (Some ?node) timeoutMs) (\<lambda>r. ret (ar_data r))"
  let ?i = "bindA (agentInfo S cluster vmid (Some ?node) timeoutMs) (\<lambda>r. ret (ar_data r))"
  obtain ds u where ds: "mapA (dumpSection S cluster vmid) cloud_init_sections (snd (?i (snd (?p s1)))) = (Inr ds, u)"
    using dumpSections_return by blast
  from True have "jfield (gd_status vm) ''status'' = Inl ''TypeError''"
    using assms(2) by (auto simp: defined_def jfield_def)
  then show ?thesis
    unfolding diagnoseGuestAgent_def bindA_apply[of "qemuGet S cluster vmid"] assms(1)
    by (simp add: Let_def jfield_defined True bindA_attempt bindA_apply[of "mapA f xs" for f xs] ds)
next
  case False
  then have "jfield (gd_config vm) k = Inl ''TypeError''" for k by (auto simp: defined_def jfield_def)
  then show ?thesis
    unfolding diagnoseGuestAgent_def bindA_apply[of "qemuGet S cluster vmid"] assms(1) by (simp add: Let_def)
qed


lemma inspectDisk_returns:
  "\<exists>oi u. inspectDisk S cluster node vmid (Some path) s = (Inr oi, u) \<and> oi_attempted oi \<and> oi_blockDevicePath oi = Some path"
  by (auto simp: inspectDisk_def catchA_def failed_inspection_def parseOfflineVmBootInspection_def Let_def bindA_apply
      split: prod.split sum.split)


end
