(* ===== verification/Files.thy ===== *)
theory Files
  imports State
begin

text \<open>
  The local file system, as far as the artifact and secret stores use it: a map from paths to their
  bytes.  Each operation may fail with an arbitrary error of the world, which leaves the files as they
  are; a missing file is the error \<open>ENOENT\<close>.
\<close>

record host = svc +
  ho_files :: "(string, buffer) omap"

definition ENOENT :: string where
  "ENOENT = ''ENOENT: no such file or directory''"

text \<open>An operation on the disk: its event, its possible failure, and its effect.\<close>

definition diskA :: "world \<Rightarrow> event \<Rightarrow> ((string, buffer) omap \<Rightarrow> 'a res \<times> (string, buffer) omap) \<Rightarrow> ('b host_scheme, 'a) act" where
  "diskA w e f =
     bindA (interact e (\<lambda>tr. Inr (w_diskError w tr e))) (\<lambda>failure.
     case failure of
       Some msg \<Rightarrow> raise msg
     | None \<Rightarrow> (\<lambda>s. case f (ho_files s) of (r, fs) \<Rightarrow> (r, s\<lparr>ho_files := fs\<rparr>)))"

definition readBytesA :: "world \<Rightarrow> string \<Rightarrow> ('b host_scheme, buffer) act" where
  "readBytesA w path = diskA w (EvRead path) (\<lambda>fs.
     (case map_of fs path of Some b \<Rightarrow> Inr b | None \<Rightarrow> Inl ENOENT, fs))"

definition readTextA :: "world \<Rightarrow> string \<Rightarrow> ('b host_scheme, string) act" where
  "readTextA w path = bindA (readBytesA w path) (\<lambda>b. ret (utf8_text w b))"

definition writeBytesA :: "world \<Rightarrow> string \<Rightarrow> buffer \<Rightarrow> ('b host_scheme, unit) act" where
  "writeBytesA w path b = diskA w (EvWrite path b) (\<lambda>fs. (Inr (), AList.update path b fs))"

definition writeTextA :: "world \<Rightarrow> string \<Rightarrow> string \<Rightarrow> ('b host_scheme, unit) act" where
  "writeTextA w path t = writeBytesA w path (utf8_encode t)"

text \<open>\<open>rm\<close> with \<open>force\<close> ignores a missing file.\<close>

definition removeFileA :: "world \<Rightarrow> string \<Rightarrow> ('b host_scheme, unit) act" where
  "removeFileA w path = diskA w (EvRemove path) (\<lambda>fs. (Inr (), AList.delete path fs))"

definition renameA :: "world \<Rightarrow> string \<Rightarrow> string \<Rightarrow> ('b host_scheme, unit) act" where
  "renameA w a b = diskA w (EvRename a b) (\<lambda>fs.
     case map_of fs a of
       Some x \<Rightarrow> (Inr (), AList.update b x (AList.delete a fs))
     | None \<Rightarrow> (Inl ENOENT, fs))"

text \<open>Directories are not part of the map; making one can only fail.\<close>

definition mkdirA :: "world \<Rightarrow> string \<Rightarrow> ('b host_scheme, unit) act" where
  "mkdirA w dir = diskA w (EvMkdir dir) (\<lambda>fs. (Inr (), fs))"

lemma diskA_apply:
  "diskA w e f s = (case w_diskError w (io_trace s) e of
      Some msg \<Rightarrow> (Inl msg, s\<lparr>io_trace := io_trace s @ [e]\<rparr>)
    | None \<Rightarrow> (fst (f (ho_files s)), s\<lparr>io_trace := io_trace s @ [e], ho_files := snd (f (ho_files s))\<rparr>))"
  by (simp add: diskA_def bindA_apply interact_def split: option.split prod.split)

text \<open>A disk that works.\<close>

definition disk_works :: "world \<Rightarrow> bool" where
  "disk_works w \<longleftrightarrow> (\<forall>tr e. w_diskError w tr e = None)"

lemma working_disk:
  assumes "disk_works w"
  shows "writeTextA w path t s = (Inr (), s\<lparr>io_trace := io_trace s @ [EvWrite path (utf8_encode t)],
      ho_files := AList.update path (utf8_encode t) (ho_files s)\<rparr>)"
    "writeBytesA w path b s = (Inr (), s\<lparr>io_trace := io_trace s @ [EvWrite path b],
      ho_files := AList.update path b (ho_files s)\<rparr>)"
    "readBytesA w path s = (case map_of (ho_files s) path of Some b \<Rightarrow> Inr b | None \<Rightarrow> Inl ENOENT,
      s\<lparr>io_trace := io_trace s @ [EvRead path]\<rparr>)"
    "mkdirA w path s = (Inr (), s\<lparr>io_trace := io_trace s @ [EvMkdir path]\<rparr>)"
    "removeFileA w path s = (Inr (), s\<lparr>io_trace := io_trace s @ [EvRemove path],
      ho_files := AList.delete path (ho_files s)\<rparr>)"
  using assms
  by (simp_all add: disk_works_def writeTextA_def writeBytesA_def readBytesA_def mkdirA_def removeFileA_def diskA_apply)

lemma readTextA_works:
  assumes "disk_works w"
  shows "readTextA w path s = (case map_of (ho_files s) path of Some b \<Rightarrow> Inr (utf8_text w b) | None \<Rightarrow> Inl ENOENT,
      s\<lparr>io_trace := io_trace s @ [EvRead path]\<rparr>)"
  by (simp add: readTextA_def bindA_apply working_disk[OF assms] split: option.split)

end
