(* ===== verification/Dates.thy ===== *)
theory Dates
  imports Prelude
begin

text \<open>
  \<open>Date.prototype.toISOString\<close> and \<open>Date.parse\<close> on its output, for the instants from 1970 on: the
  calendar, the fixed-width numerals and the round trip.
\<close>

section \<open>The calendar\<close>

definition leap_year :: "nat \<Rightarrow> bool" where
  "leap_year y \<longleftrightarrow> y mod 4 = 0 \<and> (y mod 100 \<noteq> 0 \<or> y mod 400 = 0)"

definition year_days :: "nat \<Rightarrow> nat" where
  "year_days y = (if leap_year y then 366 else 365)"

definition month_days :: "nat \<Rightarrow> nat list" where
  "month_days y = [31, if leap_year y then 29 else 28, 31, 30, 31, 30, 31, 31, 30, 31, 30, 31]"

text \<open>Splitting a day count along a list of lengths, and counting it back.\<close>

fun split_days :: "nat list \<Rightarrow> nat \<Rightarrow> nat \<times> nat" where
  "split_days [] d = (0, d)"
| "split_days (l # ls) d = (if d < l then (0, d) else let (i, r) = split_days ls (d - l) in (Suc i, r))"

function year_of :: "nat \<Rightarrow> nat \<Rightarrow> nat \<times> nat" where
  "year_of y d = (if d < year_days y then (y, d) else year_of (Suc y) (d - year_days y))"
  by auto
termination by (relation "measure snd") (auto simp: year_days_def split: if_splits)

declare year_of.simps [simp del]

definition days_before :: "nat \<Rightarrow> nat" where
  "days_before y = sum_list (map year_days [1970..<y])"

definition civil_of_days :: "nat \<Rightarrow> nat \<times> nat \<times> nat" where
  "civil_of_days n = (let (y, d) = year_of 1970 n; (m, r) = split_days (month_days y) d in (y, Suc m, Suc r))"

definition days_of_civil :: "nat \<Rightarrow> nat \<Rightarrow> nat \<Rightarrow> nat" where
  "days_of_civil y m d = days_before y + sum_list (take (m - 1) (month_days y)) + (d - 1)"

lemma split_days_bound:
  "d < sum_list ls \<Longrightarrow> split_days ls d = (i, r) \<Longrightarrow>
     i < length ls \<and> r < ls ! i \<and> d = sum_list (take i ls) + r"
proof (induction ls d arbitrary: i rule: split_days.induct)
  case (2 l ls d)
  show ?case
  proof (cases "d < l")
    case False
    then obtain j where j: "split_days ls (d - l) = (j, r)" "i = Suc j"
      using 2(3) by (auto split: prod.splits)
    have "d - l < sum_list ls" using 2(2) False by simp
    note sub = 2(1)[OF False this j(1)]
    then have "d = l + sum_list (take j ls) + r" using False by linarith
    then show ?thesis using sub j(2) by simp
  qed (use 2 in auto)
qed simp

lemma month_days_sum: "sum_list (month_days y) = year_days y"
  by (simp add: month_days_def year_days_def)

lemma days_before_Suc: "1970 \<le> y \<Longrightarrow> days_before (Suc y) = days_before y + year_days y"
  by (simp add: days_before_def)

lemma year_of_days:
  "1970 \<le> y0 \<Longrightarrow> year_of y0 d = (y, r) \<Longrightarrow>
     y0 \<le> y \<and> r < year_days y \<and> days_before y0 + d = days_before y + r"
proof (induction y0 d rule: year_of.induct)
  case (1 y0 d)
  show ?case
  proof (cases "d < year_days y0")
    case True
    then show ?thesis using 1(3) by (subst (asm) year_of.simps) auto
  next
    case False
    then have "year_of (Suc y0) (d - year_days y0) = (y, r)" using 1(3) by (subst (asm) year_of.simps) simp
    then show ?thesis using 1(1)[OF False] 1(2) False days_before_Suc[of y0] by simp
  qed
qed

lemma civil_of_days_sound:
  assumes "civil_of_days n = (y, m, d)"
  shows "days_of_civil y m d = n \<and> 1970 \<le> y \<and> 1 \<le> m \<and> m \<le> 12 \<and> 1 \<le> d \<and> d \<le> 31"
proof -
  obtain y' r where yr: "year_of 1970 n = (y', r)" by fastforce
  obtain i q where iq: "split_days (month_days y') r = (i, q)" by fastforce
  note Y = year_of_days[OF _ yr]
  have r: "r < sum_list (month_days y')" using Y by (simp add: month_days_sum)
  note I = split_days_bound[OF r iq]
  have "i < 12" using I by (simp add: month_days_def)
  moreover have "month_days y' ! i \<le> 31" if "i < 12" for i
  proof -
    have "list_all (\<lambda>l. l \<le> 31) (month_days y')" by (simp add: month_days_def)
    then show ?thesis using that by (simp add: list_all_length month_days_def)
  qed
  moreover have "days_before 1970 = 0" by (simp add: days_before_def)
  moreover have "y = y'" "m = Suc i" "d = Suc q" using assms by (simp_all add: civil_of_days_def yr iq)
  ultimately show ?thesis using Y I by (fastforce simp: days_of_civil_def)
qed

section \<open>Fixed-width numerals\<close>

definition pad :: "nat \<Rightarrow> nat \<Rightarrow> string" where
  "pad k n = replicate (k - length (nat_str n)) (CHR ''0'') @ nat_str n"

lemma digits_val_zeros: "digits_val (replicate k (CHR ''0'') @ s) = digits_val s"
  by (induction k) (simp_all add: digits_val_def digit_val_def)

lemma digits_val_pad [simp]: "digits_val (pad k n) = n"
  by (simp add: pad_def digits_val_zeros)

lemma length_nat_str: "n < 10 ^ k \<Longrightarrow> 0 < k \<Longrightarrow> length (nat_str n) \<le> k"
proof (induction n arbitrary: k rule: nat_str.induct)
  case (1 n)
  show ?case
  proof (cases "n < 10")
    case False
    then obtain j where k: "k = Suc j" "0 < j" using 1 by (cases k; cases "k - 1") auto
    then have "n div 10 < 10 ^ j" using 1(2) by (simp add: less_mult_imp_div_less mult.commute)
    then show ?thesis using 1(1)[OF False] False k by (subst nat_str.simps) simp
  qed (use 1 in \<open>subst nat_str.simps, simp\<close>)
qed

lemma length_pad: "n < 10 ^ k \<Longrightarrow> 0 < k \<Longrightarrow> length (pad k n) = k"
  using length_nat_str by (simp add: pad_def)

section \<open>Instants\<close>

text \<open>Years beyond 9999 are written with a sign and six digits.\<close>

definition toISOString :: "nat \<Rightarrow> string" where
  "toISOString ms =
     (let (y, m, d) = civil_of_days (ms div 86400000); t = ms mod 86400000 in
      (if y < 10000 then pad 4 y else CHR ''+'' # pad 6 y) @ ''-'' @ pad 2 m @ ''-'' @ pad 2 d @ ''T'' @
      pad 2 (t div 3600000) @ '':'' @ pad 2 (t div 60000 mod 60) @ '':'' @ pad 2 (t div 1000 mod 60) @ ''.'' @
      pad 3 (t mod 1000) @ ''Z'')"

text \<open>\<open>Date.parse\<close> on the form above; other texts are not used and give \<open>None\<close>.\<close>

definition after_year :: "nat \<Rightarrow> string \<Rightarrow> nat option" where
  "after_year y s =
     (if length s = 20 \<and> list_all (\<lambda>(i, c). s ! i = c)
          [(0, CHR ''-''), (3, CHR ''-''), (6, CHR ''T''), (9, CHR '':''), (12, CHR '':''), (15, CHR ''.''), (19, CHR ''Z'')] \<and>
          list_all (\<lambda>i. is_digit (s ! i)) [1, 2, 4, 5, 7, 8, 10, 11, 13, 14, 16, 17, 18]
      then Some (days_of_civil y (digits_val (take 2 (drop 1 s))) (digits_val (take 2 (drop 4 s))) * 86400000 +
        digits_val (take 2 (drop 7 s)) * 3600000 + digits_val (take 2 (drop 10 s)) * 60000 +
        digits_val (take 2 (drop 13 s)) * 1000 + digits_val (take 3 (drop 16 s)))
      else None)"

definition dateParse :: "string \<Rightarrow> nat option" where
  "dateParse s =
     (case s of
        c # r \<Rightarrow>
          if c = CHR ''+''
          then (if list_all is_digit (take 6 r) then after_year (digits_val (take 6 r)) (drop 6 r) else None)
          else (if list_all is_digit (take 4 s) then after_year (digits_val (take 4 s)) (drop 4 s) else None)
      | [] \<Rightarrow> None)"

lemma pad_digits: "list_all is_digit (pad k n)"
  using nat_str_digits by (auto simp: pad_def list_all_iff is_digit_def)

lemma after_year_fields:
  assumes "length a = 2" "length b = 2" "length c = 2" "length d = 2" "length e = 2" "length f = 3"
    and "list_all is_digit (a @ b @ c @ d @ e @ f)"
  shows "after_year y (''-'' @ a @ ''-'' @ b @ ''T'' @ c @ '':'' @ d @ '':'' @ e @ ''.'' @ f @ ''Z'') =
    Some (days_of_civil y (digits_val a) (digits_val b) * 86400000 + digits_val c * 3600000 + digits_val d * 60000 +
      digits_val e * 1000 + digits_val f)"
proof -
  obtain a1 a2 b1 b2 c1 c2 d1 d2 e1 e2 f1 f2 f3 where
    "a = [a1, a2]" "b = [b1, b2]" "c = [c1, c2]" "d = [d1, d2]" "e = [e1, e2]" "f = [f1, f2, f3]"
    using assms(1-6) by (auto simp: numeral_2_eq_2 numeral_3_eq_3 length_Suc_conv)
  then show ?thesis using assms(7) by (simp add: after_year_def)
qed

lemma year_bound:
  assumes "civil_of_days n = (y, m, d)" "n \<le> 100000000"
  shows "y < 10 ^ 6"
proof -
  have days: "365 * j \<le> days_before (1970 + j)" for j
  proof (induction j)
    case (Suc j)
    then show ?case using days_before_Suc[of "1970 + j"] by (simp add: year_days_def split: if_splits)
  qed simp
  have "1970 \<le> y" "days_before y \<le> n"
    using civil_of_days_sound[OF assms(1)] by (auto simp: days_of_civil_def)
  then have "365 * (y - 1970) \<le> 100000000" using days[of "y - 1970"] assms(2) by simp
  then show ?thesis by simp
qed

lemma clock_sum:
  "(t::nat) = x * 1000 + p \<Longrightarrow> x = y * 60 + q \<Longrightarrow> y = z * 60 + r \<Longrightarrow> z * 3600000 + r * 60000 + q * 1000 + p = t"
  by simp

lemma clock_parts:
  "(t::nat) div 3600000 * 3600000 + t div 60000 mod 60 * 60000 + t div 1000 mod 60 * 1000 + t mod 1000 = t"
proof -
  have "t div 3600000 = t div 1000 div 60 div 60" "t div 60000 = t div 1000 div 60"
    by (simp_all add: div_mult2_eq[symmetric])
  then show ?thesis
    using clock_sum[OF div_mult_mod_eq[symmetric] div_mult_mod_eq[symmetric] div_mult_mod_eq[symmetric]] by metis
qed

lemma dateParse_year4:
  assumes "list_all is_digit w" "length w = 4" "after_year (digits_val w) r = Some v"
  shows "dateParse (w @ r) = Some v"
  using assms by (cases w) (auto simp: dateParse_def is_digit_def)

lemma dateParse_year6:
  assumes "list_all is_digit w" "length w = 6" "after_year (digits_val w) r = Some v"
  shows "dateParse (CHR ''+'' # w @ r) = Some v"
  using assms by (simp add: dateParse_def)

text \<open>
  Time stamps read back: every instant that JavaScript can represent from 1970 on (up to 10 ^ 8
  days) is recovered from its ISO text to the millisecond, so that an expiry that is stored as a text
  is the expiry that was computed.
\<close>

lemma iso_date_roundtrip:
  assumes "ms \<le> 8640000000000000"
  shows "dateParse (toISOString ms) = Some ms"
proof -
  obtain y m d where ymd: "civil_of_days (ms div 86400000) = (y, m, d)" by (metis prod_cases3)
  define t where "t = ms mod 86400000"
  note S = civil_of_days_sound[OF ymd]
  have y: "y < 10 ^ 6" using assms by (intro year_bound[OF ymd]) simp
  have t: "t < 86400000" by (simp add: t_def)
  let ?rest = "''-'' @ pad 2 m @ ''-'' @ pad 2 d @ ''T'' @ pad 2 (t div 3600000) @ '':'' @
      pad 2 (t div 60000 mod 60) @ '':'' @ pad 2 (t div 1000 mod 60) @ ''.'' @ pad 3 (t mod 1000) @ ''Z''"
  have "days_of_civil y m d * 86400000 + (t div 3600000 * 3600000 + t div 60000 mod 60 * 60000 +
      t div 1000 mod 60 * 1000 + t mod 1000) = ms"
    unfolding clock_parts using S unfolding t_def by simp
  then have "days_of_civil y m d * 86400000 + t div 3600000 * 3600000 + t div 60000 mod 60 * 60000 +
      t div 1000 mod 60 * 1000 + t mod 1000 = ms"
    by (simp only: add.assoc)
  moreover have "after_year y ?rest = Some (days_of_civil y m d * 86400000 + t div 3600000 * 3600000 +
      t div 60000 mod 60 * 60000 + t div 1000 mod 60 * 1000 + t mod 1000)"
    using S t after_year_fields[of "pad 2 m" "pad 2 d" "pad 2 (t div 3600000)" "pad 2 (t div 60000 mod 60)"
        "pad 2 (t div 1000 mod 60)" "pad 3 (t mod 1000)" y]
    by (simp add: length_pad pad_digits less_mult_imp_div_less)
  ultimately have rest: "after_year y ?rest = Some ms" by simp
  have iso: "toISOString ms = (if y < 10000 then pad 4 y else CHR ''+'' # pad 6 y) @ ?rest"
    unfolding toISOString_def ymd t_def by (simp only: Let_def prod.case)
  have year: "after_year (digits_val (pad k y)) ?rest = Some ms" for k
    unfolding digits_val_pad by (rule rest)
  show ?thesis
  proof (cases "y < 10000")
    case True
    then have "length (pad 4 y) = 4" by (simp add: length_pad)
    from dateParse_year4[OF pad_digits this year] show ?thesis unfolding iso using True by (simp only: if_True)
  next
    case False
    have "length (pad 6 y) = 6" using y by (simp add: length_pad)
    from dateParse_year6[OF pad_digits this year] show ?thesis unfolding iso using False by (simp only: if_False append_Cons)
  qed
qed

lemma iso_example: "toISOString 951827696789 = ''2000-02-29T12:34:56.789Z''"
  by (simp add: toISOString_def civil_of_days_def year_of.simps year_days_def leap_year_def month_days_def
      pad_def nat_str.simps, code_simp)

end
