(* ===== verification/Jobs.thy ===== *)
theory Jobs
  imports Effects
begin

text \<open>
  Background jobs of src/jobs.ts: the job ids that carry a Proxmox task, the registry with its
  abort controllers and completion promises, and the state machine of a job under every
  interleaving of executors, context callbacks and cancellations.
\<close>

section \<open>Data\<close>

datatype job_state = JsPending | JsRunning | JsCompleted | JsFailed | JsCancelled

datatype artifact_backing = AbMemory | AbTempFile | AbProxmoxFile | AbLocalFile

datatype artifact_encoding = AeUtf8 | AeBase64

record artifact_ref =
  af_artifactId :: string
  af_uri :: string
  af_kind :: string
  af_mimeType :: string
  af_backing :: artifact_backing
  af_size :: int
  af_encoding :: artifact_encoding
  af_createdAt :: string
  af_expiresAt :: "string option"

record progress_snapshot =
  pg_progress :: int
  pg_total :: "int option"
  pg_message :: "string option"

datatype result_ref = RefUpid string | RefMemory string

record server_job =
  sj_jobId :: string
  sj_target :: target_ref
  sj_operation :: string
  sj_state :: job_state
  sj_startedAt :: string
  sj_updatedAt :: string
  sj_progress :: "progress_snapshot option"
  sj_logsAvailable :: bool
  sj_resultRef :: "result_ref option"
  sj_relatedUpid :: "string option"
  sj_result :: jsval
  sj_error :: "string option"
  sj_logs :: "string list"
  sj_artifacts :: "artifact_ref list option"

text \<open>States are ordered along the life of a job.\<close>

fun job_rank :: "job_state \<Rightarrow> nat" where
  "job_rank JsPending = 0"
| "job_rank JsRunning = 1"
| "job_rank JsCompleted = 2"
| "job_rank JsFailed = 3"
| "job_rank JsCancelled = 4"

lemma job_rank_inj: "job_rank a = job_rank b \<Longrightarrow> a = b"
  by (cases a; cases b) simp_all

instantiation job_state :: linorder
begin

definition less_eq_job_state :: "job_state \<Rightarrow> job_state \<Rightarrow> bool" where
  "a \<le> b \<longleftrightarrow> job_rank a \<le> job_rank b"

definition less_job_state :: "job_state \<Rightarrow> job_state \<Rightarrow> bool" where
  "a < b \<longleftrightarrow> job_rank a < job_rank b"

instance
  by intro_classes (auto simp: less_eq_job_state_def less_job_state_def job_rank_inj)

end

definition terminal :: "job_state \<Rightarrow> bool" where
  "terminal st \<longleftrightarrow> JsRunning < st"

lemma terminal_simps [simp]:
  "\<not> terminal JsPending" "\<not> terminal JsRunning" "terminal JsCompleted" "terminal JsFailed" "terminal JsCancelled"
  by (simp_all add: terminal_def less_job_state_def)

lemma job_state_le [simp]: "JsRunning \<le> JsCompleted" "JsRunning \<le> JsFailed" "JsRunning \<le> JsCancelled"
  by (simp_all add: less_eq_job_state_def)

section \<open>Job ids of Proxmox tasks\<close>

definition UPID_JOB_PREFIX :: string where
  "UPID_JOB_PREFIX = ''proxmox_upid_job_''"

record upid_handle =
  uh_operation :: string
  uh_target :: jsval
  uh_upid :: string

text \<open>A target object has its present fields only.\<close>

definition target_object :: "target_ref \<Rightarrow> jsval" where
  "target_object t =
     JObj ([(''cluster'', JStr (tg_cluster t)), (''kind'', JStr (kind_str (tg_kind t)))] @
       (case tg_node t of Some n \<Rightarrow> [(''node'', JStr n)] | None \<Rightarrow> []) @
       (case tg_vmid t of Some v \<Rightarrow> [(''vmid'', JNum v)] | None \<Rightarrow> []) @
       (case tg_guestName t of Some n \<Rightarrow> [(''guestName'', JStr n)] | None \<Rightarrow> []))"

definition upid_payload :: "target_ref \<Rightarrow> string \<Rightarrow> string \<Rightarrow> jsval" where
  "upid_payload target operation upid =
     JObj [(''v'', JNum 1), (''operation'', JStr operation), (''target'', target_object target), (''upid'', JStr upid)]"

definition makeUpidJobId :: "target_ref \<Rightarrow> string \<Rightarrow> string \<Rightarrow> string" where
  "makeUpidJobId target operation upid =
     UPID_JOB_PREFIX @ base64url_encode (utf8_encode (JSON_stringify (upid_payload target operation upid)))"

definition handle_of :: "jsval \<Rightarrow> upid_handle option" where
  "handle_of parsed =
     (let target = jget parsed ''target'' in
      if jget parsed ''v'' \<noteq> JNum 1 \<or> \<not> js_truth target \<or>
         jstr_opt (jget target ''cluster'') = None \<or> jstr_opt (jget target ''kind'') = None
      then None
      else (case (jget parsed ''operation'', jget parsed ''upid'') of
          (JStr operation, JStr upid) \<Rightarrow> Some \<lparr>uh_operation = operation, uh_target = target, uh_upid = upid\<rparr>
        | _ \<Rightarrow> None))"

definition parseUpidJobId :: "world \<Rightarrow> string \<Rightarrow> upid_handle option" where
  "parseUpidJobId w jobId =
     (if \<not> js_startsWith jobId UPID_JOB_PREFIX then None
      else let encoded = js_slice_from (length UPID_JOB_PREFIX) jobId in
        if encoded = [] then None
        else (case JSON_parse (utf8_text w (base64_decode encoded)) of
            None \<Rightarrow> None
          | Some parsed \<Rightarrow> handle_of parsed))"

lemma jnormal_payload: "jnormal (upid_payload target operation upid)"
  by (auto simp: upid_payload_def target_object_def split: option.split)

lemma base64url_ne: "b \<noteq> [] \<Longrightarrow> base64url_encode b \<noteq> []"
  by (cases b rule: b64_sextets.cases) (simp_all add: base64url_encode_def)

lemma stringify_ne: "jnormal v \<Longrightarrow> JSON_stringify v \<noteq> []"
  using jprint_first[of v "[]" "[]"] by (auto simp: JSON_stringify_def)

lemma target_object_inj: "target_object t = target_object t' \<longleftrightarrow> t = t'"
proof
  assume eq: "target_object t = target_object t'"
  have "kind_str a = kind_str b \<Longrightarrow> a = b" for a b by (cases a; cases b) simp_all
  then have "tg_cluster t = tg_cluster t'" "tg_kind t = tg_kind t'" "tg_node t = tg_node t'"
      "tg_vmid t = tg_vmid t'" "tg_guestName t = tg_guestName t'"
    using eq by (auto simp: target_object_def split: option.splits)
  then show "t = t'" by simp
qed simp

lemma utf8_encode_ne: "s \<noteq> [] \<Longrightarrow> utf8_encode s \<noteq> []"
  by (cases s) (auto simp: utf8_encode_def utf8_char_def)

lemma parseUpidJobId_make:
  "parseUpidJobId w (makeUpidJobId t oa u) = Some \<lparr>uh_operation = oa, uh_target = target_object t, uh_upid = u\<rparr>"
proof -
  have "JSON_parse (JSON_stringify (upid_payload t oa u)) = Some (upid_payload t oa u)"
    using jnormal_payload by (rule json.roundtrip)
  moreover have "handle_of (upid_payload t oa u) =
      Some \<lparr>uh_operation = oa, uh_target = target_object t, uh_upid = u\<rparr>"
    by (simp add: handle_of_def upid_payload_def jget_def target_object_def jstr_opt_def js_truth_def)
  moreover have "js_slice_from (length UPID_JOB_PREFIX) (makeUpidJobId t oa u) =
      base64url_encode (utf8_encode (JSON_stringify (upid_payload t oa u)))"
    by (simp add: js_slice_from_def makeUpidJobId_def)
  moreover have "js_startsWith (makeUpidJobId t oa u) UPID_JOB_PREFIX"
    by (simp add: makeUpidJobId_def)
  moreover have "base64url_encode (utf8_encode (JSON_stringify (upid_payload t oa u))) \<noteq> []"
    by (intro base64url_ne utf8_encode_ne stringify_ne jnormal_payload)
  moreover have "utf8_text w (base64_decode (base64url_encode (utf8_encode (JSON_stringify (upid_payload t oa u)))))
      = JSON_stringify (upid_payload t oa u)"
    by (simp only: base64url_roundtrip utf8_text_def utf8_roundtrip option.case)
  ultimately show ?thesis by (simp only: parseUpidJobId_def Let_def option.case if_True if_False not_True_eq_False)
qed

text \<open>
  C38. A job id survives the server: whatever target, operation and task it was made from, parsing it
  later yields exactly them, so that a job can be resumed by a server that never saw it; in
  particular two ids are equal only for the same target, operation and task.
\<close>

theorem upid_job_id_roundtrip:
  "parseUpidJobId w (makeUpidJobId target operation upid) =
     Some \<lparr>uh_operation = operation, uh_target = target_object target, uh_upid = upid\<rparr> \<and>
   (makeUpidJobId target operation upid = makeUpidJobId target' operation' upid') =
     (target = target' \<and> operation = operation' \<and> upid = upid')"
proof -
  have "target = target' \<and> operation = operation' \<and> upid = upid'"
    if "makeUpidJobId target operation upid = makeUpidJobId target' operation' upid'"
    using arg_cong[OF that, of "parseUpidJobId w"] unfolding parseUpidJobId_make by (simp add: target_object_inj)
  then show ?thesis using parseUpidJobId_make[of w target operation upid] by blast
qed

section \<open>The registry\<close>

text \<open>
  A run is one call of \<open>run\<close>: its abort signal and whether its promise is settled.  Controllers and
  completions refer to runs by their number.
\<close>

record job_run =
  rn_jobId :: string
  rn_aborted :: bool
  rn_settled :: bool

record job_manager =
  jm_jobs :: "(string, server_job) omap"
  jm_controllers :: "(string, nat) omap"
  jm_completions :: "(string, nat) omap"
  jm_runs :: "job_run list"

definition no_jobs :: job_manager where
  "no_jobs = \<lparr>jm_jobs = [], jm_controllers = [], jm_completions = [], jm_runs = []\<rparr>"

definition newJob :: "string \<Rightarrow> string \<Rightarrow> target_ref \<Rightarrow> string \<Rightarrow> string option \<Rightarrow> server_job" where
  "newJob now jobId target operation relatedUpid =
     \<lparr> sj_jobId = jobId, sj_target = target, sj_operation = operation, sj_state = JsPending,
       sj_startedAt = now, sj_updatedAt = now, sj_progress = None, sj_logsAvailable = False,
       sj_resultRef = map_option RefUpid (js_or_undefined relatedUpid), sj_relatedUpid = js_or_undefined relatedUpid,
       sj_result = JUndef, sj_error = None, sj_logs = [], sj_artifacts = None \<rparr>"

text \<open>The id is the given one, or a fresh random one.\<close>

definition createJob ::
    "string \<Rightarrow> string \<Rightarrow> target_ref \<Rightarrow> string \<Rightarrow> string option \<Rightarrow> string option \<Rightarrow> job_manager \<Rightarrow>
     server_job \<times> job_manager" where
  "createJob now uuid target operation jobIdOption relatedUpid m =
     (let jobId = (case jobIdOption of Some i \<Rightarrow> i | None \<Rightarrow> makeId uuid ''job'');
          snapshot = newJob now jobId target operation relatedUpid
      in (snapshot, m\<lparr>jm_jobs := AList.update jobId snapshot (jm_jobs m)\<rparr>))"

definition createUpidJob ::
    "string \<Rightarrow> target_ref \<Rightarrow> string \<Rightarrow> string \<Rightarrow> job_manager \<Rightarrow> server_job \<times> job_manager" where
  "createUpidJob now target operation upid m =
     createJob now [] target operation (Some (makeUpidJobId target operation upid)) (Some upid) m"

definition findJob :: "job_manager \<Rightarrow> string \<Rightarrow> server_job option" where
  "findJob m jobId = map_of (jm_jobs m) jobId"

definition getJob :: "job_manager \<Rightarrow> string \<Rightarrow> server_job res" where
  "getJob m jobId =
     (case findJob m jobId of Some j \<Rightarrow> Inr j | None \<Rightarrow> Inl (''Unknown job '' @ squoted jobId))"

text \<open>\<open>slice(-limit)\<close>: the last \<open>limit\<close> entries, and all of them for the limit 0.\<close>

definition slice_last :: "int \<Rightarrow> 'a list \<Rightarrow> 'a list" where
  "slice_last limit xs =
     (if limit > 0 then drop (length xs - nat limit) xs else drop (nat (- limit)) xs)"

definition listLogs :: "job_manager \<Rightarrow> string \<Rightarrow> int option \<Rightarrow> string list res" where
  "listLogs m jobId limit =
     rbind (getJob m jobId) (\<lambda>j. Inr (slice_last (case limit of Some n \<Rightarrow> n | None \<Rightarrow> 200) (sj_logs j)))"

definition updateJob :: "string \<Rightarrow> (server_job \<Rightarrow> server_job) \<Rightarrow> job_manager \<Rightarrow> job_manager res" where
  "updateJob jobId f m =
     rbind (getJob m jobId) (\<lambda>j. Inr (m\<lparr>jm_jobs := AList.update jobId (f j) (jm_jobs m)\<rparr>))"

text \<open>The synchronous part of \<open>run\<close>; the result is the number of the run.\<close>

definition startRun :: "string \<Rightarrow> string \<Rightarrow> job_manager \<Rightarrow> (nat \<times> job_manager) res" where
  "startRun now jobId m =
     rbind (updateJob jobId (\<lambda>j. j\<lparr>sj_state := JsRunning, sj_updatedAt := now\<rparr>) m) (\<lambda>m'.
     let c = length (jm_runs m') in
     Inr (c, m'\<lparr> jm_controllers := AList.update jobId c (jm_controllers m'),
                jm_completions := AList.update jobId c (jm_completions m'),
                jm_runs := jm_runs m' @ [\<lparr>rn_jobId = jobId, rn_aborted = False, rn_settled = False\<rparr>] \<rparr>))"

text \<open>What the job context of an executor can do.\<close>

datatype job_call =
    JcLog string
  | JcProgress int "int option" "string option"
  | JcUpid string
  | JcArtifacts "artifact_ref list"

fun apply_call :: "job_call \<Rightarrow> server_job \<Rightarrow> server_job" where
  "apply_call (JcLog message) j =
     j\<lparr>sj_logs := sj_logs j @ [message], sj_logsAvailable := True\<rparr>"
| "apply_call (JcProgress p t msg) j =
     j\<lparr>sj_progress := Some \<lparr>pg_progress = p, pg_total = t, pg_message = msg\<rparr>\<rparr>"
| "apply_call (JcUpid upid) j = j\<lparr>sj_relatedUpid := Some upid, sj_resultRef := Some (RefUpid upid)\<rparr>"
| "apply_call (JcArtifacts as) j = j\<lparr>sj_artifacts := Some as\<rparr>"

definition contextCall :: "string \<Rightarrow> string \<Rightarrow> job_call \<Rightarrow> job_manager \<Rightarrow> job_manager res" where
  "contextCall now jobId call m = updateJob jobId (\<lambda>j. (apply_call call j)\<lparr>sj_updatedAt := now\<rparr>) m"

definition settleRun :: "nat \<Rightarrow> job_manager \<Rightarrow> job_manager" where
  "settleRun c m =
     m\<lparr> jm_runs := (jm_runs m)[c := (jm_runs m ! c)\<lparr>rn_settled := True\<rparr>],
        jm_controllers := AList.delete (rn_jobId (jm_runs m ! c)) (jm_controllers m) \<rparr>"

definition or_memory :: "string \<Rightarrow> result_ref option \<Rightarrow> result_ref option" where
  "or_memory jobId r = (case r of Some x \<Rightarrow> Some x | None \<Rightarrow> Some (RefMemory jobId))"

text \<open>The executor of run \<open>c\<close> returned, or threw with a partial result (\<open>JUndef\<close> for none).\<close>

definition runReturned :: "string \<Rightarrow> nat \<Rightarrow> jsval \<Rightarrow> job_manager \<Rightarrow> job_manager res" where
  "runReturned now c result m =
     rbind (updateJob (rn_jobId (jm_runs m ! c)) (\<lambda>j. j\<lparr>sj_state := JsCompleted, sj_result := result,
         sj_updatedAt := now, sj_resultRef := or_memory (rn_jobId (jm_runs m ! c)) (sj_resultRef j)\<rparr>) m)
       (\<lambda>m'. Inr (settleRun c m'))"

definition runThrew :: "string \<Rightarrow> nat \<Rightarrow> string \<Rightarrow> jsval \<Rightarrow> job_manager \<Rightarrow> job_manager res" where
  "runThrew now c message result m =
     rbind (updateJob (rn_jobId (jm_runs m ! c)) (\<lambda>j.
         let j' = j\<lparr>sj_state := (if rn_aborted (jm_runs m ! c) then JsCancelled else JsFailed),
                    sj_error := Some message, sj_updatedAt := now\<rparr>
         in if result = JUndef then j'
            else j'\<lparr>sj_result := result, sj_resultRef := or_memory (rn_jobId (jm_runs m ! c)) (sj_resultRef j)\<rparr>) m)
       (\<lambda>m'. Inr (settleRun c m'))"

definition cancelJob :: "string \<Rightarrow> job_manager \<Rightarrow> job_manager" where
  "cancelJob jobId m =
     (case map_of (jm_controllers m) jobId of
        Some c \<Rightarrow> m\<lparr>jm_runs := (jm_runs m)[c := (jm_runs m ! c)\<lparr>rn_aborted := True\<rparr>]\<rparr>
      | None \<Rightarrow> m)"

text \<open>
  What \<open>wait\<close> yields in a state: \<open>None\<close> while it blocks, and the current snapshot as soon as the
  completion promise is settled, there is none, or the timeout fired.
\<close>

definition waitJob :: "bool \<Rightarrow> string \<Rightarrow> job_manager \<Rightarrow> server_job res option" where
  "waitJob timedOut jobId m =
     (case map_of (jm_completions m) jobId of
        None \<Rightarrow> Some (getJob m jobId)
      | Some c \<Rightarrow> if rn_settled (jm_runs m ! c) \<or> timedOut then Some (getJob m jobId) else None)"

end
