(* ===== verification/ServiceFrame.thy ===== *)
theory ServiceFrame
  imports BootDiagnosis
begin

text \<open>
  The frame of the public operations of the service and of the domain services: none of them touches
  what the server adds to the state of the service (its files, artifacts and jobs).
\<close>

lemma service_ops_step [grows_rules]:
  "keeps svc_step (proxmoxCliRun S target family args raw)"
  "keeps svc_step (proxmoxShellRun S fuel target input)"
  "keeps svc_step (proxmoxFileReadBytes S target path)"
  "keeps svc_step (proxmoxFileWriteBytes S target path b)"
  "keeps svc_step (nodeTerminalRun S cluster node input)"
  by (auto simp: proxmoxCliRun_def proxmoxShellRun_def proxmoxFileReadBytes_def proxmoxFileWriteBytes_def
      nodeTerminalRun_def Let_def intro!: grows_rules split: prod.split)

lemma pollUpid_step [grows_rules]: "keeps svc_step (pollUpid S cluster node upid poll fuel n)"
  by (induction fuel arbitrary: n) (auto intro!: grows_rules)

lemma task_ops_step [grows_rules]:
  "keeps svc_step (waitForUpid S fuel cluster upid poll)"
  "keeps svc_step (cancelUpid S cluster upid)"
  "keeps svc_step (getTaskStatus S cluster node upid)"
  "keeps svc_step (getTaskLog S cluster node upid)"
  by (auto simp: waitForUpid_def cancelUpid_def getTaskStatus_def getTaskLog_def intro!: grows_rules split: option.split)

section \<open>Inventory and domain services\<close>

lemma probeDocker_step [grows_rules]: "keeps svc_step (probeDocker S fuel t)"
  by (auto simp: probeDocker_def intro!: grows_rules split: option.split)

lemma vmSummary_step [grows_rules]: "keeps svc_step (vmSummary S fuel c p x)"
  by (auto simp: vmSummary_def intro!: grows_rules split: prod.split)

lemma inventoryOverview_step [grows_rules]: "keeps svc_step (inventoryOverview S fuel c p f)"
  unfolding inventoryOverview_def by (intro grows_rules steps.keeps_mapA)

lemma inventoryA_step [grows_rules]: "keeps svc_step (inventoryA S c)"
  by (auto simp: inventoryA_def intro!: grows_rules split: option.split)

lemma cluster_steps [grows_rules]:
  "keeps svc_step (clusterGetStatus S c)" "keeps svc_step (listPciMappings S c n)" "keeps svc_step (getPciMapping S c i)"
  "keeps svc_step (createPciMapping S c a t)" "keeps svc_step (updatePciMapping S c i a t)" "keeps svc_step (deletePciMapping S c i t)"
  "keeps svc_step (nodeList S c)" "keeps svc_step (nodeGetStatus S c nd)" "keeps svc_step (listNetwork S c nd)"
  by (auto simp: clusterGetStatus_def listPciMappings_def getPciMapping_def createPciMapping_def updatePciMapping_def
      deletePciMapping_def nodeList_def nodeGetStatus_def listNetwork_def intro!: grows_rules)

lemma keeps_attemptA: "keeps R m \<Longrightarrow> keeps R (attemptA m)"
  by (simp add: attemptA_def keeps_def split_beta)

lemmas [grows_rules] = keeps_attemptA[of svc_step]

lemma guestDetails_step [grows_rules]: "keeps svc_step (guestDetails S t p i u)"
  unfolding guestDetails_def by (intro grows_rules)

lemma guest_steps [grows_rules]:
  "keeps svc_step (qemuGet S c v)" "keeps svc_step (qemuList S c)" "keeps svc_step (lxcGet S c v)"
  "keeps svc_step (lxcList S c)"
  by (auto simp: qemuGet_def qemuList_def lxcGet_def lxcList_def intro!: grows_rules split: option.split)

lemma agent_node_step [grows_rules]: "keeps svc_step (agent_node S c v n)"
  by (auto simp: agent_node_def intro!: grows_rules split: option.split)

lemma checkedOp_step: "(\<And>x. keeps svc_step (body x)) \<Longrightarrow> keeps svc_step (checkedOp S check entry body)"
  unfolding checkedOp_def by (intro grows_rules)

lemma snippet_steps [grows_rules]:
  "keeps svc_step (listCloudInitSnippets S c n st)" "keeps svc_step (getCloudInitSnippet S c n st p)"
  "keeps svc_step (putCloudInitSnippet S c n st p t)" "keeps svc_step (deleteCloudInitSnippet S c n st p)"
  "keeps svc_step (dumpVmCloudInit S c v sec)"
  by (auto simp: listCloudInitSnippets_def getCloudInitSnippet_def putCloudInitSnippet_def deleteCloudInitSnippet_def
      dumpVmCloudInit_def snippetListBody_def snippetGetBody_def snippetPutBody_def snippetDeleteBody_def
      intro!: checkedOp_step grows_rules steps.keeps_mapA split: prod.split)

lemma diagnosis_steps [grows_rules]:
  "keeps svc_step (agentPing S c v n t)" "keeps svc_step (agentInfo S c v n t)" "keeps svc_step (dumpSection S c v sec)"
  by (auto simp: agentPing_def agentInfo_def dumpSection_def intro!: grows_rules split: prod.split)

lemma diagnoseGuestAgent_step [grows_rules]: "keeps svc_step (diagnoseGuestAgent S c v n t)"
  unfolding diagnoseGuestAgent_def Let_def by (intro grows_rules steps.keeps_mapA)

lemma diagnoseVmBoot_step [grows_rules]: "keeps svc_step (diagnoseVmBoot S c v n t)"
  by (auto simp: diagnoseVmBoot_def inspectDisk_def Let_def intro!: grows_rules split: option.split)

lemma infrastructure_steps [grows_rules]:
  "keeps svc_step (storageList S c)" "keeps svc_step (storageGet S c st)" "keeps svc_step (listUsers S c)"
  "keeps svc_step (firewallGet S tg p)" "keeps svc_step (backupJobs S c)" "keeps svc_step (cephStatus S c)"
  "keeps svc_step (sdnList S c)" "keeps svc_step (taskList S c nd)" "keeps svc_step (taskGet S c nd u)"
  by (auto simp: storageList_def storageGet_def listUsers_def firewallGet_def backupJobs_def cephStatus_def sdnList_def
      taskList_def taskGet_def intro!: grows_rules)

lemma vm_node_step [grows_rules]: "keeps svc_step (vm_node S c v n)"
  by (auto simp: vm_node_def intro!: grows_rules split: option.split)

lemma vm_steps [grows_rules]:
  "keeps svc_step (listVmTemplates S c)" "keeps svc_step (storageDownloadUrl S c nd st d t)"
  "keeps svc_step (vmCreate S c nd v a t)" "keeps svc_step (vmUpdateConfig S c v a n t)"
  "keeps svc_step (vmConvertToTemplate S c v a n t)" "keeps svc_step (vmClone S c v a n t)"
  "keeps svc_step (vmDestroy S c v a n t)" "keeps svc_step (nodeAction S c nd act a t)"
  "keeps svc_step (vmAction S c v act a t)" "keeps svc_step (lxcAction S c v act a t)"
  "keeps svc_step (consoleTicket S c k n vo sc)"
  by (auto simp: listVmTemplates_def storageDownloadUrl_def vmCreate_def vmUpdateConfig_def vmConvertToTemplate_def
      vmClone_def vmDestroy_def nodeAction_def vmAction_def lxcAction_def consoleTicket_def Let_def
      intro!: grows_rules split: option.split prod.split target_kind.split)

lemma getVmTemplate_step [grows_rules]: "keeps svc_step (getVmTemplate S c v)"
  by (auto simp: getVmTemplate_def intro!: grows_rules split: option.split)

lemma pci_parts_step [grows_rules]:
  "keeps svc_step (pciViaRest S c v nd slot cv a t)" "keeps svc_step (pciViaCli S c v nd slot cv as m e)"
  by (auto simp: pciViaRest_def pciViaCli_def Let_def intro!: grows_rules)

lemma pci_steps [grows_rules]:
  "keeps svc_step (vmAttachPciDevice S c v p n t)" "keeps svc_step (vmDetachPciDevice S c v slot n t)"
  by (auto simp: vmAttachPciDevice_def vmDetachPciDevice_def Let_def intro!: grows_rules)

lemma bootstrap_parts_step [grows_rules]:
  "keeps svc_step (getSshPublicKey S p)" "keeps svc_step (setClusterAuth c au)"
  by (auto simp: getSshPublicKey_def setClusterAuth_def Let_def
     intro!: grows_rules split: option.split)

lemma bootstrapNodeAccess_step [grows_rules]: "keeps svc_step (bootstrapNodeAccess S c nd b)"
  by (auto simp: bootstrapNodeAccess_def bootstrapKey_def bootstrapRevoke_def installNodePublicKey_def Let_def
     intro!: grows_rules split: option.split)

end
