(* ===== verification/Artifacts.thy ===== *)
theory Artifacts
  imports Files Dates Jobs ServiceFrame
begin

text \<open>
  \<open>ArtifactManager\<close> of src/artifacts.ts: references to generated or linked content, held in memory
  or in a temporary file by size, with an expiry.  The state of the server extends that of the
  service by the local files, the artifacts and the jobs.
\<close>

section \<open>Records\<close>

text \<open>Where the bytes are; a temporary file is removed together with its artifact.\<close>

datatype artifact_store =
    InMemory buffer
  | InTempFile string
  | InLocalFile string
  | OnProxmox target_ref string

record artifact_record =
  ad_ref :: artifact_ref
  ad_store :: artifact_store

record server = host +
  sr_artifacts :: "(string, artifact_record) omap"
  sr_jobs :: job_manager

fun backing_of :: "artifact_store \<Rightarrow> artifact_backing" where
  "backing_of (InMemory b) = AbMemory"
| "backing_of (InTempFile p) = AbTempFile"
| "backing_of (InLocalFile p) = AbLocalFile"
| "backing_of (OnProxmox t p) = AbProxmoxFile"

definition inlineTextThresholdBytes :: int where
  "inlineTextThresholdBytes = 16 * 1024"

definition inlineBinaryThresholdBytes :: int where
  "inlineBinaryThresholdBytes = 64 * 1024"

definition defaultTtlMs :: int where
  "defaultTtlMs = 60 * 60 * 1000"

definition byteLength :: "buffer \<Rightarrow> int" where
  "byteLength b = int (length b)"

definition artifact_uri :: "string \<Rightarrow> string" where
  "artifact_uri artifactId = ''proxmox://artifacts/'' @ artifactId"

text \<open>\<open>new Date(n).toISOString()\<close>: instants before 1970 are outside the model.\<close>

definition iso_of :: "int \<Rightarrow> string res" where
  "iso_of n = (if 0 \<le> n \<and> n \<le> 8640000000000000 then Inr (toISOString (nat n)) else Inl ''Invalid time value'')"

definition createBaseRecord ::
    "world \<Rightarrow> string \<Rightarrow> string \<Rightarrow> int \<Rightarrow> artifact_encoding \<Rightarrow> artifact_backing \<Rightarrow> int option \<Rightarrow>
     ('b io_scheme, artifact_ref) act" where
  "createBaseRecord w kind mimeType sz encoding backing expiresInMs =
     bindA (uuidA w) (\<lambda>uuid.
     bindA (nowIsoA w) (\<lambda>createdAt.
     bindA (nowA w) (\<lambda>now.
     bindA (liftR (if expiresInMs = Some 0 then Inr None
         else rbind (iso_of (now + (case expiresInMs of Some n \<Rightarrow> n | None \<Rightarrow> defaultTtlMs))) (\<lambda>t. Inr (Some t))))
       (\<lambda>expiresAt.
     let artifactId = makeId uuid ''artifact'' in
     ret \<lparr> af_artifactId = artifactId, af_uri = artifact_uri artifactId, af_kind = kind, af_mimeType = mimeType,
           af_backing = backing, af_size = sz, af_encoding = encoding, af_createdAt = createdAt,
           af_expiresAt = expiresAt \<rparr>))))"

definition publicRef :: "artifact_record \<Rightarrow> artifact_ref" where
  "publicRef r = (ad_ref r)\<lparr>af_expiresAt := js_or_undefined (af_expiresAt (ad_ref r))\<rparr>"

section \<open>Operations\<close>

definition setArtifact :: "artifact_record \<Rightarrow> ('b server_scheme, artifact_ref) act" where
  "setArtifact r =
     seqA (modifyA (\<lambda>s. s\<lparr>sr_artifacts := AList.update (af_artifactId (ad_ref r)) r (sr_artifacts s)\<rparr>))
       (ret (publicRef r))"

definition writeTempFile :: "world \<Rightarrow> buffer \<Rightarrow> ('b host_scheme, string) act" where
  "writeTempFile w data =
     bindA (getsA (\<lambda>s. w_tempDir w (io_trace s))) (\<lambda>dir.
     seqA (mkdirA w dir)
    (seqA (writeBytesA w (dir @ ''/artifact.bin'') data) (ret (dir @ ''/artifact.bin''))))"

definition usesTempFile :: "bool \<Rightarrow> artifact_encoding \<Rightarrow> buffer \<Rightarrow> bool" where
  "usesTempFile preferTempFile encoding data \<longleftrightarrow> preferTempFile \<or>
     (if encoding = AeUtf8 then byteLength data > inlineTextThresholdBytes else byteLength data > inlineBinaryThresholdBytes)"

definition createBinaryArtifact ::
    "world \<Rightarrow> string \<Rightarrow> string \<Rightarrow> buffer \<Rightarrow> int option \<Rightarrow> bool \<Rightarrow> artifact_encoding option \<Rightarrow>
     ('b server_scheme, artifact_ref) act" where
  "createBinaryArtifact w kind mimeType data expiresInMs preferTempFile encodingOption =
     (let encoding = (case encodingOption of Some e \<Rightarrow> e | None \<Rightarrow> AeBase64);
          temp = usesTempFile preferTempFile encoding data in
      bindA (createBaseRecord w kind mimeType (byteLength data) encoding (if temp then AbTempFile else AbMemory) expiresInMs)
        (\<lambda>base.
      bindA (if temp then bindA (writeTempFile w data) (\<lambda>p. ret (InTempFile p)) else ret (InMemory data)) (\<lambda>store.
        setArtifact \<lparr>ad_ref = base, ad_store = store\<rparr>)))"

definition createTextArtifact ::
    "world \<Rightarrow> string \<Rightarrow> string \<Rightarrow> string \<Rightarrow> int option \<Rightarrow> bool \<Rightarrow> ('b server_scheme, artifact_ref) act" where
  "createTextArtifact w kind mimeType txt expiresInMs preferTempFile =
     createBinaryArtifact w kind mimeType (utf8_encode txt) expiresInMs preferTempFile (Some AeUtf8)"

definition linkLocalFile ::
    "world \<Rightarrow> string \<Rightarrow> string \<Rightarrow> string \<Rightarrow> int \<Rightarrow> int option \<Rightarrow> artifact_encoding option \<Rightarrow>
     ('b server_scheme, artifact_ref) act" where
  "linkLocalFile w kind mimeType filePath sz expiresInMs encoding =
     bindA (createBaseRecord w kind mimeType sz (case encoding of Some e \<Rightarrow> e | None \<Rightarrow> AeBase64) AbLocalFile expiresInMs)
       (\<lambda>base. setArtifact \<lparr>ad_ref = base, ad_store = InLocalFile filePath\<rparr>)"

definition linkProxmoxFile ::
    "world \<Rightarrow> string \<Rightarrow> string \<Rightarrow> target_ref \<Rightarrow> string \<Rightarrow> int option \<Rightarrow> artifact_encoding option \<Rightarrow> int option \<Rightarrow>
     ('b server_scheme, artifact_ref) act" where
  "linkProxmoxFile w kind mimeType target filePath expiresInMs encoding sz =
     bindA (createBaseRecord w kind mimeType (case sz of Some n \<Rightarrow> n | None \<Rightarrow> 0)
         (case encoding of Some e \<Rightarrow> e | None \<Rightarrow> AeBase64) AbProxmoxFile expiresInMs)
       (\<lambda>base. setArtifact \<lparr>ad_ref = base, ad_store = OnProxmox target filePath\<rparr>)"

definition artifactExpired :: "artifact_record \<Rightarrow> int \<Rightarrow> bool" where
  "artifactExpired r now \<longleftrightarrow>
     (case js_or_undefined (af_expiresAt (ad_ref r)) of
        Some t \<Rightarrow> (case dateParse t of Some n \<Rightarrow> int n \<le> now | None \<Rightarrow> False)
      | None \<Rightarrow> False)"

definition getArtifact :: "world \<Rightarrow> string \<Rightarrow> ('b server_scheme, artifact_record) act" where
  "getArtifact w artifactId =
     bindA (getsA (\<lambda>s. map_of (sr_artifacts s) artifactId)) (\<lambda>found.
     case found of
       None \<Rightarrow> raise (''Unknown artifact '' @ squoted artifactId)
     | Some r \<Rightarrow>
         bindA (nowA w) (\<lambda>now.
         if artifactExpired r now
         then seqA (modifyA (\<lambda>s. s\<lparr>sr_artifacts := AList.delete artifactId (sr_artifacts s)\<rparr>))
                (raise (''Artifact '' @ squoted artifactId @ '' has expired''))
         else ret r))"

text \<open>\<open>/^proxmox:\/\/artifacts\/([^/?#]+)$/\<close>\<close>

definition artifact_prefix :: string where
  "artifact_prefix = ''proxmox://artifacts/''"

definition uri_char :: "char \<Rightarrow> bool" where
  "uri_char c \<longleftrightarrow> c \<noteq> CHR ''/'' \<and> c \<noteq> CHR ''?'' \<and> c \<noteq> CHR 0x23"

definition resolveArtifactId :: "string option \<Rightarrow> string option \<Rightarrow> string res" where
  "resolveArtifactId artifactId resourceUri =
     (case js_or_undefined artifactId of
        Some i \<Rightarrow> Inr i
      | None \<Rightarrow>
          (case js_or_undefined resourceUri of
             Some u \<Rightarrow>
               let i = js_slice_from (length artifact_prefix) u in
               if js_startsWith u artifact_prefix \<and> i \<noteq> [] \<and> list_all uri_char i then Inr i
               else Inl (''Unsupported artifact resource URI '' @ squoted u)
           | None \<Rightarrow> Inl ''Artifact reference requires artifactId or resourceUri''))"

definition storeBytes :: "service \<Rightarrow> artifact_store \<Rightarrow> ('b server_scheme, buffer) act" where
  "storeBytes S st =
     (case st of
        InMemory b \<Rightarrow> ret b
      | InTempFile p \<Rightarrow> readBytesA (se_world S) p
      | InLocalFile p \<Rightarrow> readBytesA (se_world S) p
      | OnProxmox target p \<Rightarrow> bindA (proxmoxFileReadBytes S target p) (\<lambda>(content, source). ret content))"

definition readArtifactBuffer :: "service \<Rightarrow> string option \<Rightarrow> string option \<Rightarrow> ('b server_scheme, buffer) act" where
  "readArtifactBuffer S artifactId resourceUri =
     bindA (liftR (resolveArtifactId artifactId resourceUri)) (\<lambda>i.
     bindA (getArtifact (se_world S) i) (\<lambda>r. storeBytes S (ad_store r)))"

definition readArtifactText :: "service \<Rightarrow> string option \<Rightarrow> string option \<Rightarrow> ('b server_scheme, string) act" where
  "readArtifactText S artifactId resourceUri =
     bindA (readArtifactBuffer S artifactId resourceUri) (\<lambda>b. ret (utf8_text (se_world S) b))"

definition getPublic :: "world \<Rightarrow> string \<Rightarrow> ('b server_scheme, artifact_ref) act" where
  "getPublic w artifactId = bindA (getArtifact w artifactId) (\<lambda>r. ret (publicRef r))"

definition readResource :: "service \<Rightarrow> string \<Rightarrow> ('b server_scheme, jsval) act" where
  "readResource S artifactId =
     bindA (getArtifact (se_world S) artifactId) (\<lambda>r.
     bindA (readArtifactBuffer S (Some artifactId) None) (\<lambda>data.
     ret (JObj [(''uri'', JStr (af_uri (ad_ref r))), (''mimeType'', JStr (af_mimeType (ad_ref r))),
       (if af_encoding (ad_ref r) = AeUtf8 then (''text'', JStr (utf8_text (se_world S) data))
        else (''blob'', JStr (base64_encode data)))])))"

definition removeArtifact :: "world \<Rightarrow> string \<Rightarrow> ('b server_scheme, unit) act" where
  "removeArtifact w artifactId =
     bindA (getsA (\<lambda>s. map_of (sr_artifacts s) artifactId)) (\<lambda>found.
     case found of
       None \<Rightarrow> ret ()
     | Some r \<Rightarrow>
         seqA (modifyA (\<lambda>s. s\<lparr>sr_artifacts := AList.delete artifactId (sr_artifacts s)\<rparr>))
           (case ad_store r of InTempFile p \<Rightarrow> removeFileA w p | _ \<Rightarrow> ret ()))"

definition listArtifacts :: "int option \<Rightarrow> 'b server_scheme \<Rightarrow> artifact_ref list" where
  "listArtifacts limit s =
     map publicRef (slice_last (case limit of Some n \<Rightarrow> n | None \<Rightarrow> 200) (map snd (sr_artifacts s)))"

section \<open>What a read returns\<close>

lemma svc_step_server:
  fixes s t :: "'b server_scheme"
  assumes "svc_step s t"
  shows "ho_files t = ho_files s" "sr_artifacts t = sr_artifacts s" "sr_jobs t = sr_jobs s"
  using assms by (cases s; cases t; simp add: svc_step_def)+

definition expiry :: "int option \<Rightarrow> int \<Rightarrow> int option" where
  "expiry expiresInMs now =
     (if expiresInMs = Some 0 then None else Some (now + (case expiresInMs of Some n \<Rightarrow> n | None \<Rightarrow> defaultTtlMs)))"

definition newId :: "world \<Rightarrow> 'b io_scheme \<Rightarrow> string" where
  "newId w s = makeId (w_uuid w (io_trace s)) ''artifact''"

lemma dateParse_iso_of: "iso_of n = Inr t \<Longrightarrow> t \<noteq> [] \<and> dateParse t = Some (nat n) \<and> 0 \<le> n"
proof -
  assume t: "iso_of n = Inr t"
  then have "dateParse t = Some (nat n)" "0 \<le> n"
    using iso_date_roundtrip[of "nat n"] by (auto simp: iso_of_def split: if_splits)
  moreover have "dateParse [] = None" by (simp add: dateParse_def)
  ultimately show ?thesis by auto
qed

lemma createBaseRecord_Inr:
  assumes "createBaseRecord w kind mime sz enc backing ttl s = (Inr r, u)"
  shows "u = s \<and> af_artifactId r = newId w s \<and> af_uri r = artifact_uri (newId w s) \<and> af_backing r = backing \<and>
    af_size r = sz \<and> af_encoding r = enc \<and> af_kind r = kind \<and> af_mimeType r = mime \<and>
    (\<forall>st now. artifactExpired \<lparr>ad_ref = r, ad_store = st\<rparr> now =
      (case expiry ttl (w_now w (io_trace s)) of Some e \<Rightarrow> e \<le> now | None \<Rightarrow> False))"
proof (cases "ttl = Some 0")
  case True
  then show ?thesis
    using assms by (auto simp: createBaseRecord_def Let_def uuidA_def nowIsoA_def nowA_def newId_def expiry_def
        artifactExpired_def js_or_undefined_def)
next
  case False
  let ?e = "w_now w (io_trace s) + (case ttl of Some n \<Rightarrow> n | None \<Rightarrow> defaultTtlMs)"
  obtain t where "iso_of ?e = Inr t"
    using assms False by (cases "iso_of ?e") (auto simp: createBaseRecord_def uuidA_def nowIsoA_def nowA_def)
  then show ?thesis
    using assms False dateParse_iso_of[of ?e t]
    by (auto simp: createBaseRecord_def Let_def uuidA_def nowIsoA_def nowA_def newId_def expiry_def artifactExpired_def
        js_or_undefined_def)
qed

lemma setArtifact_apply:
  "setArtifact r s = (Inr (publicRef r), s\<lparr>sr_artifacts := AList.update (af_artifactId (ad_ref r)) r (sr_artifacts s)\<rparr>)"
  by (simp add: setArtifact_def)

lemma publicRef_simps [simp]:
  "af_artifactId (publicRef r) = af_artifactId (ad_ref r)" "af_uri (publicRef r) = af_uri (ad_ref r)"
  "af_backing (publicRef r) = af_backing (ad_ref r)" "af_size (publicRef r) = af_size (ad_ref r)"
  "af_encoding (publicRef r) = af_encoding (ad_ref r)"
  by (simp_all add: publicRef_def)

text \<open>What a successful creation leaves behind.\<close>

lemma createBinaryArtifact_Inr:
  assumes "createBinaryArtifact w kind mime data ttl prefer enc s = (Inr ref, u)"
  obtains r where "ref = publicRef r" "map_of (sr_artifacts u) (newId w s) = Some r"
    "sr_artifacts u = AList.update (newId w s) r (sr_artifacts s)"
    "af_artifactId (ad_ref r) = newId w s" "af_uri (ad_ref r) = artifact_uri (newId w s)"
    "af_backing (ad_ref r) = backing_of (ad_store r)" "af_size (ad_ref r) = byteLength data"
    "af_encoding (ad_ref r) = (case enc of Some e \<Rightarrow> e | None \<Rightarrow> AeBase64)"
    "ad_store r = InMemory data \<and> \<not> usesTempFile prefer (af_encoding (ad_ref r)) data \<or>
     (\<exists>path. ad_store r = InTempFile path \<and> map_of (ho_files u) path = Some data)"
    "\<And>now. artifactExpired r now = (case expiry ttl (w_now w (io_trace s)) of Some e \<Rightarrow> e \<le> now | None \<Rightarrow> False)"
proof -
  let ?enc = "case enc of Some e \<Rightarrow> e | None \<Rightarrow> AeBase64"
  let ?temp = "usesTempFile prefer ?enc data"
  obtain base s0 where base0: "createBaseRecord w kind mime (byteLength data) ?enc (if ?temp then AbTempFile else AbMemory) ttl s
      = (Inr base, s0)"
    using assms by (auto simp: createBinaryArtifact_def Let_def bindA_apply split: prod.splits sum.splits)
  note B = createBaseRecord_Inr[OF base0]
  then have base: "createBaseRecord w kind mime (byteLength data) ?enc (if ?temp then AbTempFile else AbMemory) ttl s
      = (Inr base, s)" using base0 by simp
  show thesis
  proof (cases ?temp)
    case False
    then show thesis
      using assms base B by (intro that[of "\<lparr>ad_ref = base, ad_store = InMemory data\<rparr>"])
        (auto simp: createBinaryArtifact_def Let_def bindA_apply setArtifact_apply)
  next
    case True
    then obtain path t where path: "writeTempFile w data s = (Inr path, t)"
      and u: "ref = publicRef \<lparr>ad_ref = base, ad_store = InTempFile path\<rparr>"
        "u = t\<lparr>sr_artifacts := AList.update (af_artifactId base) \<lparr>ad_ref = base, ad_store = InTempFile path\<rparr> (sr_artifacts t)\<rparr>"
      using assms base
      by (auto simp: createBinaryArtifact_def Let_def bindA_apply setArtifact_apply split: prod.splits sum.splits)
    have "map_of (ho_files t) path = Some data" "sr_artifacts t = sr_artifacts s"
      using path by (auto simp: writeTempFile_def seqA_def bindA_apply writeBytesA_def mkdirA_def diskA_apply
          split: option.splits)
    then show thesis
      using B u True by (intro that[of "\<lparr>ad_ref = base, ad_store = InTempFile path\<rparr>"]) auto
  qed
qed

text \<open>
  C21. An artifact reads back as what it was created from: on a disk that works, as long as its record
  and the files are kept, a later read by its id yields exactly the bytes given, wherever they were
  stored, until the artifact expires; from then on the read is refused and the record is dropped.
\<close>

theorem artifact_reads_back:
  assumes "createBinaryArtifact (se_world S) kind mime data ttl prefer enc s = (Inr ref, u)"
    and "disk_works (se_world S)" "ho_files t = ho_files u" "sr_artifacts t = sr_artifacts u"
  shows "(let r = readArtifactBuffer S (Some (af_artifactId ref)) None t in
    case expiry ttl (w_now (se_world S) (io_trace s)) of
      None \<Rightarrow> fst r = Inr data
    | Some e \<Rightarrow>
        if w_now (se_world S) (io_trace t) < e then fst r = Inr data
        else fst r = Inl (''Artifact '' @ squoted (af_artifactId ref) @ '' has expired'') \<and>
          map_of (sr_artifacts (snd r)) (af_artifactId ref) = None)"
proof -
  obtain r where r: "ref = publicRef r" "map_of (sr_artifacts u) (newId (se_world S) s) = Some r"
    "af_artifactId (ad_ref r) = newId (se_world S) s"
    "ad_store r = InMemory data \<or> (\<exists>path. ad_store r = InTempFile path \<and> map_of (ho_files u) path = Some data)"
    "\<And>now. artifactExpired r now = (case expiry ttl (w_now (se_world S) (io_trace s)) of Some e \<Rightarrow> e \<le> now | None \<Rightarrow> False)"
    using createBinaryArtifact_Inr[OF assms(1)] by metis
  have "newId (se_world S) s \<noteq> []" by (simp add: newId_def makeId_def)
  moreover have "fst (storeBytes S (ad_store r) t) = Inr data"
    using r(4) assms(3) by (auto simp: storeBytes_def working_disk(3)[OF assms(2)])
  ultimately show ?thesis
    using r assms(4)
    by (cases "expiry ttl (w_now (se_world S) (io_trace s))")
      (auto simp: readArtifactBuffer_def resolveArtifactId_def js_or_undefined_def getArtifact_def nowA_def
        bindA_apply seqA_def)
qed

section \<open>Consistency of the registry\<close>

definition artifact_ok :: "string \<Rightarrow> artifact_record \<Rightarrow> bool" where
  "artifact_ok i r \<longleftrightarrow>
     af_artifactId (ad_ref r) = i \<and> af_uri (ad_ref r) = artifact_uri i \<and>
     resolveArtifactId None (Some (af_uri (ad_ref r))) = Inr i \<and> af_backing (ad_ref r) = backing_of (ad_store r) \<and>
     (\<forall>b. ad_store r = InMemory b \<longrightarrow> af_size (ad_ref r) = byteLength b \<and>
        byteLength b \<le> (if af_encoding (ad_ref r) = AeUtf8 then 16 * 1024 else 64 * 1024))"

definition artifacts_ok :: "'b server_scheme \<Rightarrow> bool" where
  "artifacts_ok s \<longleftrightarrow> distinct (map fst (sr_artifacts s)) \<and> (\<forall>i r. map_of (sr_artifacts s) i = Some r \<longrightarrow> artifact_ok i r)"

definition keeps_artifacts :: "'b server_scheme \<Rightarrow> 'b server_scheme \<Rightarrow> bool" where
  "keeps_artifacts s t \<longleftrightarrow> (artifacts_ok s \<longrightarrow> artifacts_ok t)"

interpretation arts: preorder_rel keeps_artifacts
  by unfold_locales (auto simp: keeps_artifacts_def)

named_theorems arts_rules "actions that keep the artifacts consistent"

lemma artifacts_kept: "keeps keeps_artifacts m \<Longrightarrow> artifacts_ok s \<Longrightarrow> artifacts_ok (snd (m s))"
  by (simp add: keeps_def keeps_artifacts_def)

lemma keeps_arts_step: "keeps svc_step m \<Longrightarrow> keeps keeps_artifacts m"
  unfolding keeps_def keeps_artifacts_def artifacts_ok_def using svc_step_server(2) by metis

lemma keeps_arts_disk [arts_rules]: "keeps keeps_artifacts (diskA w e f)"
  by (simp add: keeps_def keeps_artifacts_def artifacts_ok_def diskA_apply split: option.split)

lemma keeps_arts_drop [arts_rules]:
  "keeps keeps_artifacts (modifyA (\<lambda>s. s\<lparr>sr_artifacts := AList.delete i (sr_artifacts s)\<rparr>))"
  by (auto simp: keeps_def keeps_artifacts_def artifacts_ok_def distinct_delete)

lemma artifacts_ok_update:
  assumes "artifacts_ok s" "artifact_ok i r" "sr_artifacts u = AList.update i r (sr_artifacts s)"
  shows "artifacts_ok u"
  unfolding artifacts_ok_def assms(3)
proof (intro conjI allI impI)
  show "distinct (map fst (AList.update i r (sr_artifacts s)))"
    using assms(1) by (simp add: artifacts_ok_def distinct_update)
  show "artifact_ok k q" if "map_of (AList.update i r (sr_artifacts s)) k = Some q" for k q
    using that assms(1,2) by (cases "k = i") (simp_all add: artifacts_ok_def del: map_of_eq_Some_iff)
qed

lemmas [arts_rules] = arts.keeps_intros

lemma artifact_uri_resolves:
  "list_all uri_char (w_uuid w (io_trace s)) \<Longrightarrow> resolveArtifactId None (Some (artifact_uri (newId w s))) = Inr (newId w s)"
  by (simp add: resolveArtifactId_def js_or_undefined_def artifact_uri_def artifact_prefix_def js_slice_from_def
      newId_def makeId_def uri_char_def)

definition uuids_ok :: "world \<Rightarrow> bool" where
  "uuids_ok w \<longleftrightarrow> (\<forall>tr. list_all uri_char (w_uuid w tr))"

lemma createBinaryArtifact_keeps:
  assumes "uuids_ok w"
  shows "keeps keeps_artifacts (createBinaryArtifact w kind mime data ttl prefer enc)"
proof -
  have "artifacts_ok u" if ok: "artifacts_ok s" and run: "createBinaryArtifact w kind mime data ttl prefer enc s = (r, u)" for s r u
  proof (cases r)
    case (Inl e)
    have "sr_artifacts u = sr_artifacts s"
      using run Inl
      by (auto simp: createBinaryArtifact_def Let_def bindA_apply setArtifact_apply createBaseRecord_def uuidA_def
          nowIsoA_def nowA_def bindA_liftR_apply writeTempFile_def seqA_def writeBytesA_def mkdirA_def diskA_apply
          split: prod.splits sum.splits if_splits option.splits)
    then show ?thesis using ok by (simp add: artifacts_ok_def)
  next
    case (Inr ref)
    note run = run[unfolded Inr]
    obtain a where a: "sr_artifacts u = AList.update (newId w s) a (sr_artifacts s)"
      "af_artifactId (ad_ref a) = newId w s" "af_uri (ad_ref a) = artifact_uri (newId w s)"
      "af_backing (ad_ref a) = backing_of (ad_store a)" "af_size (ad_ref a) = byteLength data"
      "ad_store a = InMemory data \<and> \<not> usesTempFile prefer (af_encoding (ad_ref a)) data \<or> (\<exists>path. ad_store a = InTempFile path)"
      using createBinaryArtifact_Inr[OF run] by metis
    have "artifact_ok (newId w s) a"
      using a assms artifact_uri_resolves[of w s]
      by (auto simp: artifact_ok_def uuids_ok_def usesTempFile_def inlineTextThresholdBytes_def inlineBinaryThresholdBytes_def
          split: if_splits)
    then show ?thesis using ok a(1) artifacts_ok_update by blast
  qed
  then show ?thesis by (metis keeps_def keeps_artifacts_def prod.collapse)
qed

lemma link_keeps:
  assumes "uuids_ok w" "\<And>b. st \<noteq> InMemory b"
  shows "keeps keeps_artifacts (bindA (createBaseRecord w kind mime sz enc (backing_of st) ttl)
    (\<lambda>base. setArtifact \<lparr>ad_ref = base, ad_store = st\<rparr>))"
proof -
  have "artifacts_ok u" if ok: "artifacts_ok s"
    and run: "bindA (createBaseRecord w kind mime sz enc (backing_of st) ttl)
      (\<lambda>base. setArtifact \<lparr>ad_ref = base, ad_store = st\<rparr>) s = (r, u)" for s r u
  proof (cases "createBaseRecord w kind mime sz enc (backing_of st) ttl s")
    case (Pair b t)
    show ?thesis
    proof (cases b)
      case (Inl e)
      have "t = s" using Pair Inl
        by (auto simp: createBaseRecord_def Let_def uuidA_def nowIsoA_def nowA_def bindA_liftR_apply split: sum.splits if_splits)
      then show ?thesis using run ok Pair Inl by (simp add: bindA_apply)
    next
      case (Inr base)
      note B = createBaseRecord_Inr[OF Pair[unfolded Inr]]
      then have "artifact_ok (newId w s) \<lparr>ad_ref = base, ad_store = st\<rparr>"
        using assms artifact_uri_resolves[of w s] by (auto simp: artifact_ok_def uuids_ok_def)
      then show ?thesis
        using run B Pair Inr by (intro artifacts_ok_update[OF ok]) (auto simp: bindA_apply setArtifact_apply)
    qed
  qed
  then show ?thesis by (metis keeps_def keeps_artifacts_def prod.collapse)
qed

lemma getArtifact_keeps [arts_rules]: "keeps keeps_artifacts (getArtifact w i)"
  by (auto simp: getArtifact_def nowA_def intro!: arts_rules split: option.split)

lemma fileRead_keeps [arts_rules]: "keeps keeps_artifacts (proxmoxFileReadBytes S target path)"
  by (intro keeps_arts_step grows_rules)

lemma storeBytes_keeps [arts_rules]: "keeps keeps_artifacts (storeBytes S st)"
  by (cases st) (auto simp: storeBytes_def readBytesA_def intro!: arts_rules)

lemma readArtifactBuffer_keeps [arts_rules]: "keeps keeps_artifacts (readArtifactBuffer S i uri)"
  by (auto simp: readArtifactBuffer_def intro!: arts_rules)

text \<open>
  The registry stays consistent under every operation of the manager: each record sits under its
  own id and its resource URI resolves to that id, its backing is the one its content has, its size
  is the number of its bytes, and what is held in memory stays within the inline limits of 16 KiB for
  text and 64 KiB for binary data.
\<close>

lemma artifact_registry_consistent:
  assumes "artifacts_ok s" "uuids_ok (se_world S)"
  shows "artifacts_ok (snd (createBinaryArtifact (se_world S) kind mime data ttl prefer enc s)) \<and>
    artifacts_ok (snd (createTextArtifact (se_world S) kind mime txt ttl prefer s)) \<and>
    artifacts_ok (snd (linkLocalFile (se_world S) kind mime path sz ttl enc s)) \<and>
    artifacts_ok (snd (linkProxmoxFile (se_world S) kind mime target path ttl enc szo s)) \<and>
    artifacts_ok (snd (getPublic (se_world S) i s)) \<and> artifacts_ok (snd (readResource S i s)) \<and>
    artifacts_ok (snd (readArtifactText S io uri s)) \<and> artifacts_ok (snd (removeArtifact (se_world S) i s))"
proof -
  note kept = artifacts_kept[OF _ assms(1)] and bin = createBinaryArtifact_keeps[OF assms(2)]
  have "keeps keeps_artifacts (linkLocalFile (se_world S) kind mime path sz ttl enc)"
    "keeps keeps_artifacts (linkProxmoxFile (se_world S) kind mime target path ttl enc szo)"
    using link_keeps[OF assms(2), of "InLocalFile path"] link_keeps[OF assms(2), of "OnProxmox target path"]
    by (simp_all add: linkLocalFile_def linkProxmoxFile_def)
  moreover have "keeps keeps_artifacts (getPublic (se_world S) i)" "keeps keeps_artifacts (readResource S i)"
    "keeps keeps_artifacts (readArtifactText S io uri)"
    by (auto simp: getPublic_def readResource_def readArtifactText_def intro!: arts_rules)
  moreover have "keeps keeps_artifacts (removeArtifact (se_world S) i)"
    by (auto simp: removeArtifact_def removeFileA_def intro!: arts_rules split: option.split artifact_store.split)
  ultimately show ?thesis by (intro conjI kept) (simp_all add: createTextArtifact_def bin)
qed

text \<open>A server with an empty registry and a small artifact.\<close>

definition sample_server_state :: server where
  "sample_server_state = svc.extend sample_svc \<lparr>ho_files = [], sr_artifacts = [], sr_jobs = no_jobs\<rparr>"

definition sample_service :: service where
  "sample_service = \<lparr>se_world = sample_world, se_auth = False, se_catalog = [], se_auditLogPath = ''a''\<rparr>"

lemma sample_artifact:
  "\<exists>u. createBinaryArtifact sample_world ''file'' ''text/plain'' ''hi'' None False None sample_server_state = (Inr
      \<lparr> af_artifactId = ''artifact_u'', af_uri = ''proxmox://artifacts/artifact_u'', af_kind = ''file'',
        af_mimeType = ''text/plain'', af_backing = AbMemory, af_size = 2, af_encoding = AeBase64,
        af_createdAt = ''1970-01-01T00:00:00.000Z'', af_expiresAt = Some (toISOString 3600000) \<rparr>, u)"
  by (simp add: createBinaryArtifact_def Let_def usesTempFile_def byteLength_def inlineBinaryThresholdBytes_def
      createBaseRecord_def bindA_apply uuidA_def nowIsoA_def nowA_def sample_world_def iso_of_def defaultTtlMs_def
      setArtifact_apply publicRef_def js_or_undefined_def makeId_def artifact_uri_def toISOString_def split: prod.split)

theorem artifact_reads_back_witness:
  "\<exists>u :: server. fst (readArtifactBuffer sample_service (Some ''artifact_u'') None u) = Inr ''hi''"
proof -
  obtain ref u where u: "createBinaryArtifact sample_world ''file'' ''text/plain'' ''hi'' None False None sample_server_state
      = (Inr ref, u)" "af_artifactId ref = ''artifact_u''" using sample_artifact by fastforce
  have w: "se_world sample_service = sample_world" "disk_works sample_world"
    "\<And>tr. w_now sample_world tr = 0" by (simp_all add: sample_service_def disk_works_def sample_world_def)
  have "fst (readArtifactBuffer sample_service (Some ''artifact_u'') None u) = Inr ''hi''"
    using artifact_reads_back[where S = sample_service, unfolded w(1), OF u(1) w(2) HOL.refl HOL.refl]
    by (simp add: Let_def expiry_def defaultTtlMs_def w u(2))
  then show ?thesis by blast
qed

lemma artifact_registry_consistent_witness:
  "artifacts_ok (snd (removeArtifact sample_world ''artifact_u'' sample_server_state))"
proof -
  have "artifacts_ok sample_server_state"
    by (simp add: artifacts_ok_def sample_server_state_def svc.extend_def)
  moreover have "uuids_ok (se_world sample_service)"
    by (simp add: uuids_ok_def sample_service_def sample_world_def uri_char_def)
  ultimately show ?thesis using artifact_registry_consistent by (fastforce simp: sample_service_def)
qed

end
