(* ===== verification/McpCommon.thy ===== *)
theory McpCommon
  imports BootDiagnosis Artifacts
begin

text \<open>
  Tool answers and the job side of every tool, of src/mcp-common.ts: the MCP result with its text and
  its structured content, the choice between inline text and an artifact, the handle and the final
  shape of a background job, and the wait modes.  A handler runs its job to the end before the next
  call is served; which answer the client gets is decided as in the source: at once when the call is
  deferred, and by the race of the job against the timer in the automatic mode.
\<close>

section \<open>Objects of the answers\<close>

fun encoding_str :: "artifact_encoding \<Rightarrow> string" where
  "encoding_str AeUtf8 = ''utf8''"
| "encoding_str AeBase64 = ''base64''"

fun backing_str :: "artifact_backing \<Rightarrow> string" where
  "backing_str AbMemory = ''memory''"
| "backing_str AbTempFile = ''temp_file''"
| "backing_str AbProxmoxFile = ''proxmox_file''"
| "backing_str AbLocalFile = ''local_file''"

fun state_str :: "job_state \<Rightarrow> string" where
  "state_str JsPending = ''pending''"
| "state_str JsRunning = ''running''"
| "state_str JsCompleted = ''completed''"
| "state_str JsFailed = ''failed''"
| "state_str JsCancelled = ''cancelled''"

definition artifact_json :: "artifact_ref \<Rightarrow> jsval" where
  "artifact_json a = JObj ([(''artifactId'', JStr (af_artifactId a)), (''uri'', JStr (af_uri a)),
     (''kind'', JStr (af_kind a)), (''mimeType'', JStr (af_mimeType a)),
     (''backing'', JStr (backing_str (af_backing a))), (''size'', JNum (af_size a)),
     (''encoding'', JStr (encoding_str (af_encoding a))), (''createdAt'', JStr (af_createdAt a))] @
     truthy_field ''expiresAt'' (af_expiresAt a))"

definition command_json :: "command_result \<Rightarrow> jsval" where
  "command_json r = JObj [(''stdout'', JStr (cr_stdout r)), (''stderr'', JStr (cr_stderr r)),
     (''exitCode'', JNum (cr_exitCode r)), (''signal'', of_str_opt (cr_signal r))]"

definition source_json :: "file_source \<Rightarrow> jsval" where
  "source_json src = JStr (case src of FsSsh \<Rightarrow> ''ssh'' | FsPct \<Rightarrow> ''pct'' | FsGuestAgent \<Rightarrow> ''guest_agent'')"

definition task_json :: "jsval \<times> jsval \<Rightarrow> jsval" where
  "task_json = (\<lambda>(status, log). JObj [(''status'', status), (''log'', log)])"

section \<open>Tool results\<close>

record tool_result =
  tr_text :: string
  tr_structured :: "(string \<times> jsval) list"
  tr_isError :: bool

text \<open>Arrays and scalars are wrapped, so that the structured content is always an object.\<close>

definition base_content :: "jsval \<Rightarrow> (string \<times> jsval) list" where
  "base_content v = (case v of JObj ps \<Rightarrow> ps | _ \<Rightarrow> [(''data'', v)])"

definition textResult :: "string \<Rightarrow> jsval \<Rightarrow> bool \<Rightarrow> artifact_ref list \<Rightarrow> tool_result" where
  "textResult title v isError artifacts =
     (let structured = (if artifacts \<noteq> []
            then AList.update ''artifacts'' (JArr (map artifact_json artifacts)) (base_content v)
            else base_content v)
      in \<lparr> tr_text = title @ [CHR 0x0A, CHR 0x0A] @ safeJson (JObj structured),
           tr_structured = structured, tr_isError = isError \<rparr>)"

abbreviation plainResult :: "string \<Rightarrow> jsval \<Rightarrow> tool_result" where
  "plainResult title v \<equiv> textResult title v False []"

section \<open>Text or binary\<close>

text \<open>
  \<open>toString("utf8")\<close> replaces malformed bytes by U+FFFD, so a buffer has none exactly when its bytes
  are well-formed UTF-8 without an encoded U+FFFD.
\<close>

definition cont_byte :: "nat \<Rightarrow> bool" where
  "cont_byte b \<longleftrightarrow> 128 \<le> b \<and> b < 192"

text \<open>The range of the second byte of a three and of a four byte sequence.\<close>

definition second3 :: "nat \<Rightarrow> nat \<Rightarrow> bool" where
  "second3 a b \<longleftrightarrow> (if a = 0xE0 then 160 \<le> b \<and> b < 192 else if a = 0xED then 128 \<le> b \<and> b < 160 else cont_byte b)"

definition second4 :: "nat \<Rightarrow> nat \<Rightarrow> bool" where
  "second4 a b \<longleftrightarrow> (if a = 0xF0 then 144 \<le> b \<and> b < 192 else if a = 0xF4 then 128 \<le> b \<and> b < 144 else cont_byte b)"

fun text_bytes :: "nat list \<Rightarrow> bool" where
  "text_bytes [] = True"
| "text_bytes (a # bs) =
     (if a < 128 then text_bytes bs
      else if 0xC2 \<le> a \<and> a < 0xE0 then
        (case bs of b # r \<Rightarrow> cont_byte b \<and> text_bytes r | _ \<Rightarrow> False)
      else if 0xE0 \<le> a \<and> a < 0xF0 then
        (case bs of b # c # r \<Rightarrow> second3 a b \<and> cont_byte c \<and> [a, b, c] \<noteq> [0xEF, 0xBF, 0xBD] \<and> text_bytes r | _ \<Rightarrow> False)
      else if 0xF0 \<le> a \<and> a < 0xF5 then
        (case bs of b # c # d # r \<Rightarrow> second4 a b \<and> cont_byte c \<and> cont_byte d \<and> text_bytes r | _ \<Rightarrow> False)
      else False)"

definition isProbablyTextBuffer :: "buffer \<Rightarrow> bool" where
  "isProbablyTextBuffer b = text_bytes (map code b)"

definition inline_limit :: int where
  "inline_limit = 16384"

text \<open>
  The text branch re-encodes the decoded text, which gives back the bytes of a well-formed buffer.
\<close>

definition artifactResult ::
    "service \<Rightarrow> string \<Rightarrow> string \<Rightarrow> string \<Rightarrow> buffer \<Rightarrow> (string \<times> jsval) list \<Rightarrow> bool \<Rightarrow> bool \<Rightarrow>
     ('b server_scheme, tool_result) act" where
  "artifactResult S title kind mimeType b summary_fields isError preferTempFile =
     (let w = se_world S in
      if isProbablyTextBuffer b \<and> byteLength b \<le> inline_limit
      then ret (textResult title (JObj (AList.update ''content'' (JStr (utf8_text w b)) summary_fields)) isError [])
      else bindA (createBinaryArtifact w kind mimeType b None preferTempFile
            (Some (if isProbablyTextBuffer b then AeUtf8 else AeBase64))) (\<lambda>a.
        ret (textResult title (JObj summary_fields) isError [a])))"

section \<open>Job answers\<close>

definition job_fields :: "server_job \<Rightarrow> (string \<times> jsval) list" where
  "job_fields j =
     [(''jobId'', JStr (sj_jobId j)), (''state'', JStr (state_str (sj_state j))),
      (''operation'', JStr (sj_operation j)), (''target'', target_object (sj_target j)),
      (''relatedUpid'', of_str_opt (sj_relatedUpid j)),
      (''durability'', JStr (if js_truthy (sj_relatedUpid j) then ''proxmox_upid'' else ''process_local''))]"

definition jobHandleResult :: "server_job \<Rightarrow> string \<Rightarrow> tool_result" where
  "jobHandleResult j note = plainResult note (JObj (job_fields j))"

definition completedJobResult :: "server_job \<Rightarrow> string \<Rightarrow> tool_result" where
  "completedJobResult j note =
     (let artifacts = (case sj_artifacts j of Some as \<Rightarrow> as | None \<Rightarrow> []) in
      textResult note
        (JObj (job_fields j @
          [(''result'', sj_result j), (''error'', of_str_opt (sj_error j)),
           (''logs'', JArr (map JStr (slice_last 200 (sj_logs j))))] @
          (if artifacts \<noteq> [] then [(''artifacts'', JArr (map artifact_json artifacts))] else [])))
        (sj_state j = JsFailed \<or> sj_state j = JsCancelled) artifacts)"

end
