(* ===== verification/JobsMachine.thy ===== *)
theory JobsMachine
  imports Jobs
begin

text \<open>
  The job registry as a state machine: executors, context callbacks and cancellations interleave in
  any order, and the tools create a job and run it in one synchronous step under an id that is not
  in use (a random one, or that of a new Proxmox task).
\<close>

inductive job_step :: "job_manager \<Rightarrow> job_manager \<Rightarrow> bool" where
  start: "createJob now uuid target operation jobIdOption upid m = (job, m1) \<Longrightarrow>
    findJob m (sj_jobId job) = None \<Longrightarrow> startRun now' (sj_jobId job) m1 = Inr (c, m') \<Longrightarrow> job_step m m'"
| call: "c < length (jm_runs m) \<Longrightarrow> contextCall now (rn_jobId (jm_runs m ! c)) jc m = Inr m' \<Longrightarrow> job_step m m'"
| returned: "c < length (jm_runs m) \<Longrightarrow> \<not> rn_settled (jm_runs m ! c) \<Longrightarrow>
    runReturned now c result m = Inr m' \<Longrightarrow> job_step m m'"
| threw: "c < length (jm_runs m) \<Longrightarrow> \<not> rn_settled (jm_runs m ! c) \<Longrightarrow>
    runThrew now c message result m = Inr m' \<Longrightarrow> job_step m m'"
| cancel: "job_step m (cancelJob jobId m)"

inductive job_reach :: "job_manager \<Rightarrow> bool" where
  init: "job_reach no_jobs"
| step: "job_reach m \<Longrightarrow> job_step m m' \<Longrightarrow> job_reach m'"

section \<open>The invariant\<close>

text \<open>A live run owns a running job and its controller; a settled one left a terminal job behind.\<close>

definition settled_ok :: "job_run \<Rightarrow> server_job \<Rightarrow> bool" where
  "settled_ok r j \<longleftrightarrow>
     terminal (sj_state j) \<and> (sj_state j = JsCancelled \<longrightarrow> rn_aborted r) \<and>
     (if sj_state j = JsCompleted then sj_error j = None \<and> sj_resultRef j \<noteq> None else sj_error j \<noteq> None)"

definition run_fits :: "job_run \<Rightarrow> nat \<Rightarrow> server_job option \<Rightarrow> nat option \<Rightarrow> nat option \<Rightarrow> bool" where
  "run_fits r c job completion controller \<longleftrightarrow> completion = Some c \<and> (\<exists>j. job = Some j \<and>
     (if rn_settled r then settled_ok r j \<and> controller = None
      else sj_state j = JsRunning \<and> sj_error j = None \<and> controller = Some c))"

definition run_ok :: "job_manager \<Rightarrow> nat \<Rightarrow> bool" where
  "run_ok m c \<longleftrightarrow> (let i = rn_jobId (jm_runs m ! c) in
     run_fits (jm_runs m ! c) c (findJob m i) (map_of (jm_completions m) i) (map_of (jm_controllers m) i))"

definition job_inv :: "job_manager \<Rightarrow> bool" where
  "job_inv m \<longleftrightarrow>
     distinct (map rn_jobId (jm_runs m)) \<and> (\<forall>c < length (jm_runs m). run_ok m c) \<and>
     (\<forall>i. findJob m i \<noteq> None \<longrightarrow> i \<in> rn_jobId ` set (jm_runs m)) \<and>
     (\<forall>i c. map_of (jm_controllers m) i = Some c \<longrightarrow> c < length (jm_runs m) \<and> rn_jobId (jm_runs m ! c) = i)"

lemma job_inv_index:
  "job_inv m \<Longrightarrow> c < length (jm_runs m) \<Longrightarrow> d < length (jm_runs m) \<Longrightarrow>
     (rn_jobId (jm_runs m ! c) = rn_jobId (jm_runs m ! d)) = (c = d)"
  using nth_eq_iff_index_eq[of "map rn_jobId (jm_runs m)" c d] by (auto simp: job_inv_def)

lemma updateJob_Inr:
  "updateJob i f m = Inr m' \<longleftrightarrow>
     (\<exists>j. findJob m i = Some j \<and> m' = m\<lparr>jm_jobs := AList.update i (f j) (jm_jobs m)\<rparr>)"
  by (auto simp: updateJob_def getJob_def res_simps split: option.splits)

lemma findJob_update:
  "findJob (m\<lparr>jm_jobs := AList.update i j (jm_jobs m)\<rparr>) k = (if k = i then Some j else findJob m k)"
  by (simp add: findJob_def map_of_update)

lemma findJob_runs [simp]:
  "findJob (m\<lparr>jm_controllers := x\<rparr>) = findJob m" "findJob (m\<lparr>jm_completions := y\<rparr>) = findJob m"
  "findJob (m\<lparr>jm_runs := z\<rparr>) = findJob m" "findJob (settleRun c m) = findJob m"
  by (simp_all add: findJob_def settleRun_def fun_eq_iff)

text \<open>Replacing the record of one job only matters for the run that owns it.\<close>

lemma job_inv_update:
  assumes inv: "job_inv m" and c: "c < length (jm_runs m)"
    and own: "if rn_settled (jm_runs m ! c) then settled_ok (jm_runs m ! c) j
              else sj_state j = JsRunning \<and> sj_error j = None"
  shows "job_inv (m\<lparr>jm_jobs := AList.update (rn_jobId (jm_runs m ! c)) j (jm_jobs m)\<rparr>)"
proof -
  have "run_ok (m\<lparr>jm_jobs := AList.update (rn_jobId (jm_runs m ! c)) j (jm_jobs m)\<rparr>) d"
    if "d < length (jm_runs m)" for d
  proof (cases "d = c")
    case True
    then show ?thesis using inv c own
      by (auto simp: job_inv_def run_ok_def run_fits_def Let_def findJob_update split: if_splits)
  next
    case False
    then show ?thesis
      using inv that job_inv_index[OF inv that c] by (simp add: job_inv_def run_ok_def Let_def findJob_update)
  qed
  then show ?thesis using inv c by (auto simp: job_inv_def findJob_update)
qed

lemma job_inv_settle:
  assumes inv: "job_inv m" and c: "c < length (jm_runs m)" and live: "\<not> rn_settled (jm_runs m ! c)"
    and ok: "settled_ok (jm_runs m ! c) j"
  shows "job_inv (settleRun c (m\<lparr>jm_jobs := AList.update (rn_jobId (jm_runs m ! c)) j (jm_jobs m)\<rparr>))"
    (is "job_inv ?m")
proof -
  have ids: "map rn_jobId (jm_runs ?m) = map rn_jobId (jm_runs m)"
    using c by (auto simp: settleRun_def list_eq_iff_nth_eq nth_list_update)
  have "run_ok ?m d" if d: "d < length (jm_runs m)" for d
  proof (cases "d = c")
    case True
    then show ?thesis using inv c ok
      by (auto simp: job_inv_def run_ok_def run_fits_def Let_def findJob_update settleRun_def settled_ok_def findJob_def)
  next
    case False
    then have "rn_jobId (jm_runs m ! d) \<noteq> rn_jobId (jm_runs m ! c)"
      using job_inv_index[OF inv d c] by simp
    moreover have "jm_runs ?m ! d = jm_runs m ! d" using False by (simp add: settleRun_def)
    moreover have "run_ok m d" using inv d by (simp add: job_inv_def)
    ultimately show ?thesis
      by (simp add: run_ok_def Let_def settleRun_def findJob_def map_of_update)
  qed
  moreover have "jm_controllers ?m = AList.delete (rn_jobId (jm_runs m ! c)) (jm_controllers m)"
    by (simp add: settleRun_def)
  moreover have "rn_jobId (jm_runs ?m ! d) = rn_jobId (jm_runs m ! d)" if "d < length (jm_runs m)" for d
    using arg_cong[OF ids, of "\<lambda>xs. xs ! d"] that by (simp add: settleRun_def)
  moreover have "length (jm_runs ?m) = length (jm_runs m)" by (simp add: settleRun_def)
  moreover have "rn_jobId ` set (jm_runs ?m) = rn_jobId ` set (jm_runs m)"
    using arg_cong[OF ids, of set] by simp
  ultimately show ?thesis
    using inv c ids by (auto simp: job_inv_def findJob_update map_of_delete split: if_splits)
qed

lemma createJob_found:
  "createJob now uuid t oa jo upid m = (job, m1) \<Longrightarrow>
     m1 = m\<lparr>jm_jobs := AList.update (sj_jobId job) job (jm_jobs m)\<rparr> \<and> sj_error job = None"
  by (auto simp: createJob_def Let_def newJob_def)

lemma job_inv_start:
  assumes inv: "job_inv m" and new: "findJob m i = None" and job: "sj_state j = JsRunning" "sj_error j = None"
  shows "job_inv (m\<lparr> jm_jobs := AList.update i j (jm_jobs m),
      jm_controllers := AList.update i (length (jm_runs m)) (jm_controllers m),
      jm_completions := AList.update i (length (jm_runs m)) (jm_completions m),
      jm_runs := jm_runs m @ [\<lparr>rn_jobId = i, rn_aborted = False, rn_settled = False\<rparr>] \<rparr>)" (is "job_inv ?m")
proof -
  have fresh: "i \<notin> rn_jobId ` set (jm_runs m)"
  proof
    assume "i \<in> rn_jobId ` set (jm_runs m)"
    then obtain c where "c < length (jm_runs m)" "rn_jobId (jm_runs m ! c) = i" by (auto simp: in_set_conv_nth)
    then show False using inv new by (auto simp: job_inv_def run_ok_def run_fits_def Let_def)
  qed
  have "run_ok ?m c" if "c < length (jm_runs ?m)" for c
  proof (cases "c = length (jm_runs m)")
    case True
    then show ?thesis using job by (simp add: run_ok_def run_fits_def Let_def findJob_def map_of_update)
  next
    case False
    then have c: "c < length (jm_runs m)" using that by simp
    then have "rn_jobId (jm_runs m ! c) \<noteq> i" using fresh by auto
    moreover have "run_ok m c" using inv c by (simp add: job_inv_def)
    ultimately show ?thesis using c by (simp add: run_ok_def Let_def findJob_def map_of_update nth_append)
  qed
  moreover have "distinct (map rn_jobId (jm_runs ?m))" using inv fresh by (simp add: job_inv_def)
  moreover have "k \<in> rn_jobId ` set (jm_runs ?m)" if "findJob ?m k \<noteq> None" for k
    using that inv by (auto simp: job_inv_def findJob_def map_of_update split: if_splits)
  moreover have "d < length (jm_runs ?m) \<and> rn_jobId (jm_runs ?m ! d) = k"
    if "map_of (jm_controllers ?m) k = Some d" for k d
    using that inv by (auto simp: job_inv_def map_of_update nth_append less_SucI split: if_splits)
  ultimately show ?thesis by (simp add: job_inv_def)
qed

lemma apply_call_keeps [simp]:
  "sj_state (apply_call jc j) = sj_state j" "sj_error (apply_call jc j) = sj_error j"
  "sj_result (apply_call jc j) = sj_result j"
  by (cases jc; simp)+

lemma apply_call_ref: "sj_resultRef j = Some r \<Longrightarrow> \<exists>r'. sj_resultRef (apply_call jc j) = Some r'"
  by (cases jc) simp_all

lemma settled_ok_aborted: "settled_ok r j \<Longrightarrow> settled_ok (r\<lparr>rn_aborted := True\<rparr>) j"
  by (simp add: settled_ok_def)

lemma run_fits_aborted: "run_fits r c jo co ct \<Longrightarrow> run_fits (r\<lparr>rn_aborted := True\<rparr>) c jo co ct"
  by (auto simp: run_fits_def settled_ok_aborted split: if_splits)

lemma job_step_inv: "job_step m m' \<Longrightarrow> job_inv m \<Longrightarrow> job_inv m'"
proof (induction rule: job_step.induct)
  case (start now uuid target operation jo upid m job m1 now' c m')
  from createJob_found[OF start(1)] have m1: "m1 = m\<lparr>jm_jobs := AList.update (sj_jobId job) job (jm_jobs m)\<rparr>"
    and err: "sj_error job = None" by simp_all
  have "m' = m\<lparr> jm_jobs := AList.update (sj_jobId job) (job\<lparr>sj_state := JsRunning, sj_updatedAt := now'\<rparr>) (jm_jobs m),
      jm_controllers := AList.update (sj_jobId job) (length (jm_runs m)) (jm_controllers m),
      jm_completions := AList.update (sj_jobId job) (length (jm_runs m)) (jm_completions m),
      jm_runs := jm_runs m @ [\<lparr>rn_jobId = sj_jobId job, rn_aborted = False, rn_settled = False\<rparr>] \<rparr>"
    using start(3) by (auto simp: startRun_def m1 updateJob_Inr findJob_update res_simps Let_def)
  then show ?case using job_inv_start[OF start(4) start(2), of "job\<lparr>sj_state := JsRunning, sj_updatedAt := now'\<rparr>"] err
    by simp
next
  case (call c m now jc m')
  then obtain j where j: "findJob m (rn_jobId (jm_runs m ! c)) = Some j"
    and m': "m' = m\<lparr>jm_jobs := AList.update (rn_jobId (jm_runs m ! c)) ((apply_call jc j)\<lparr>sj_updatedAt := now\<rparr>) (jm_jobs m)\<rparr>"
    by (auto simp: contextCall_def updateJob_Inr)
  have "run_ok m c" using call by (simp add: job_inv_def)
  then show ?case unfolding m'
    using j by (intro job_inv_update[OF call(3) call(1)]) (auto simp: run_ok_def run_fits_def Let_def settled_ok_def apply_call_ref split: if_splits)
next
  case (returned c m now result m')
  then obtain j where j: "findJob m (rn_jobId (jm_runs m ! c)) = Some j"
    and m': "m' = settleRun c (m\<lparr>jm_jobs := AList.update (rn_jobId (jm_runs m ! c))
      (j\<lparr>sj_state := JsCompleted, sj_result := result, sj_updatedAt := now,
         sj_resultRef := or_memory (rn_jobId (jm_runs m ! c)) (sj_resultRef j)\<rparr>) (jm_jobs m)\<rparr>)"
    by (auto simp: runReturned_def updateJob_Inr res_simps)
  have "run_ok m c" using returned by (simp add: job_inv_def)
  then show ?case unfolding m' using j returned(2)
    by (intro job_inv_settle[OF returned(4,1,2)]) (auto simp: run_ok_def run_fits_def Let_def settled_ok_def or_memory_def split: option.splits)
next
  case (threw c m now message result m')
  then obtain j j' where j: "findJob m (rn_jobId (jm_runs m ! c)) = Some j"
    and m': "m' = settleRun c (m\<lparr>jm_jobs := AList.update (rn_jobId (jm_runs m ! c)) j' (jm_jobs m)\<rparr>)"
    and j': "sj_state j' = (if rn_aborted (jm_runs m ! c) then JsCancelled else JsFailed)" "sj_error j' = Some message"
    by (fastforce simp: runThrew_def updateJob_Inr res_simps Let_def)
  show ?case unfolding m' using j'
    by (intro job_inv_settle[OF threw(4,1,2)]) (auto simp: settled_ok_def)
next
  case (cancel m jobId)
  show ?case
  proof (cases "map_of (jm_controllers m) jobId")
    case (Some c)
    then have c: "c < length (jm_runs m)" "rn_jobId (jm_runs m ! c) = jobId"
      using cancel by (auto simp: job_inv_def)
    let ?m = "cancelJob jobId m"
    have runs: "jm_runs ?m = (jm_runs m)[c := (jm_runs m ! c)\<lparr>rn_aborted := True\<rparr>]"
      by (simp add: cancelJob_def Some)
    have rest: "jm_jobs ?m = jm_jobs m" "jm_controllers ?m = jm_controllers m" "jm_completions ?m = jm_completions m"
      by (simp_all add: cancelJob_def Some)
    have ids: "map rn_jobId (jm_runs ?m) = map rn_jobId (jm_runs m)"
      using c by (auto simp: runs list_eq_iff_nth_eq nth_list_update)
    have "run_ok ?m d" if "d < length (jm_runs m)" for d
    proof -
      have "run_ok m d" using cancel that by (simp add: job_inv_def)
      then show ?thesis
        using c by (cases "d = c") (simp_all add: run_ok_def Let_def runs rest findJob_def run_fits_aborted)
    qed
    moreover have "rn_jobId (jm_runs ?m ! d) = rn_jobId (jm_runs m ! d)" if "d < length (jm_runs m)" for d
      using c that by (cases "d = c") (auto simp: runs)
    moreover have "length (jm_runs ?m) = length (jm_runs m)" by (simp add: runs)
    moreover have "rn_jobId ` set (jm_runs ?m) = rn_jobId ` set (jm_runs m)"
      using arg_cong[OF ids, of set] by simp
    ultimately show ?thesis using cancel ids by (simp add: job_inv_def rest findJob_def)
  qed (use cancel in \<open>simp add: cancelJob_def\<close>)
qed

lemma job_reach_inv: "job_reach m \<Longrightarrow> job_inv m"
proof (induction rule: job_reach.induct)
  case init
  show ?case by (simp add: job_inv_def no_jobs_def findJob_def)
next
  case (step m m')
  then show ?case using job_step_inv by blast
qed

section \<open>The life of a job\<close>

text \<open>
  C10. The registry never contradicts itself: in every reachable state a job is either running, with a
  live run whose controller \<open>cancel\<close> finds, or terminal, with its controller gone and \<open>wait\<close>
  returning its final record at once; a completed job has a result reference and no error, a failed
  or cancelled one has an error, and only a job whose controller was aborted ends as cancelled.
\<close>

theorem job_states_consistent:
  assumes "job_reach m" "findJob m jobId = Some j"
  shows "\<exists>c < length (jm_runs m). rn_jobId (jm_runs m ! c) = jobId \<and>
    ((sj_state j = JsRunning \<and> \<not> rn_settled (jm_runs m ! c) \<and> map_of (jm_controllers m) jobId = Some c \<and>
        waitJob False jobId m = None \<and> rn_aborted (jm_runs (cancelJob jobId m) ! c)) \<or>
     (rn_settled (jm_runs m ! c) \<and> map_of (jm_controllers m) jobId = None \<and> waitJob False jobId m = Some (Inr j) \<and>
        ((sj_state j = JsCompleted \<and> sj_error j = None \<and> sj_resultRef j \<noteq> None) \<or>
         (sj_state j = JsFailed \<and> sj_error j \<noteq> None) \<or>
         (sj_state j = JsCancelled \<and> sj_error j \<noteq> None \<and> rn_aborted (jm_runs m ! c)))))"
proof -
  from assms have inv: "job_inv m" by (simp add: job_reach_inv)
  then have "jobId \<in> rn_jobId ` set (jm_runs m)" using assms(2) by (simp add: job_inv_def)
  then obtain c where c: "c < length (jm_runs m)" "rn_jobId (jm_runs m ! c) = jobId"
    by (auto simp: in_set_conv_nth)
  have fits: "run_fits (jm_runs m ! c) c (Some j) (map_of (jm_completions m) jobId) (map_of (jm_controllers m) jobId)"
    using inv c assms(2) by (auto simp: job_inv_def run_ok_def Let_def)
  show ?thesis
  proof (cases "rn_settled (jm_runs m ! c)")
    case True
    with fits show ?thesis using c assms(2)
      by (intro exI[of _ c]) (cases "sj_state j"; auto simp: run_fits_def settled_ok_def waitJob_def getJob_def)
  next
    case False
    with fits show ?thesis using c
      by (intro exI[of _ c]) (auto simp: run_fits_def waitJob_def cancelJob_def)
  qed
qed

text \<open>
  C12. Jobs only move forward: whatever happens next, no job disappears, its state never goes back in
  the order of its life, and a terminal job keeps its state, its result and its error for ever.
\<close>

theorem job_states_monotone:
  assumes "job_reach m" "job_step m m'" "findJob m jobId = Some j"
  shows "\<exists>j'. findJob m' jobId = Some j' \<and> sj_state j \<le> sj_state j' \<and>
    (terminal (sj_state j) \<longrightarrow>
       sj_state j' = sj_state j \<and> sj_result j' = sj_result j \<and> sj_error j' = sj_error j)"
  using assms(2)
proof (cases rule: job_step.cases)
  case (start now uuid target operation jo upid job m1 now' c)
  then show ?thesis using assms(3) createJob_found[OF start(1)]
    by (auto simp: startRun_def updateJob_Inr findJob_update res_simps Let_def)
next
  case (call c now jc)
  then show ?thesis using assms(3) by (auto simp: contextCall_def updateJob_Inr findJob_update)
next
  case (returned c now result)
  have "run_ok m c" using job_reach_inv[OF assms(1)] returned by (simp add: job_inv_def)
  then show ?thesis using assms(3) returned
    by (auto simp: runReturned_def updateJob_Inr findJob_update res_simps run_ok_def run_fits_def Let_def)
next
  case (threw c now message result)
  have "run_ok m c" using job_reach_inv[OF assms(1)] threw by (simp add: job_inv_def)
  then show ?thesis using assms(3) threw
    by (auto simp: runThrew_def updateJob_Inr findJob_update res_simps run_ok_def run_fits_def Let_def)
next
  case (cancel i)
  then show ?thesis using assms(3) by (auto simp: cancelJob_def split: option.splits)
qed

section \<open>A concrete job\<close>

definition sample_job :: server_job where
  "sample_job = (newJob ''t'' ''job_1'' (target_of ''lab'' KNode (Some ''pve'') None) ''cli:qm'' None)
     \<lparr>sj_state := JsRunning\<rparr>"

definition sample_jobs :: job_manager where
  "sample_jobs = \<lparr>jm_jobs = [(''job_1'', sample_job)], jm_controllers = [(''job_1'', 0)], jm_completions = [(''job_1'', 0)],
     jm_runs = [\<lparr>rn_jobId = ''job_1'', rn_aborted = False, rn_settled = False\<rparr>]\<rparr>"

lemma sample_jobs_reach: "job_reach sample_jobs"
proof -
  have "job_step no_jobs sample_jobs"
    by (rule job_step.start[of "''t''" "''1''" "target_of ''lab'' KNode (Some ''pve'') None" "''cli:qm''" None None no_jobs
        "newJob ''t'' ''job_1'' (target_of ''lab'' KNode (Some ''pve'') None) ''cli:qm'' None" _ "''t''" 0])
      (auto simp: createJob_def Let_def makeId_def newJob_def findJob_def no_jobs_def startRun_def updateJob_def
        getJob_def sample_jobs_def sample_job_def)
  then show ?thesis by (rule job_reach.step[OF job_reach.init])
qed

lemma sample_job_found: "findJob sample_jobs ''job_1'' = Some sample_job"
  by (simp add: findJob_def sample_jobs_def)

theorem job_states_consistent_witness:
  "map_of (jm_controllers sample_jobs) ''job_1'' = Some 0 \<and> waitJob False ''job_1'' sample_jobs = None"
  using job_states_consistent[OF sample_jobs_reach sample_job_found]
  by (auto simp: sample_job_def sample_jobs_def newJob_def)

theorem job_states_monotone_witness:
  "\<exists>j. findJob (cancelJob ''job_1'' sample_jobs) ''job_1'' = Some j \<and> JsRunning \<le> sj_state j"
  using job_states_monotone[OF sample_jobs_reach job_step.cancel sample_job_found]
  by (auto simp: sample_job_def newJob_def)

end
