(* ===== verification/JobRuns.thy ===== *)
theory JobRuns
  imports McpCommon JobsMachine
begin

text \<open>
  Running a job inside a tool handler: the executor with its context calls, the settlement of its run
  and the answer for each wait mode, of src/jobs.ts and src/mcp-common.ts.

  A progress report of the service is an event of the trace, and the output chunks that reach the
  output callback during an interaction are those of \<open>w_chunks\<close> for the history before it; both
  become context calls of the job, stamped with the time of their event.  The abort signal of an
  executor is the one of its run.
\<close>

section \<open>The registry as state\<close>

definition jobsA :: "(job_manager \<Rightarrow> ('a \<times> job_manager) res) \<Rightarrow> ('b server_scheme, 'a) act" where
  "jobsA f = (\<lambda>s. case f (sr_jobs s) of Inl e \<Rightarrow> (Inl e, s) | Inr (x, m) \<Rightarrow> (Inr x, s\<lparr>sr_jobs := m\<rparr>))"

definition jobsUnit :: "(job_manager \<Rightarrow> job_manager res) \<Rightarrow> ('b server_scheme, unit) act" where
  "jobsUnit f = jobsA (\<lambda>m. rbind (f m) (\<lambda>m'. Inr ((), m')))"

definition contextA :: "world \<Rightarrow> string \<Rightarrow> job_call \<Rightarrow> ('b server_scheme, unit) act" where
  "contextA w jobId call = bindA (nowIsoA w) (\<lambda>now. jobsUnit (contextCall now jobId call))"

text \<open>The context calls that the events \<open>es\<close> after the history \<open>h\<close> stand for.\<close>

definition event_calls :: "world \<Rightarrow> bool \<Rightarrow> event list \<Rightarrow> event \<Rightarrow> job_call list" where
  "event_calls w streams h e =
     (case e of
        EvProgress n message \<Rightarrow> [JcProgress n None (Some message)]
      | EvSsh _ _ \<Rightarrow> if streams then map JcLog (w_chunks w h) else []
      | EvSpawn _ _ \<Rightarrow> if streams then map JcLog (w_chunks w h) else []
      | _ \<Rightarrow> [])"

fun reports :: "world \<Rightarrow> bool \<Rightarrow> event list \<Rightarrow> event list \<Rightarrow> (string \<times> job_call) list" where
  "reports w streams h [] = []"
| "reports w streams h (e # es) =
     map (\<lambda>c. (w_nowIso w (h @ [e]), c)) (event_calls w streams h e) @ reports w streams (h @ [e]) es"

fun applyReports :: "string \<Rightarrow> (string \<times> job_call) list \<Rightarrow> job_manager \<Rightarrow> job_manager res" where
  "applyReports jobId [] m = Inr m"
| "applyReports jobId ((now, c) # cs) m = rbind (contextCall now jobId c m) (applyReports jobId cs)"

text \<open>A service call whose callbacks report to the job; only some calls pass an output callback.\<close>

definition reporting :: "world \<Rightarrow> bool \<Rightarrow> string \<Rightarrow> ('b server_scheme, 'a) act \<Rightarrow> ('b server_scheme, 'a) act" where
  "reporting w streams jobId m = (\<lambda>s.
     case m s of (r, t) \<Rightarrow>
       case applyReports jobId (reports w streams (io_trace s) (drop (length (io_trace s)) (io_trace t))) (sr_jobs t) of
         Inl e \<Rightarrow> (Inl e, t)
       | Inr jm \<Rightarrow> (r, t\<lparr>sr_jobs := jm\<rparr>))"

section \<open>Runs\<close>

text \<open>
  \<open>JobManager.run\<close> with its executor; an executor that is still waiting when its fuel is spent (\<open>None\<close>)
  leaves the run live.  The result says whether the run is settled.
\<close>

definition runJob ::
    "world \<Rightarrow> string \<Rightarrow> ('b server_scheme, jsval option) act \<Rightarrow> ('b server_scheme, bool) act" where
  "runJob w jobId executor =
     bindA (nowIsoA w) (\<lambda>started.
     bindA (jobsA (startRun started jobId)) (\<lambda>c.
     bindA (attemptA executor) (\<lambda>outcome.
     bindA (nowIsoA w) (\<lambda>now.
     bindA (abortedA w) (\<lambda>aborted.
     case outcome of
       Inr None \<Rightarrow> ret False
     | Inr (Some result) \<Rightarrow> seqA (jobsUnit (runReturned now c result)) (ret True)
     | Inl e \<Rightarrow>
         seqA (modifyA (\<lambda>s. if aborted then s\<lparr>sr_jobs := cancelJob jobId (sr_jobs s)\<rparr> else s))
        (seqA (jobsUnit (runThrew now c e JUndef)) (ret True)))))))"

definition newJobA :: "world \<Rightarrow> target_ref \<Rightarrow> string \<Rightarrow> ('b server_scheme, server_job) act" where
  "newJobA w target operation =
     bindA (nowIsoA w) (\<lambda>now. bindA (uuidA w) (\<lambda>uuid.
       jobsA (\<lambda>m. Inr (createJob now uuid target operation None None m))))"

definition newUpidJobA :: "world \<Rightarrow> target_ref \<Rightarrow> string \<Rightarrow> string \<Rightarrow> ('b server_scheme, server_job) act" where
  "newUpidJobA w target operation upid =
     bindA (nowIsoA w) (\<lambda>now. jobsA (\<lambda>m. Inr (createUpidJob now target operation upid m)))"

text \<open>
  The end of every tool with a job: run it, then \<open>settleJob\<close> and the final or the handle answer.  The
  handle is taken from the job as it runs; \<open>None\<close> is a call that is still waiting.
\<close>

definition settleJob ::
    "world \<Rightarrow> wait_mode \<Rightarrow> bool \<Rightarrow> string \<Rightarrow> ('b server_scheme, server_job option option) act" where
  "settleJob w waitMode settled jobId =
     bindA (lateA w) (\<lambda>late.
     if waitMode = DeferredMode \<or> waitMode = AutoMode \<and> (late \<or> \<not> settled) then ret (Some None)
     else bindA (getsA (\<lambda>s. waitJob False jobId (sr_jobs s))) (\<lambda>snapshot.
       case snapshot of
         None \<Rightarrow> ret None
       | Some r \<Rightarrow> bindA (liftR r) (\<lambda>j. ret (Some (Some j)))))"

definition jobTool ::
    "world \<Rightarrow> wait_mode \<Rightarrow> server_job \<Rightarrow> string \<Rightarrow> string \<Rightarrow> ('b server_scheme, jsval option) act \<Rightarrow>
     ('b server_scheme, tool_result option) act" where
  "jobTool w waitMode job finished running executor =
     bindA (runJob w (sj_jobId job) executor) (\<lambda>settled.
     bindA (settleJob w waitMode settled (sj_jobId job)) (\<lambda>r.
     case r of
       None \<Rightarrow> ret None
     | Some None \<Rightarrow> ret (Some (jobHandleResult (job\<lparr>sj_state := JsRunning\<rparr>) running))
     | Some (Some j) \<Rightarrow> ret (Some (completedJobResult j finished))))"

section \<open>Task jobs\<close>

definition defaultPollIntervalMs :: int where
  "defaultPollIntervalMs = 2000"

definition awaitTask ::
    "service \<Rightarrow> nat \<Rightarrow> string \<Rightarrow> string \<Rightarrow> int option \<Rightarrow> string \<Rightarrow> ('b server_scheme, (jsval \<times> jsval) option) act" where
  "awaitTask S fuel cluster upid pollIntervalMs jobId =
     seqA (contextA (se_world S) jobId (JcUpid upid))
       (reporting (se_world S) False jobId
         (waitForUpid S fuel cluster upid (case pollIntervalMs of Some n \<Rightarrow> n | None \<Rightarrow> defaultPollIntervalMs)))"

definition mapOptA :: "('s, 'a option) act \<Rightarrow> ('a \<Rightarrow> ('s, 'b) act) \<Rightarrow> ('s, 'b option) act" where
  "mapOptA m f = bindA m (\<lambda>r. case r of None \<Rightarrow> ret None | Some x \<Rightarrow> bindA (f x) (\<lambda>y. ret (Some y)))"

record execution =
  ex_waitMode :: wait_mode
  ex_timeoutMs :: "int option"
  ex_pollIntervalMs :: "int option"

text \<open>
  The tools that start a task: without a task the answer of the API is the result; otherwise a
  resumable job waits for the task, and \<open>post\<close> turns its outcome into the result of the job.
\<close>

definition taskTool ::
    "service \<Rightarrow> nat \<Rightarrow> execution \<Rightarrow> target_ref \<Rightarrow> string \<Rightarrow> string \<Rightarrow> string \<Rightarrow> string option \<Rightarrow>
     ('b server_scheme, tool_result) act \<Rightarrow> (jsval \<times> jsval \<Rightarrow> ('b server_scheme, jsval) act) \<Rightarrow>
     ('b server_scheme, tool_result option) act" where
  "taskTool S fuel ex target operation finished running upid direct post =
     (case js_or_undefined upid of
        None \<Rightarrow> bindA direct (\<lambda>r. ret (Some r))
      | Some u \<Rightarrow>
          bindA (newUpidJobA (se_world S) target operation u) (\<lambda>job.
          jobTool (se_world S) (ex_waitMode ex) job finished running
            (mapOptA (awaitTask S fuel (tg_cluster target) u (ex_pollIntervalMs ex) (sj_jobId job)) post)))"

definition apiTaskTool ::
    "service \<Rightarrow> nat \<Rightarrow> execution \<Rightarrow> target_ref \<Rightarrow> string \<Rightarrow> string \<Rightarrow> string \<Rightarrow> string \<Rightarrow> api_call_result \<Rightarrow>
     ('b server_scheme, tool_result option) act" where
  "apiTaskTool S fuel ex target operation completed finished running response =
     taskTool S fuel ex target operation finished running (ar_upid response)
       (ret (plainResult completed (ar_data response))) (\<lambda>task. ret (task_json task))"

section \<open>Runs as steps of the state machine\<close>

text \<open>Run \<open>c\<close> of the job \<open>i\<close> is live and the promise under the id is its own.\<close>

definition live_run :: "nat \<Rightarrow> string \<Rightarrow> job_manager \<Rightarrow> bool" where
  "live_run c i m \<longleftrightarrow> c < length (jm_runs m) \<and> rn_jobId (jm_runs m ! c) = i \<and> \<not> rn_settled (jm_runs m ! c) \<and>
     map_of (jm_completions m) i = Some c \<and> findJob m i \<noteq> None"

definition run_path :: "nat \<Rightarrow> string \<Rightarrow> 'b server_scheme \<Rightarrow> 'b server_scheme \<Rightarrow> bool" where
  "run_path c i s t \<longleftrightarrow>
     (live_run c i (sr_jobs s) \<longrightarrow> job_step\<^sup>*\<^sup>* (sr_jobs s) (sr_jobs t) \<and> live_run c i (sr_jobs t))"

interpretation paths: preorder_rel "run_path c i" for c i
  by unfold_locales (auto simp: run_path_def)

named_theorems path_rules "actions that advance the registry by steps of the state machine"

lemmas [path_rules] = paths.keeps_intros

lemma keeps_path_step: "keeps svc_step m \<Longrightarrow> keeps (run_path c i) m"
  unfolding keeps_def run_path_def using svc_step_server(3) by (metis rtranclp.rtrancl_refl)

lemma contextCall_runs:
  "contextCall now i call m = Inr m' \<Longrightarrow> jm_runs m' = jm_runs m \<and> jm_completions m' = jm_completions m"
  by (auto simp: contextCall_def updateJob_Inr)

lemma contextCall_path:
  assumes "contextCall now i call m = Inr m'" "live_run c i m"
  shows "job_step m m' \<and> live_run c i m'"
  using assms contextCall_runs[OF assms(1)] job_step.call[of c m now call m']
  by (auto simp: live_run_def contextCall_def updateJob_Inr findJob_update)

lemma contextCall_live: "live_run c i m \<Longrightarrow> \<exists>m'. contextCall now i call m = Inr m'"
  by (auto simp: contextCall_def updateJob_Inr live_run_def)

lemma applyReports_live: "live_run c i m \<Longrightarrow> \<exists>m'. applyReports i cs m = Inr m'"
proof (induction cs arbitrary: m)
  case (Cons call cs)
  obtain now jc where call: "call = (now, jc)" by force
  from contextCall_live[OF Cons.prems] obtain m1 where m1: "contextCall now i jc m = Inr m1" by blast
  with Cons.IH[of m1] contextCall_path[OF m1 Cons.prems] show ?case by (auto simp: call)
qed simp

lemma contextA_path [path_rules]: "keeps (run_path c i) (contextA w i call)"
  by (auto simp: keeps_def run_path_def contextA_def nowIsoA_def jobsUnit_def jobsA_def rbind_def
      dest: contextCall_path split: sum.split prod.split)

lemma applyReports_path:
  "applyReports i cs m = Inr m' \<Longrightarrow> live_run c i m \<Longrightarrow> job_step\<^sup>*\<^sup>* m m' \<and> live_run c i m'"
proof (induction cs arbitrary: m)
  case (Cons call cs)
  obtain now jc where call: "call = (now, jc)" by force
  with Cons.prems obtain m1 where m1: "contextCall now i jc m = Inr m1" "applyReports i cs m1 = Inr m'"
    by (auto simp: res_simps)
  then show ?case
    using Cons.IH[of m1] contextCall_path[OF m1(1) Cons.prems(2)] by (meson converse_rtranclp_into_rtranclp)
qed simp

lemma reporting_path [path_rules]:
  assumes "keeps svc_step m" shows "keeps (run_path c i) (reporting w streams i m)"
  unfolding keeps_def
proof
  fix s
  obtain r t where m: "m s = (r, t)" by force
  have same: "sr_jobs t = sr_jobs s" using assms m svc_step_server(3) by (metis keeps_def snd_conv)
  let ?cs = "reports w streams (io_trace s) (drop (length (io_trace s)) (io_trace t))"
  show "run_path c i s (snd (reporting w streams i m s))"
  proof (cases "applyReports i ?cs (sr_jobs t)")
    case (Inl e)
    then show ?thesis by (simp add: reporting_def m run_path_def same)
  next
    case (Inr jm)
    then show ?thesis using applyReports_path[of i ?cs "sr_jobs t" jm c] by (simp add: reporting_def m run_path_def same)
  qed
qed

lemma awaitTask_path [path_rules]: "keeps (run_path c i) (awaitTask S fuel cluster upid poll i)"
  unfolding awaitTask_def by (intro path_rules grows_rules)

lemma mapOptA_path [path_rules]:
  "keeps (run_path c i) m \<Longrightarrow> (\<And>x. keeps (run_path c i) (f x)) \<Longrightarrow> keeps (run_path c i) (mapOptA m f)"
  unfolding mapOptA_def by (intro path_rules) (auto intro!: path_rules split: option.split)

lemmas [path_rules] = keeps_attemptA

text \<open>The settlement of a live run.\<close>

lemma abort_nth:
  "c < length rs \<Longrightarrow> rs[d := (rs ! d)\<lparr>rn_aborted := True\<rparr>] ! c =
     (if d = c then (rs ! c)\<lparr>rn_aborted := True\<rparr> else rs ! c)"
  by (cases "d = c") simp_all

lemma live_cancel: "live_run c i m \<Longrightarrow> live_run c i (cancelJob k m)"
  by (auto simp: live_run_def cancelJob_def abort_nth split: option.split)

lemma returned_steps:
  assumes "live_run c i m"
  obtains m' j where "runReturned now c result m = Inr m'" "job_step m m'" "waitJob False i m' = Some (Inr j)"
    "sj_state j = JsCompleted" "sj_result j = result"
proof -
  from assms obtain j where j: "findJob m i = Some j" by (auto simp: live_run_def)
  let ?j = "j\<lparr>sj_state := JsCompleted, sj_result := result, sj_updatedAt := now, sj_resultRef := or_memory i (sj_resultRef j)\<rparr>"
  have eq: "runReturned now c result m = Inr (settleRun c (m\<lparr>jm_jobs := AList.update i ?j (jm_jobs m)\<rparr>))"
    using assms j by (auto simp: runReturned_def res_simps updateJob_Inr live_run_def)
  have "job_step m (settleRun c (m\<lparr>jm_jobs := AList.update i ?j (jm_jobs m)\<rparr>))"
    using assms by (intro job_step.returned[OF _ _ eq]) (auto simp: live_run_def)
  then show thesis
    using assms j by (intro that[OF eq]) (auto simp: live_run_def waitJob_def settleRun_def getJob_def findJob_def)
qed

lemma threw_steps:
  assumes "live_run c i m"
  obtains m' j where "runThrew now c e JUndef m = Inr m'" "job_step m m'" "waitJob False i m' = Some (Inr j)"
    "sj_state j = (if rn_aborted (jm_runs m ! c) then JsCancelled else JsFailed)" "sj_error j = Some e"
proof -
  from assms obtain j where j: "findJob m i = Some j" by (auto simp: live_run_def)
  let ?j = "j\<lparr>sj_state := (if rn_aborted (jm_runs m ! c) then JsCancelled else JsFailed), sj_error := Some e, sj_updatedAt := now\<rparr>"
  have eq: "runThrew now c e JUndef m = Inr (settleRun c (m\<lparr>jm_jobs := AList.update i ?j (jm_jobs m)\<rparr>))"
    using assms j by (auto simp: runThrew_def res_simps updateJob_Inr live_run_def Let_def)
  have "job_step m (settleRun c (m\<lparr>jm_jobs := AList.update i ?j (jm_jobs m)\<rparr>))"
    using assms by (intro job_step.threw[OF _ _ eq]) (auto simp: live_run_def)
  then show thesis
    using assms j by (intro that[OF eq]) (auto simp: live_run_def waitJob_def settleRun_def getJob_def findJob_def)
qed

lemma startRun_Inr:
  assumes "startRun now i m = Inr (c, m')"
  shows "c = length (jm_runs m) \<and> live_run c i m' \<and>
    (\<exists>j. findJob m i = Some j \<and> findJob m' i = Some (j\<lparr>sj_state := JsRunning, sj_updatedAt := now\<rparr>))"
  using assms by (auto simp: startRun_def res_simps updateJob_Inr Let_def live_run_def findJob_def)

lemma createJob_start:
  assumes "createJob now uuid target oa jo up m = (job, m1)"
  obtains c m' where "startRun now' (sj_jobId job) m1 = Inr (c, m')"
  using createJob_found[OF assms] by (auto simp: startRun_def updateJob_def getJob_def findJob_def Let_def)

text \<open>
  The outcome of a run of a new job: the registry has moved by steps of the state machine, the job
  records how its executor ended, and only an executor that was still waiting leaves it live.
\<close>

definition job_outcome :: "string \<Rightarrow> jsval option res \<Rightarrow> bool res \<Rightarrow> job_manager \<Rightarrow> bool" where
  "job_outcome i out r m \<longleftrightarrow>
     (case out of
        Inr None \<Rightarrow> r = Inr False \<and> waitJob False i m = None
      | Inr (Some v) \<Rightarrow> r = Inr True \<and>
          (\<exists>j. waitJob False i m = Some (Inr j) \<and> sj_state j = JsCompleted \<and> sj_result j = v)
      | Inl e \<Rightarrow> r = Inr True \<and>
          (\<exists>j. waitJob False i m = Some (Inr j) \<and> (sj_state j = JsFailed \<or> sj_state j = JsCancelled) \<and> sj_error j = Some e))"

lemma runJob_steps:
  assumes ex: "\<And>c. keeps (run_path c (sj_jobId job)) executor"
    and new: "createJob now uuid target oa jo up m = (job, sr_jobs s)" "findJob m (sj_jobId job) = None"
    and run: "runJob w (sj_jobId job) executor s = (r, t)"
  obtains c jm out t0 where "executor (s\<lparr>sr_jobs := jm\<rparr>) = (out, t0)" "live_run c (sj_jobId job) jm"
    "job_outcome (sj_jobId job) out r (sr_jobs t)" "job_step\<^sup>*\<^sup>* m (sr_jobs t)"
proof -
  let ?i = "sj_jobId job" and ?now = "w_nowIso w (io_trace s)"
  obtain c m1 where start: "startRun ?now ?i (sr_jobs s) = Inr (c, m1)" by (rule createJob_start[OF new(1)])
  define s1 where "s1 = s\<lparr>sr_jobs := m1\<rparr>"
  obtain out s2 where out: "executor s1 = (out, s2)" by force
  have first: "job_step m (sr_jobs s1)" using job_step.start[OF new start] by (simp add: s1_def)
  have live: "live_run c ?i m1" using startRun_Inr[OF start] by blast
  then have "live_run c ?i (sr_jobs s1)" by (simp add: s1_def)
  then have path: "job_step\<^sup>*\<^sup>* (sr_jobs s1) (sr_jobs s2)" "live_run c ?i (sr_jobs s2)"
    using ex[of c] out by (auto simp: keeps_def run_path_def dest: spec[of _ s1])
  then have upto: "job_step\<^sup>*\<^sup>* m (sr_jobs s2)" using first by (meson converse_rtranclp_into_rtranclp)
  define aborted where "aborted = w_aborted w (io_trace s2)"
  define now2 where "now2 = w_nowIso w (io_trace s2)"
  have rest: "(case out of Inr None \<Rightarrow> ret False
     | Inr (Some result) \<Rightarrow> seqA (jobsUnit (runReturned now2 c result)) (ret True)
     | Inl e \<Rightarrow> seqA (modifyA (\<lambda>s. if aborted then s\<lparr>sr_jobs := cancelJob ?i (sr_jobs s)\<rparr> else s))
        (seqA (jobsUnit (runThrew now2 c e JUndef)) (ret True))) s2 = (r, t)"
    using run start out by (simp add: runJob_def nowIsoA_def jobsA_def bindA_apply attemptA_def abortedA_def s1_def
        aborted_def now2_def split: sum.splits option.splits if_splits)
  have "job_outcome ?i out r (sr_jobs t) \<and> job_step\<^sup>*\<^sup>* m (sr_jobs t)"
  proof (cases out)
    case (Inl e)
    define m2 where "m2 = (if aborted then cancelJob ?i (sr_jobs s2) else sr_jobs s2)"
    have m2: "job_step\<^sup>*\<^sup>* m m2" "live_run c ?i m2"
      using upto path(2) live_cancel job_step.cancel by (auto simp: m2_def intro: rtranclp.rtrancl_into_rtrancl)
    obtain m3 j where m3: "runThrew now2 c e JUndef m2 = Inr m3" "job_step m2 m3" "waitJob False ?i m3 = Some (Inr j)"
      "sj_state j = JsFailed \<or> sj_state j = JsCancelled" "sj_error j = Some e"
      using threw_steps[OF m2(2), of now2 e] by metis
    have "seqA (jobsUnit (runThrew now2 c e JUndef)) (ret True) (s2\<lparr>sr_jobs := m2\<rparr>) = (r, t)"
      using rest Inl by (simp add: m2_def split: if_splits)
    then have "r = Inr True" "sr_jobs t = m3" using m3(1) by (auto simp: jobsUnit_def jobsA_def seqA_def bindA_apply)
    then show ?thesis using m3 m2(1) Inl by (auto simp: job_outcome_def intro: rtranclp.rtrancl_into_rtrancl)
  next
    case (Inr res)
    show ?thesis
    proof (cases res)
      case None
      moreover have "waitJob False ?i (sr_jobs s2) = None" using path(2) by (simp add: live_run_def waitJob_def)
      ultimately show ?thesis using rest Inr upto by (auto simp: job_outcome_def)
    next
      case (Some result)
      obtain m3 j where m3: "runReturned now2 c result (sr_jobs s2) = Inr m3" "job_step (sr_jobs s2) m3"
        "waitJob False ?i m3 = Some (Inr j)" "sj_state j = JsCompleted" "sj_result j = result"
        using returned_steps[OF path(2), of now2 result] by metis
      have "seqA (jobsUnit (runReturned now2 c result)) (ret True) s2 = (r, t)" using rest Inr Some by simp
      then have "r = Inr True" "sr_jobs t = m3" using m3(1) by (auto simp: jobsUnit_def jobsA_def seqA_def bindA_apply)
      then show ?thesis using m3 upto Inr Some by (auto simp: job_outcome_def intro: rtranclp.rtrancl_into_rtrancl)
    qed
  qed
  then show thesis using that out live unfolding s1_def by blast
qed

text \<open>The answer for an outcome.\<close>

definition answers_outcome :: "jsval option res \<Rightarrow> tool_result option res \<Rightarrow> bool" where
  "answers_outcome out r \<longleftrightarrow>
     (case out of
        Inr None \<Rightarrow> r = Inr None
      | Inr (Some v) \<Rightarrow> (\<exists>a. r = Inr (Some a) \<and> \<not> tr_isError a \<and>
          map_of (tr_structured a) ''state'' = Some (JStr ''completed'') \<and> map_of (tr_structured a) ''result'' = Some v)
      | Inl e \<Rightarrow> (\<exists>a. r = Inr (Some a) \<and> tr_isError a \<and>
          map_of (tr_structured a) ''state'' \<in> {Some (JStr ''failed''), Some (JStr ''cancelled'')} \<and>
          map_of (tr_structured a) ''error'' = Some (JStr e)))"

lemma completed_fields:
  "map_of (tr_structured (completedJobResult j note)) ''state'' = Some (JStr (state_str (sj_state j)))"
  "map_of (tr_structured (completedJobResult j note)) ''result'' = Some (sj_result j)"
  "map_of (tr_structured (completedJobResult j note)) ''error'' = Some (of_str_opt (sj_error j))"
  "tr_isError (completedJobResult j note) = (sj_state j = JsFailed \<or> sj_state j = JsCancelled)"
  by (simp_all add: completedJobResult_def textResult_def job_fields_def base_content_def Let_def)

lemma jobTool_steps:
  assumes ex: "\<And>c. keeps (run_path c (sj_jobId job)) executor"
    and new: "createJob now uuid target oa jo up m = (job, sr_jobs s)" "findJob m (sj_jobId job) = None"
    and run: "jobTool w waitMode job finished running executor s = (r, t)"
  obtains c jm out t0 where "executor (s\<lparr>sr_jobs := jm\<rparr>) = (out, t0)" "live_run c (sj_jobId job) jm"
    "job_step\<^sup>*\<^sup>* m (sr_jobs t)" "if waitMode = WaitMode then answers_outcome out r else \<exists>a. r = Inr (Some a)"
proof -
  obtain r1 s1 where run1: "runJob w (sj_jobId job) executor s = (r1, s1)" by force
  obtain c jm out t0 where out: "executor (s\<lparr>sr_jobs := jm\<rparr>) = (out, t0)" "live_run c (sj_jobId job) jm"
    and outcome: "job_outcome (sj_jobId job) out r1 (sr_jobs s1)" and steps: "job_step\<^sup>*\<^sup>* m (sr_jobs s1)"
    by (rule runJob_steps[OF ex new run1])
  let ?quick = "waitMode = DeferredMode \<or> waitMode = AutoMode \<and> (w_late w (io_trace s1) \<or> out = Inr None)"
  have wait: "(\<exists>a. r = Inr (Some a)) \<and> t = s1" if "?quick"
    using that run outcome
    by (auto simp: jobTool_def bindA_apply run1 settleJob_def lateA_def job_outcome_def split: sum.splits option.splits)
  have settled: "answers_outcome out r \<and> t = s1 \<and> (out \<noteq> Inr None \<longrightarrow> (\<exists>a. r = Inr (Some a)))" if q: "\<not> ?quick"
  proof -
    have final: "r = Inr (Some (completedJobResult j finished)) \<and> t = s1"
      if "r1 = Inr True" "waitJob False (sj_jobId job) (sr_jobs s1) = Some (Inr j)" "out \<noteq> Inr None" for j
    proof -
      have "settleJob w waitMode True (sj_jobId job) s1 = (Inr (Some (Some j)), s1)"
        using q that by (simp add: settleJob_def lateA_def bindA_apply)
      then show ?thesis using run that(1) by (simp add: jobTool_def bindA_apply run1)
    qed
    show ?thesis
    proof (cases out)
      case (Inl e)
      then show ?thesis using outcome final
        by (auto simp: job_outcome_def answers_outcome_def completed_fields of_str_opt_def)
    next
      case (Inr res)
      show ?thesis
      proof (cases res)
        case None
        have "settleJob w waitMode False (sj_jobId job) s1 = (Inr None, s1)"
          using q None Inr outcome by (simp add: settleJob_def lateA_def bindA_apply job_outcome_def)
        then show ?thesis using run outcome None Inr
          by (simp add: jobTool_def bindA_apply run1 job_outcome_def answers_outcome_def)
      next
        case (Some v)
        then show ?thesis using outcome final Inr
          by (auto simp: job_outcome_def answers_outcome_def completed_fields)
      qed
    qed
  qed
  have t: "t = s1" using wait settled by blast
  have r: "if waitMode = WaitMode then answers_outcome out r else \<exists>a. r = Inr (Some a)"
    using wait settled by (cases waitMode) auto
  show thesis using that out steps t r by blast
qed

section \<open>Tools that start a task\<close>

lemma contextA_live:
  "live_run c i (sr_jobs s) \<Longrightarrow> \<exists>jm. contextA w i call s = (Inr (), s\<lparr>sr_jobs := jm\<rparr>) \<and> live_run c i jm"
  using contextCall_live[of c i "sr_jobs s" "w_nowIso w (io_trace s)" call] contextCall_path
  by (auto simp: contextA_def nowIsoA_def jobsUnit_def jobsA_def)

lemma reporting_result:
  assumes "keeps svc_step m" "live_run c i (sr_jobs s)"
  shows "fst (reporting w streams i m s) = fst (m s)"
proof -
  obtain r t where m: "m s = (r, t)" by force
  have "sr_jobs t = sr_jobs s" using assms(1) m svc_step_server(3) by (metis keeps_def snd_conv)
  then show ?thesis
    using applyReports_live[OF assms(2), of "reports w streams (io_trace s) (drop (length (io_trace s)) (io_trace t))"]
    by (auto simp: reporting_def m)
qed

abbreviation poll_interval :: "int option \<Rightarrow> int" where
  "poll_interval p \<equiv> (case p of Some n \<Rightarrow> n | None \<Rightarrow> defaultPollIntervalMs)"

lemma awaitTask_result:
  assumes "live_run c i (sr_jobs s)"
  shows "\<exists>jm. fst (awaitTask S fuel cluster upid poll i s) =
    fst (waitForUpid S fuel cluster upid (poll_interval poll) (s\<lparr>sr_jobs := jm\<rparr>))"
proof -
  from contextA_live[OF assms] obtain jm where
    jm: "contextA (se_world S) i (JcUpid upid) s = (Inr (), s\<lparr>sr_jobs := jm\<rparr>)" "live_run c i jm" by blast
  have "keeps svc_step (waitForUpid S fuel cluster upid (poll_interval poll))" by (intro grows_rules)
  then have "fst (reporting (se_world S) False i (waitForUpid S fuel cluster upid (poll_interval poll)) (s\<lparr>sr_jobs := jm\<rparr>)) =
      fst (waitForUpid S fuel cluster upid (poll_interval poll) (s\<lparr>sr_jobs := jm\<rparr>))"
    using jm(2) by (intro reporting_result) auto
  then show ?thesis using jm(1) by (auto simp: awaitTask_def seqA_def bindA_apply)
qed

lemma newUpidJobA_apply:
  "newUpidJobA w target oa upid s =
     (let r = createUpidJob (w_nowIso w (io_trace s)) target oa upid (sr_jobs s) in (Inr (fst r), s\<lparr>sr_jobs := snd r\<rparr>))"
  by (simp add: newUpidJobA_def nowIsoA_def jobsA_def split: prod.split)

lemma createUpidJob_id: "sj_jobId (fst (createUpidJob now target oa upid m)) = makeUpidJobId target oa upid"
  by (simp add: createUpidJob_def createJob_def Let_def newJob_def)

text \<open>
  The shared argument: a tool that started a new task steps the registry, and answers for what
  waiting for the task and the step after it gave.
\<close>

lemma taskTool_steps:
  assumes post: "\<And>x c. keeps (run_path c (makeUpidJobId target oa upid)) (post x)"
    and new: "findJob (sr_jobs s) (makeUpidJobId target oa upid) = None" "upid \<noteq> []"
    and run: "taskTool S fuel ex target oa finished running (Some upid) direct post s = (r, t)"
  obtains c jm out t0 where
    "mapOptA (awaitTask S fuel (tg_cluster target) upid (ex_pollIntervalMs ex) (makeUpidJobId target oa upid)) post
       (s\<lparr>sr_jobs := jm\<rparr>) = (out, t0)" "live_run c (makeUpidJobId target oa upid) jm"
    "job_step\<^sup>*\<^sup>* (sr_jobs s) (sr_jobs t)"
    "if ex_waitMode ex = WaitMode then answers_outcome out r else \<exists>a. r = Inr (Some a)"
proof -
  let ?i = "makeUpidJobId target oa upid" and ?now = "w_nowIso (se_world S) (io_trace s)"
  let ?ex = "mapOptA (awaitTask S fuel (tg_cluster target) upid (ex_pollIntervalMs ex) ?i) post"
  obtain job m1 where create: "createUpidJob ?now target oa upid (sr_jobs s) = (job, m1)" by force
  have i: "sj_jobId job = ?i" using createUpidJob_id[of ?now target oa upid "sr_jobs s"] create by simp
  have paths: "keeps (run_path c ?i) ?ex" for c using post by (intro path_rules)
  have tool: "jobTool (se_world S) (ex_waitMode ex) job finished running ?ex (s\<lparr>sr_jobs := m1\<rparr>) = (r, t)"
    using run new(2) by (simp add: taskTool_def js_or_undefined_def newUpidJobA_apply bindA_apply create i)
  have created: "createJob ?now [] target oa (Some ?i) (Some upid) (sr_jobs s) = (job, sr_jobs (s\<lparr>sr_jobs := m1\<rparr>))"
    using create by (simp add: createUpidJob_def)
  show thesis
    by (rule jobTool_steps[OF paths[folded i] created new(1)[folded i] tool[folded i]])
      (rule that, simp_all add: i)
qed

definition task_outcome :: "(jsval \<times> jsval) option res \<Rightarrow> jsval option res" where
  "task_outcome r = (case r of Inl e \<Rightarrow> Inl e | Inr None \<Rightarrow> Inr None | Inr (Some task) \<Rightarrow> Inr (Some (task_json task)))"

lemma answers_task_outcome:
  "answers_outcome (task_outcome out) r \<longleftrightarrow>
     (case out of
        Inr None \<Rightarrow> r = Inr None
      | Inr (Some task) \<Rightarrow> (\<exists>a. r = Inr (Some a) \<and> \<not> tr_isError a \<and>
          map_of (tr_structured a) ''state'' = Some (JStr ''completed'') \<and>
          map_of (tr_structured a) ''result'' = Some (task_json task))
      | Inl e \<Rightarrow> (\<exists>a. r = Inr (Some a) \<and> tr_isError a \<and>
          map_of (tr_structured a) ''state'' \<in> {Some (JStr ''failed''), Some (JStr ''cancelled'')} \<and>
          map_of (tr_structured a) ''error'' = Some (JStr e)))"
  by (simp add: answers_outcome_def task_outcome_def split: sum.split option.split)

lemma apiTaskTool_steps:
  assumes new: "findJob (sr_jobs s) (makeUpidJobId target oa upid) = None" "upid \<noteq> []"
    and run: "apiTaskTool S fuel ex target oa completed finished running \<lparr>ar_data = v, ar_upid = Some upid\<rparr> s = (r, t)"
  obtains jm where "job_step\<^sup>*\<^sup>* (sr_jobs s) (sr_jobs t)"
    "if ex_waitMode ex = WaitMode
     then answers_outcome (task_outcome (fst (waitForUpid S fuel (tg_cluster target) upid
       (poll_interval (ex_pollIntervalMs ex)) (s\<lparr>sr_jobs := jm\<rparr>)))) r
     else \<exists>a. r = Inr (Some a)"
proof -
  let ?i = "makeUpidJobId target oa upid"
  let ?await = "awaitTask S fuel (tg_cluster target) upid (ex_pollIntervalMs ex) ?i"
  have post: "keeps (run_path c ?i) (ret (task_json x))" for x c by (rule paths.keeps_ret)
  obtain c jm out t0 where out: "mapOptA ?await (\<lambda>task. ret (task_json task)) (s\<lparr>sr_jobs := jm\<rparr>) = (out, t0)"
      "live_run c ?i jm" and steps: "job_step\<^sup>*\<^sup>* (sr_jobs s) (sr_jobs t)"
      "if ex_waitMode ex = WaitMode then answers_outcome out r else \<exists>a. r = Inr (Some a)"
    using run unfolding apiTaskTool_def api_call_result.select_convs by (rule taskTool_steps[OF post new])
  have live: "live_run c ?i (sr_jobs (s\<lparr>sr_jobs := jm\<rparr>))" using out(2) by simp
  obtain jm' where "fst (?await (s\<lparr>sr_jobs := jm\<rparr>)) =
      fst (waitForUpid S fuel (tg_cluster target) upid (poll_interval (ex_pollIntervalMs ex)) (s\<lparr>sr_jobs := jm\<rparr>\<lparr>sr_jobs := jm'\<rparr>))"
    using awaitTask_result[OF live] by blast
  moreover have "out = task_outcome (fst (?await (s\<lparr>sr_jobs := jm\<rparr>)))"
    using out(1) by (auto simp: task_outcome_def mapOptA_def bindA_apply split: prod.splits sum.splits option.splits)
  ultimately have "out = task_outcome (fst (waitForUpid S fuel (tg_cluster target) upid
      (poll_interval (ex_pollIntervalMs ex)) (s\<lparr>sr_jobs := jm'\<rparr>)))" by simp
  then show thesis using steps(2) by (intro that[of jm', OF steps(1)]) (simp only:)
qed


lemma sample_registry: "findJob (sr_jobs sample_server_state) i = None"
  by (simp add: sample_server_state_def svc.extend_def no_jobs_def findJob_def)



definition waiting :: execution where
  "waiting = \<lparr>ex_waitMode = WaitMode, ex_timeoutMs = None, ex_pollIntervalMs = None\<rparr>"




end
