(* ===== verification/ToolsNode.thy ===== *)
theory ToolsNode
  imports JobRuns
begin

text \<open>
  The tools of src/tools/node/register.ts, src/tools/lxc/register.ts and src/tools/cluster/register.ts:
  for each registration its name, its input as the schema has parsed it, and its handler.  A handler
  yields the answer, or \<open>None\<close> when it is still waiting for a task or a guest command.
\<close>

section \<open>Shared shapes\<close>

abbreviation answerA :: "string \<Rightarrow> ('b server_scheme, 'a) act \<Rightarrow> ('a \<Rightarrow> jsval) \<Rightarrow> ('b server_scheme, tool_result option) act" where
  "answerA title m f \<equiv> bindA m (\<lambda>x. ret (Some (plainResult title (f x))))"

definition mapRunning :: "('a \<Rightarrow> 'b) \<Rightarrow> ('s, 'a option) act \<Rightarrow> ('s, 'b option) act" where
  "mapRunning f m = bindA m (\<lambda>r. ret (map_option f r))"

definition api_result_json :: "api_call_result \<Rightarrow> jsval" where
  "api_result_json r = JObj [(''data'', ar_data r), (''upid'', of_str_opt (ar_upid r))]"

definition details_json :: "guest_details \<Rightarrow> jsval" where
  "details_json g = JObj [(''inventory'', gd_inventory g), (''status'', gd_status g), (''config'', gd_config g)]"

definition bool_field :: "string \<Rightarrow> bool option \<Rightarrow> (string \<times> jsval) list" where
  "bool_field k v = (case v of Some b \<Rightarrow> [(k, JBool b)] | None \<Rightarrow> [])"

definition str_field :: "string \<Rightarrow> string option \<Rightarrow> (string \<times> jsval) list" where
  "str_field k v = (case v of Some b \<Rightarrow> [(k, JStr b)] | None \<Rightarrow> [])"

section \<open>Nodes\<close>

datatype node_tool =
    NodeListTool string
  | NodeGetTool string string
  | NodeActionTool string string string "(string \<times> jsval) list" execution
  | NetworkListTool string string
  | NodeTerminalTool string string shell_input execution

fun node_tool_name :: "node_tool \<Rightarrow> string" where
  "node_tool_name (NodeListTool _) = ''proxmox_node_list''"
| "node_tool_name (NodeGetTool _ _) = ''proxmox_node_get''"
| "node_tool_name (NodeActionTool _ _ _ _ _) = ''proxmox_node_action''"
| "node_tool_name (NetworkListTool _ _) = ''proxmox_network_list''"
| "node_tool_name (NodeTerminalTool _ _ _ _) = ''proxmox_node_terminal_run''"

definition nodeActionTool ::
    "service \<Rightarrow> nat \<Rightarrow> string \<Rightarrow> string \<Rightarrow> string \<Rightarrow> (string \<times> jsval) list \<Rightarrow> execution \<Rightarrow>
     ('b server_scheme, tool_result option) act" where
  "nodeActionTool S fuel cluster node action args ex =
     bindA (nodeAction S cluster node action args (ex_timeoutMs ex)) (\<lambda>response.
       apiTaskTool S fuel ex (node_target_of cluster node) (''node:'' @ action)
         (''Node action '' @ action @ '' completed'') (''Node action '' @ action @ '' finished'')
         (''Node action '' @ action @ '' running'') response)"

definition logOutput :: "world \<Rightarrow> string \<Rightarrow> command_result \<Rightarrow> ('b server_scheme, jsval) act" where
  "logOutput w jobId result =
     seqA (contextA w jobId (JcLog (cr_stdout result)))
    (seqA (contextA w jobId (JcLog (cr_stderr result))) (ret (command_json result)))"

definition nodeTerminalTool ::
    "service \<Rightarrow> string \<Rightarrow> string \<Rightarrow> shell_input \<Rightarrow> execution \<Rightarrow> ('b server_scheme, tool_result option) act" where
  "nodeTerminalTool S cluster node input ex =
     (let w = se_world S in
      bindA (newJobA w (node_target_of cluster node) ''node_terminal_run'') (\<lambda>job.
      jobTool w (ex_waitMode ex) job (''Node terminal command finished on '' @ node)
        (''Node terminal command running on '' @ node)
        (bindA (reporting w True (sj_jobId job) (nodeTerminalRun S cluster node input)) (\<lambda>result.
         bindA (logOutput w (sj_jobId job) result) (\<lambda>v. ret (Some v))))))"

fun runNodeTool :: "service \<Rightarrow> nat \<Rightarrow> node_tool \<Rightarrow> ('b server_scheme, tool_result option) act" where
  "runNodeTool S fuel (NodeListTool cluster) =
     answerA (''Nodes for '' @ cluster) (nodeList S cluster) (\<lambda>us. JArr (map node_summary_json us))"
| "runNodeTool S fuel (NodeGetTool cluster node) =
     answerA (''Node '' @ node @ '' status'') (nodeGetStatus S cluster node) ar_data"
| "runNodeTool S fuel (NodeActionTool cluster node action args ex) = nodeActionTool S fuel cluster node action args ex"
| "runNodeTool S fuel (NetworkListTool cluster node) =
     answerA (''Network interfaces for '' @ node) (listNetwork S cluster node) ar_data"
| "runNodeTool S fuel (NodeTerminalTool cluster node input ex) = nodeTerminalTool S cluster node input ex"

section \<open>Containers\<close>

datatype lxc_tool =
    LxcListTool string
  | LxcGetTool string int
  | LxcActionTool string int string "(string \<times> jsval) list" execution

fun lxc_tool_name :: "lxc_tool \<Rightarrow> string" where
  "lxc_tool_name (LxcListTool _) = ''proxmox_lxc_list''"
| "lxc_tool_name (LxcGetTool _ _) = ''proxmox_lxc_get''"
| "lxc_tool_name (LxcActionTool _ _ _ _ _) = ''proxmox_lxc_action''"

definition lxcActionTool ::
    "service \<Rightarrow> nat \<Rightarrow> string \<Rightarrow> int \<Rightarrow> string \<Rightarrow> (string \<times> jsval) list \<Rightarrow> execution \<Rightarrow>
     ('b server_scheme, tool_result option) act" where
  "lxcActionTool S fuel cluster vmid action args ex =
     bindA (lxcAction S cluster vmid action args (ex_timeoutMs ex)) (\<lambda>response.
       apiTaskTool S fuel ex (target_of cluster KLxcContainer None (Some vmid)) (''lxc:'' @ action)
         (''LXC action '' @ action @ '' completed'') (''LXC action '' @ action @ '' finished'')
         (''LXC action '' @ action @ '' running'') response)"

fun runLxcTool :: "service \<Rightarrow> nat \<Rightarrow> lxc_tool \<Rightarrow> ('b server_scheme, tool_result option) act" where
  "runLxcTool S fuel (LxcListTool cluster) =
     answerA (''LXC containers for '' @ cluster) (lxcList S cluster) (\<lambda>us. JArr (map lxc_summary_json us))"
| "runLxcTool S fuel (LxcGetTool cluster vmid) =
     answerA (''LXC '' @ int_str vmid) (lxcGet S cluster vmid) details_json"
| "runLxcTool S fuel (LxcActionTool cluster vmid action args ex) = lxcActionTool S fuel cluster vmid action args ex"

section \<open>Clusters\<close>

record mapping_input =
  mi_id :: string
  mi_map :: "string list option"
  mi_description :: "string option"
  mi_mdev :: "bool option"
  mi_liveMigrationCapable :: "bool option"
  mi_delete :: "string option"
  mi_digest :: "string option"

text \<open>The arguments of a mapping: the id, and every field that was given.\<close>

definition mapping_args :: "mapping_input \<Rightarrow> (string \<times> jsval) list" where
  "mapping_args m =
     [(''id'', JStr (mi_id m))] @
     (case mi_map m of Some es \<Rightarrow> [(''map'', JArr (map JStr es))] | None \<Rightarrow> []) @
     str_field ''description'' (mi_description m) @ bool_field ''mdev'' (mi_mdev m) @
     bool_field ''live-migration-capable'' (mi_liveMigrationCapable m) @
     str_field ''delete'' (mi_delete m) @ str_field ''digest'' (mi_digest m)"

datatype cluster_tool =
    InventoryTool string bool bool
  | ClusterStatusTool string
  | MappingListTool string "string option"
  | MappingGetTool string string
  | MappingCreateTool string mapping_input execution
  | MappingUpdateTool string mapping_input execution
  | MappingDeleteTool string string execution

fun cluster_tool_name :: "cluster_tool \<Rightarrow> string" where
  "cluster_tool_name (InventoryTool _ _ _) = ''proxmox_inventory_overview''"
| "cluster_tool_name (ClusterStatusTool _) = ''proxmox_cluster_status''"
| "cluster_tool_name (MappingListTool _ _) = ''proxmox_pci_mapping_list''"
| "cluster_tool_name (MappingGetTool _ _) = ''proxmox_pci_mapping_get''"
| "cluster_tool_name (MappingCreateTool _ _ _) = ''proxmox_pci_mapping_create''"
| "cluster_tool_name (MappingUpdateTool _ _ _) = ''proxmox_pci_mapping_update''"
| "cluster_tool_name (MappingDeleteTool _ _ _) = ''proxmox_pci_mapping_delete''"

definition inventoryTool :: "service \<Rightarrow> nat \<Rightarrow> string \<Rightarrow> bool \<Rightarrow> bool \<Rightarrow> ('b server_scheme, tool_result option) act" where
  "inventoryTool S fuel cluster probeRemote forceRefresh =
     bindA (inventoryOverview S fuel cluster probeRemote forceRefresh) (\<lambda>r.
       ret (map_option (\<lambda>i. plainResult (''Inventory overview for '' @ cluster) (cluster_summary_json i)) r))"

fun runClusterTool :: "service \<Rightarrow> nat \<Rightarrow> cluster_tool \<Rightarrow> ('b server_scheme, tool_result option) act" where
  "runClusterTool S fuel (InventoryTool cluster probeRemote forceRefresh) =
     inventoryTool S fuel cluster probeRemote forceRefresh"
| "runClusterTool S fuel (ClusterStatusTool cluster) =
     answerA (''Cluster status for '' @ cluster) (clusterGetStatus S cluster)
       (\<lambda>(status, version). JObj [(''status'', status), (''version'', version)])"
| "runClusterTool S fuel (MappingListTool cluster checkNode) =
     answerA (''PCI mappings for '' @ cluster) (listPciMappings S cluster checkNode) ar_data"
| "runClusterTool S fuel (MappingGetTool cluster i) =
     answerA (''PCI mapping '' @ i) (getPciMapping S cluster i) ar_data"
| "runClusterTool S fuel (MappingCreateTool cluster m ex) =
     answerA (''PCI mapping '' @ mi_id m @ '' created'')
       (createPciMapping S cluster (mapping_args (m\<lparr>mi_delete := None, mi_digest := None\<rparr>)) (ex_timeoutMs ex)) ar_data"
| "runClusterTool S fuel (MappingUpdateTool cluster m ex) =
     answerA (''PCI mapping '' @ mi_id m @ '' updated'')
       (updatePciMapping S cluster (mi_id m) (mapping_args m) (ex_timeoutMs ex)) ar_data"
| "runClusterTool S fuel (MappingDeleteTool cluster i ex) =
     answerA (''PCI mapping '' @ i @ '' deleted'') (deletePciMapping S cluster i (ex_timeoutMs ex)) ar_data"

end
