(* ===== verification/ToolsStorage.thy ===== *)
theory ToolsStorage
  imports ToolsNode
begin

text \<open>
  The tools of src/tools/storage/register.ts, src/tools/infrastructure/register.ts and
  src/tools/access/register.ts: storages and cloud-init snippets, firewall, backups, tasks, consoles
  and users.
\<close>

section \<open>Storages and snippets\<close>

definition snippet_fields :: "snippet_ref \<Rightarrow> (string \<times> jsval) list" where
  "snippet_fields r = [(''cluster'', JStr (sn_cluster r)), (''node'', JStr (sn_node r)), (''storage'', JStr (sn_storage r)),
     (''path'', JStr (sn_path r)), (''volumeId'', JStr (sn_volumeId r))]"

text \<open>A direct text or the reference of an artifact.\<close>

record content_input =
  co_content :: "string option"
  co_artifactId :: "string option"
  co_resourceUri :: "string option"

definition from_artifact :: "content_input \<Rightarrow> bool" where
  "from_artifact c \<longleftrightarrow> js_truthy (co_artifactId c) \<or> js_truthy (co_resourceUri c)"

definition no_content :: "content_input \<Rightarrow> bool" where
  "no_content c \<longleftrightarrow> co_content c = None \<and> \<not> from_artifact c"

record snippet_place =
  sp_cluster :: string
  sp_node :: "string option"
  sp_storage :: "string option"

datatype storage_tool =
    StorageListTool string
  | StorageGetTool string string
  | DownloadUrlTool string string string download_options execution
  | SnippetListTool snippet_place
  | SnippetGetTool snippet_place string
  | SnippetPutTool snippet_place string content_input
  | SnippetDeleteTool snippet_place string
  | CloudInitDumpTool string int string

fun storage_tool_name :: "storage_tool \<Rightarrow> string" where
  "storage_tool_name (StorageListTool _) = ''proxmox_storage_list''"
| "storage_tool_name (StorageGetTool _ _) = ''proxmox_storage_get''"
| "storage_tool_name (DownloadUrlTool _ _ _ _ _) = ''proxmox_storage_download_url''"
| "storage_tool_name (SnippetListTool _) = ''proxmox_cloud_init_snippet_list''"
| "storage_tool_name (SnippetGetTool _ _) = ''proxmox_cloud_init_snippet_get''"
| "storage_tool_name (SnippetPutTool _ _ _) = ''proxmox_cloud_init_snippet_put''"
| "storage_tool_name (SnippetDeleteTool _ _) = ''proxmox_cloud_init_snippet_delete''"
| "storage_tool_name (CloudInitDumpTool _ _ _) = ''proxmox_vm_cloud_init_dump''"

definition downloadUrlTool ::
    "service \<Rightarrow> nat \<Rightarrow> string \<Rightarrow> string \<Rightarrow> string \<Rightarrow> download_options \<Rightarrow> execution \<Rightarrow>
     ('b server_scheme, tool_result option) act" where
  "downloadUrlTool S fuel cluster node storage d ex =
     bindA (storageDownloadUrl S cluster node storage d (ex_timeoutMs ex)) (\<lambda>response.
       apiTaskTool S fuel ex (node_target_of cluster node) ''storage:download_url''
         (''Storage download to '' @ storage @ '' completed'') (''Storage download to '' @ storage @ '' finished'')
         (''Storage download to '' @ storage @ '' running'') response)"

definition yamlResult ::
    "service \<Rightarrow> string \<Rightarrow> string \<Rightarrow> (string \<times> jsval) list \<Rightarrow> ('b server_scheme, tool_result option) act" where
  "yamlResult S title content summary_fields =
     bindA (artifactResult S title ''cloud_init'' ''text/yaml'' (utf8_encode content) summary_fields False False)
       (\<lambda>r. ret (Some r))"

definition snippetGetTool :: "service \<Rightarrow> snippet_place \<Rightarrow> string \<Rightarrow> ('b server_scheme, tool_result option) act" where
  "snippetGetTool S p snippetPath =
     bindA (getCloudInitSnippet S (sp_cluster p) (sp_node p) (sp_storage p) snippetPath) (\<lambda>(r, content).
       yamlResult S (''Cloud-init snippet '' @ snippetPath) content (snippet_fields r))"

definition snippetPutTool ::
    "service \<Rightarrow> snippet_place \<Rightarrow> string \<Rightarrow> content_input \<Rightarrow> ('b server_scheme, tool_result option) act" where
  "snippetPutTool S p snippetPath c =
     (if no_content c then raise ''Snippet write requires content, artifactId, or resourceUri''
      else bindA (if from_artifact c then readArtifactText S (co_artifactId c) (co_resourceUri c)
             else ret (case co_content c of Some t \<Rightarrow> t | None \<Rightarrow> [])) (\<lambda>content.
        answerA (''Cloud-init snippet '' @ snippetPath @ '' written'')
          (putCloudInitSnippet S (sp_cluster p) (sp_node p) (sp_storage p) snippetPath content)
          (\<lambda>r. JObj (snippet_fields r))))"

definition cloudInitDumpTool :: "service \<Rightarrow> string \<Rightarrow> int \<Rightarrow> string \<Rightarrow> ('b server_scheme, tool_result option) act" where
  "cloudInitDumpTool S cluster vmid sec =
     bindA (dumpVmCloudInit S cluster vmid sec) (\<lambda>(node, content).
       yamlResult S (''Cloud-init '' @ sec @ '' for VM '' @ int_str vmid) content
         [(''cluster'', JStr cluster), (''node'', JStr node), (''vmid'', JNum vmid), (''section'', JStr sec)])"

fun runStorageTool :: "service \<Rightarrow> nat \<Rightarrow> storage_tool \<Rightarrow> ('b server_scheme, tool_result option) act" where
  "runStorageTool S fuel (StorageListTool cluster) = answerA (''Storages for '' @ cluster) (storageList S cluster) ar_data"
| "runStorageTool S fuel (StorageGetTool cluster storage) =
     answerA (''Storage '' @ storage) (storageGet S cluster storage) ar_data"
| "runStorageTool S fuel (DownloadUrlTool cluster node storage d ex) = downloadUrlTool S fuel cluster node storage d ex"
| "runStorageTool S fuel (SnippetListTool p) =
     answerA (''Cloud-init snippets for '' @ sp_cluster p)
       (listCloudInitSnippets S (sp_cluster p) (sp_node p) (sp_storage p)) (\<lambda>rs. JArr (map (\<lambda>r. JObj (snippet_fields r)) rs))"
| "runStorageTool S fuel (SnippetGetTool p snippetPath) = snippetGetTool S p snippetPath"
| "runStorageTool S fuel (SnippetPutTool p snippetPath c) = snippetPutTool S p snippetPath c"
| "runStorageTool S fuel (SnippetDeleteTool p snippetPath) =
     answerA (''Cloud-init snippet '' @ snippetPath @ '' deleted'')
       (deleteCloudInitSnippet S (sp_cluster p) (sp_node p) (sp_storage p) snippetPath)
       (\<lambda>r. JObj (snippet_fields r @ [(''deleted'', JBool True)]))"
| "runStorageTool S fuel (CloudInitDumpTool cluster vmid sec) = cloudInitDumpTool S cluster vmid sec"

section \<open>Infrastructure and users\<close>

record backup_input =
  ba_vmid :: "int list option"
  ba_storage :: "string option"
  ba_mode :: "string option"
  ba_compress :: "string option"

definition backup_args :: "backup_input \<Rightarrow> (string \<times> jsval) list" where
  "backup_args b =
     (case ba_vmid b of Some vs \<Rightarrow> [(''vmid'', JStr (js_join '','' (map int_str vs)))] | None \<Rightarrow> []) @
     truthy_field ''storage'' (ba_storage b) @ truthy_field ''mode'' (ba_mode b) @ truthy_field ''compress'' (ba_compress b)"

datatype infra_tool =
    FirewallGetTool string target_kind "string option" "int option" string
  | BackupJobsTool string
  | BackupStartTool string string backup_input execution
  | CephStatusTool string
  | SdnListTool string
  | TaskListTool string string
  | TaskGetTool string string string
  | ConsoleTicketTool string target_kind "string option" "int option" console_scope
  | UserListTool string

fun infra_tool_name :: "infra_tool \<Rightarrow> string" where
  "infra_tool_name (FirewallGetTool _ _ _ _ _) = ''proxmox_firewall_get''"
| "infra_tool_name (BackupJobsTool _) = ''proxmox_backup_jobs''"
| "infra_tool_name (BackupStartTool _ _ _ _) = ''proxmox_backup_start''"
| "infra_tool_name (CephStatusTool _) = ''proxmox_ceph_status''"
| "infra_tool_name (SdnListTool _) = ''proxmox_sdn_list''"
| "infra_tool_name (TaskListTool _ _) = ''proxmox_task_list''"
| "infra_tool_name (TaskGetTool _ _ _) = ''proxmox_task_get''"
| "infra_tool_name (ConsoleTicketTool _ _ _ _ _) = ''proxmox_console_ticket''"
| "infra_tool_name (UserListTool _) = ''proxmox_user_list''"

text \<open>The target and the path of a firewall section; a scope without its node or id is refused.\<close>

definition firewall_place ::
    "string \<Rightarrow> target_kind \<Rightarrow> string option \<Rightarrow> int option \<Rightarrow> string \<Rightarrow> (target_ref \<times> string) res" where
  "firewall_place cluster scope node vmid sec =
     (case (scope, js_or_undefined node, vmid) of
        (KCluster, _, _) \<Rightarrow> Inr (cluster_target cluster, ''/cluster/firewall/'' @ sec)
      | (KNode, Some n, _) \<Rightarrow> Inr (node_target_of cluster n, ''/nodes/'' @ n @ ''/firewall/'' @ sec)
      | (KQemuVm, Some n, Some v) \<Rightarrow>
          Inr (qemu_target cluster n v, ''/nodes/'' @ n @ ''/qemu/'' @ int_str v @ ''/firewall/'' @ sec)
      | (KLxcContainer, Some n, Some v) \<Rightarrow>
          Inr (lxc_target cluster n v, ''/nodes/'' @ n @ ''/lxc/'' @ int_str v @ ''/firewall/'' @ sec)
      | _ \<Rightarrow> Inl ''Invalid firewall scope arguments'')"

definition firewallGetTool ::
    "service \<Rightarrow> string \<Rightarrow> target_kind \<Rightarrow> string option \<Rightarrow> int option \<Rightarrow> string \<Rightarrow>
     ('b server_scheme, tool_result option) act" where
  "firewallGetTool S cluster scope node vmid sec =
     bindA (liftR (firewall_place cluster scope node vmid sec)) (\<lambda>(target, path).
       answerA (''Firewall '' @ kind_str scope @ '' '' @ sec) (firewallGet S target path) ar_data)"

definition backupStartTool ::
    "service \<Rightarrow> nat \<Rightarrow> string \<Rightarrow> string \<Rightarrow> backup_input \<Rightarrow> execution \<Rightarrow> ('b server_scheme, tool_result option) act" where
  "backupStartTool S fuel cluster node b ex =
     bindA (proxmoxApiCall S (node_target_of cluster node) ''POST'' (''/nodes/'' @ node @ ''/vzdump'') (backup_args b)
         (ex_timeoutMs ex)) (\<lambda>response.
       apiTaskTool S fuel ex (node_target_of cluster node) ''backup:start''
         (''Backup started on '' @ node) ''Backup finished'' ''Backup running'' response)"

fun runInfraTool :: "service \<Rightarrow> nat \<Rightarrow> infra_tool \<Rightarrow> ('b server_scheme, tool_result option) act" where
  "runInfraTool S fuel (FirewallGetTool cluster scope node vmid sec) = firewallGetTool S cluster scope node vmid sec"
| "runInfraTool S fuel (BackupJobsTool cluster) = answerA (''Backup jobs for '' @ cluster) (backupJobs S cluster) ar_data"
| "runInfraTool S fuel (BackupStartTool cluster node b ex) = backupStartTool S fuel cluster node b ex"
| "runInfraTool S fuel (CephStatusTool cluster) = answerA (''Ceph status for '' @ cluster) (cephStatus S cluster) ar_data"
| "runInfraTool S fuel (SdnListTool cluster) = answerA (''SDN resources for '' @ cluster) (sdnList S cluster) ar_data"
| "runInfraTool S fuel (TaskListTool cluster node) = answerA (''Tasks for '' @ node) (taskList S cluster node) ar_data"
| "runInfraTool S fuel (TaskGetTool cluster node upid) =
     answerA (''Task '' @ upid) (taskGet S cluster node upid) task_json"
| "runInfraTool S fuel (ConsoleTicketTool cluster targetKind node vmid scope) =
     answerA ''Console ticket'' (consoleTicket S cluster targetKind node vmid scope) api_result_json"
| "runInfraTool S fuel (UserListTool cluster) = answerA (''Users for '' @ cluster) (listUsers S cluster) ar_data"

end
