(* ===== verification/ToolsEscape.thy ===== *)
theory ToolsEscape
  imports ToolsStorage
begin

text \<open>
  The escape hatches, files, job tools and resources of src/tools/escape/register.ts.  A job id that
  the server does not know is read back from Proxmox when it carries a task.
\<close>

section \<open>Jobs read back from Proxmox\<close>

text \<open>\<open>upid.split(":")[i]\<close>; an empty part counts as missing.\<close>

definition upid_part :: "nat \<Rightarrow> string \<Rightarrow> string option" where
  "upid_part i upid =
     (let ps = js_split (CHR '':'') upid in if i < length ps then js_or_undefined (Some (ps ! i)) else None)"

definition upidNode :: "string \<Rightarrow> string res" where
  "upidNode upid = (case upid_part 1 upid of Some n \<Rightarrow> Inr n | None \<Rightarrow> Inl (''Invalid UPID '' @ squoted upid))"

text \<open>\<open>Number.parseInt(s, 16)\<close>: leading blanks, a sign and \<open>0x\<close> are skipped; \<open>None\<close> is NaN.\<close>

fun hex_prefix :: "nat option \<Rightarrow> string \<Rightarrow> nat option" where
  "hex_prefix acc [] = acc"
| "hex_prefix acc (c # s) =
     (case hex_val c of
        Some d \<Rightarrow> hex_prefix (Some ((case acc of Some n \<Rightarrow> n | None \<Rightarrow> 0) * 16 + d)) s
      | None \<Rightarrow> acc)"

definition strip_0x :: "string \<Rightarrow> string" where
  "strip_0x s = (if js_startsWith s ''0x'' \<or> js_startsWith s ''0X'' then drop 2 s else s)"

definition parseInt16 :: "string \<Rightarrow> int option" where
  "parseInt16 s =
     (case dropWhile js_space s of
        [] \<Rightarrow> None
      | c # r \<Rightarrow>
          if c = CHR ''-'' then map_option (\<lambda>n. - int n) (hex_prefix None (strip_0x r))
          else if c = CHR ''+'' then map_option int (hex_prefix None (strip_0x r))
          else map_option int (hex_prefix None (strip_0x (c # r))))"

text \<open>The start time in the task id, in seconds; the current time when there is none.\<close>

definition upidStartedAt :: "world \<Rightarrow> string \<Rightarrow> ('b io_scheme, string) act" where
  "upidStartedAt w upid =
     (case upid_part 4 upid of
        None \<Rightarrow> nowIsoA w
      | Some startHex \<Rightarrow>
          (case parseInt16 startHex of
             Some seconds \<Rightarrow> if seconds \<le> 0 then nowIsoA w else liftR (iso_of (seconds * 1000))
           | None \<Rightarrow> nowIsoA w))"

definition log_line :: "jsval \<Rightarrow> string" where
  "log_line entry =
     (case entry of
        JStr s \<Rightarrow> s
      | _ \<Rightarrow> (case jget entry ''t'' of JStr t \<Rightarrow> t | _ \<Rightarrow> JSON_stringify entry))"

definition normalizeTaskLogs :: "jsval \<Rightarrow> string list" where
  "normalizeTaskLogs log = (case log of JArr es \<Rightarrow> map log_line es | _ \<Rightarrow> [])"

text \<open>The state that a task status stands for, with the error of a task that did not succeed.\<close>

definition includes_ignoring_case :: "string \<Rightarrow> string \<Rightarrow> bool" where
  "includes_ignoring_case s p \<longleftrightarrow> js_includes (js_toLowerCase s) p"

definition classifyUpidState :: "jsval \<Rightarrow> job_state \<times> string option" where
  "classifyUpidState status =
     (if jget status ''status'' \<noteq> JStr ''stopped'' then (JsRunning, None)
      else let exitStatus = (case jget status ''exitstatus'' of JStr s \<Rightarrow> js_trim s | _ \<Rightarrow> []) in
        if exitStatus = [] \<or> js_toUpperCase exitStatus = ''OK'' then (JsCompleted, None)
        else if includes_ignoring_case exitStatus ''abort'' \<or> includes_ignoring_case exitStatus ''cancel'' \<or>
            includes_ignoring_case exitStatus ''interrupt''
        then (JsCancelled, Some exitStatus)
        else (JsFailed, Some exitStatus))"

text \<open>
  A snapshot is a job whose target is the object of the id; only its fields go into the answers.
\<close>

record upid_snapshot =
  us_jobId :: string
  us_target :: jsval
  us_operation :: string
  us_state :: job_state
  us_startedAt :: string
  us_updatedAt :: string
  us_logs :: "string list"
  us_relatedUpid :: string
  us_result :: jsval
  us_error :: "string option"

definition readUpidJobSnapshot :: "service \<Rightarrow> string \<Rightarrow> ('b svc_scheme, upid_snapshot) act" where
  "readUpidJobSnapshot S jobId =
     (case parseUpidJobId (se_world S) jobId of
        None \<Rightarrow> raise (''Unknown job '' @ squoted jobId)
      | Some h \<Rightarrow>
          (let cluster = (case jget (uh_target h) ''cluster'' of JStr c \<Rightarrow> c | _ \<Rightarrow> []) in
           bindA (liftR (upidNode (uh_upid h))) (\<lambda>node.
           bindA (getTaskStatus S cluster node (uh_upid h)) (\<lambda>status.
           bindA (getTaskLog S cluster node (uh_upid h)) (\<lambda>log.
           bindA (upidStartedAt (se_world S) (uh_upid h)) (\<lambda>startedAt.
           bindA (nowIsoA (se_world S)) (\<lambda>now.
           ret \<lparr>us_jobId = jobId, us_target = uh_target h, us_operation = uh_operation h,
                us_state = fst (classifyUpidState status), us_startedAt = startedAt, us_updatedAt = now,
                us_logs = normalizeTaskLogs log, us_relatedUpid = uh_upid h,
                us_result = task_json (status, log), us_error = snd (classifyUpidState status)\<rparr>)))))))"

text \<open>Polling once per second; \<open>None\<close> when the fuel is spent while the task still runs.\<close>

fun waitForUpidJobSnapshot ::
    "service \<Rightarrow> nat \<Rightarrow> string \<Rightarrow> int option \<Rightarrow> int \<Rightarrow> ('b svc_scheme, upid_snapshot option) act" where
  "waitForUpidJobSnapshot S 0 jobId timeoutMs started = ret None"
| "waitForUpidJobSnapshot S (Suc fuel) jobId timeoutMs started =
     bindA (readUpidJobSnapshot S jobId) (\<lambda>snapshot.
     if us_state snapshot \<noteq> JsRunning then ret (Some snapshot)
     else bindA (nowA (se_world S)) (\<lambda>now.
       if (case timeoutMs of Some t \<Rightarrow> now - started \<ge> t | None \<Rightarrow> False) then ret (Some snapshot)
       else seqA (sleepA (se_world S) 1000) (waitForUpidJobSnapshot S fuel jobId timeoutMs started)))"

text \<open>The answer \<open>completedJobResult\<close> gives for a snapshot.\<close>

definition snapshotResult :: "upid_snapshot \<Rightarrow> string \<Rightarrow> tool_result" where
  "snapshotResult u note =
     textResult note
       (JObj [(''jobId'', JStr (us_jobId u)), (''state'', JStr (state_str (us_state u))),
          (''operation'', JStr (us_operation u)), (''target'', us_target u), (''relatedUpid'', JStr (us_relatedUpid u)),
          (''durability'', JStr (if us_relatedUpid u \<noteq> [] then ''proxmox_upid'' else ''process_local'')),
          (''result'', us_result u), (''error'', of_str_opt (us_error u)),
          (''logs'', JArr (map JStr (slice_last 200 (us_logs u))))])
       (us_state u = JsFailed \<or> us_state u = JsCancelled) []"

section \<open>Tools\<close>

record guest_place =
  gp_cluster :: string
  gp_kind :: target_kind
  gp_node :: "string option"
  gp_vmid :: "int option"

definition place_target :: "guest_place \<Rightarrow> target_ref" where
  "place_target p = target_of (gp_cluster p) (gp_kind p) (js_or_undefined (gp_node p)) (gp_vmid p)"

datatype escape_tool =
    ApiCallTool string string string "(string \<times> jsval) list" execution
  | CliRunTool string string string "string list" "string option" execution
  | ShellRunTool guest_place shell_input execution
  | FileReadTool guest_place string
  | FileWriteTool guest_place string content_input
  | JobGetTool string
  | JobWaitTool string "int option"
  | JobCancelTool string
  | JobLogsTool string int
  | BootstrapNodeTool string string bootstrap_options
  | CapabilitiesTool

fun escape_tool_name :: "escape_tool \<Rightarrow> string" where
  "escape_tool_name (ApiCallTool _ _ _ _ _) = ''proxmox_api_call''"
| "escape_tool_name (CliRunTool _ _ _ _ _ _) = ''proxmox_cli_run''"
| "escape_tool_name (ShellRunTool _ _ _) = ''proxmox_shell_run''"
| "escape_tool_name (FileReadTool _ _) = ''proxmox_file_read''"
| "escape_tool_name (FileWriteTool _ _ _) = ''proxmox_file_write''"
| "escape_tool_name (JobGetTool _) = ''job_get''"
| "escape_tool_name (JobWaitTool _ _) = ''job_wait''"
| "escape_tool_name (JobCancelTool _) = ''job_cancel''"
| "escape_tool_name (JobLogsTool _ _) = ''job_logs''"
| "escape_tool_name (BootstrapNodeTool _ _ _) = ''proxmox_bootstrap_node_access''"
| "escape_tool_name CapabilitiesTool = ''proxmox_capabilities''"

definition apiCallTool ::
    "service \<Rightarrow> nat \<Rightarrow> string \<Rightarrow> string \<Rightarrow> string \<Rightarrow> (string \<times> jsval) list \<Rightarrow> execution \<Rightarrow>
     ('b server_scheme, tool_result option) act" where
  "apiCallTool S fuel cluster verb path args ex =
     bindA (proxmoxApiCall S (cluster_target cluster) verb path args (ex_timeoutMs ex)) (\<lambda>response.
       apiTaskTool S fuel ex (cluster_target cluster) (''api:'' @ verb @ '':'' @ path)
         (''API '' @ verb @ '' '' @ path) (''API task for '' @ verb @ '' '' @ path @ '' finished'')
         (''API task for '' @ verb @ '' '' @ path @ '' running'') response)"

text \<open>The CLI tool passes no output callback: the output is logged at the end.\<close>

definition cliRunTool ::
    "service \<Rightarrow> string \<Rightarrow> string \<Rightarrow> string \<Rightarrow> string list \<Rightarrow> string option \<Rightarrow> execution \<Rightarrow>
     ('b server_scheme, tool_result option) act" where
  "cliRunTool S cluster node family args rawCommand ex =
     (let w = se_world S; target = node_target_of cluster node in
      bindA (newJobA w target (''cli:'' @ family)) (\<lambda>job.
      jobTool w (ex_waitMode ex) job (''CLI '' @ family @ '' finished'') (''CLI '' @ family @ '' running'')
        (bindA (proxmoxCliRun S target family args rawCommand) (\<lambda>result.
         bindA (logOutput w (sj_jobId job) result) (\<lambda>v. ret (Some v))))))"

definition shellRunTool ::
    "service \<Rightarrow> nat \<Rightarrow> guest_place \<Rightarrow> shell_input \<Rightarrow> execution \<Rightarrow> ('b server_scheme, tool_result option) act" where
  "shellRunTool S fuel p input ex =
     (let w = se_world S in
      bindA (newJobA w (place_target p) ''shell_run'') (\<lambda>job.
      jobTool w (ex_waitMode ex) job ''Shell command finished'' ''Shell command running''
        (mapRunning command_json (reporting w True (sj_jobId job) (proxmoxShellRun S fuel (place_target p) input)))))"

definition fileReadTool :: "service \<Rightarrow> guest_place \<Rightarrow> string \<Rightarrow> ('b server_scheme, tool_result option) act" where
  "fileReadTool S p filePath =
     bindA (proxmoxFileReadBytes S (place_target p) filePath) (\<lambda>(content, src).
     bindA (artifactResult S (''Read '' @ filePath) ''file'' ''application/octet-stream'' content
         [(''filePath'', JStr filePath), (''source'', source_json src), (''size'', JNum (byteLength content))] False False)
       (\<lambda>r. ret (Some r)))"

definition written_json :: "file_source \<Rightarrow> jsval" where
  "written_json src = JObj [(''ok'', JBool True), (''source'', source_json src)]"

definition fileWriteTool ::
    "service \<Rightarrow> guest_place \<Rightarrow> string \<Rightarrow> content_input \<Rightarrow> ('b server_scheme, tool_result option) act" where
  "fileWriteTool S p filePath c =
     (if no_content c then raise ''File write requires content, artifactId, or resourceUri''
      else answerA (''Wrote '' @ filePath)
        (if from_artifact c
         then bindA (readArtifactBuffer S (co_artifactId c) (co_resourceUri c)) (proxmoxFileWriteBytes S (place_target p) filePath)
         else proxmoxFileWrite S (place_target p) filePath (case co_content c of Some t \<Rightarrow> t | None \<Rightarrow> [])) written_json)"

definition findJobA :: "string \<Rightarrow> ('b server_scheme, server_job option) act" where
  "findJobA jobId = getsA (\<lambda>s. findJob (sr_jobs s) jobId)"

definition jobGetTool :: "service \<Rightarrow> string \<Rightarrow> ('b server_scheme, tool_result option) act" where
  "jobGetTool S jobId =
     bindA (findJobA jobId) (\<lambda>localJob.
     case localJob of
       Some j \<Rightarrow> ret (Some (completedJobResult j (''Job '' @ jobId)))
     | None \<Rightarrow> bindA (readUpidJobSnapshot S jobId) (\<lambda>u. ret (Some (snapshotResult u (''Job '' @ jobId)))))"

text \<open>A local wait ends with the run or with the timeout, whichever the world lets come first.\<close>

definition jobWaitTool :: "service \<Rightarrow> nat \<Rightarrow> string \<Rightarrow> int option \<Rightarrow> ('b server_scheme, tool_result option) act" where
  "jobWaitTool S fuel jobId timeoutMs =
     bindA (findJobA jobId) (\<lambda>localJob.
     case localJob of
       Some _ \<Rightarrow>
         bindA (lateA (se_world S)) (\<lambda>late.
         bindA (getsA (\<lambda>s. waitJob (timeoutMs \<noteq> None \<and> late) jobId (sr_jobs s))) (\<lambda>snapshot.
         case snapshot of
           None \<Rightarrow> ret None
         | Some r \<Rightarrow> bindA (liftR r) (\<lambda>j. ret (Some (completedJobResult j (''Job '' @ jobId))))))
     | None \<Rightarrow>
         bindA (nowA (se_world S)) (\<lambda>started.
         mapRunning (\<lambda>u. snapshotResult u (''Job '' @ jobId)) (waitForUpidJobSnapshot S fuel jobId timeoutMs started)))"

text \<open>
  Cancelling: a job with a task is cancelled at Proxmox, best effort, and then read back by its id,
  which fails for a local job whose id carries no task; any other job is aborted in this process.
\<close>

definition jobCancelTool :: "service \<Rightarrow> string \<Rightarrow> ('b server_scheme, tool_result option) act" where
  "jobCancelTool S jobId =
     bindA (findJobA jobId) (\<lambda>localJob.
     let handle = (case parseUpidJobId (se_world S) jobId of
            Some h \<Rightarrow> Some (case jget (uh_target h) ''cluster'' of JStr c \<Rightarrow> c | _ \<Rightarrow> [], uh_upid h)
          | None \<Rightarrow> (case localJob of
              Some j \<Rightarrow> map_option (\<lambda>u. (tg_cluster (sj_target j), u)) (js_or_undefined (sj_relatedUpid j))
            | None \<Rightarrow> None))
     in case handle of
       Some (cluster, upid) \<Rightarrow>
         bindA (attemptA (cancelUpid S cluster upid)) (\<lambda>_.
         bindA (readUpidJobSnapshot S jobId) (\<lambda>u.
         ret (Some (snapshotResult u (''Cancellation requested for '' @ jobId)))))
     | None \<Rightarrow>
         seqA (modifyA (\<lambda>s. s\<lparr>sr_jobs := cancelJob jobId (sr_jobs s)\<rparr>))
        (bindA (getsA (\<lambda>s. waitJob True jobId (sr_jobs s))) (\<lambda>snapshot.
         case snapshot of
           None \<Rightarrow> ret None
         | Some r \<Rightarrow> bindA (liftR r) (\<lambda>j. ret (Some (completedJobResult j (''Job '' @ jobId @ '' cancelled''))))))) "

definition logsOf :: "service \<Rightarrow> string \<Rightarrow> ('b server_scheme, string list) act" where
  "logsOf S jobId =
     bindA (findJobA jobId) (\<lambda>localJob.
     case localJob of
       Some j \<Rightarrow> ret (sj_logs j)
     | None \<Rightarrow> bindA (readUpidJobSnapshot S jobId) (\<lambda>u. ret (us_logs u)))"

definition jobLogsTool :: "service \<Rightarrow> string \<Rightarrow> int \<Rightarrow> ('b server_scheme, tool_result option) act" where
  "jobLogsTool S jobId limit =
     answerA (''Logs for '' @ jobId) (logsOf S jobId)
       (\<lambda>logs. JObj [(''jobId'', JStr jobId), (''logs'', JArr (map JStr (slice_last limit logs)))])"

definition token_info_json :: "token_info \<Rightarrow> jsval" where
  "token_info_json k = JObj [(''user'', JStr (tk_user k)), (''realm'', JStr (tk_realm k)), (''tokenId'', JStr (tk_tokenId k)),
     (''fullTokenId'', tk_fullTokenId k), (''value'', tk_value k), (''privsep'', tk_privsep k),
     (''expire'', tk_expire k), (''comment'', tk_comment k)]"

definition bootstrap_result_json :: "string \<Rightarrow> string \<Rightarrow> bootstrap_result \<Rightarrow> jsval" where
  "bootstrap_result_json cluster node r = JObj
     ([(''cluster'', JStr cluster), (''node'', JStr node),
       (''sshPublicKeyInstalled'', JBool (br_sshPublicKeyInstalled r)), (''tokenGenerated'', JBool (br_tokenGenerated r)),
       (''tokenAuthActivated'', JBool (br_tokenAuthActivated r))] @
      (case br_tokenInfo r of Some k \<Rightarrow> [(''tokenInfo'', token_info_json k)] | None \<Rightarrow> []))"

fun runEscapeTool :: "service \<Rightarrow> nat \<Rightarrow> escape_tool \<Rightarrow> ('b server_scheme, tool_result option) act" where
  "runEscapeTool S fuel (ApiCallTool cluster verb path args ex) = apiCallTool S fuel cluster verb path args ex"
| "runEscapeTool S fuel (CliRunTool cluster node family args raw ex) = cliRunTool S cluster node family args raw ex"
| "runEscapeTool S fuel (ShellRunTool p input ex) = shellRunTool S fuel p input ex"
| "runEscapeTool S fuel (FileReadTool p filePath) = fileReadTool S p filePath"
| "runEscapeTool S fuel (FileWriteTool p filePath c) = fileWriteTool S p filePath c"
| "runEscapeTool S fuel (JobGetTool jobId) = jobGetTool S jobId"
| "runEscapeTool S fuel (JobWaitTool jobId timeoutMs) = jobWaitTool S fuel jobId timeoutMs"
| "runEscapeTool S fuel (JobCancelTool jobId) = jobCancelTool S jobId"
| "runEscapeTool S fuel (JobLogsTool jobId limit) = jobLogsTool S jobId limit"
| "runEscapeTool S fuel (BootstrapNodeTool cluster node b) =
     answerA (''Bootstrap access for '' @ cluster @ ''/'' @ node) (bootstrapNodeAccess S cluster node b)
       (bootstrap_result_json cluster node)"
| "runEscapeTool S fuel CapabilitiesTool =
     ret (Some (plainResult ''Capability names'' (JArr (map JStr CAPABILITY_NAMES))))"

section \<open>Resources and prompts\<close>

datatype resource_read =
    ArtifactResource string
  | InventoryResource string string
  | JobLogResource string string

definition contents_json :: "jsval \<Rightarrow> jsval" where
  "contents_json v = JObj [(''contents'', JArr [v])]"

definition text_contents :: "string \<Rightarrow> string \<Rightarrow> string \<Rightarrow> jsval" where
  "text_contents uri mimeType t =
     contents_json (JObj [(''uri'', JStr uri), (''mimeType'', JStr mimeType), (''text'', JStr t)])"

fun readServerResource :: "service \<Rightarrow> resource_read \<Rightarrow> ('b server_scheme, jsval) act" where
  "readServerResource S (ArtifactResource artifactId) =
     (if artifactId = [] then raise ''Missing artifactId parameter''
      else bindA (readResource S artifactId) (\<lambda>v. ret (contents_json v)))"
| "readServerResource S (InventoryResource href cluster) =
     (if cluster = [] then raise ''Missing cluster parameter''
      else bindA (inventoryOverview S 0 cluster False True) (\<lambda>r.
        case r of
          Some i \<Rightarrow> ret (text_contents href ''application/json'' (safeJson (cluster_summary_json i)))
        | None \<Rightarrow> raise ''probe pending''))"
| "readServerResource S (JobLogResource href jobId) =
     (if jobId = [] then raise ''Missing jobId parameter''
      else bindA (logsOf S jobId) (\<lambda>logs. ret (text_contents href ''text/plain'' (concat logs))))"

definition changePlanPrompt :: "string \<Rightarrow> string \<Rightarrow> string option \<Rightarrow> string" where
  "changePlanPrompt target change rollback =
     ''Before changing '' @ target @
     '', summarize the intended change, expected impact, validation steps, and rollback plan.'' @
     (case js_or_undefined rollback of Some r \<Rightarrow> '' Rollback: '' @ r @ ''.'' | None \<Rightarrow> []) @
     '' Change: '' @ change @ ''.''"

definition riskReviewPrompt :: "string \<Rightarrow> string \<Rightarrow> string" where
  "riskReviewPrompt operation target =
     ''Review the risk of running '' @ squoted operation @ '' against '' @ target @
     ''. Identify blast radius, prerequisites, and post-change verification.''"

end
