(* ===== verification/ToolsQemu.thy ===== *)
theory ToolsQemu
  imports ToolsNode
begin

text \<open>
  The tools of src/tools/qemu/register.ts and src/tools/boot/register.ts: virtual machines, their
  guests, templates and PCI devices, and the two diagnoses.
\<close>

section \<open>Answers\<close>

definition template_fields :: "template_summary \<Rightarrow> (string \<times> jsval) list" where
  "template_fields t = [(''cluster'', JStr (te_cluster t)), (''vmid'', JNum (te_vmid t)), (''node'', JStr (te_node t)),
     (''name'', JStr (te_name t)), (''status'', of_str_opt (te_status t))]"

definition pci_fields :: "string \<Rightarrow> int \<Rightarrow> pci_result \<Rightarrow> (string \<times> jsval) list" where
  "pci_fields cluster vmid r =
     [(''cluster'', JStr cluster), (''node'', JStr (pr_node r)), (''vmid'', JNum vmid), (''slot'', JNum (pr_slot r)),
      (''configKey'', JStr (pr_configKey r))] @
     str_field ''configValue'' (pr_configValue r) @
     [(''appliedVia'', JStr (case pr_appliedVia r of AvRest \<Rightarrow> ''rest'' | AvQmCliFallback \<Rightarrow> ''qm_cli_fallback''))] @
     str_field ''fallbackReason'' (pr_fallbackReason r) @
     [(''data'', case pr_data r of Inl v \<Rightarrow> v | Inr c \<Rightarrow> command_json c)] @
     (case pr_appliedVia r of AvRest \<Rightarrow> [(''upid'', of_str_opt (pr_upid r))] | AvQmCliFallback \<Rightarrow> [])"

text \<open>A probe of the diagnosis: its data or its error.\<close>

definition probe_json :: "string \<Rightarrow> jsval res \<Rightarrow> jsval" where
  "probe_json k r = (case r of
     Inr v \<Rightarrow> JObj [(''ok'', JBool True), (k, v)]
   | Inl e \<Rightarrow> JObj [(''ok'', JBool False), (''error'', JStr e)])"

definition console_scope_str :: "console_scope \<Rightarrow> string" where
  "console_scope_str c = (case c of CsShell \<Rightarrow> ''shell'' | CsVnc \<Rightarrow> ''vnc'')"

definition diagnosis_fields :: "string \<Rightarrow> int \<Rightarrow> guest_diagnosis \<Rightarrow> (string \<times> jsval) list" where
  "diagnosis_fields cluster vmid d =
     [(''vm'', JObj [(''cluster'', JStr cluster), (''vmid'', JNum vmid), (''node'', JStr (dg_node d)),
        (''name'', JStr (dg_name d)), (''status'', dg_status d),
        (''proxmoxMemory'', JObj [(''usedBytes'', fst (dg_memory d)), (''maxBytes'', fst (snd (dg_memory d))),
           (''balloonBytes'', snd (snd (dg_memory d)))])]),
      (''guestAgent'', JObj [(''configured'', JBool (dg_configured d)), (''ping'', probe_json ''data'' (dg_ping d)),
        (''info'', probe_json ''data'' (dg_info d))]),
      (''cloudInit'', JObj [(''cicustom'', JObj
          [(''raw'', case dg_cicustomRaw d of Some s \<Rightarrow> JStr s | None \<Rightarrow> JNull),
           (''sections'', JObj (map (map_prod id JStr) (dg_cicustom d)))]),
        (''dumps'', JObj (map (\<lambda>(k, r). (k, probe_json ''content'' (case r of Inl e \<Rightarrow> Inl e | Inr c \<Rightarrow> Inr (JStr c)))) (dg_dumps d)))]),
      (''console'', JObj [(''serialConfigured'', JBool (dg_serialConfigured d)), (''vga'', dg_vga d),
        (''suggestedConsoleScope'', JStr (console_scope_str (dg_suggestedConsole d)))])]"

definition findings_field :: "string list \<Rightarrow> (string \<times> jsval) list" where
  "findings_field fs = [(''findings'', JArr (map JStr fs))]"

definition null_str :: "string option \<Rightarrow> jsval" where
  "null_str v = (case v of Some s \<Rightarrow> JStr s | None \<Rightarrow> JNull)"

definition inspection_json :: "offline_inspection \<Rightarrow> jsval" where
  "inspection_json i = JObj
     [(''attempted'', JBool (oi_attempted i)), (''supported'', JBool (oi_supported i)),
      (''privilegedNodeShellRequired'', JBool (oi_privilegedNodeShellRequired i)),
      (''blockDevicePath'', null_str (oi_blockDevicePath i)), (''mountSource'', null_str (oi_mountSource i)),
      (''bootstrapStack'', JStr (oi_bootstrapStack i)), (''osRelease'', null_str (oi_osRelease i)),
      (''sections'', JObj (map (map_prod id JStr) (oi_sections i))), (''errors'', JArr (map JStr (oi_errors i)))]"

section \<open>Tools\<close>

text \<open>The destination and the options of a clone, in the order of the handler's object.\<close>

record clone_input =
  ci_newid :: int
  ci_name :: "string option"
  ci_full :: "bool option"
  ci_storage :: "string option"
  ci_target :: "string option"
  ci_pool :: "string option"
  ci_description :: "string option"
  ci_snapname :: "string option"
  ci_bwlimit :: "int option"
  ci_format :: "string option"

definition clone_args :: "clone_input \<Rightarrow> (string \<times> jsval) list" where
  "clone_args c =
     [(''newid'', JNum (ci_newid c)), (''name'', of_str_opt (ci_name c)), (''full'', of_bool_opt (ci_full c)),
      (''storage'', of_str_opt (ci_storage c)), (''target'', of_str_opt (ci_target c)), (''pool'', of_str_opt (ci_pool c)),
      (''description'', of_str_opt (ci_description c)), (''snapname'', of_str_opt (ci_snapname c)),
      (''bwlimit'', of_int_opt (ci_bwlimit c)), (''format'', of_str_opt (ci_format c))]"

record destroy_input =
  di_destroyUnreferencedDisks :: "bool option"
  di_purge :: "bool option"
  di_skiplock :: "bool option"

definition destroy_args :: "destroy_input \<Rightarrow> (string \<times> jsval) list" where
  "destroy_args d =
     bool_field ''destroy-unreferenced-disks'' (di_destroyUnreferencedDisks d) @ bool_field ''purge'' (di_purge d) @
     bool_field ''skiplock'' (di_skiplock d)"

datatype qemu_tool =
    VmListTool string
  | VmGetTool string int
  | GuestAgentDiagnoseTool string int "string option" "int option"
  | AgentPingTool string int "string option" "int option"
  | AgentInfoTool string int "string option" "int option"
  | VmActionTool string int string "(string \<times> jsval) list" execution
  | GuestExecTool string int string interpreter execution
  | TemplateListTool string
  | TemplateGetTool string int
  | VmCreateTool string string int "(string \<times> jsval) list" execution
  | VmUpdateConfigTool string int "string option" "(string \<times> jsval) list" execution
  | PciAttachTool string int "string option" pci_options execution
  | PciDetachTool string int "string option" int execution
  | ConvertToTemplateTool string int "string option" "string option" execution
  | VmCloneTool string int "string option" clone_input execution
  | VmDestroyTool string int "string option" destroy_input execution
  | BootDiagnoseTool string int "string option" "int option"

fun qemu_tool_name :: "qemu_tool \<Rightarrow> string" where
  "qemu_tool_name (VmListTool _) = ''proxmox_vm_list''"
| "qemu_tool_name (VmGetTool _ _) = ''proxmox_vm_get''"
| "qemu_tool_name (GuestAgentDiagnoseTool _ _ _ _) = ''proxmox_vm_guest_agent_diagnose''"
| "qemu_tool_name (AgentPingTool _ _ _ _) = ''proxmox_vm_agent_ping''"
| "qemu_tool_name (AgentInfoTool _ _ _ _) = ''proxmox_vm_agent_info''"
| "qemu_tool_name (VmActionTool _ _ _ _ _) = ''proxmox_vm_action''"
| "qemu_tool_name (GuestExecTool _ _ _ _ _) = ''proxmox_vm_guest_exec''"
| "qemu_tool_name (TemplateListTool _) = ''proxmox_vm_template_list''"
| "qemu_tool_name (TemplateGetTool _ _) = ''proxmox_vm_template_get''"
| "qemu_tool_name (VmCreateTool _ _ _ _ _) = ''proxmox_vm_create''"
| "qemu_tool_name (VmUpdateConfigTool _ _ _ _ _) = ''proxmox_vm_update_config''"
| "qemu_tool_name (PciAttachTool _ _ _ _ _) = ''proxmox_vm_pci_attach''"
| "qemu_tool_name (PciDetachTool _ _ _ _ _) = ''proxmox_vm_pci_detach''"
| "qemu_tool_name (ConvertToTemplateTool _ _ _ _ _) = ''proxmox_vm_convert_to_template''"
| "qemu_tool_name (VmCloneTool _ _ _ _ _) = ''proxmox_vm_clone''"
| "qemu_tool_name (VmDestroyTool _ _ _ _ _) = ''proxmox_vm_destroy''"
| "qemu_tool_name (BootDiagnoseTool _ _ _ _) = ''proxmox_vm_boot_diagnose''"

text \<open>A target with the node only when one was given and is not empty.\<close>

definition vm_target :: "string \<Rightarrow> int \<Rightarrow> string option \<Rightarrow> target_ref" where
  "vm_target cluster vmid node = target_of cluster KQemuVm (js_or_undefined node) (Some vmid)"

definition vmActionTool ::
    "service \<Rightarrow> nat \<Rightarrow> string \<Rightarrow> int \<Rightarrow> string \<Rightarrow> (string \<times> jsval) list \<Rightarrow> execution \<Rightarrow>
     ('b server_scheme, tool_result option) act" where
  "vmActionTool S fuel cluster vmid action args ex =
     bindA (vmAction S cluster vmid action args (ex_timeoutMs ex)) (\<lambda>response.
       apiTaskTool S fuel ex (vm_target cluster vmid None) (''vm:'' @ action)
         (''VM action '' @ action @ '' completed'') (''VM action '' @ action @ '' finished'')
         (''VM action '' @ action @ '' running'') response)"

definition guestExecTool ::
    "service \<Rightarrow> nat \<Rightarrow> string \<Rightarrow> int \<Rightarrow> string \<Rightarrow> interpreter \<Rightarrow> execution \<Rightarrow> ('b server_scheme, tool_result option) act" where
  "guestExecTool S fuel cluster vmid command interp ex =
     (let w = se_world S; target = vm_target cluster vmid None in
      bindA (newJobA w target ''vm_guest_exec'') (\<lambda>job.
      jobTool w (ex_waitMode ex) job ''VM guest command finished'' ''VM guest command running''
        (mapRunning command_json (reporting w True (sj_jobId job) (proxmoxShellRun S fuel target
          \<lparr>si_command = command, si_interpreter = interp, si_useSudo = False\<rparr>)))))"

definition vmCreateTool ::
    "service \<Rightarrow> nat \<Rightarrow> string \<Rightarrow> string \<Rightarrow> int \<Rightarrow> (string \<times> jsval) list \<Rightarrow> execution \<Rightarrow>
     ('b server_scheme, tool_result option) act" where
  "vmCreateTool S fuel cluster node vmid args ex =
     bindA (vmCreate S cluster node vmid args (ex_timeoutMs ex)) (\<lambda>response.
       apiTaskTool S fuel ex (node_target_of cluster node) ''vm:create''
         (''VM '' @ int_str vmid @ '' created'') (''VM '' @ int_str vmid @ '' creation finished'')
         (''VM '' @ int_str vmid @ '' creating'') response)"

definition vmUpdateConfigTool ::
    "service \<Rightarrow> nat \<Rightarrow> string \<Rightarrow> int \<Rightarrow> string option \<Rightarrow> (string \<times> jsval) list \<Rightarrow> execution \<Rightarrow>
     ('b server_scheme, tool_result option) act" where
  "vmUpdateConfigTool S fuel cluster vmid node args ex =
     bindA (vmUpdateConfig S cluster vmid args node (ex_timeoutMs ex)) (\<lambda>response.
       apiTaskTool S fuel ex (vm_target cluster vmid node) ''vm:update_config''
         (''VM '' @ int_str vmid @ '' config updated'') (''VM '' @ int_str vmid @ '' config update finished'')
         (''VM '' @ int_str vmid @ '' config updating'') response)"

text \<open>Both PCI tools read the configuration back once the change is in place.\<close>

definition withLatestConfig ::
    "service \<Rightarrow> string \<Rightarrow> int \<Rightarrow> (string \<times> jsval) list \<Rightarrow> ('b svc_scheme, jsval) act" where
  "withLatestConfig S cluster vmid ps =
     bindA (qemuGet S cluster vmid) (\<lambda>latest. ret (JObj (ps @ [(''config'', gd_config latest)])))"

definition pciTool ::
    "service \<Rightarrow> nat \<Rightarrow> string \<Rightarrow> int \<Rightarrow> execution \<Rightarrow> string \<Rightarrow> string \<Rightarrow> string \<Rightarrow> string \<Rightarrow> pci_result \<Rightarrow>
     ('b server_scheme, tool_result option) act" where
  "pciTool S fuel cluster vmid ex operation completed finished running response =
     taskTool S fuel ex (target_of cluster KQemuVm (Some (pr_node response)) (Some vmid)) operation finished running
       (pr_upid response)
       (bindA (withLatestConfig S cluster vmid (pci_fields cluster vmid response)) (\<lambda>v. ret (plainResult completed v)))
       (\<lambda>task. withLatestConfig S cluster vmid (pci_fields cluster vmid response @ [(''task'', task_json task)]))"

definition slot_title :: "int \<Rightarrow> int \<Rightarrow> string" where
  "slot_title vmid slot = ''VM '' @ int_str vmid @ '' PCI slot '' @ int_str slot"

definition pciAttachTool ::
    "service \<Rightarrow> nat \<Rightarrow> string \<Rightarrow> int \<Rightarrow> string option \<Rightarrow> pci_options \<Rightarrow> execution \<Rightarrow>
     ('b server_scheme, tool_result option) act" where
  "pciAttachTool S fuel cluster vmid node p ex =
     (if \<not> js_truthy (po_host p) \<and> \<not> js_truthy (po_mapping p) \<or> js_truthy (po_host p) \<and> js_truthy (po_mapping p)
      then raise ''PCI attach requires exactly one of host or mapping.''
      else bindA (vmAttachPciDevice S cluster vmid p node (ex_timeoutMs ex)) (\<lambda>response.
        pciTool S fuel cluster vmid ex ''vm:pci_attach'' (slot_title vmid (po_slot p) @ '' attached'')
          (slot_title vmid (po_slot p) @ '' attach finished'') (slot_title vmid (po_slot p) @ '' attaching'') response))"

definition pciDetachTool ::
    "service \<Rightarrow> nat \<Rightarrow> string \<Rightarrow> int \<Rightarrow> string option \<Rightarrow> int \<Rightarrow> execution \<Rightarrow>
     ('b server_scheme, tool_result option) act" where
  "pciDetachTool S fuel cluster vmid node slot ex =
     bindA (vmDetachPciDevice S cluster vmid slot node (ex_timeoutMs ex)) (\<lambda>response.
       pciTool S fuel cluster vmid ex ''vm:pci_detach'' (slot_title vmid slot @ '' detached'')
         (slot_title vmid slot @ '' detach finished'') (slot_title vmid slot @ '' detaching'') response)"

definition convertToTemplateTool ::
    "service \<Rightarrow> nat \<Rightarrow> string \<Rightarrow> int \<Rightarrow> string option \<Rightarrow> string option \<Rightarrow> execution \<Rightarrow>
     ('b server_scheme, tool_result option) act" where
  "convertToTemplateTool S fuel cluster vmid node disk ex =
     bindA (vmConvertToTemplate S cluster vmid (truthy_field ''disk'' disk) node (ex_timeoutMs ex)) (\<lambda>response.
       apiTaskTool S fuel ex (vm_target cluster vmid node) ''vm:convert_to_template''
         (''VM '' @ int_str vmid @ '' converted to template'') (''VM '' @ int_str vmid @ '' template conversion finished'')
         (''VM '' @ int_str vmid @ '' converting to template'') response)"

definition vmCloneTool ::
    "service \<Rightarrow> nat \<Rightarrow> string \<Rightarrow> int \<Rightarrow> string option \<Rightarrow> clone_input \<Rightarrow> execution \<Rightarrow>
     ('b server_scheme, tool_result option) act" where
  "vmCloneTool S fuel cluster vmid node c ex =
     bindA (vmClone S cluster vmid (clone_args c) node (ex_timeoutMs ex)) (\<lambda>response.
       apiTaskTool S fuel ex (vm_target cluster vmid node) ''vm:clone''
         (''VM '' @ int_str vmid @ '' cloned to '' @ int_str (ci_newid c))
         (''VM '' @ int_str vmid @ '' clone to '' @ int_str (ci_newid c) @ '' finished'')
         (''VM '' @ int_str vmid @ '' cloning to '' @ int_str (ci_newid c)) response)"

definition vmDestroyTool ::
    "service \<Rightarrow> nat \<Rightarrow> string \<Rightarrow> int \<Rightarrow> string option \<Rightarrow> destroy_input \<Rightarrow> execution \<Rightarrow>
     ('b server_scheme, tool_result option) act" where
  "vmDestroyTool S fuel cluster vmid node d ex =
     bindA (vmDestroy S cluster vmid (destroy_args d) node (ex_timeoutMs ex)) (\<lambda>response.
       apiTaskTool S fuel ex (vm_target cluster vmid node) ''vm:destroy''
         (''VM '' @ int_str vmid @ '' destroyed'') (''VM '' @ int_str vmid @ '' destroy finished'')
         (''VM '' @ int_str vmid @ '' destroying'') response)"

fun runQemuTool :: "service \<Rightarrow> nat \<Rightarrow> qemu_tool \<Rightarrow> ('b server_scheme, tool_result option) act" where
  "runQemuTool S fuel (VmListTool cluster) =
     answerA (''QEMU VMs for '' @ cluster) (qemuList S cluster) (\<lambda>us. JArr (map vm_summary_json us))"
| "runQemuTool S fuel (VmGetTool cluster vmid) = answerA (''VM '' @ int_str vmid) (qemuGet S cluster vmid) details_json"
| "runQemuTool S fuel (GuestAgentDiagnoseTool cluster vmid node timeoutMs) =
     answerA (''Guest-agent diagnosis for VM '' @ int_str vmid) (diagnoseGuestAgent S cluster vmid node timeoutMs)
       (\<lambda>d. JObj (diagnosis_fields cluster vmid d @ findings_field (dg_findings d)))"
| "runQemuTool S fuel (AgentPingTool cluster vmid node timeoutMs) =
     answerA (''Guest agent ping for VM '' @ int_str vmid) (agentPing S cluster vmid node timeoutMs) ar_data"
| "runQemuTool S fuel (AgentInfoTool cluster vmid node timeoutMs) =
     answerA (''Guest agent info for VM '' @ int_str vmid) (agentInfo S cluster vmid node timeoutMs) ar_data"
| "runQemuTool S fuel (VmActionTool cluster vmid action args ex) = vmActionTool S fuel cluster vmid action args ex"
| "runQemuTool S fuel (GuestExecTool cluster vmid command interp ex) = guestExecTool S fuel cluster vmid command interp ex"
| "runQemuTool S fuel (TemplateListTool cluster) =
     answerA (''VM templates for '' @ cluster) (listVmTemplates S cluster) (\<lambda>ts. JArr (map (\<lambda>t. JObj (template_fields t)) ts))"
| "runQemuTool S fuel (TemplateGetTool cluster vmid) =
     answerA (''VM template '' @ int_str vmid) (getVmTemplate S cluster vmid)
       (\<lambda>(t, config). JObj (template_fields t @ [(''config'', config)]))"
| "runQemuTool S fuel (VmCreateTool cluster node vmid args ex) = vmCreateTool S fuel cluster node vmid args ex"
| "runQemuTool S fuel (VmUpdateConfigTool cluster vmid node args ex) = vmUpdateConfigTool S fuel cluster vmid node args ex"
| "runQemuTool S fuel (PciAttachTool cluster vmid node p ex) = pciAttachTool S fuel cluster vmid node p ex"
| "runQemuTool S fuel (PciDetachTool cluster vmid node slot ex) = pciDetachTool S fuel cluster vmid node slot ex"
| "runQemuTool S fuel (ConvertToTemplateTool cluster vmid node disk ex) = convertToTemplateTool S fuel cluster vmid node disk ex"
| "runQemuTool S fuel (VmCloneTool cluster vmid node c ex) = vmCloneTool S fuel cluster vmid node c ex"
| "runQemuTool S fuel (VmDestroyTool cluster vmid node d ex) = vmDestroyTool S fuel cluster vmid node d ex"
| "runQemuTool S fuel (BootDiagnoseTool cluster vmid node timeoutMs) =
     answerA (''Boot diagnosis for VM '' @ int_str vmid) (diagnoseVmBoot S cluster vmid node timeoutMs)
       (\<lambda>b. JObj (diagnosis_fields cluster vmid (bd_guest b) @
          [(''offlineInspection'', inspection_json (bd_offline b))] @ findings_field (bd_findings b)))"

end
