(* ===== verification/HttpAuth.thy ===== *)
theory HttpAuth
  imports Effects
begin

text \<open>
  Bearer tokens of src/http-auth.ts: scopes, the JWKS cache with OIDC discovery, key selection, claim
  checks and \<open>OidcJwtVerifier.verifyToken\<close>, and what an accepted token guarantees.  The URL parser
  and the Web Crypto calls of the platform are parameters.
\<close>

section \<open>Scopes\<close>

definition PROXMOX_MCP_SCOPES :: "string list" where
  "PROXMOX_MCP_SCOPES = [''proxmox.read'', ''proxmox.mutate'', ''proxmox.escape'', ''proxmox.admin'']"

text \<open>\<open>split(/[,\s]+/)\<close> without its empty pieces, which the callers drop.\<close>

definition scope_sep :: "char \<Rightarrow> bool" where
  "scope_sep c \<longleftrightarrow> c = CHR '','' \<or> js_space c"

fun scope_words_acc :: "string \<Rightarrow> string \<Rightarrow> string list" where
  "scope_words_acc w [] = (if w = [] then [] else [rev w])"
| "scope_words_acc w (c # s) =
     (if scope_sep c then (if w = [] then scope_words_acc [] s else rev w # scope_words_acc [] s)
      else scope_words_acc (c # w) s)"

definition scope_words :: "string \<Rightarrow> string list" where
  "scope_words s = scope_words_acc [] s"

definition uniqueStrings :: "string list \<Rightarrow> string list" where
  "uniqueStrings vs = set_spread (filter (\<lambda>v. v \<noteq> []) vs)"

definition normalizeScopeTokens :: "string list \<Rightarrow> string list" where
  "normalizeScopeTokens vs = filter (\<lambda>v. v \<in> set PROXMOX_MCP_SCOPES) (uniqueStrings vs)"

definition parseProxmoxMcpScopes :: "jsval \<Rightarrow> string list" where
  "parseProxmoxMcpScopes v =
     (case v of
        JArr es \<Rightarrow> normalizeScopeTokens (concat (map (\<lambda>e. case e of JStr s \<Rightarrow> scope_words s | _ \<Rightarrow> []) es))
      | JStr s \<Rightarrow> normalizeScopeTokens (scope_words s)
      | _ \<Rightarrow> [])"

definition hasRequiredScopes :: "string list \<Rightarrow> string list \<Rightarrow> bool" where
  "hasRequiredScopes scopes required \<longleftrightarrow> list_all (\<lambda>r. r \<in> set scopes) required"

datatype access_level = AlRead | AlMutate | AlEscape

fun scopeRequirementForAccessLevel :: "access_level \<Rightarrow> string" where
  "scopeRequirementForAccessLevel AlRead = ''proxmox.read''"
| "scopeRequirementForAccessLevel AlMutate = ''proxmox.mutate''"
| "scopeRequirementForAccessLevel AlEscape = ''proxmox.escape''"

section \<open>Algorithms\<close>

definition getJwtSigningAlgorithm :: "jsval \<Rightarrow> jsval \<Rightarrow> jsval res" where
  "getJwtSigningAlgorithm jwk alg =
     (if alg = JStr ''RS256'' then Inr (JObj [(''name'', JStr ''RSASSA-PKCS1-v1_5''), (''hash'', JStr ''SHA-256'')])
      else if alg = JStr ''PS256'' then Inr (JObj [(''name'', JStr ''RSA-PSS''), (''hash'', JStr ''SHA-256'')])
      else if alg = JStr ''ES256'' then Inr (JObj [(''name'', JStr ''ECDSA''), (''namedCurve'', JStr ''P-256'')])
      else if alg = JStr ''ES384'' then Inr (JObj [(''name'', JStr ''ECDSA''), (''namedCurve'', JStr ''P-384'')])
      else if alg = JStr ''ES512'' then Inr (JObj [(''name'', JStr ''ECDSA''), (''namedCurve'', JStr ''P-521'')])
      else Inl (''Unsupported JWT algorithm '' @ squoted (js_String alg) @ '' for JWK '' @
        (if jget jwk ''kid'' = JUndef \<or> jget jwk ''kid'' = JNull then ''<no kid>'' else js_String (jget jwk ''kid''))))"

definition getJwtVerifyAlgorithm :: "jsval \<Rightarrow> jsval res" where
  "getJwtVerifyAlgorithm alg =
     (if alg = JStr ''RS256'' then Inr (JObj [(''name'', JStr ''RSASSA-PKCS1-v1_5'')])
      else if alg = JStr ''PS256'' then Inr (JObj [(''name'', JStr ''RSA-PSS''), (''saltLength'', JNum 32)])
      else if alg = JStr ''ES256'' then Inr (JObj [(''name'', JStr ''ECDSA''), (''hash'', JStr ''SHA-256'')])
      else if alg = JStr ''ES384'' then Inr (JObj [(''name'', JStr ''ECDSA''), (''hash'', JStr ''SHA-384'')])
      else if alg = JStr ''ES512'' then Inr (JObj [(''name'', JStr ''ECDSA''), (''hash'', JStr ''SHA-512'')])
      else Inl (''Unsupported JWT algorithm '' @ squoted (js_String alg)))"

section \<open>The platform\<close>

record url =
  ur_href :: string
  ur_origin :: string
  ur_pathname :: string
  ur_host :: string
  ur_protocol :: string

text \<open>
  \<open>new URL\<close> on an absolute address, or on an address and a base, \<open>importKey\<close> (the key or its failure),
  \<open>verify\<close> on a key, a signature and the signed bytes, and the status text of an HTTP response.
\<close>

record 'k platform =
  pf_world :: world
  pf_url :: "string \<Rightarrow> url res"
  pf_resolve :: "string \<Rightarrow> string \<Rightarrow> url res"
  pf_importKey :: "jsval \<Rightarrow> jsval \<Rightarrow> 'k res"
  pf_verify :: "jsval \<Rightarrow> 'k \<Rightarrow> buffer \<Rightarrow> buffer \<Rightarrow> bool res"
  pf_statusText :: "int \<Rightarrow> string"

record oidc_options =
  oo_issuer :: string
  oo_audience :: string
  oo_jwksUri :: "string option"
  oo_resourceServerUrl :: "string option"
  oo_requiredScopes :: "string list option"
  oo_clockSkewSeconds :: "int option"
  oo_cacheTtlMs :: "int option"

record auth_state = io +
  au_cached :: "(int \<times> jsval) option"

definition DEFAULT_CLOCK_SKEW_SECONDS :: int where
  "DEFAULT_CLOCK_SKEW_SECONDS = 30"

definition DEFAULT_CACHE_TTL_MS :: int where
  "DEFAULT_CACHE_TTL_MS = 5 * 60 * 1000"

definition decodeBase64Url :: "string \<Rightarrow> buffer" where
  "decodeBase64Url input =
     (let normalized = map (\<lambda>c. if c = CHR ''-'' then CHR ''+'' else if c = CHR ''_'' then CHR ''/'' else c) input
      in base64_decode (normalized @ replicate ((4 - length normalized mod 4) mod 4) (CHR ''='')))"

definition parseJsonSegment :: "world \<Rightarrow> string \<Rightarrow> jsval res" where
  "parseJsonSegment w segment =
     (case JSON_parse (utf8_text w (decodeBase64Url segment)) of Some v \<Rightarrow> Inr v | None \<Rightarrow> Inl ''SyntaxError'')"

section \<open>Key sets\<close>

definition get_request :: "string \<Rightarrow> http_request" where
  "get_request href = \<lparr>rq_method = ''GET'', rq_url = href, rq_query = [], rq_headers = [], rq_body = None, rq_timeoutMs = None,
     rq_json = None\<rparr>"

definition fetchJson :: "'k platform \<Rightarrow> string \<Rightarrow> ('b auth_state_scheme, jsval) act" where
  "fetchJson p href =
     bindA (fetchA (pf_world p) (get_request href)) (\<lambda>response.
     if rs_status response < 200 \<or> 299 < rs_status response
     then raise (''Failed to fetch '' @ href @ '': '' @ int_str (rs_status response) @ '' '' @
            pf_statusText p (rs_status response))
     else (case JSON_parse (rs_text response) of Some v \<Rightarrow> ret v | None \<Rightarrow> raise ''SyntaxError''))"

text \<open>The leaf is appended to the path of the issuer, on its origin.\<close>

definition resolveWellKnownUrl :: "url \<Rightarrow> string \<Rightarrow> string" where
  "resolveWellKnownUrl base leaf =
     ur_origin base @ (if js_endsWith (ur_pathname base) ''/'' then ur_pathname base else ur_pathname base @ ''/'') @ leaf"

definition resolveJwksUri :: "'k platform \<Rightarrow> oidc_options \<Rightarrow> ('b auth_state_scheme, string) act" where
  "resolveJwksUri p oa =
     (case js_or_undefined (oo_jwksUri oa) of
        Some u \<Rightarrow> bindA (liftR (pf_url p u)) (\<lambda>u. ret (ur_href u))
      | None \<Rightarrow>
          bindA (liftR (pf_url p (oo_issuer oa))) (\<lambda>issuer.
          let discoveryUrl = resolveWellKnownUrl issuer ''.well-known/openid-configuration'' in
          bindA (fetchJson p discoveryUrl) (\<lambda>discovery.
          bindA (liftR (jfield discovery ''jwks_uri'')) (\<lambda>u.
          if \<not> js_truth u
          then raise (''OIDC discovery document at '' @ discoveryUrl @ '' did not include jwks_uri'')
          else bindA (liftR (pf_url p (js_String u))) (\<lambda>u. ret (ur_href u))))))"

definition getJwks :: "'k platform \<Rightarrow> oidc_options \<Rightarrow> ('b auth_state_scheme, jsval list) act" where
  "getJwks p oa =
     bindA (getsA au_cached) (\<lambda>cached.
     bindA (nowA (pf_world p)) (\<lambda>now.
     let ttlMs = (case oo_cacheTtlMs oa of Some n \<Rightarrow> n | None \<Rightarrow> DEFAULT_CACHE_TTL_MS);
         refresh = bindA (resolveJwksUri p oa) (\<lambda>jwksUri.
           bindA (fetchJson p jwksUri) (\<lambda>jwks.
           (case jget jwks ''keys'' of
              JArr ks \<Rightarrow> bindA (nowA (pf_world p)) (\<lambda>now.
                seqA (modifyA (\<lambda>s. s\<lparr>au_cached := Some (now, jwks)\<rparr>)) (ret ks))
            | _ \<Rightarrow> raise (''Invalid JWKS document at '' @ jwksUri))))
     in case cached of
          Some (fetchedAt, jwks) \<Rightarrow>
            if now - fetchedAt < ttlMs then (case jget jwks ''keys'' of JArr ks \<Rightarrow> ret ks | _ \<Rightarrow> ret [])
            else refresh
        | None \<Rightarrow> refresh))"

definition key_usable :: "jsval \<Rightarrow> jsval \<Rightarrow> bool" where
  "key_usable kid key \<longleftrightarrow>
     \<not> (js_truth (jget key ''use'') \<and> jget key ''use'' \<noteq> JStr ''sig'') \<and>
     \<not> (js_truth kid \<and> js_truth (jget key ''kid'') \<and> jget key ''kid'' \<noteq> kid)"

definition selectCandidateKeys :: "jsval list \<Rightarrow> jsval \<Rightarrow> jsval list" where
  "selectCandidateKeys ks header =
     (let kid = jget header ''kid''; candidates = filter (key_usable kid) ks in
      if candidates = [] \<and> js_truth kid then filter (\<lambda>key. jget key ''kid'' = kid) ks else candidates)"

section \<open>Claims\<close>

definition normalizeAudience :: "jsval \<Rightarrow> string list" where
  "normalizeAudience v =
     (case v of JStr s \<Rightarrow> [s] | JArr vs \<Rightarrow> List.map_filter jstr_opt vs | _ \<Rightarrow> [])"

definition skew :: "oidc_options \<Rightarrow> int" where
  "skew oa = (case oo_clockSkewSeconds oa of Some n \<Rightarrow> n | None \<Rightarrow> DEFAULT_CLOCK_SKEW_SECONDS)"

text \<open>
  The value of a JSON number as \<open>n / 10 ^ k\<close>, exactly, where the source has its double; a claim that is
  not a number has none.
\<close>

definition num_value :: "jsval \<Rightarrow> (int \<times> nat) option" where
  "num_value v =
     (case v of
        JNum n \<Rightarrow> Some (n, 0)
      | JFloat s \<Rightarrow>
          (let u = (if js_startsWith s ''-'' then tl s else s);
               ds = takeWhile is_digit u; r = dropWhile is_digit u;
               fr = (if js_startsWith r ''.'' then takeWhile is_digit (tl r) else []);
               ex = (if js_startsWith r ''.'' then dropWhile is_digit (tl r) else r);
               e = (case parseInt10 (tl ex) of Some e \<Rightarrow> e | None \<Rightarrow> 0);
               m = (if js_startsWith s ''-'' then - 1 else 1) * int (digits_val (ds @ fr))
           in if s = ''NaN'' then None
              else if 0 \<le> e then Some (m * 10 ^ nat e, length fr) else Some (m, length fr + nat (- e)))
      | _ \<Rightarrow> None)"

definition number_claim :: "jsval \<Rightarrow> jsval" where
  "number_claim v = (case v of JNum n \<Rightarrow> v | JFloat s \<Rightarrow> v | _ \<Rightarrow> JUndef)"

definition validateClaims :: "oidc_options \<Rightarrow> string \<Rightarrow> int \<Rightarrow> jsval \<Rightarrow> unit res" where
  "validateClaims oa issuer now claims =
     rbind (jfield claims ''iss'') (\<lambda>iss.
     if iss \<noteq> JStr issuer
     then Inl (''JWT issuer '' @ squoted (js_String iss) @ '' does not match expected issuer '' @ squoted issuer)
     else if oo_audience oa \<notin> set (normalizeAudience (jget claims ''aud''))
     then Inl (''JWT audience '' @ squoted (js_join '', '' (normalizeAudience (jget claims ''aud''))) @
            '' does not include expected audience '' @ squoted (oo_audience oa))
     else (let nowSeconds = now div 1000 in
       if (case num_value (jget claims ''exp'') of Some (e, k) \<Rightarrow> e \<le> (nowSeconds - skew oa) * 10 ^ k | None \<Rightarrow> False) then Inl ''JWT has expired''
       else if (case num_value (jget claims ''nbf'') of Some (n, k) \<Rightarrow> (nowSeconds + skew oa) * 10 ^ k < n | None \<Rightarrow> False) then Inl ''JWT is not yet valid''
       else Inr ()))"

section \<open>Verification\<close>

record verified_token =
  vt_token :: string
  vt_clientId :: string
  vt_scopes :: "string list"
  vt_expiresAt :: jsval
  vt_resource :: "string option"
  vt_claims :: jsval

text \<open>One candidate: an import or a verification that throws counts as no match.\<close>

definition key_verifies :: "'k platform \<Rightarrow> jsval \<Rightarrow> buffer \<Rightarrow> buffer \<Rightarrow> jsval \<Rightarrow> bool" where
  "key_verifies p alg signature encoded jwk =
     (case rbind (getJwtSigningAlgorithm jwk alg) (\<lambda>algorithm.
           rbind (pf_importKey p jwk algorithm) (\<lambda>key.
           rbind (getJwtVerifyAlgorithm alg) (\<lambda>algorithm.
             pf_verify p algorithm key signature encoded))) of
        Inr b \<Rightarrow> b | Inl e \<Rightarrow> False)"

definition clientIdOf :: "jsval \<Rightarrow> string" where
  "clientIdOf claims =
     (case jstr_opt (jget claims ''azp'') of Some s \<Rightarrow> s
      | None \<Rightarrow> (case jstr_opt (jget claims ''client_id'') of Some s \<Rightarrow> s
      | None \<Rightarrow> (case jstr_opt (jget claims ''sub'') of Some s \<Rightarrow> s | None \<Rightarrow> ''unknown'')))"

definition claimed_scopes :: "jsval \<Rightarrow> string list" where
  "claimed_scopes claims = parseProxmoxMcpScopes
     (if jget claims ''scope'' = JUndef \<or> jget claims ''scope'' = JNull then jget claims ''scp'' else jget claims ''scope'')"

text \<open>The part of \<open>verifyToken\<close> after the key set was fetched.\<close>

definition acceptToken ::
    "'k platform \<Rightarrow> oidc_options \<Rightarrow> string \<Rightarrow> jsval \<Rightarrow> jsval \<Rightarrow> buffer \<Rightarrow> buffer \<Rightarrow> jsval list \<Rightarrow> verified_token res" where
  "acceptToken p oa token header claims signature encoded jwks =
     (let candidates = selectCandidateKeys jwks header in
      if candidates = [] then Inl ''No matching JWK found for bearer token''
      else if \<not> list_ex (key_verifies p (jget header ''alg'') signature encoded) candidates
      then Inl ''Bearer token signature verification failed''
      else
        let scopes = claimed_scopes claims;
            required = (case oo_requiredScopes oa of Some r \<Rightarrow> r | None \<Rightarrow> [])
        in if \<not> hasRequiredScopes scopes required
           then Inl (''Bearer token is missing required scope(s): '' @
             js_join '' '' (filter (\<lambda>r. r \<notin> set scopes) required))
           else
             rbind (case js_or_undefined (oo_resourceServerUrl oa) of
                 Some u \<Rightarrow> rbind (pf_url p u) (\<lambda>u. Inr (Some (ur_href u))) | None \<Rightarrow> Inr None) (\<lambda>resource.
             Inr \<lparr>vt_token = token, vt_clientId = clientIdOf claims, vt_scopes = scopes,
                  vt_expiresAt = number_claim (jget claims ''exp''), vt_resource = resource,
                  vt_claims = claims\<rparr>))"

definition verifyToken :: "'k platform \<Rightarrow> oidc_options \<Rightarrow> string \<Rightarrow> ('b auth_state_scheme, verified_token) act" where
  "verifyToken p oa token =
     (case js_split (CHR ''.'') token of
        [headerPart, payloadPart, signaturePart] \<Rightarrow>
          bindA (liftR (parseJsonSegment (pf_world p) headerPart)) (\<lambda>header.
          bindA (liftR (jfield header ''alg'')) (\<lambda>alg.
          if \<not> js_truth alg then raise ''JWT header is missing alg''
          else
            bindA (liftR (parseJsonSegment (pf_world p) payloadPart)) (\<lambda>claims.
            bindA (liftR (pf_url p (oo_issuer oa))) (\<lambda>issuer.
            bindA (nowA (pf_world p)) (\<lambda>now.
            seqA (liftR (validateClaims oa (ur_href issuer) now claims))
           (bindA (getJwks p oa) (\<lambda>jwks.
              liftR (acceptToken p oa token header claims (decodeBase64Url signaturePart)
                (utf8_encode (headerPart @ ''.'' @ payloadPart)) jwks))))))))
      | _ \<Rightarrow> raise ''Bearer token is not a JWT'')"

datatype auth_failure = InvalidToken | InsufficientScope

fun failure_code :: "auth_failure \<Rightarrow> string" where
  "failure_code InvalidToken = ''invalid_token''"
| "failure_code InsufficientScope = ''insufficient_scope''"

definition buildBearerChallenge :: "string option \<Rightarrow> auth_failure \<Rightarrow> string \<Rightarrow> string option \<Rightarrow> string" where
  "buildBearerChallenge resourceMetadataUrl error description scope = js_join '', ''
     ([''Bearer error='' @ CHR 0x22 # failure_code error @ [CHR 0x22],
       ''error_description='' @ CHR 0x22 # map (\<lambda>c. if c = CHR 0x22 then CHR 0x27 else c) description @ [CHR 0x22]] @
      (case js_or_undefined scope of Some s \<Rightarrow> [''scope='' @ CHR 0x22 # s @ [CHR 0x22]] | None \<Rightarrow> []) @
      (case resourceMetadataUrl of Some u \<Rightarrow> [''resource_metadata='' @ CHR 0x22 # u @ [CHR 0x22]] | None \<Rightarrow> []))"

definition createProtectedResourceMetadata ::
    "'k platform \<Rightarrow> string \<Rightarrow> string \<Rightarrow> string list option \<Rightarrow> string option \<Rightarrow> string option \<Rightarrow> jsval res" where
  "createProtectedResourceMetadata p resourceServerUrl issuerUrl scopesSupported resourceName resourceDocumentation =
     rbind (pf_url p resourceServerUrl) (\<lambda>r.
     rbind (pf_url p issuerUrl) (\<lambda>i.
     rbind (case js_or_undefined resourceDocumentation of Some d \<Rightarrow> rbind (pf_url p d) (\<lambda>d. Inr (JStr (ur_href d)))
        | None \<Rightarrow> Inr JUndef) (\<lambda>doc.
     Inr (JObj
       [(''resource'', JStr (ur_href r)), (''authorization_servers'', JArr [JStr (ur_href i)]),
        (''scopes_supported'', JArr (map JStr (case scopesSupported of Some s \<Rightarrow> s | None \<Rightarrow> PROXMOX_MCP_SCOPES))),
        (''bearer_methods_supported'', JArr [JStr ''header'']),
        (''resource_name'', of_str_opt resourceName), (''resource_documentation'', doc)]))))"

section \<open>What an accepted token guarantees\<close>

lemma parse_scopes_known: "set (parseProxmoxMcpScopes v) \<subseteq> set PROXMOX_MCP_SCOPES"
  by (auto simp: parseProxmoxMcpScopes_def normalizeScopeTokens_def split: jsval.splits)

lemma parse_scopes_distinct: "distinct (parseProxmoxMcpScopes v)"
  by (auto simp: parseProxmoxMcpScopes_def normalizeScopeTokens_def uniqueStrings_def distinct_set_spread
      split: jsval.splits)

definition supported_algs :: "string list" where
  "supported_algs = [''RS256'', ''PS256'', ''ES256'', ''ES384'', ''ES512'']"

lemma signing_alg_supported: "getJwtSigningAlgorithm jwk alg = Inr a \<Longrightarrow> \<exists>x \<in> set supported_algs. alg = JStr x"
  by (auto simp: getJwtSigningAlgorithm_def supported_algs_def split: if_splits)

lemma key_verifiesE:
  assumes "key_verifies p alg signature encoded jwk"
  obtains a key b x where "alg = JStr x" "x \<in> set supported_algs" "pf_importKey p jwk a = Inr key"
    "pf_verify p b key signature encoded = Inr True"
  using assms signing_alg_supported
  by (auto simp: key_verifies_def res_simps split: sum.splits) blast

lemma validateClaims_Inr:
  "validateClaims oa issuer now claims = Inr () \<Longrightarrow>
     jget claims ''iss'' = JStr issuer \<and> oo_audience oa \<in> set (normalizeAudience (jget claims ''aud'')) \<and>
     (\<forall>e k. num_value (jget claims ''exp'') = Some (e, k) \<longrightarrow> (now div 1000 - skew oa) * 10 ^ k < e) \<and>
     (\<forall>n k. num_value (jget claims ''nbf'') = Some (n, k) \<longrightarrow> n \<le> (now div 1000 + skew oa) * 10 ^ k)"
  by (auto simp: validateClaims_def res_simps jfield_def Let_def split: if_splits option.splits)

text \<open>The signed part of a token and the claims in it.\<close>

definition signed_claims :: "'k platform \<Rightarrow> jsval list \<Rightarrow> string \<Rightarrow> jsval \<Rightarrow> bool" where
  "signed_claims p jwks token claims \<longleftrightarrow> (\<exists>h b sg header alg jwk a key v.
     js_split (CHR ''.'') token = [h, b, sg] \<and> parseJsonSegment (pf_world p) b = Inr claims \<and>
     parseJsonSegment (pf_world p) h = Inr header \<and> jget header ''alg'' = JStr alg \<and> alg \<in> set supported_algs \<and>
     jwk \<in> set jwks \<and> pf_importKey p jwk a = Inr key \<and>
     pf_verify p v key (decodeBase64Url sg) (utf8_encode (h @ ''.'' @ b)) = Inr True)"

lemma selectCandidateKeys_subset: "set (selectCandidateKeys jwks header) \<subseteq> set jwks"
  by (auto simp: selectCandidateKeys_def Let_def)

lemma acceptToken_Inr:
  assumes "acceptToken p oa token header claims signature encoded jwks = Inr v"
  shows "(\<exists>jwk \<in> set jwks. key_verifies p (jget header ''alg'') signature encoded jwk) \<and>
    vt_token v = token \<and> vt_claims v = claims \<and> vt_scopes v = claimed_scopes claims \<and>
    vt_expiresAt v = number_claim (jget claims ''exp'') \<and>
    (\<forall>r. oo_requiredScopes oa = Some r \<longrightarrow> set r \<subseteq> set (vt_scopes v))"
  using assms selectCandidateKeys_subset
  by (fastforce simp: acceptToken_def Let_def res_simps list_ex_iff hasRequiredScopes_def list_all_iff
      split: if_splits option.splits)

lemma verifyToken_Inr:
  assumes "verifyToken p oa token s = (Inr v, u)"
  obtains h b sg header alg claims issuer jwks jwk where "js_split (CHR ''.'') token = [h, b, sg]"
    "parseJsonSegment (pf_world p) h = Inr header" "jget header ''alg'' = alg" "parseJsonSegment (pf_world p) b = Inr claims"
    "pf_url p (oo_issuer oa) = Inr issuer"
    "validateClaims oa (ur_href issuer) (w_now (pf_world p) (io_trace s)) claims = Inr ()"
    "getJwks p oa s = (Inr jwks, u)" "jwk \<in> set jwks"
    "key_verifies p alg (decodeBase64Url sg) (utf8_encode (h @ ''.'' @ b)) jwk"
    "acceptToken p oa token header claims (decodeBase64Url sg) (utf8_encode (h @ ''.'' @ b)) jwks = Inr v"
proof -
  obtain h b sg where parts: "js_split (CHR ''.'') token = [h, b, sg]"
    using assms by (auto simp: verifyToken_def split: list.splits)
  from assms obtain header where header: "parseJsonSegment (pf_world p) h = Inr header"
    by (cases "parseJsonSegment (pf_world p) h") (simp_all add: verifyToken_def parts)
  from assms obtain alg where alg: "jfield header ''alg'' = Inr alg" "js_truth alg"
    by (cases "jfield header ''alg''") (simp_all add: verifyToken_def parts header split: if_splits)
  from assms obtain claims where claims: "parseJsonSegment (pf_world p) b = Inr claims"
    by (cases "parseJsonSegment (pf_world p) b") (simp_all add: verifyToken_def parts header alg)
  from assms obtain issuer where issuer: "pf_url p (oo_issuer oa) = Inr issuer"
    by (cases "pf_url p (oo_issuer oa)") (simp_all add: verifyToken_def parts header alg claims)
  let ?now = "w_now (pf_world p) (io_trace s)"
  from assms have valid: "validateClaims oa (ur_href issuer) ?now claims = Inr ()"
    by (cases "validateClaims oa (ur_href issuer) ?now claims")
      (simp_all add: verifyToken_def parts header alg claims issuer nowA_def)
  from assms have "bindA (getJwks p oa) (\<lambda>jwks. liftR (acceptToken p oa token header claims (decodeBase64Url sg)
        (utf8_encode (h @ ''.'' @ b)) jwks)) s = (Inr v, u)"
    by (simp add: verifyToken_def parts header alg claims issuer valid nowA_def)
  then obtain jwks where jwks: "getJwks p oa s = (Inr jwks, u)"
    and acc: "acceptToken p oa token header claims (decodeBase64Url sg) (utf8_encode (h @ ''.'' @ b)) jwks = Inr v"
    by (auto simp: bindA_apply split: prod.splits sum.splits)
  have "jget header ''alg'' = alg" using alg(1) by (auto simp: jfield_def split: if_splits)
  moreover obtain jwk where "jwk \<in> set jwks" "key_verifies p (jget header ''alg'') (decodeBase64Url sg) (utf8_encode (h @ ''.'' @ b)) jwk"
    using acceptToken_Inr[OF acc] by blast
  ultimately show thesis using that parts header claims issuer valid jwks acc by blast
qed

lemma verifyToken_signed:
  assumes "verifyToken p oa token s = (Inr v, u)"
  shows "\<exists>jwks. getJwks p oa s = (Inr jwks, u) \<and> signed_claims p jwks token (vt_claims v)"
    and "vt_scopes v = claimed_scopes (vt_claims v)" and "vt_token v = token"
proof -
  obtain h b sg header alg claims issuer jwks jwk where parts: "js_split (CHR ''.'') token = [h, b, sg]"
    "parseJsonSegment (pf_world p) h = Inr header" "jget header ''alg'' = alg" "parseJsonSegment (pf_world p) b = Inr claims"
    and jwks: "getJwks p oa s = (Inr jwks, u)"
    and jwk: "jwk \<in> set jwks" "key_verifies p alg (decodeBase64Url sg) (utf8_encode (h @ ''.'' @ b)) jwk"
    and acc: "acceptToken p oa token header claims (decodeBase64Url sg) (utf8_encode (h @ ''.'' @ b)) jwks = Inr v"
    using assms by (rule verifyToken_Inr)
  have "signed_claims p jwks token claims"
    using jwk parts unfolding signed_claims_def by (elim key_verifiesE) blast
  moreover have "vt_claims v = claims" "vt_scopes v = claimed_scopes claims" "vt_token v = token"
    using acceptToken_Inr[OF acc] by simp_all
  ultimately show "\<exists>jwks. getJwks p oa s = (Inr jwks, u) \<and> signed_claims p jwks token (vt_claims v)"
    "vt_scopes v = claimed_scopes (vt_claims v)" "vt_token v = token"
    using jwks by simp_all
qed

text \<open>
  C4. Only a genuine token is accepted: when \<open>verifyToken\<close> returns, the bytes before the last dot carry
  a valid signature of a key of the key set under one of the five supported algorithms (so neither
  \<open>none\<close> nor a symmetric algorithm passes), the claims returned are the ones signed, they name the
  configured issuer and audience and are neither expired nor premature beyond the tolerated skew,
  and the granted scopes are known, duplicate-free and include every required one.
\<close>

theorem verifyToken_sound:
  assumes "verifyToken p oa token s = (Inr v, u)"
  shows "vt_token v = token \<and>
    (\<exists>jwks. getJwks p oa s = (Inr jwks, u) \<and> signed_claims p jwks token (vt_claims v)) \<and>
    (\<exists>issuer. pf_url p (oo_issuer oa) = Inr issuer \<and> jget (vt_claims v) ''iss'' = JStr (ur_href issuer)) \<and>
    oo_audience oa \<in> set (normalizeAudience (jget (vt_claims v) ''aud'')) \<and>
    (\<forall>e k. num_value (jget (vt_claims v) ''exp'') = Some (e, k) \<longrightarrow>
       (w_now (pf_world p) (io_trace s) div 1000 - skew oa) * 10 ^ k < e) \<and>
    (\<forall>n k. num_value (jget (vt_claims v) ''nbf'') = Some (n, k) \<longrightarrow>
       n \<le> (w_now (pf_world p) (io_trace s) div 1000 + skew oa) * 10 ^ k) \<and>
    vt_expiresAt v = number_claim (jget (vt_claims v) ''exp'') \<and>
    vt_scopes v = claimed_scopes (vt_claims v) \<and> distinct (vt_scopes v) \<and>
    set (vt_scopes v) \<subseteq> set PROXMOX_MCP_SCOPES \<and>
    (\<forall>r. oo_requiredScopes oa = Some r \<longrightarrow> set r \<subseteq> set (vt_scopes v))"
  using assms
proof (rule verifyToken_Inr, goal_cases)
  case (1 h b sg header alg claims issuer jwks jwk)
  then show ?case
    using acceptToken_Inr[OF 1(10)] validateClaims_Inr[OF 1(6)] verifyToken_signed[OF assms] parse_scopes_known parse_scopes_distinct
    by (auto simp: claimed_scopes_def)
qed

definition sample_platform :: "unit platform" where
  "sample_platform =
     \<lparr>pf_world = \<lparr> w_fetch = (\<lambda>_ _. Inr \<lparr>rs_status = 200, rs_text = ''{\"keys\":[{\"kty\":\"RSA\"}]}''\<rparr>),
        w_ssh = (\<lambda>_ _ _. Inl []), w_spawn = (\<lambda>_ _ _. Inl []), w_append = (\<lambda>_ _ _. Inr ()), w_read = (\<lambda>_ _. Inl []),
        w_sleep = (\<lambda>_ _. Inr ()), w_aborted = (\<lambda>_. False), w_now = (\<lambda>_. 0), w_nowIso = (\<lambda>_. []), w_utf8 = id,
        w_random = (\<lambda>_ i. i), w_uuid = (\<lambda>_. []), w_tempDir = (\<lambda>_. []), w_diskError = (\<lambda>_ _. None),
        w_late = (\<lambda>_. False), w_chunks = (\<lambda>_. []), w_collate = (\<lambda>_ _. 0), w_pid = 1, w_keyPair = (\<lambda>_ _. ([], [])) \<rparr>,
      pf_url = (\<lambda>u. Inr \<lparr>ur_href = u, ur_origin = u, ur_pathname = ''/'', ur_host = u, ur_protocol = ''https:''\<rparr>),
      pf_resolve = (\<lambda>u base. Inr \<lparr>ur_href = base @ u, ur_origin = base, ur_pathname = u, ur_host = base, ur_protocol = ''https:''\<rparr>),
      pf_importKey = (\<lambda>_ _. Inr ()), pf_verify = (\<lambda>_ _ _ _. Inr True), pf_statusText = (\<lambda>_. [])\<rparr>"

definition sample_oidc :: oidc_options where
  "sample_oidc = \<lparr>oo_issuer = ''https://id/'', oo_audience = ''m'', oo_jwksUri = Some ''https://id/keys'',
     oo_resourceServerUrl = None, oo_requiredScopes = Some [''proxmox.read''], oo_clockSkewSeconds = None,
     oo_cacheTtlMs = None\<rparr>"

definition sample_header :: string where
  "sample_header = ''eyJhbGciOiJSUzI1NiJ9''"

definition sample_payload :: string where
  "sample_payload = ''eyJpc3MiOiJodHRwczovL2lkLyIsImF1ZCI6WyJtIl0sInNjb3BlIjoicHJveG1veC5yZWFkIHgifQ''"

definition sample_token :: string where
  "sample_token = sample_header @ ''.'' @ sample_payload @ ''.AAAA''"

theorem verifyToken_sound_witness:
  "\<exists>v u. verifyToken sample_platform sample_oidc sample_token \<lparr>io_trace = [], au_cached = None\<rparr> = (Inr v, u) \<and>
     vt_scopes v = [''proxmox.read''] \<and> set (vt_scopes v) \<subseteq> set PROXMOX_MCP_SCOPES"
proof -
  let ?r = "verifyToken sample_platform sample_oidc sample_token \<lparr>io_trace = [], au_cached = None\<rparr>"
  have "is_ok (fst ?r)" by code_simp
  moreover have scopes: "(case fst ?r of Inr v \<Rightarrow> vt_scopes v = [''proxmox.read''] | Inl e \<Rightarrow> False)" by code_simp
  ultimately obtain v u where vu: "?r = (Inr v, u)" by (cases ?r) (auto simp: is_ok_iff)
  with scopes have "vt_scopes v = [''proxmox.read'']" by simp
  then show ?thesis using vu verifyToken_sound[OF vu] by blast
qed

end
