(* ===== verification/Server.thy ===== *)
theory Server
  imports ToolsEscape ToolsQemu HttpAuth
begin

text \<open>
  The MCP server of src/server.ts: all tools under one roof, the scope each call needs, and the
  wrapper that checks it before a handler runs.
\<close>

section \<open>All tools\<close>

datatype tool =
    NodeTool node_tool
  | LxcTool lxc_tool
  | ClusterTool cluster_tool
  | QemuTool qemu_tool
  | StorageTool storage_tool
  | InfraTool infra_tool
  | EscapeTool escape_tool

fun tool_name :: "tool \<Rightarrow> string" where
  "tool_name (NodeTool t) = node_tool_name t"
| "tool_name (LxcTool t) = lxc_tool_name t"
| "tool_name (ClusterTool t) = cluster_tool_name t"
| "tool_name (QemuTool t) = qemu_tool_name t"
| "tool_name (StorageTool t) = storage_tool_name t"
| "tool_name (InfraTool t) = infra_tool_name t"
| "tool_name (EscapeTool t) = escape_tool_name t"

fun runTool :: "service \<Rightarrow> nat \<Rightarrow> tool \<Rightarrow> ('b server_scheme, tool_result option) act" where
  "runTool S fuel (NodeTool t) = runNodeTool S fuel t"
| "runTool S fuel (LxcTool t) = runLxcTool S fuel t"
| "runTool S fuel (ClusterTool t) = runClusterTool S fuel t"
| "runTool S fuel (QemuTool t) = runQemuTool S fuel t"
| "runTool S fuel (StorageTool t) = runStorageTool S fuel t"
| "runTool S fuel (InfraTool t) = runInfraTool S fuel t"
| "runTool S fuel (EscapeTool t) = runEscapeTool S fuel t"

section \<open>Scopes\<close>

definition escape_names :: "string list" where
  "escape_names = [''proxmox_cli_run'', ''proxmox_shell_run'', ''proxmox_file_read'', ''proxmox_file_write'',
     ''proxmox_node_terminal_run'', ''proxmox_vm_guest_exec'', ''proxmox_bootstrap_node_access'']"

definition mutating_verbs :: "string list" where
  "mutating_verbs = [''create'', ''update'', ''delete'', ''destroy'', ''action'', ''start'', ''stop'', ''reboot'', ''reset'',
     ''resume'', ''suspend'', ''shutdown'', ''download_url'', ''clone'', ''convert_to_template'', ''put'', ''write'',
     ''attach'', ''detach'']"

text \<open>The \<open>method\<close> argument of a call, \<open>undefined\<close> for a tool without one.\<close>

fun tool_verb :: "tool \<Rightarrow> string option" where
  "tool_verb (EscapeTool (ApiCallTool _ verb _ _ _)) = Some verb"
| "tool_verb _ = None"

definition scopesForTool :: "string \<Rightarrow> string option \<Rightarrow> string list" where
  "scopesForTool name verb =
     (if name \<in> set escape_names then [''proxmox.escape'']
      else if name = ''proxmox_api_call''
      then if js_toUpperCase (case verb of Some v \<Rightarrow> v | None \<Rightarrow> ''GET'') = ''GET'' then [''proxmox.read''] else [''proxmox.mutate'']
      else if name = ''job_cancel'' then [''proxmox.mutate'']
      else if name \<in> {''job_get'', ''job_wait'', ''job_logs'', ''proxmox_capabilities''} then [''proxmox.read'']
      else if list_ex (\<lambda>v. js_endsWith name (CHR ''_'' # v)) mutating_verbs then [''proxmox.mutate'']
      else [''proxmox.read''])"

text \<open>The scopes of the caller are those of the verified token, absent without one.\<close>

definition scopeCheck :: "mcp_auth \<Rightarrow> string list option \<Rightarrow> string \<Rightarrow> string option \<Rightarrow> unit res" where
  "scopeCheck auth granted name verb =
     (case auth of
        McpNone \<Rightarrow> Inr ()
      | McpOidc _ \<Rightarrow>
          (case granted of
             None \<Rightarrow> Inl ''Authenticated HTTP mode requires bearer-authenticated tool calls''
           | Some scopes \<Rightarrow>
               (case find (\<lambda>sc. sc \<notin> set scopes) (scopesForTool name verb) of
                  Some sc \<Rightarrow> Inl (''Tool '' @ squoted name @ '' requires scope '' @ squoted sc)
                | None \<Rightarrow> Inr ())))"

definition callTool ::
    "service \<Rightarrow> nat \<Rightarrow> string list option \<Rightarrow> tool \<Rightarrow> ('b server_scheme, tool_result option) act" where
  "callTool S fuel granted t =
     bindA (getsA (\<lambda>s. scopeCheck (sc_mcpAuth (sv_config s)) granted (tool_name t) (tool_verb t))) (\<lambda>checked.
     bindA (liftR checked) (\<lambda>_. runTool S fuel t))"

section \<open>Starting and serving\<close>

text \<open>
  A new server over a started configuration has neither artifacts nor jobs; a session is the calls it
  serves, one after the other, each with its fuel and the scopes of its caller.
\<close>

definition createServerContext :: "host \<Rightarrow> server" where
  "createServerContext h = host.extend h (server.fields [] no_jobs)"

fun session :: "service \<Rightarrow> (nat \<times> string list option \<times> tool) list \<Rightarrow> 'b server_scheme \<Rightarrow> 'b server_scheme" where
  "session S [] s = s"
| "session S ((fuel, granted, t) # calls) s = session S calls (snd (callTool S fuel granted t s))"

section \<open>The scope table\<close>

text \<open>What the scopes are meant to say, tool by tool.\<close>

datatype tool_class = ReadClass | MutateClass | EscapeClass

fun class_scope :: "tool_class \<Rightarrow> string" where
  "class_scope ReadClass = ''proxmox.read''"
| "class_scope MutateClass = ''proxmox.mutate''"
| "class_scope EscapeClass = ''proxmox.escape''"

fun class_of :: "tool \<Rightarrow> tool_class" where
  "class_of (NodeTool t) = (case t of
     NodeActionTool _ _ _ _ _ \<Rightarrow> MutateClass | NodeTerminalTool _ _ _ _ \<Rightarrow> EscapeClass | _ \<Rightarrow> ReadClass)"
| "class_of (LxcTool t) = (case t of LxcActionTool _ _ _ _ _ \<Rightarrow> MutateClass | _ \<Rightarrow> ReadClass)"
| "class_of (ClusterTool t) = (case t of
     MappingCreateTool _ _ _ \<Rightarrow> MutateClass | MappingUpdateTool _ _ _ \<Rightarrow> MutateClass
   | MappingDeleteTool _ _ _ \<Rightarrow> MutateClass | _ \<Rightarrow> ReadClass)"
| "class_of (QemuTool t) = (case t of
     VmActionTool _ _ _ _ _ \<Rightarrow> MutateClass | GuestExecTool _ _ _ _ _ \<Rightarrow> EscapeClass | VmCreateTool _ _ _ _ _ \<Rightarrow> MutateClass
   | PciAttachTool _ _ _ _ _ \<Rightarrow> MutateClass | PciDetachTool _ _ _ _ _ \<Rightarrow> MutateClass
   | ConvertToTemplateTool _ _ _ _ _ \<Rightarrow> MutateClass | VmCloneTool _ _ _ _ _ \<Rightarrow> MutateClass
   | VmDestroyTool _ _ _ _ _ \<Rightarrow> MutateClass | VmUpdateConfigTool _ _ _ _ _ \<Rightarrow> MutateClass | _ \<Rightarrow> ReadClass)"
| "class_of (StorageTool t) = (case t of
     DownloadUrlTool _ _ _ _ _ \<Rightarrow> MutateClass | SnippetPutTool _ _ _ \<Rightarrow> MutateClass | SnippetDeleteTool _ _ \<Rightarrow> MutateClass
   | _ \<Rightarrow> ReadClass)"
| "class_of (InfraTool t) = (case t of BackupStartTool _ _ _ _ \<Rightarrow> MutateClass | _ \<Rightarrow> ReadClass)"
| "class_of (EscapeTool t) = (case t of
     ApiCallTool _ verb _ _ _ \<Rightarrow> if js_toUpperCase verb = ''GET'' then ReadClass else MutateClass
   | CliRunTool _ _ _ _ _ _ \<Rightarrow> EscapeClass | ShellRunTool _ _ _ \<Rightarrow> EscapeClass | FileReadTool _ _ \<Rightarrow> EscapeClass
   | FileWriteTool _ _ _ \<Rightarrow> EscapeClass | BootstrapNodeTool _ _ _ \<Rightarrow> EscapeClass | JobCancelTool _ \<Rightarrow> MutateClass
   | _ \<Rightarrow> ReadClass)"

text \<open>
  The one exception to the table is the update of a VM configuration, which changes the machine and
  needs \<open>proxmox.read\<close> only.
\<close>

fun scope_class :: "tool \<Rightarrow> tool_class" where
  "scope_class (QemuTool (VmUpdateConfigTool _ _ _ _ _)) = ReadClass"
| "scope_class t = class_of t"

lemma scope_table: "scopesForTool (tool_name t) (tool_verb t) = [class_scope (scope_class t)]"
proof -
  note simps = scopesForTool_def escape_names_def mutating_verbs_def js_endsWith_def
  show ?thesis
  proof (cases t)
    case (NodeTool x) then show ?thesis by (cases x) (simp_all add: simps)
  next
    case (LxcTool x) then show ?thesis by (cases x) (simp_all add: simps)
  next
    case (ClusterTool x) then show ?thesis by (cases x) (simp_all add: simps)
  next
    case (QemuTool x) then show ?thesis by (cases x) (simp_all add: simps)
  next
    case (StorageTool x) then show ?thesis by (cases x) (simp_all add: simps)
  next
    case (InfraTool x) then show ?thesis by (cases x) (simp_all add: simps)
  next
    case (EscapeTool x) then show ?thesis by (cases x) (simp_all add: simps)
  qed
qed


end
