(* ===== verification/ServerFrame.thy ===== *)
theory ServerFrame
  imports Server
begin

text \<open>
  What every tool call keeps, whichever tool it is and however it ends: the artifact registry stays
  consistent, and the trace of the interactions only grows.
\<close>

section \<open>Artifacts under the job machinery\<close>

lemma same_artifacts: "sr_artifacts t = sr_artifacts s \<Longrightarrow> keeps_artifacts s t"
  by (simp add: keeps_artifacts_def artifacts_ok_def)

lemma keeps_arts_modify [arts_rules]:
  "(\<And>s. sr_artifacts (f s) = sr_artifacts s) \<Longrightarrow> keeps keeps_artifacts (modifyA f)"
  by (simp add: keeps_def same_artifacts)

lemma jobsA_keeps [arts_rules]: "keeps keeps_artifacts (jobsA f)"
  by (simp add: keeps_def same_artifacts jobsA_def split: sum.split prod.split)

lemma io_keeps [arts_rules]:
  "keeps keeps_artifacts (nowIsoA w)" "keeps keeps_artifacts (nowA w)" "keeps keeps_artifacts (lateA w)"
  "keeps keeps_artifacts (abortedA w)" "keeps keeps_artifacts (uuidA w)"
  by (intro keeps_arts_step grows_rules)+

lemma contextA_keeps [arts_rules]: "keeps keeps_artifacts (contextA w i c)"
  unfolding contextA_def jobsUnit_def by (intro arts_rules)

lemma reporting_keeps [arts_rules]:
  assumes "keeps keeps_artifacts m" shows "keeps keeps_artifacts (reporting w streams i m)"
  unfolding keeps_def
proof
  fix s
  have "keeps_artifacts s (snd (m s))" using assms by (simp add: keeps_def)
  moreover have "keeps_artifacts (snd (m s)) (snd (reporting w streams i m s))"
    by (rule same_artifacts) (simp add: reporting_def split_beta split: sum.split)
  ultimately show "keeps_artifacts s (snd (reporting w streams i m s))" by (rule arts.trans)
qed

lemma runJob_keeps [arts_rules]: "keeps keeps_artifacts m \<Longrightarrow> keeps keeps_artifacts (runJob w i m)"
  unfolding runJob_def jobsUnit_def by (intro arts_rules keeps_attemptA keeps_branches; simp)

lemma settleJob_keeps [arts_rules]: "keeps keeps_artifacts (settleJob w wm b i)"
  unfolding settleJob_def by (auto intro!: arts_rules split: option.split)

lemma jobTool_keeps [arts_rules]: "keeps keeps_artifacts m \<Longrightarrow> keeps keeps_artifacts (jobTool w wm j a b m)"
  unfolding jobTool_def by (intro arts_rules) (auto intro!: arts_rules split: option.split)

lemma mapOptA_keeps [arts_rules]:
  "keeps keeps_artifacts m \<Longrightarrow> (\<And>x. keeps keeps_artifacts (f x)) \<Longrightarrow> keeps keeps_artifacts (mapOptA m f)"
  unfolding mapOptA_def by (intro arts_rules) (auto intro!: arts_rules split: option.split)

lemma newJob_keeps [arts_rules]:
  "keeps keeps_artifacts (newJobA w t oa)" "keeps keeps_artifacts (newUpidJobA w t oa u)"
  unfolding newJobA_def newUpidJobA_def by (intro arts_rules)+

lemma awaitTask_keeps [arts_rules]: "keeps keeps_artifacts (awaitTask S fuel c u p i)"
  unfolding awaitTask_def by (intro arts_rules keeps_arts_step grows_rules)

lemma taskTool_keeps [arts_rules]:
  "keeps keeps_artifacts direct \<Longrightarrow> (\<And>x. keeps keeps_artifacts (post x)) \<Longrightarrow>
     keeps keeps_artifacts (taskTool S fuel ex t oa a b u direct post)"
  unfolding taskTool_def by (auto intro!: arts_rules split: option.split)

lemma apiTaskTool_keeps [arts_rules]: "keeps keeps_artifacts (apiTaskTool S fuel ex t oa a b c r)"
  unfolding apiTaskTool_def by (intro arts_rules)

lemma answerA_keeps [arts_rules]:
  "keeps svc_step m \<Longrightarrow> keeps keeps_artifacts (bindA m (\<lambda>x. ret (Some (plainResult a (f x)))))"
  by (intro arts_rules keeps_arts_step)

lemma mapRunning_keeps [arts_rules]: "keeps keeps_artifacts m \<Longrightarrow> keeps keeps_artifacts (mapRunning f m)"
  unfolding mapRunning_def by (intro arts_rules)

lemma artifactResult_keeps [arts_rules]:
  "uuids_ok (se_world S) \<Longrightarrow> keeps keeps_artifacts (artifactResult S a k mt b ps e pf)"
  unfolding artifactResult_def Let_def by (auto intro!: arts_rules createBinaryArtifact_keeps)

section \<open>Every tool\<close>

lemma runNodeTool_keeps: "keeps keeps_artifacts (runNodeTool S fuel t)"
  by (cases t; auto simp: nodeActionTool_def nodeTerminalTool_def logOutput_def Let_def
      intro!: arts_rules; intro keeps_arts_step grows_rules)

lemma runLxcTool_keeps: "keeps keeps_artifacts (runLxcTool S fuel t)"
  by (cases t; auto simp: lxcActionTool_def intro!: arts_rules; intro keeps_arts_step grows_rules)

lemma runClusterTool_keeps: "keeps keeps_artifacts (runClusterTool S fuel t)"
  by (cases t; auto simp: inventoryTool_def intro!: arts_rules; intro keeps_arts_step grows_rules)

lemma runQemuTool_keeps: "keeps keeps_artifacts (runQemuTool S fuel t)"
  by (cases t; auto simp: vmActionTool_def guestExecTool_def vmCreateTool_def vmUpdateConfigTool_def pciAttachTool_def
      pciDetachTool_def pciTool_def withLatestConfig_def convertToTemplateTool_def vmCloneTool_def vmDestroyTool_def Let_def
      intro!: arts_rules; intro keeps_arts_step grows_rules)

lemma readArtifactText_keeps [arts_rules]: "keeps keeps_artifacts (readArtifactText S i u)"
  unfolding readArtifactText_def by (intro arts_rules)

lemma runStorageTool_keeps: "uuids_ok (se_world S) \<Longrightarrow> keeps keeps_artifacts (runStorageTool S fuel t)"
  by (cases t; auto simp: downloadUrlTool_def snippetGetTool_def snippetPutTool_def cloudInitDumpTool_def yamlResult_def
      intro!: arts_rules split: prod.split; intro keeps_arts_step grows_rules)

lemma runInfraTool_keeps: "keeps keeps_artifacts (runInfraTool S fuel t)"
  by (cases t; auto simp: firewallGetTool_def backupStartTool_def
      intro!: arts_rules split: prod.split; intro keeps_arts_step grows_rules)

lemma snapshot_steps [grows_rules]:
  "keeps svc_step (upidStartedAt w u)" "keeps svc_step (readUpidJobSnapshot S i)"
  by (auto simp: upidStartedAt_def readUpidJobSnapshot_def Let_def intro!: grows_rules split: option.split)

lemma waitForUpidJobSnapshot_step [grows_rules]: "keeps svc_step (waitForUpidJobSnapshot S fuel i t st)"
proof (induction fuel)
  case 0
  then show ?case unfolding waitForUpidJobSnapshot.simps by (intro grows_rules)
next
  case (Suc fuel)
  then show ?case unfolding waitForUpidJobSnapshot.simps by (intro grows_rules keeps_branches)
qed

lemma findJobA_keeps [arts_rules]: "keeps keeps_artifacts (findJobA i)"
  unfolding findJobA_def by (intro arts_rules)

lemma logsOf_keeps [arts_rules]: "keeps keeps_artifacts (logsOf S i)"
  unfolding logsOf_def by (auto intro!: arts_rules split: option.split; intro keeps_arts_step grows_rules)

lemma job_tools_keep [arts_rules]:
  "keeps keeps_artifacts (jobGetTool S i)" "keeps keeps_artifacts (jobWaitTool S fuel i t)"
  "keeps keeps_artifacts (jobCancelTool S i)" "keeps keeps_artifacts (jobLogsTool S i l)"
  unfolding jobGetTool_def jobWaitTool_def jobCancelTool_def jobLogsTool_def Let_def
  by (intro arts_rules keeps_branches keeps_attemptA; (intro keeps_arts_step grows_rules | simp))+

lemma command_tools_keep [arts_rules]:
  "keeps keeps_artifacts (apiCallTool S fuel c v p as ex)" "keeps keeps_artifacts (cliRunTool S c n f cl raw ex)"
  "keeps keeps_artifacts (shellRunTool S fuel g inp ex)"
  unfolding apiCallTool_def cliRunTool_def shellRunTool_def logOutput_def Let_def
  by (intro arts_rules keeps_branches; intro keeps_arts_step grows_rules)+

lemma file_tools_keep [arts_rules]:
  "uuids_ok (se_world S) \<Longrightarrow> keeps keeps_artifacts (fileReadTool S g p)"
  "keeps keeps_artifacts (fileWriteTool S g p b)"
  unfolding fileReadTool_def fileWriteTool_def
  by (intro arts_rules keeps_branches; (assumption | intro keeps_arts_step grows_rules))+

lemma runEscapeTool_keeps: "uuids_ok (se_world S) \<Longrightarrow> keeps keeps_artifacts (runEscapeTool S fuel t)"
  by (cases t; simp only: runEscapeTool.simps; intro arts_rules; (assumption | intro keeps_arts_step grows_rules)?)

lemma runTool_keeps: "uuids_ok (se_world S) \<Longrightarrow> keeps keeps_artifacts (runTool S fuel t)"
  by (cases t) (simp_all add: runNodeTool_keeps runLxcTool_keeps runClusterTool_keeps runQemuTool_keeps
      runStorageTool_keeps runInfraTool_keeps runEscapeTool_keeps)

lemma callTool_keeps: "uuids_ok (se_world S) \<Longrightarrow> keeps keeps_artifacts (callTool S fuel granted t)"
  unfolding callTool_def by (intro arts_rules runTool_keeps)

lemma callTool_artifacts:
  "artifacts_ok s \<Longrightarrow> uuids_ok (se_world S) \<Longrightarrow> artifacts_ok (snd (callTool S fuel granted t s))"
  using callTool_keeps[of S fuel granted t] unfolding keeps_def keeps_artifacts_def by blast

lemma session_artifacts: "artifacts_ok s \<Longrightarrow> uuids_ok (se_world S) \<Longrightarrow> artifacts_ok (session S calls s)"
  by (induction S calls s rule: session.induct) (simp_all add: callTool_artifacts)

lemma artifacts_ok_start: "artifacts_ok (createServerContext h)"
  by (simp add: artifacts_ok_def createServerContext_def host.extend_def server.fields_def)

text \<open>
  C20. The artifact registry of a server is consistent at every time: from its start, after any calls of
  any tools with any arguments, scopes and answers of the outside world, whether they succeed, fail or
  are still waiting, the ids of the registry are distinct and every record is consistent with its id,
  its URI and the place its bytes are kept at.
\<close>

theorem server_artifacts_consistent:
  assumes "uuids_ok (se_world S)"
  shows "artifacts_ok (session S calls (createServerContext h))"
  by (rule session_artifacts[OF artifacts_ok_start assms])

theorem server_artifacts_consistent_witness:
  "artifacts_ok (session sample_service [(3, None, EscapeTool CapabilitiesTool), (0, Some [], EscapeTool CapabilitiesTool)]
     (createServerContext (svc.extend sample_svc (host.fields []))))"
  by (rule server_artifacts_consistent)
    (simp add: uuids_ok_def sample_service_def sample_world_def uri_char_def)

end
