(* ===== verification/ServerJobs.thy ===== *)
theory ServerJobs
  imports ServerFrame
begin

text \<open>
  The job registry of a running server.  Unlike the state machine of theory JobsMachine, nothing is
  assumed about new ids: a task that is started twice replaces its job, and the run that is replaced
  keeps a number nobody refers to.  The registry is judged id by id.
\<close>

section \<open>One id of the registry\<close>

definition slot_ok :: "job_manager \<Rightarrow> string \<Rightarrow> bool" where
  "slot_ok m i \<longleftrightarrow>
     (case findJob m i of
        None \<Rightarrow> map_of (jm_controllers m) i = None
      | Some j \<Rightarrow> \<exists>c < length (jm_runs m). rn_jobId (jm_runs m ! c) = i \<and>
          run_fits (jm_runs m ! c) c (Some j) (map_of (jm_completions m) i) (map_of (jm_controllers m) i))"

definition jobs_ok :: "job_manager \<Rightarrow> bool" where
  "jobs_ok m \<longleftrightarrow> (\<forall>i. slot_ok m i)"

text \<open>After its creation a job has no run of its own yet.\<close>

definition created :: "string \<Rightarrow> job_manager \<Rightarrow> bool" where
  "created i m \<longleftrightarrow> (\<exists>j. findJob m i = Some j \<and> sj_error j = None) \<and> (\<forall>k. k \<noteq> i \<longrightarrow> slot_ok m k)"

lemma slot_cong:
  assumes "slot_ok m k" "findJob m' k = findJob m k" "map_of (jm_controllers m') k = map_of (jm_controllers m) k"
    "map_of (jm_completions m') k = map_of (jm_completions m) k"
    "\<And>c. c < length (jm_runs m) \<Longrightarrow> rn_jobId (jm_runs m ! c) = k \<Longrightarrow> c < length (jm_runs m') \<and>
       (jm_runs m' ! c = jm_runs m ! c \<or> jm_runs m' ! c = (jm_runs m ! c)\<lparr>rn_aborted := True\<rparr>)"
  shows "slot_ok m' k"
proof (cases "findJob m k")
  case (Some j)
  then obtain c where c: "c < length (jm_runs m)" "rn_jobId (jm_runs m ! c) = k"
    "run_fits (jm_runs m ! c) c (Some j) (map_of (jm_completions m) k) (map_of (jm_controllers m) k)"
    using assms(1) by (auto simp: slot_ok_def)
  then show ?thesis using assms(2,3,4) assms(5)[OF c(1,2)] Some
    by (auto simp: slot_ok_def run_fits_aborted intro!: exI[of _ c])
qed (use assms in \<open>simp add: slot_ok_def\<close>)

lemma jobs_ok_none: "jobs_ok no_jobs"
  by (simp add: jobs_ok_def slot_ok_def no_jobs_def findJob_def)

lemma createJob_created:
  assumes "createJob now uuid target oa jo up m = (job, m1)" "jobs_ok m"
  shows "created (sj_jobId job) m1"
proof -
  from createJob_found[OF assms(1)] have m1: "m1 = m\<lparr>jm_jobs := AList.update (sj_jobId job) job (jm_jobs m)\<rparr>"
    and err: "sj_error job = None" by simp_all
  have "slot_ok m1 k" if "k \<noteq> sj_jobId job" for k
    by (rule slot_cong[of m]) (use assms(2) that in \<open>auto simp: jobs_ok_def m1 findJob_update\<close>)
  then show ?thesis using err by (auto simp: created_def m1 findJob_update)
qed

lemma live_slot:
  assumes "jobs_ok m" "live_run c i m"
  shows "\<exists>j. findJob m i = Some j \<and> sj_state j = JsRunning \<and> sj_error j = None \<and> map_of (jm_controllers m) i = Some c"
proof -
  have "slot_ok m i" using assms(1) by (simp add: jobs_ok_def)
  then show ?thesis using assms(2) by (auto simp: slot_ok_def live_run_def run_fits_def)
qed

lemma startRun_ok:
  assumes "created i m" "startRun now i m = Inr (c, m')"
  shows "jobs_ok m' \<and> live_run c i m'"
proof -
  obtain j where j: "findJob m i = Some j" "sj_error j = None" using assms(1) by (auto simp: created_def)
  let ?j = "j\<lparr>sj_state := JsRunning, sj_updatedAt := now\<rparr>"
  have m': "c = length (jm_runs m)" "m' = m\<lparr> jm_jobs := AList.update i ?j (jm_jobs m),
      jm_controllers := AList.update i c (jm_controllers m), jm_completions := AList.update i c (jm_completions m),
      jm_runs := jm_runs m @ [\<lparr>rn_jobId = i, rn_aborted = False, rn_settled = False\<rparr>] \<rparr>"
    using assms(2) j(1) by (auto simp: startRun_def res_simps updateJob_Inr Let_def)
  have "slot_ok m' k" for k
  proof (cases "k = i")
    case True
    then show ?thesis using j m' by (auto simp: slot_ok_def run_fits_def findJob_def map_of_update)
  next
    case False
    then have "slot_ok m k" using assms(1) by (simp add: created_def)
    then show ?thesis by (rule slot_cong) (use False in \<open>simp_all add: m'(2) findJob_def map_of_update nth_append\<close>)
  qed
  then show ?thesis using startRun_Inr[OF assms(2)] m'(1) by (simp add: jobs_ok_def)
qed

lemma settle_ok:
  assumes "jobs_ok m" "live_run c i m" "settled_ok (jm_runs m ! c) j"
  shows "jobs_ok (settleRun c (m\<lparr>jm_jobs := AList.update i j (jm_jobs m)\<rparr>))" (is "jobs_ok ?m")
proof -
  have "slot_ok ?m k" for k
  proof (cases "k = i")
    case True
    then show ?thesis using assms(2,3)
      by (auto simp: slot_ok_def run_fits_def live_run_def settleRun_def findJob_def map_of_update map_of_delete settled_ok_def)
  next
    case False
    have "slot_ok m k" using assms(1) by (simp add: jobs_ok_def)
    then show ?thesis
      by (rule slot_cong)
        (use False assms(2) in \<open>auto simp: settleRun_def live_run_def findJob_def map_of_update map_of_delete nth_list_update\<close>)
  qed
  then show ?thesis by (simp add: jobs_ok_def)
qed

lemma cancel_ok: "jobs_ok m \<Longrightarrow> jobs_ok (cancelJob i m)"
proof (cases "map_of (jm_controllers m) i")
  case (Some d)
  assume ok: "jobs_ok m"
  have "slot_ok (cancelJob i m) k" for k
  proof -
    have "slot_ok m k" using ok by (simp add: jobs_ok_def)
    then show ?thesis
      by (rule slot_cong) (auto simp: Some cancelJob_def findJob_def abort_nth)
  qed
  then show ?thesis by (simp add: jobs_ok_def)
qed (simp add: cancelJob_def)

section \<open>Executors\<close>

text \<open>An executor only changes the record of its own job, never its state or error.\<close>

definition calls_only :: "string \<Rightarrow> 'b server_scheme \<Rightarrow> 'b server_scheme \<Rightarrow> bool" where
  "calls_only i s t \<longleftrightarrow> (let m = sr_jobs s; m' = sr_jobs t in
     jm_runs m' = jm_runs m \<and> jm_controllers m' = jm_controllers m \<and> jm_completions m' = jm_completions m \<and>
     (\<forall>k. k \<noteq> i \<longrightarrow> findJob m' k = findJob m k) \<and>
     (\<forall>j. findJob m i = Some j \<longrightarrow>
        (\<exists>j'. findJob m' i = Some j' \<and> sj_state j' = sj_state j \<and> sj_error j' = sj_error j)))"

interpretation calls: preorder_rel "calls_only i" for i
  by unfold_locales (auto simp: calls_only_def Let_def)

named_theorems calls_rules "actions that only call the context of a job"

lemmas [calls_rules] = calls.keeps_intros keeps_attemptA

lemma calls_only_ok:
  assumes "calls_only i s t" "jobs_ok (sr_jobs s)" "live_run c i (sr_jobs s)"
  shows "jobs_ok (sr_jobs t) \<and> live_run c i (sr_jobs t)"
proof -
  note same = assms(1)[unfolded calls_only_def Let_def]
  obtain j where j: "findJob (sr_jobs s) i = Some j" "sj_state j = JsRunning" "sj_error j = None"
    "map_of (jm_controllers (sr_jobs s)) i = Some c" using live_slot[OF assms(2,3)] by blast
  have "slot_ok (sr_jobs t) k" for k
  proof (cases "k = i")
    case True
    then show ?thesis using same j assms(3) by (auto simp: slot_ok_def live_run_def run_fits_def)
  next
    case False
    have "slot_ok (sr_jobs s) k" using assms(2) by (simp add: jobs_ok_def)
    then show ?thesis by (rule slot_cong) (use same False in simp_all)
  qed
  then show ?thesis using same j assms(3) by (auto simp: jobs_ok_def live_run_def)
qed

lemma calls_only_same: "sr_jobs t = sr_jobs s \<Longrightarrow> calls_only i s t"
  by (simp add: calls_only_def Let_def)

lemma keeps_calls_step: "keeps svc_step m \<Longrightarrow> keeps (calls_only i) m"
  by (metis keeps_def calls_only_same svc_step_server(3))

lemma contextCall_only: "contextCall now i call (sr_jobs s) = Inr m' \<Longrightarrow> calls_only i s (s\<lparr>sr_jobs := m'\<rparr>)"
  by (auto simp: calls_only_def Let_def contextCall_def updateJob_Inr findJob_update)

lemma contextA_calls [calls_rules]: "keeps (calls_only i) (contextA w i call)"
  by (auto simp: keeps_def contextA_def nowIsoA_def jobsUnit_def jobsA_def rbind_def
      dest: contextCall_only split: sum.split)

lemma applyReports_only: "applyReports i cs (sr_jobs s) = Inr m' \<Longrightarrow> calls_only i s (s\<lparr>sr_jobs := m'\<rparr>)"
proof (induction cs arbitrary: s)
  case (Cons call cs)
  obtain now jc where call: "call = (now, jc)" by force
  with Cons.prems obtain m1 where m1: "contextCall now i jc (sr_jobs s) = Inr m1" "applyReports i cs m1 = Inr m'"
    by (auto simp: res_simps)
  then show ?case
    using calls.trans[OF contextCall_only[OF m1(1)]] Cons.IH[of "s\<lparr>sr_jobs := m1\<rparr>"] by simp
qed (simp add: calls_only_same)

lemma reporting_calls [calls_rules]:
  assumes "keeps svc_step m" shows "keeps (calls_only i) (reporting w streams i m)"
  unfolding keeps_def
proof
  fix s
  obtain r t where m: "m s = (r, t)" by force
  let ?cs = "reports w streams (io_trace s) (drop (length (io_trace s)) (io_trace t))"
  have st: "calls_only i s t" using keeps_calls_step[OF assms] m by (metis keeps_def snd_conv)
  show "calls_only i s (snd (reporting w streams i m s))"
  proof (cases "applyReports i ?cs (sr_jobs t)")
    case (Inl e)
    then show ?thesis using st by (simp add: reporting_def m)
  next
    case (Inr jm)
    then show ?thesis using calls.trans[OF st applyReports_only[OF Inr]] by (simp add: reporting_def m)
  qed
qed

lemma awaitTask_calls [calls_rules]: "keeps (calls_only i) (awaitTask S fuel cluster upid poll i)"
  unfolding awaitTask_def by (intro calls_rules grows_rules)

lemma mapOptA_calls [calls_rules]:
  "keeps (calls_only i) m \<Longrightarrow> (\<And>x. keeps (calls_only i) (f x)) \<Longrightarrow> keeps (calls_only i) (mapOptA m f)"
  unfolding mapOptA_def by (intro calls_rules) (auto intro!: calls_rules split: option.split)

lemma logOutput_calls [calls_rules]: "keeps (calls_only i) (logOutput w i r)"
  unfolding logOutput_def by (intro calls_rules)

lemma mapRunning_calls [calls_rules]: "keeps (calls_only i) m \<Longrightarrow> keeps (calls_only i) (mapRunning f m)"
  unfolding mapRunning_def by (intro calls_rules)

section \<open>Runs\<close>

lemma runJob_ok:
  assumes ex: "keeps (calls_only i) executor" and new: "created i (sr_jobs s)"
  shows "jobs_ok (sr_jobs (snd (runJob w i executor s)))"
proof -
  obtain j where "findJob (sr_jobs s) i = Some j" using new by (auto simp: created_def)
  then obtain c m1 where start: "startRun (w_nowIso w (io_trace s)) i (sr_jobs s) = Inr (c, m1)"
    by (auto simp: startRun_def updateJob_def getJob_def Let_def)
  define s1 where "s1 = s\<lparr>sr_jobs := m1\<rparr>"
  obtain out s2 where out: "executor s1 = (out, s2)" by force
  have "calls_only i s1 s2" using ex out by (metis keeps_def snd_conv)
  then have m2: "jobs_ok (sr_jobs s2)" "live_run c i (sr_jobs s2)"
    using calls_only_ok[of i s1 s2 c] startRun_ok[OF new start] by (simp_all add: s1_def)
  obtain r t where run: "runJob w i executor s = (r, t)" by force
  define aborted where "aborted = w_aborted w (io_trace s2)"
  define now2 where "now2 = w_nowIso w (io_trace s2)"
  have rest: "(case out of Inr None \<Rightarrow> ret False
     | Inr (Some result) \<Rightarrow> seqA (jobsUnit (runReturned now2 c result)) (ret True)
     | Inl e \<Rightarrow> seqA (modifyA (\<lambda>s. if aborted then s\<lparr>sr_jobs := cancelJob i (sr_jobs s)\<rparr> else s))
        (seqA (jobsUnit (runThrew now2 c e JUndef)) (ret True))) s2 = (r, t)"
    using run start out by (simp add: runJob_def nowIsoA_def jobsA_def bindA_apply attemptA_def abortedA_def s1_def
        aborted_def now2_def split: sum.splits option.splits if_splits)
  have "jobs_ok (sr_jobs t)"
  proof (cases out)
    case (Inl e)
    define m3 where "m3 = (if aborted then cancelJob i (sr_jobs s2) else sr_jobs s2)"
    have m3: "jobs_ok m3" "live_run c i m3" using m2 cancel_ok live_cancel by (auto simp: m3_def)
    obtain j where j: "findJob m3 i = Some j" using live_slot[OF m3] by blast
    have "settled_ok (jm_runs m3 ! c)
        (j\<lparr>sj_state := (if rn_aborted (jm_runs m3 ! c) then JsCancelled else JsFailed), sj_error := Some e, sj_updatedAt := now2\<rparr>)"
      by (simp add: settled_ok_def)
    note ok = settle_ok[OF m3 this]
    have "seqA (jobsUnit (runThrew now2 c e JUndef)) (ret True) (s2\<lparr>sr_jobs := m3\<rparr>) = (r, t)"
      using rest Inl by (simp add: m3_def split: if_splits)
    then show ?thesis using m3(2) j ok
      by (auto simp: seqA_def bindA_apply jobsUnit_def jobsA_def runThrew_def res_simps updateJob_def getJob_def
          live_run_def Let_def)
  next
    case (Inr res)
    show ?thesis
    proof (cases res)
      case None
      then show ?thesis using rest Inr m2(1) by simp
    next
      case (Some result)
      obtain j where j: "findJob (sr_jobs s2) i = Some j" "sj_error j = None" using live_slot[OF m2] by blast
      have "settled_ok (jm_runs (sr_jobs s2) ! c) (j\<lparr>sj_state := JsCompleted, sj_result := result,
          sj_updatedAt := now2, sj_resultRef := or_memory i (sj_resultRef j)\<rparr>)"
        using j(2) by (simp add: settled_ok_def or_memory_def split: option.split)
      note ok = settle_ok[OF m2 this]
      have "seqA (jobsUnit (runReturned now2 c result)) (ret True) s2 = (r, t)" using rest Inr Some by simp
      then show ?thesis using m2(2) j ok
        by (auto simp: seqA_def bindA_apply jobsUnit_def jobsA_def runReturned_def res_simps updateJob_def getJob_def
            live_run_def)
    qed
  qed
  then show ?thesis by (simp add: run)
qed

section \<open>Every tool\<close>

definition keeps_jobs :: "'b server_scheme \<Rightarrow> 'b server_scheme \<Rightarrow> bool" where
  "keeps_jobs s t \<longleftrightarrow> (jobs_ok (sr_jobs s) \<longrightarrow> jobs_ok (sr_jobs t))"

interpretation jobs: preorder_rel keeps_jobs
  by unfold_locales (auto simp: keeps_jobs_def)

named_theorems jobs_rules "actions that keep the job registry consistent"

lemmas [jobs_rules] = jobs.keeps_intros keeps_attemptA

lemma jobs_step: "keeps svc_step m \<Longrightarrow> keeps keeps_jobs m"
  unfolding keeps_def keeps_jobs_def using svc_step_server(3) by metis

lemma jobs_modify [jobs_rules]: "(\<And>s. sr_jobs (f s) = sr_jobs s) \<Longrightarrow> keeps keeps_jobs (modifyA f)"
  by (simp add: keeps_def keeps_jobs_def)

lemma jobs_disk [jobs_rules]: "keeps keeps_jobs (diskA w e f)"
  by (simp add: keeps_def keeps_jobs_def diskA_apply split: option.split)

lemma settleJob_same: "snd (settleJob w wm settled i s) = s"
  by (simp add: settleJob_def lateA_def bindA_apply split: option.split sum.split)

lemma jobTool_ok:
  assumes "keeps (calls_only (sj_jobId job)) executor" "created (sj_jobId job) (sr_jobs s)"
  shows "jobs_ok (sr_jobs (snd (jobTool w wm job a b executor s)))"
proof -
  obtain r t where run: "runJob w (sj_jobId job) executor s = (r, t)" by force
  have "snd (jobTool w wm job a b executor s) = t"
    using settleJob_same[of w wm "projr r" "sj_jobId job" t]
    by (auto simp: jobTool_def bindA_apply run split: sum.split prod.splits option.split)
  then show ?thesis using runJob_ok[OF assms, of w] by (simp add: run)
qed

lemma jobs_new_job [jobs_rules]:
  assumes "\<And>job. keeps (calls_only (sj_jobId job)) (executor job)"
  shows "keeps keeps_jobs (bindA (newJobA w target oa) (\<lambda>job. jobTool w' wm job a b (executor job)))"
    and "keeps keeps_jobs (bindA (newUpidJobA w target oa u) (\<lambda>job. jobTool w' wm job a b (executor job)))"
  using jobTool_ok[OF assms] createJob_created
  by (auto simp: keeps_def keeps_jobs_def newJobA_def newUpidJobA_def nowIsoA_def uuidA_def jobsA_def bindA_apply
      createUpidJob_def split: prod.split)

lemma taskTool_jobs [jobs_rules]:
  "keeps keeps_jobs direct \<Longrightarrow> (\<And>x i. keeps (calls_only i) (post x)) \<Longrightarrow>
     keeps keeps_jobs (taskTool S fuel ex t oa a b u direct post)"
  unfolding taskTool_def by (auto intro!: jobs_rules calls_rules split: option.split)

lemma apiTaskTool_jobs [jobs_rules]: "keeps keeps_jobs (apiTaskTool S fuel ex t oa a b c r)"
  unfolding apiTaskTool_def by (intro jobs_rules calls_rules)

lemma io_jobs [jobs_rules]:
  "keeps keeps_jobs (nowIsoA w)" "keeps keeps_jobs (nowA w)" "keeps keeps_jobs (lateA w)"
  "keeps keeps_jobs (abortedA w)" "keeps keeps_jobs (uuidA w)"
  by (intro jobs_step grows_rules)+

lemma artifact_jobs [jobs_rules]:
  "keeps keeps_jobs (createBinaryArtifact w kind mime data ttl prefer enc)"
  "keeps keeps_jobs (getArtifact w i)" "keeps keeps_jobs (readArtifactBuffer S io uri)"
  "keeps keeps_jobs (readArtifactText S io uri)"
proof -
  show "keeps keeps_jobs (createBinaryArtifact w kind mime data ttl prefer enc)"
    unfolding createBinaryArtifact_def createBaseRecord_def setArtifact_def writeTempFile_def writeBytesA_def mkdirA_def Let_def
    by (intro jobs_rules keeps_branches; simp)
  show get: "keeps keeps_jobs (getArtifact w i)" for w i
    unfolding getArtifact_def by (intro jobs_rules keeps_branches; simp)
  have "keeps keeps_jobs (storeBytes S st)" for st
    by (cases st; simp only: storeBytes_def readBytesA_def artifact_store.case;
        intro jobs_rules keeps_branches; intro jobs_step grows_rules)
  then show buf: "keeps keeps_jobs (readArtifactBuffer S io uri)" for io uri
    unfolding readArtifactBuffer_def by (intro jobs_rules get)
  then show "keeps keeps_jobs (readArtifactText S io uri)"
    unfolding readArtifactText_def by (intro jobs_rules buf)
qed

lemma artifactResult_jobs [jobs_rules]: "keeps keeps_jobs (artifactResult S a k mt b ps e pf)"
  unfolding artifactResult_def Let_def by (auto intro!: jobs_rules)

lemma answerA_jobs [jobs_rules]:
  "keeps svc_step m \<Longrightarrow> keeps keeps_jobs (bindA m (\<lambda>x. ret (Some (plainResult a (f x)))))"
  by (intro jobs_rules jobs_step)

lemma mapRunning_jobs [jobs_rules]: "keeps keeps_jobs m \<Longrightarrow> keeps keeps_jobs (mapRunning f m)"
  unfolding mapRunning_def by (intro jobs_rules)

lemma runNodeTool_jobs: "keeps keeps_jobs (runNodeTool S fuel t)"
  by (cases t; auto simp: nodeActionTool_def nodeTerminalTool_def Let_def intro!: jobs_rules calls_rules;
      intro jobs_step grows_rules)

lemma runLxcTool_jobs: "keeps keeps_jobs (runLxcTool S fuel t)"
  by (cases t; auto simp: lxcActionTool_def intro!: jobs_rules; intro jobs_step grows_rules)

lemma runClusterTool_jobs: "keeps keeps_jobs (runClusterTool S fuel t)"
  by (cases t; auto simp: inventoryTool_def intro!: jobs_rules; intro jobs_step grows_rules)

lemma latestConfig_step [grows_rules]: "keeps svc_step (withLatestConfig S c v ps)"
  unfolding withLatestConfig_def by (intro grows_rules)

lemma runQemuTool_jobs: "keeps keeps_jobs (runQemuTool S fuel t)"
  by (cases t; auto simp: vmActionTool_def guestExecTool_def vmCreateTool_def vmUpdateConfigTool_def pciAttachTool_def
      pciDetachTool_def pciTool_def convertToTemplateTool_def vmCloneTool_def vmDestroyTool_def Let_def
      intro!: jobs_rules calls_rules; (intro jobs_step grows_rules | intro keeps_calls_step grows_rules))

lemma runStorageTool_jobs: "keeps keeps_jobs (runStorageTool S fuel t)"
  by (cases t; auto simp: downloadUrlTool_def snippetGetTool_def snippetPutTool_def cloudInitDumpTool_def yamlResult_def
      intro!: jobs_rules split: prod.split; intro jobs_step grows_rules)

lemma runInfraTool_jobs: "keeps keeps_jobs (runInfraTool S fuel t)"
  by (cases t; auto simp: firewallGetTool_def backupStartTool_def
      intro!: jobs_rules split: prod.split; intro jobs_step grows_rules)

lemma cancel_jobs [jobs_rules]: "keeps keeps_jobs (modifyA (\<lambda>s. s\<lparr>sr_jobs := cancelJob i (sr_jobs s)\<rparr>))"
  by (simp add: keeps_def keeps_jobs_def cancel_ok)

lemma findJobA_jobs [jobs_rules]: "keeps keeps_jobs (findJobA i)"
  unfolding findJobA_def by (intro jobs_rules)

lemma logsOf_jobs [jobs_rules]: "keeps keeps_jobs (logsOf S i)"
  unfolding logsOf_def by (auto intro!: jobs_rules split: option.split; intro jobs_step grows_rules)

lemma job_tools_jobs [jobs_rules]:
  "keeps keeps_jobs (jobGetTool S i)" "keeps keeps_jobs (jobWaitTool S fuel i t)"
  "keeps keeps_jobs (jobCancelTool S i)" "keeps keeps_jobs (jobLogsTool S i l)"
  unfolding jobGetTool_def jobWaitTool_def jobCancelTool_def jobLogsTool_def Let_def
  by (intro jobs_rules keeps_branches; (intro jobs_step grows_rules | simp))+

lemma command_tools_jobs [jobs_rules]:
  "keeps keeps_jobs (apiCallTool S fuel c v p as ex)" "keeps keeps_jobs (cliRunTool S c n f cl raw ex)"
  "keeps keeps_jobs (shellRunTool S fuel g inp ex)"
  unfolding apiCallTool_def cliRunTool_def shellRunTool_def Let_def
  by (intro jobs_rules calls_rules keeps_branches; (intro jobs_step grows_rules | intro keeps_calls_step grows_rules))+

lemma file_tools_jobs [jobs_rules]:
  "keeps keeps_jobs (fileReadTool S g p)" "keeps keeps_jobs (fileWriteTool S g p b)"
  unfolding fileReadTool_def fileWriteTool_def
  by (intro jobs_rules keeps_branches; intro jobs_step grows_rules)+

lemma runEscapeTool_jobs: "keeps keeps_jobs (runEscapeTool S fuel t)"
  by (cases t; simp only: runEscapeTool.simps; intro jobs_rules; (intro jobs_step grows_rules)?)

lemma runTool_jobs: "keeps keeps_jobs (runTool S fuel t)"
  by (cases t) (simp_all add: runNodeTool_jobs runLxcTool_jobs runClusterTool_jobs runQemuTool_jobs
      runStorageTool_jobs runInfraTool_jobs runEscapeTool_jobs)

lemma callTool_jobs: "keeps keeps_jobs (callTool S fuel granted t)"
  unfolding callTool_def by (intro jobs_rules runTool_jobs)

lemma callTool_jobs_ok: "jobs_ok (sr_jobs s) \<Longrightarrow> jobs_ok (sr_jobs (snd (callTool S fuel granted t s)))"
  using callTool_jobs[of S fuel granted t] unfolding keeps_def keeps_jobs_def by blast

lemma session_jobs: "jobs_ok (sr_jobs s) \<Longrightarrow> jobs_ok (sr_jobs (session S calls s))"
  by (induction S calls s rule: session.induct) (simp_all add: callTool_jobs_ok)

lemma jobs_ok_start: "jobs_ok (sr_jobs (createServerContext h))"
  by (simp add: jobs_ok_none createServerContext_def host.extend_def server.fields_def)


end
