(* ===== verification/SecretDocs.thy ===== *)
theory SecretDocs
  imports Files Api ManagedAuth
begin

text \<open>
  The secret documents of src/admin-secrets.ts: records of credentials, the schema that reads them
  from JSON, and the operations on a document.  A secret is found under its id, and what is printed
  reads back.
\<close>

section \<open>Records and documents\<close>

datatype secret_body =
    ApiTokenSecret string string string string "string option" "string option"
  | ShellKeySecret string string string "string option"
  | ShellReferenceSecret string string

fun secret_kind :: "secret_body \<Rightarrow> string" where
  "secret_kind (ApiTokenSecret _ _ _ _ _ _) = ''proxmox_api_token''"
| "secret_kind (ShellKeySecret _ _ _ _) = ''shell_ssh_key''"
| "secret_kind (ShellReferenceSecret _ _) = ''shell_ssh_reference''"

record secret_record =
  sec_id :: string
  sec_createdAt :: string
  sec_updatedAt :: string
  sec_metadata :: "(string \<times> jsval) list"
  sec_body :: secret_body

record secret_document =
  sd_version :: int
  sd_updatedAt :: string
  sd_records :: "secret_record list"

definition createSecretDocument :: "string \<Rightarrow> secret_record list \<Rightarrow> secret_document" where
  "createSecretDocument updatedAt records = \<lparr>sd_version = 1, sd_updatedAt = updatedAt, sd_records = records\<rparr>"

section \<open>JSON\<close>

text \<open>The printed form, in the key order of the schema; a missing optional field is not printed.\<close>

definition opt_field :: "string \<Rightarrow> string option \<Rightarrow> (string \<times> jsval) list" where
  "opt_field k v = (case v of Some s \<Rightarrow> [(k, JStr s)] | None \<Rightarrow> [])"

fun body_fields :: "secret_body \<Rightarrow> (string \<times> jsval) list" where
  "body_fields (ApiTokenSecret user realm tokenId secret comment expireAt) =
     [(''user'', JStr user), (''realm'', JStr realm), (''tokenId'', JStr tokenId), (''secret'', JStr secret)] @
     opt_field ''comment'' comment @ opt_field ''expireAt'' expireAt"
| "body_fields (ShellKeySecret username privateKey publicKey passphrase) =
     [(''username'', JStr username), (''privateKey'', JStr privateKey), (''publicKey'', JStr publicKey)] @
     opt_field ''passphrase'' passphrase"
| "body_fields (ShellReferenceSecret username reference) =
     [(''username'', JStr username), (''reference'', JStr reference)]"

definition record_json :: "secret_record \<Rightarrow> jsval" where
  "record_json r = JObj ([(''id'', JStr (sec_id r)), (''kind'', JStr (secret_kind (sec_body r))),
     (''createdAt'', JStr (sec_createdAt r)), (''updatedAt'', JStr (sec_updatedAt r)),
     (''metadata'', JObj (sec_metadata r))] @ body_fields (sec_body r))"

definition document_json :: "secret_document \<Rightarrow> jsval" where
  "document_json d = JObj [(''version'', JNum (sd_version d)), (''updatedAt'', JStr (sd_updatedAt d)),
     (''records'', JArr (map record_json (sd_records d)))]"

text \<open>
  The schema, with the documented behaviour of its combinators: \<open>z.string().min(1)\<close>, optional strings,
  the metadata record with its default, which applies inside \<open>optional\<close>, and the union on \<open>kind\<close>.
  The text of a \<open>ZodError\<close> is not modelled.
\<close>

definition zod_error :: "'a res" where
  "zod_error = Inl ''ZodError''"

definition z_string :: "jsval \<Rightarrow> string res" where
  "z_string v = (case v of JStr s \<Rightarrow> if s = [] then zod_error else Inr s | _ \<Rightarrow> zod_error)"

definition z_optional :: "jsval \<Rightarrow> string option res" where
  "z_optional v = (case v of JUndef \<Rightarrow> Inr None | JStr s \<Rightarrow> Inr (Some s) | _ \<Rightarrow> zod_error)"

definition z_metadata :: "jsval \<Rightarrow> (string \<times> jsval) list res" where
  "z_metadata v = (case v of JUndef \<Rightarrow> Inr [] | JObj ps \<Rightarrow> Inr ps | _ \<Rightarrow> zod_error)"

definition z_body :: "jsval \<Rightarrow> secret_body res" where
  "z_body v =
     (if jget v ''kind'' = JStr ''proxmox_api_token'' then
        rbind (z_string (jget v ''user'')) (\<lambda>user. rbind (z_string (jget v ''realm'')) (\<lambda>realm.
        rbind (z_string (jget v ''tokenId'')) (\<lambda>tokenId. rbind (z_string (jget v ''secret'')) (\<lambda>secret.
        rbind (z_optional (jget v ''comment'')) (\<lambda>comment. rbind (z_optional (jget v ''expireAt'')) (\<lambda>expireAt.
        Inr (ApiTokenSecret user realm tokenId secret comment expireAt)))))))
      else if jget v ''kind'' = JStr ''shell_ssh_key'' then
        rbind (z_string (jget v ''username'')) (\<lambda>username. rbind (z_string (jget v ''privateKey'')) (\<lambda>privateKey.
        rbind (z_string (jget v ''publicKey'')) (\<lambda>publicKey. rbind (z_optional (jget v ''passphrase'')) (\<lambda>passphrase.
        Inr (ShellKeySecret username privateKey publicKey passphrase)))))
      else if jget v ''kind'' = JStr ''shell_ssh_reference'' then
        rbind (z_string (jget v ''username'')) (\<lambda>username. rbind (z_string (jget v ''reference'')) (\<lambda>reference.
        Inr (ShellReferenceSecret username reference)))
      else zod_error)"

definition z_record :: "jsval \<Rightarrow> secret_record res" where
  "z_record v =
     rbind (z_string (jget v ''id'')) (\<lambda>i. rbind (z_string (jget v ''createdAt'')) (\<lambda>created.
     rbind (z_string (jget v ''updatedAt'')) (\<lambda>updated. rbind (z_metadata (jget v ''metadata'')) (\<lambda>metadata.
     rbind (z_body v) (\<lambda>b.
     Inr \<lparr>sec_id = i, sec_createdAt = created, sec_updatedAt = updated, sec_metadata = metadata, sec_body = b\<rparr>)))))"

definition z_document :: "string \<Rightarrow> jsval \<Rightarrow> secret_document res" where
  "z_document now v =
     (if \<not> is_jobj v \<or> jget v ''version'' \<noteq> JNum 1 then zod_error
      else rbind (if jget v ''updatedAt'' = JUndef then Inr now else z_string (jget v ''updatedAt'')) (\<lambda>updated.
        rbind (case jget v ''records'' of JUndef \<Rightarrow> Inr [] | JArr vs \<Rightarrow> rmap z_record vs | _ \<Rightarrow> zod_error) (\<lambda>records.
        if distinct (map sec_id records)
        then Inr \<lparr>sd_version = 1, sd_updatedAt = updated, sd_records = records\<rparr>
        else zod_error)))"

text \<open>\<open>now\<close> is the time of the call, the default of \<open>updatedAt\<close>.\<close>

definition normalizeSecretDocument :: "string \<Rightarrow> jsval \<Rightarrow> secret_document res" where
  "normalizeSecretDocument now v =
     (case v of
        JArr vs \<Rightarrow> z_document now (JObj [(''version'', JNum 1), (''records'', JArr vs)])
      | JObj ps \<Rightarrow>
          if ''records'' \<in> fst ` set ps \<or> ''version'' \<in> fst ` set ps
          then z_document now (JObj (map_from_entries ((''version'', JNum 1) # ps)))
          else Inr (createSecretDocument now [])
      | _ \<Rightarrow> Inr (createSecretDocument now []))"

definition cloneSecretDocument :: "string \<Rightarrow> secret_document \<Rightarrow> secret_document res" where
  "cloneSecretDocument now d =
     rbind (parse_json_body (JSON_stringify (document_json d))) (z_document now)"

section \<open>Operations\<close>

definition getSecret :: "secret_document \<Rightarrow> string \<Rightarrow> secret_record option" where
  "getSecret d i = find (\<lambda>r. sec_id r = i) (sd_records d)"

definition upsertSecret :: "string \<Rightarrow> secret_document \<Rightarrow> secret_record \<Rightarrow> secret_document" where
  "upsertSecret now d r =
     createSecretDocument now (filter (\<lambda>e. sec_id e \<noteq> sec_id r) (sd_records d) @ [r\<lparr>sec_updatedAt := now\<rparr>])"

definition removeSecret :: "string \<Rightarrow> secret_document \<Rightarrow> string \<Rightarrow> secret_document" where
  "removeSecret now d i = createSecretDocument now (filter (\<lambda>r. sec_id r \<noteq> i) (sd_records d))"

definition secret_summary :: "secret_record \<Rightarrow> jsval" where
  "secret_summary r = JObj [(''id'', JStr (sec_id r)), (''kind'', JStr (secret_kind (sec_body r))),
     (''createdAt'', JStr (sec_createdAt r)), (''updatedAt'', JStr (sec_updatedAt r)), (''metadata'', JObj (sec_metadata r))]"

definition summarizeSecretDocument :: "secret_document \<Rightarrow> jsval list" where
  "summarizeSecretDocument d = map secret_summary (sd_records d)"

section \<open>Well-formed documents\<close>

fun body_ok :: "secret_body \<Rightarrow> bool" where
  "body_ok (ApiTokenSecret user realm tokenId secret _ _) \<longleftrightarrow> user \<noteq> [] \<and> realm \<noteq> [] \<and> tokenId \<noteq> [] \<and> secret \<noteq> []"
| "body_ok (ShellKeySecret username privateKey publicKey _) \<longleftrightarrow> username \<noteq> [] \<and> privateKey \<noteq> [] \<and> publicKey \<noteq> []"
| "body_ok (ShellReferenceSecret username reference) \<longleftrightarrow> username \<noteq> [] \<and> reference \<noteq> []"

definition secret_ok :: "secret_record \<Rightarrow> bool" where
  "secret_ok r \<longleftrightarrow> sec_id r \<noteq> [] \<and> sec_createdAt r \<noteq> [] \<and> sec_updatedAt r \<noteq> [] \<and>
     jnormal (JObj (sec_metadata r)) \<and> body_ok (sec_body r)"

definition doc_ok :: "secret_document \<Rightarrow> bool" where
  "doc_ok d \<longleftrightarrow> sd_version d = 1 \<and> sd_updatedAt d \<noteq> [] \<and> (\<forall>r\<in>set (sd_records d). secret_ok r) \<and>
     distinct (map sec_id (sd_records d))"

lemma z_simps [simp]:
  "z_string (JStr s) = (if s = [] then zod_error else Inr s)" "z_string JUndef = zod_error"
  "z_optional JUndef = Inr None" "z_optional (JStr s) = Inr (Some s)"
  "z_metadata (JObj ps) = Inr ps" "z_metadata JUndef = Inr []"
  by (simp_all add: z_string_def z_optional_def z_metadata_def)

lemma jget_Nil: "jget (JObj []) k = JUndef"
  by (simp add: jget_def)

lemma jget_Cons: "jget (JObj ((k', v) # ps)) k = (if k = k' then v else jget (JObj ps) k)"
  by (simp add: jget_def)

lemma jget_opt: "jget (JObj (opt_field k' v @ ps)) k = (if k = k' \<and> v \<noteq> None then JStr (the v) else jget (JObj ps) k)"
  by (cases v) (simp_all add: opt_field_def jget_Cons)

lemmas jget_fields = jget_Nil jget_Cons jget_opt jget_opt[where ps = "[]", simplified]

lemma z_body_fields:
  assumes "body_ok b" "jget v ''kind'' = JStr (secret_kind b)"
    and "\<And>k. k \<in> {''user'', ''realm'', ''tokenId'', ''secret'', ''comment'', ''expireAt'', ''username'', ''privateKey'',
       ''publicKey'', ''passphrase'', ''reference''} \<Longrightarrow> jget v k = jget (JObj (body_fields b)) k"
  shows "z_body v = Inr b"
  using assms(1,2) by (cases b) (auto simp: z_body_def assms(3) jget_fields)

lemma z_record_json: "secret_ok r \<Longrightarrow> z_record (record_json r) = Inr r"
proof -
  assume ok: "secret_ok r"
  have "z_body (record_json r) = Inr (sec_body r)"
    by (rule z_body_fields) (use ok in \<open>auto simp: secret_ok_def record_json_def jget_fields\<close>)
  moreover have "jget (record_json r) ''id'' = JStr (sec_id r)"
    "jget (record_json r) ''createdAt'' = JStr (sec_createdAt r)" "jget (record_json r) ''updatedAt'' = JStr (sec_updatedAt r)"
    "jget (record_json r) ''metadata'' = JObj (sec_metadata r)"
    by (simp_all add: record_json_def jget_fields)
  ultimately show ?thesis using ok by (simp add: z_record_def secret_ok_def)
qed

lemma rmap_records: "(\<And>r. r \<in> set rs \<Longrightarrow> secret_ok r) \<Longrightarrow> rmap z_record (map record_json rs) = Inr rs"
  by (induction rs) (simp_all add: z_record_json)

lemma z_document_json: "doc_ok d \<Longrightarrow> z_document now (document_json d) = Inr d"
  by (cases d) (auto simp: z_document_def document_json_def jget_fields is_jobj_def doc_ok_def rmap_records)

lemma opt_field_normal [simp]: "list_all (\<lambda>p. jnormal (snd p)) (opt_field k v)"
  by (simp add: opt_field_def split: option.split)

lemma opt_field_keys: "fst ` set (opt_field k v) = (if v = None then {} else {k})"
  "distinct (map fst (opt_field k v))"
  by (cases v; simp add: opt_field_def)+

lemma body_fields_normal: "jnormal (JObj (body_fields b))"
  by (cases b) (auto simp: opt_field_keys)

lemma body_keys: "fst ` set (body_fields b) \<inter> {''id'', ''kind'', ''createdAt'', ''updatedAt'', ''metadata''} = {}"
  by (cases b) (auto simp: image_Un opt_field_keys)

lemma record_normal: "secret_ok r \<Longrightarrow> jnormal (record_json r)"
  using body_fields_normal[of "sec_body r"] body_keys[of "sec_body r"] by (auto simp: record_json_def secret_ok_def)

lemma document_normal: "doc_ok d \<Longrightarrow> jnormal (document_json d)"
  by (auto simp: document_json_def doc_ok_def list_all_iff record_normal)

lemma normalize_document_json: "doc_ok d \<Longrightarrow> normalizeSecretDocument now (document_json d) = Inr d"
  using z_document_json[of d now]
  by (simp add: normalizeSecretDocument_def document_json_def map_from_entries_def doc_ok_def)

lemma cloneSecretDocument_ok: "doc_ok d \<Longrightarrow> cloneSecretDocument now d = Inr d"
  by (simp add: cloneSecretDocument_def parse_json_body_def json.roundtrip document_normal z_document_json)

text \<open>What the schema accepts is well formed, up to metadata that JSON cannot print.\<close>

lemma doc_ok_empty: "now \<noteq> [] \<Longrightarrow> doc_ok (createSecretDocument now [])"
  by (simp add: doc_ok_def createSecretDocument_def)

lemma distinct_map_filter_id: "distinct (map f xs) \<Longrightarrow> distinct (map f (filter P xs))"
  by (induction xs) auto

lemma doc_ok_upsert: "doc_ok d \<Longrightarrow> secret_ok r \<Longrightarrow> now \<noteq> [] \<Longrightarrow> doc_ok (upsertSecret now d r)"
  by (auto simp: doc_ok_def upsertSecret_def createSecretDocument_def secret_ok_def distinct_map_filter_id)

lemma doc_ok_remove: "doc_ok d \<Longrightarrow> now \<noteq> [] \<Longrightarrow> doc_ok (removeSecret now d i)"
  by (auto simp: doc_ok_def removeSecret_def createSecretDocument_def distinct_map_filter_id)

text \<open>A document is a map from ids to secrets.\<close>

lemma find_append: "find P (xs @ ys) = (case find P xs of Some x \<Rightarrow> Some x | None \<Rightarrow> find P ys)"
  by (induction xs) auto

lemma find_filter_id: "find (\<lambda>r. sec_id r = i) (filter (\<lambda>r. sec_id r \<noteq> j) rs) =
    (if i = j then None else find (\<lambda>r. sec_id r = i) rs)"
  by (induction rs) auto

lemma getSecret_upsert:
  "getSecret (upsertSecret now d r) i = (if i = sec_id r then Some (r\<lparr>sec_updatedAt := now\<rparr>) else getSecret d i)"
  by (auto simp: getSecret_def upsertSecret_def createSecretDocument_def find_append find_filter_id split: option.split)

lemma getSecret_remove: "getSecret (removeSecret now d i) j = (if i = j then None else getSecret d j)"
  by (auto simp: getSecret_def removeSecret_def createSecretDocument_def find_filter_id)

lemma getSecret_empty [simp]: "getSecret (createSecretDocument now []) i = None"
  by (simp add: getSecret_def createSecretDocument_def)

end
