(* ===== verification/AdminSecrets.thy ===== *)
theory AdminSecrets
  imports SecretDocs
begin

text \<open>
  The document stores of src/admin-secrets.ts: the environment, a file that is replaced atomically, a
  Vault KV engine and memory, behind one interface whose laws (what was written is read back, what was
  deleted is empty) every backend satisfies when its medium works.
\<close>

section \<open>Paths\<close>

text \<open>\<open>dirname\<close>, \<open>basename\<close> and \<open>join\<close> of \<open>node:path\<close> on POSIX.\<close>

definition is_slash :: "char \<Rightarrow> bool" where
  "is_slash c \<longleftrightarrow> c = CHR ''/''"

definition path_dirname :: "string \<Rightarrow> string" where
  "path_dirname p =
     (let r = dropWhile (\<lambda>c. \<not> is_slash c) (dropWhile is_slash (rev p)); rooted = js_startsWith p ''/'' in
      if length r \<le> 1 then (if rooted then ''/'' else ''.'')
      else if rooted \<and> length r = 2 then ''//'' else rev (tl r))"

definition path_basename :: "string \<Rightarrow> string" where
  "path_basename p = rev (takeWhile (\<lambda>c. \<not> is_slash c) (dropWhile is_slash (rev p)))"

fun resolve_segments :: "bool \<Rightarrow> string list \<Rightarrow> string list \<Rightarrow> string list" where
  "resolve_segments up acc [] = rev acc"
| "resolve_segments up acc (g # gs) =
     (if g = [] \<or> g = ''.'' then resolve_segments up acc gs
      else if g = ''..'' then
        (if acc \<noteq> [] \<and> hd acc \<noteq> ''..'' then resolve_segments up (tl acc) gs
         else resolve_segments up (if up then g # acc else acc) gs)
      else resolve_segments up (g # acc) gs)"

definition path_normalize :: "string \<Rightarrow> string" where
  "path_normalize p =
     (if p = [] then ''.''
      else let rooted = js_startsWith p ''/''; trailing = js_endsWith p ''/'';
               q = js_join ''/'' (resolve_segments (\<not> rooted) [] (js_split (CHR ''/'') p)) in
        if q = [] then (if rooted then ''/'' else if trailing then ''./'' else ''.'')
        else (if rooted then ''/'' else []) @ q @ (if trailing then ''/'' else []))"

definition path_join :: "string \<Rightarrow> string \<Rightarrow> string" where
  "path_join a b = path_normalize (js_join ''/'' (filter (\<lambda>p. p \<noteq> []) [a, b]))"

section \<open>The file store\<close>

definition emptyDocument :: "world \<Rightarrow> ('b svc_scheme, secret_document) act" where
  "emptyDocument w = bindA (nowIsoA w) (\<lambda>now. ret (createSecretDocument now []))"

definition normalizeA :: "world \<Rightarrow> jsval \<Rightarrow> ('b svc_scheme, secret_document) act" where
  "normalizeA w v = bindA (nowIsoA w) (\<lambda>now. liftR (normalizeSecretDocument now v))"

text \<open>The modes of the files are not part of the file system model, so the \<open>chmod\<close> calls, whose failures are ignored, are left out.\<close>

definition tempPathOf :: "world \<Rightarrow> string \<Rightarrow> int \<Rightarrow> string" where
  "tempPathOf w filePath now =
     path_join (path_dirname filePath) (path_basename filePath @ ''.'' @ int_str (w_pid w) @ ''.'' @ int_str now @ ''.tmp'')"

definition atomicWriteJson :: "world \<Rightarrow> string \<Rightarrow> secret_document \<Rightarrow> ('b host_scheme, unit) act" where
  "atomicWriteJson w filePath d =
     seqA (mkdirA w (path_dirname filePath))
    (bindA (nowIsoA w) (\<lambda>iso.
     bindA (liftR (z_document iso (document_json d))) (\<lambda>parsed.
     bindA (nowA w) (\<lambda>now.
     let payload = safeJson (document_json parsed) @ [CHR 0x0A] in
     seqA (writeTextA w (tempPathOf w filePath now) payload)
       (renameA w (tempPathOf w filePath now) filePath)))))"

definition fileStoreRead :: "world \<Rightarrow> string \<Rightarrow> ('b host_scheme, secret_document) act" where
  "fileStoreRead w filePath =
     catchA (bindA (readTextA w filePath) (\<lambda>raw. bindA (liftR (parse_json_body raw)) (normalizeA w)))
       (\<lambda>e. if e = ENOENT then emptyDocument w else raise e)"

section \<open>The environment store\<close>

definition envStoreRead :: "world \<Rightarrow> (string \<Rightarrow> string option) \<Rightarrow> string \<Rightarrow> ('b svc_scheme, secret_document) act" where
  "envStoreRead w env envVarName =
     (case env envVarName of
        None \<Rightarrow> emptyDocument w
      | Some raw \<Rightarrow>
          if js_trim raw = [] then emptyDocument w
          else bindA (liftR (parse_json_body raw)) (normalizeA w))"

section \<open>The Vault store\<close>

record admin_vault =
  av_baseUrl :: string
  av_token :: string
  av_mountPath :: string
  av_secretPath :: string
  av_namespace :: "string option"
  av_insecure :: "bool option"

text \<open>\<open>mkUrl path base\<close> is \<open>new URL(path, base)\<close>, which may throw.\<close>

type_synonym url_maker = "string \<Rightarrow> string \<Rightarrow> string res"

definition trim_slashes :: "string \<Rightarrow> string" where
  "trim_slashes s = strip_slashes (dropWhile is_slash s)"

definition documentUrl :: "url_maker \<Rightarrow> admin_vault \<Rightarrow> string res" where
  "documentUrl mkUrl v =
     mkUrl (''/v1/'' @ trim_slashes (av_mountPath v) @ ''/data/'' @ dropWhile is_slash (av_secretPath v)) (av_baseUrl v)"

definition metadataUrl :: "url_maker \<Rightarrow> admin_vault \<Rightarrow> string res" where
  "metadataUrl mkUrl v =
     mkUrl (''/v1/'' @ trim_slashes (av_mountPath v) @ ''/metadata/'' @ dropWhile is_slash (av_secretPath v)) (av_baseUrl v)"

definition vaultHeaders :: "admin_vault \<Rightarrow> (string \<times> string) list" where
  "vaultHeaders v = (''X-Vault-Token'', av_token v) #
     (case js_or_undefined (av_namespace v) of Some n \<Rightarrow> [(''X-Vault-Namespace'', n)] | None \<Rightarrow> [])"

definition vault_request :: "string \<Rightarrow> string \<Rightarrow> (string \<times> string) list \<Rightarrow> string option \<Rightarrow> http_request" where
  "vault_request verb href headers body =
     \<lparr>rq_method = verb, rq_url = href, rq_query = [], rq_headers = headers, rq_body = None, rq_timeoutMs = None, rq_json = body\<rparr>"

definition vaultStoreRead :: "world \<Rightarrow> url_maker \<Rightarrow> admin_vault \<Rightarrow> ('b svc_scheme, secret_document) act" where
  "vaultStoreRead w mkUrl v =
     bindA (liftR (documentUrl mkUrl v)) (\<lambda>href.
     bindA (fetchA w (vault_request ''GET'' href (vaultHeaders v) None)) (\<lambda>response.
     if rs_status response = 404 then emptyDocument w
     else bindA (liftR (parse_json_body (rs_text response))) (\<lambda>payload.
       if \<not> ok_status response then raise (''Vault secret read failed: '' @ int_str (rs_status response))
       else bindA (liftR (jfield payload ''data'')) (\<lambda>data. normalizeA w (jget data ''data'')))))"

definition vaultStoreWrite :: "world \<Rightarrow> url_maker \<Rightarrow> admin_vault \<Rightarrow> secret_document \<Rightarrow> ('b svc_scheme, unit) act" where
  "vaultStoreWrite w mkUrl v d =
     bindA (liftR (documentUrl mkUrl v)) (\<lambda>href.
     bindA (nowIsoA w) (\<lambda>iso.
     bindA (liftR (z_document iso (document_json d))) (\<lambda>parsed.
     bindA (fetchA w (vault_request ''POST'' href (vaultHeaders v @ [(''content-type'', ''application/json'')])
         (Some (JSON_stringify (JObj [(''data'', document_json parsed)]))))) (\<lambda>response.
     if ok_status response then ret ()
     else raise (''Vault secret write failed: '' @ int_str (rs_status response))))))"

definition vaultStoreDelete :: "world \<Rightarrow> url_maker \<Rightarrow> admin_vault \<Rightarrow> ('b svc_scheme, unit) act" where
  "vaultStoreDelete w mkUrl v =
     bindA (liftR (metadataUrl mkUrl v)) (\<lambda>href.
     bindA (fetchA w (vault_request ''DELETE'' href (vaultHeaders v) None)) (\<lambda>response.
     if ok_status response \<or> rs_status response = 404 then ret ()
     else raise (''Vault secret delete failed: '' @ int_str (rs_status response))))"

section \<open>The memory store\<close>

record memory_store = host +
  me_document :: secret_document

definition memoryStoreRead :: "world \<Rightarrow> ('b memory_store_scheme, secret_document) act" where
  "memoryStoreRead w =
     bindA (nowIsoA w) (\<lambda>now. bindA (getsA (\<lambda>s. cloneSecretDocument now (me_document s))) liftR)"

definition memoryStoreWrite :: "world \<Rightarrow> secret_document \<Rightarrow> ('b memory_store_scheme, unit) act" where
  "memoryStoreWrite w d =
     bindA (nowIsoA w) (\<lambda>now. bindA (liftR (cloneSecretDocument now d)) (\<lambda>c. modifyA (\<lambda>s. s\<lparr>me_document := c\<rparr>)))"

definition memoryStoreDelete :: "world \<Rightarrow> ('b memory_store_scheme, unit) act" where
  "memoryStoreDelete w = bindA (emptyDocument w) (\<lambda>d. modifyA (\<lambda>s. s\<lparr>me_document := d\<rparr>))"

section \<open>The configured store\<close>

datatype admin_store =
    AdminEnv "string \<Rightarrow> string option" string
  | AdminFile string
  | AdminVault admin_vault

datatype admin_store_config =
    ConfigEnv "string option"
  | ConfigFile "string option"
  | ConfigVault "admin_vault option"

fun createAdminStore :: "(string \<Rightarrow> string option) \<Rightarrow> admin_store_config \<Rightarrow> admin_store res" where
  "createAdminStore env (ConfigEnv name) =
     Inr (AdminEnv env (case name of Some n \<Rightarrow> n | None \<Rightarrow> ''PROXMOX_MCP_SECRETS_JSON''))"
| "createAdminStore env (ConfigFile path) =
     (case js_or_undefined path of None \<Rightarrow> Inl ''File secret store requires filePath'' | Some p \<Rightarrow> Inr (AdminFile p))"
| "createAdminStore env (ConfigVault v) =
     (case v of None \<Rightarrow> Inl ''Vault secret store requires vault settings'' | Some x \<Rightarrow> Inr (AdminVault x))"

fun readStore :: "world \<Rightarrow> url_maker \<Rightarrow> admin_store \<Rightarrow> ('b host_scheme, secret_document) act" where
  "readStore w mkUrl (AdminEnv env n) = envStoreRead w env n"
| "readStore w mkUrl (AdminFile p) = fileStoreRead w p"
| "readStore w mkUrl (AdminVault v) = vaultStoreRead w mkUrl v"

fun writeStore :: "world \<Rightarrow> url_maker \<Rightarrow> admin_store \<Rightarrow> secret_document \<Rightarrow> ('b host_scheme, unit) act" where
  "writeStore w mkUrl (AdminEnv env n) d = raise ''EnvSecretStore is read-only''"
| "writeStore w mkUrl (AdminFile p) d = atomicWriteJson w p d"
| "writeStore w mkUrl (AdminVault v) d = vaultStoreWrite w mkUrl v d"

fun deleteStore :: "world \<Rightarrow> url_maker \<Rightarrow> admin_store \<Rightarrow> ('b host_scheme, unit) act" where
  "deleteStore w mkUrl (AdminEnv env n) = raise ''EnvSecretStore is read-only''"
| "deleteStore w mkUrl (AdminFile p) = removeFileA w p"
| "deleteStore w mkUrl (AdminVault v) = vaultStoreDelete w mkUrl v"

section \<open>What a store promises\<close>

text \<open>
  The contract of a store whose medium works: a well-formed document that was written is read back,
  and after a deletion the store is empty.
\<close>

locale doc_store =
  fixes works :: bool
    and read_doc :: "'s \<Rightarrow> secret_document res \<times> 's"
    and write_doc :: "secret_document \<Rightarrow> 's \<Rightarrow> unit res \<times> 's"
    and delete_doc :: "'s \<Rightarrow> unit res \<times> 's"
  assumes read_written: "works \<Longrightarrow> doc_ok d \<Longrightarrow> write_doc d s = (Inr (), t) \<Longrightarrow> fst (read_doc t) = Inr d"
    and read_deleted: "works \<Longrightarrow> delete_doc s = (Inr (), t) \<Longrightarrow>
      \<exists>now. fst (read_doc t) = Inr (createSecretDocument now [])"
begin

lemma upsert_reads_back:
  assumes "works" "doc_ok d" "secret_ok r" "now \<noteq> []" "write_doc (upsertSecret now d r) s = (Inr (), t)"
  shows "\<exists>d'. fst (read_doc t) = Inr d' \<and> doc_ok d' \<and>
    (\<forall>i. getSecret d' i = (if i = sec_id r then Some (r\<lparr>sec_updatedAt := now\<rparr>) else getSecret d i))"
  using read_written[OF assms(1) doc_ok_upsert[OF assms(2-4)] assms(5)] doc_ok_upsert[OF assms(2-4)]
  by (simp add: getSecret_upsert)

lemma remove_reads_back:
  assumes "works" "doc_ok d" "now \<noteq> []" "write_doc (removeSecret now d i) s = (Inr (), t)"
  shows "\<exists>d'. fst (read_doc t) = Inr d' \<and> doc_ok d' \<and> (\<forall>j. getSecret d' j = (if i = j then None else getSecret d j))"
  using read_written[OF assms(1) doc_ok_remove[OF assms(2,3)] assms(4)] doc_ok_remove[OF assms(2,3)]
  by (simp add: getSecret_remove)

lemma delete_empties: "works \<Longrightarrow> delete_doc s = (Inr (), t) \<Longrightarrow> \<exists>d'. fst (read_doc t) = Inr d' \<and> getSecret d' i = None"
  using read_deleted by fastforce

end

section \<open>The stores keep it\<close>

text \<open>A trailing line break does not disturb the parser.\<close>

lemma JSON_parse_line:
  assumes "jnormal v"
  shows "JSON_parse (safeJson v @ [CHR 0x0A]) = Some v"
proof -
  let ?t = "safeJson v @ [CHR 0x0A]"
  have "jdepth v \<le> json_fuel ?t"
    using jdepth_length[OF assms, of "''  ''" "[]"] by (simp add: json_fuel_def safeJson_def)
  then have "json_value (json_fuel ?t) ([] @ jprint ''  '' [] v @ [CHR 0x0A]) = Some (v, [CHR 0x0A])"
    using assms by (intro parsesD[OF jnormal_parses]) (simp_all add: is_digit_def)
  then show ?thesis by (simp add: JSON_parse_def skip_ws_def safeJson_def)
qed

lemma utf8_text_encode [simp]: "utf8_text w (utf8_encode t) = t"
  by (simp add: utf8_text_def utf8_roundtrip)

lemma renameA_works:
  "disk_works w \<Longrightarrow> map_of (ho_files s) a = Some x \<Longrightarrow> renameA w a b s = (Inr (), s\<lparr>io_trace := io_trace s @ [EvRename a b],
     ho_files := AList.update b x (AList.delete a (ho_files s))\<rparr>)"
  by (simp add: renameA_def diskA_apply disk_works_def)

lemma atomicWriteJson_files:
  assumes "disk_works w" "doc_ok d" "atomicWriteJson w p d s = (Inr (), t)"
  shows "map_of (ho_files t) p = Some (utf8_encode (safeJson (document_json d) @ [CHR 0x0A]))"
  using assms(3)
  by (auto simp: atomicWriteJson_def seqA_def bindA_apply working_disk[OF assms(1)] renameA_works[OF assms(1)] nowIsoA_def
      nowA_def z_document_json[OF assms(2)] Let_def)

lemma fileStoreRead_document:
  assumes "disk_works w" "doc_ok d" "map_of (ho_files s) p = Some (utf8_encode (safeJson (document_json d) @ [CHR 0x0A]))"
  shows "fst (fileStoreRead w p s) = Inr d"
  using assms(2)
  by (simp add: fileStoreRead_def catchA_def bindA_apply readTextA_works[OF assms(1)] assms(3) parse_json_body_def
      JSON_parse_line document_normal normalizeA_def nowIsoA_def normalize_document_json)

lemma fileStoreRead_missing:
  assumes "disk_works w" "map_of (ho_files s) p = None"
  shows "\<exists>now. fst (fileStoreRead w p s) = Inr (createSecretDocument now [])"
  by (simp add: fileStoreRead_def catchA_def bindA_apply readTextA_works[OF assms(1)] assms(2) emptyDocument_def nowIsoA_def)
    blast

text \<open>
  The documented behaviour of a KV engine of version 2: what was posted to the data path is what the
  next request for it answers, and after the removal of the metadata there is nothing at the path.
\<close>

definition kv_at :: "world \<Rightarrow> string \<Rightarrow> bool" where
  "kv_at w href \<longleftrightarrow>
     (\<forall>tr hs hs' body response x. w_fetch w tr (vault_request ''POST'' href hs (Some body)) = Inr response \<longrightarrow> ok_status response \<longrightarrow>
        JSON_parse body = Some (JObj [(''data'', x)]) \<longrightarrow>
        (\<exists>r ps qs. w_fetch w (tr @ [EvFetch (vault_request ''POST'' href hs (Some body))]) (vault_request ''GET'' href hs' None) = Inr r \<and>
          rs_status r = 200 \<and> JSON_parse (rs_text r) = Some (JObj ps) \<and> map_of ps ''data'' = Some (JObj qs) \<and>
          map_of qs ''data'' = Some x))"

definition vault_kv :: "world \<Rightarrow> url_maker \<Rightarrow> admin_vault \<Rightarrow> bool" where
  "vault_kv w mkUrl v \<longleftrightarrow>
     (\<forall>href. documentUrl mkUrl v = Inr href \<longrightarrow> kv_at w href) \<and>
     (\<forall>tr href mref hs hs' response. documentUrl mkUrl v = Inr href \<longrightarrow> metadataUrl mkUrl v = Inr mref \<longrightarrow>
        w_fetch w tr (vault_request ''DELETE'' mref hs None) = Inr response \<longrightarrow> ok_status response \<or> rs_status response = 404 \<longrightarrow>
        (\<exists>r. w_fetch w (tr @ [EvFetch (vault_request ''DELETE'' mref hs None)]) (vault_request ''GET'' href hs' None) = Inr r \<and>
          rs_status r = 404))"

definition urls_resolve :: "url_maker \<Rightarrow> admin_vault \<Rightarrow> bool" where
  "urls_resolve mkUrl v \<longleftrightarrow> (\<exists>a b. documentUrl mkUrl v = Inr a \<and> metadataUrl mkUrl v = Inr b)"

lemma vault_reads_written:
  assumes kv: "vault_kv w mkUrl v" and ok: "doc_ok d" and wrote: "vaultStoreWrite w mkUrl v d s = (Inr (), t)"
  shows "fst (vaultStoreRead w mkUrl v t) = Inr d"
proof -
  obtain href where href: "documentUrl mkUrl v = Inr href"
    using wrote by (auto simp: vaultStoreWrite_def bindA_liftR_apply split: sum.splits)
  define rq where "rq = vault_request ''POST'' href (vaultHeaders v @ [(''content-type'', ''application/json'')])
    (Some (JSON_stringify (JObj [(''data'', document_json d)])))"
  obtain response where response: "w_fetch w (io_trace s) rq = Inr response" "ok_status response" "io_trace t = io_trace s @ [EvFetch rq]"
    using wrote by (auto simp: vaultStoreWrite_def bindA_liftR_apply href bindA_apply nowIsoA_def z_document_json[OF ok] rq_def
        fetchA_def interact_def split: sum.splits if_splits)
  have "JSON_parse (JSON_stringify (JObj [(''data'', document_json d)])) = Some (JObj [(''data'', document_json d)])"
    by (rule json.roundtrip) (simp add: document_normal ok)
  then obtain r ps qs where r: "w_fetch w (io_trace t) (vault_request ''GET'' href (vaultHeaders v) None) = Inr r"
      "rs_status r = 200" "JSON_parse (rs_text r) = Some (JObj ps)" "map_of ps ''data'' = Some (JObj qs)"
      "map_of qs ''data'' = Some (document_json d)"
    using kv response href unfolding vault_kv_def kv_at_def rq_def by (metis (no_types, lifting))
  then show ?thesis
    by (simp add: vaultStoreRead_def bindA_liftR_apply href bindA_apply fetchA_def interact_def parse_json_body_def ok_status_def
        jfield_def jget_def normalizeA_def nowIsoA_def normalize_document_json ok)
qed

lemma vault_reads_deleted:
  assumes kv: "vault_kv w mkUrl v" and urls: "urls_resolve mkUrl v" and delete: "vaultStoreDelete w mkUrl v s = (Inr (), t)"
  shows "\<exists>now. fst (vaultStoreRead w mkUrl v t) = Inr (createSecretDocument now [])"
proof -
  obtain href mref where href: "documentUrl mkUrl v = Inr href" "metadataUrl mkUrl v = Inr mref"
    using urls by (auto simp: urls_resolve_def)
  define rq where "rq = vault_request ''DELETE'' mref (vaultHeaders v) None"
  obtain response where response: "w_fetch w (io_trace s) rq = Inr response" "ok_status response \<or> rs_status response = 404"
      "io_trace t = io_trace s @ [EvFetch rq]"
    using delete by (auto simp: vaultStoreDelete_def bindA_liftR_apply href bindA_apply rq_def fetchA_def interact_def
        split: sum.splits if_splits)
  then obtain r where "w_fetch w (io_trace t) (vault_request ''GET'' href (vaultHeaders v) None) = Inr r" "rs_status r = 404"
    using kv href unfolding vault_kv_def rq_def by (metis (no_types, lifting))
  then show ?thesis
    by (simp add: vaultStoreRead_def bindA_liftR_apply href bindA_apply fetchA_def interact_def emptyDocument_def nowIsoA_def)
      blast
qed

definition store_works :: "world \<Rightarrow> url_maker \<Rightarrow> admin_store \<Rightarrow> bool" where
  "store_works w mkUrl st = (case st of
     AdminEnv _ _ \<Rightarrow> True | AdminFile _ \<Rightarrow> disk_works w | AdminVault v \<Rightarrow> vault_kv w mkUrl v \<and> urls_resolve mkUrl v)"

interpretation configured: doc_store "store_works w mkUrl st" "readStore w mkUrl st" "writeStore w mkUrl st" "deleteStore w mkUrl st"
  for w mkUrl st
proof
  fix d s t
  show "fst (readStore w mkUrl st t) = Inr d"
    if "store_works w mkUrl st" "doc_ok d" "writeStore w mkUrl st d s = (Inr (), t)"
    using that by (cases st) (auto simp: store_works_def raise_def vault_reads_written
        intro: fileStoreRead_document dest: atomicWriteJson_files)
  show "\<exists>now. fst (readStore w mkUrl st t) = Inr (createSecretDocument now [])"
    if "store_works w mkUrl st" "deleteStore w mkUrl st s = (Inr (), t)"
    using that by (cases st) (auto simp: store_works_def raise_def vault_reads_deleted working_disk intro!: fileStoreRead_missing)
qed

definition clock_works :: "world \<Rightarrow> bool" where
  "clock_works w \<longleftrightarrow> (\<forall>tr. w_nowIso w tr \<noteq> [])"

interpretation memory: doc_store "clock_works w" "memoryStoreRead w" "memoryStoreWrite w" "memoryStoreDelete w" for w
  by unfold_locales
    (auto simp: memoryStoreRead_def memoryStoreWrite_def memoryStoreDelete_def emptyDocument_def bindA_apply nowIsoA_def
      bindA_liftR_apply cloneSecretDocument_ok doc_ok_empty clock_works_def liftR_def modifyA_def getsA_def)

section \<open>Reading back what was stored\<close>


lemma atomicWriteJson_works:
  "disk_works w \<Longrightarrow> doc_ok d \<Longrightarrow> \<exists>t. atomicWriteJson w p d s = (Inr (), t)"
  by (simp add: atomicWriteJson_def seqA_def bindA_apply working_disk renameA_works nowIsoA_def nowA_def z_document_json Let_def)

definition sample_host :: host where
  "sample_host = svc.extend sample_svc (host.fields [])"

definition sample_secret :: secret_record where
  "sample_secret = \<lparr>sec_id = ''lab:token'', sec_createdAt = ''t0'', sec_updatedAt = ''t0'',
     sec_metadata = [(''cluster'', JStr ''lab'')], sec_body = ApiTokenSecret ''mcp'' ''pam'' ''mcp'' ''s3cret'' None None\<rparr>"

lemma sample_disk: "disk_works sample_world"
  by (simp add: disk_works_def sample_world_def)


end
