(* ===== verification/Secrets.thy ===== *)
theory Secrets
  imports AdminSecrets
begin

text \<open>
  The runtime secret stores of src/secrets.ts: what the server reads its credentials from, the bundles
  of the clusters, and the bundle that an administrator's document of records stands for.

  A bundle is the JavaScript value the code passes on unchecked; \<open>undefined\<close> is a missing bundle.
\<close>

section \<open>Bundles of an administrator's document\<close>

definition metadata_of :: "secret_record \<Rightarrow> string \<Rightarrow> jsval" where
  "metadata_of r k = jget (JObj (sec_metadata r)) k"

text \<open>The first of the newest, as the stable sort by descending \<open>updatedAt\<close> puts it in front.\<close>

fun newest :: "(string \<Rightarrow> string \<Rightarrow> int) \<Rightarrow> secret_record list \<Rightarrow> secret_record option" where
  "newest collate [] = None"
| "newest collate (r # rs) =
     (case newest collate rs of
        None \<Rightarrow> Some r
      | Some x \<Rightarrow> if collate (sec_updatedAt x) (sec_updatedAt r) > 0 then Some x else Some r)"

definition active_record :: "string \<Rightarrow> string \<Rightarrow> secret_record \<Rightarrow> bool" where
  "active_record kind cluster r \<longleftrightarrow> secret_kind (sec_body r) = kind \<and> metadata_of r ''cluster'' = JStr cluster \<and>
     metadata_of r ''lifecycle'' \<noteq> JStr ''retired''"

definition latestActiveRecord ::
    "(string \<Rightarrow> string \<Rightarrow> int) \<Rightarrow> secret_record list \<Rightarrow> string \<Rightarrow> string \<Rightarrow> secret_record option" where
  "latestActiveRecord collate rs kind cluster = newest collate (filter (active_record kind cluster) rs)"

definition api_token_bundle :: "secret_record \<Rightarrow> jsval" where
  "api_token_bundle r = (case sec_body r of
     ApiTokenSecret user realm tokenId secret comment expireAt \<Rightarrow>
       JObj [(''user'', JStr user), (''realm'', JStr realm), (''tokenId'', JStr tokenId), (''secret'', JStr secret),
         (''createdAt'', JStr (sec_createdAt r)), (''expiresAt'', of_str_opt expireAt)]
   | _ \<Rightarrow> JUndef)"

definition is_jstr :: "jsval \<Rightarrow> bool" where
  "is_jstr v \<longleftrightarrow> (case v of JStr _ \<Rightarrow> True | _ \<Rightarrow> False)"

definition shell_bundle :: "secret_record \<Rightarrow> jsval" where
  "shell_bundle r = (case sec_body r of
     ShellKeySecret username privateKey publicKey passphrase \<Rightarrow>
       if is_jstr (metadata_of r ''expectedHostKey'') then
         JObj [(''username'', JStr username), (''privateKey'', JStr privateKey), (''publicKey'', JStr publicKey),
           (''passphrase'', of_str_opt passphrase), (''expectedHostKey'', metadata_of r ''expectedHostKey''),
           (''hostKeyPolicy'', if is_jstr (metadata_of r ''hostKeyPolicy'') then metadata_of r ''hostKeyPolicy'' else JStr ''strict''),
           (''createdAt'', JStr (sec_createdAt r))]
       else JUndef
   | _ \<Rightarrow> JUndef)"

definition bundleFromAdminSecretDocument :: "(string \<Rightarrow> string \<Rightarrow> int) \<Rightarrow> secret_document \<Rightarrow> string \<Rightarrow> jsval" where
  "bundleFromAdminSecretDocument collate d cluster =
     (let api = (case latestActiveRecord collate (sd_records d) ''proxmox_api_token'' cluster of
            Some r \<Rightarrow> api_token_bundle r | None \<Rightarrow> JUndef);
          shell = (case latestActiveRecord collate (sd_records d) ''shell_ssh_key'' cluster of
            Some r \<Rightarrow> shell_bundle r | None \<Rightarrow> JUndef)
      in if api = JUndef \<and> shell = JUndef then JUndef
         else JObj ([(''cluster'', JStr cluster)] @ (if api = JUndef then [] else [(''apiToken'', api)]) @
           (if shell = JUndef then [] else [(''shellSsh'', shell)])))"

definition has_key :: "string \<Rightarrow> jsval \<Rightarrow> bool" where
  "has_key k v \<longleftrightarrow> (case v of JObj ps \<Rightarrow> k \<in> fst ` set ps | _ \<Rightarrow> False)"

definition bundleFromUnknownDocument :: "(string \<Rightarrow> string \<Rightarrow> int) \<Rightarrow> string \<Rightarrow> string \<Rightarrow> jsval \<Rightarrow> jsval res" where
  "bundleFromUnknownDocument collate now cluster v =
     (if has_key ''records'' v
      then rbind (normalizeSecretDocument now v) (\<lambda>d. Inr (bundleFromAdminSecretDocument collate d cluster))
      else rbind (jfield v ''clusters'') (\<lambda>clusters. Inr (jget clusters cluster)))"

definition bundleFromUnknownA :: "world \<Rightarrow> string \<Rightarrow> jsval \<Rightarrow> ('b svc_scheme, jsval) act" where
  "bundleFromUnknownA w cluster v =
     bindA (nowIsoA w) (\<lambda>now. liftR (bundleFromUnknownDocument (w_collate w) now cluster v))"

section \<open>The environment store\<close>

definition resolveEnvCluster :: "runtime_config \<Rightarrow> string \<Rightarrow> string" where
  "resolveEnvCluster config cluster =
     (if map_of (rt_clusterMap config) cluster \<noteq> None then cluster
      else if length (sc_clusters config) = 1 then cl_name (hd (sc_clusters config)) else cluster)"

definition env_apiToken :: "env \<Rightarrow> jsval" where
  "env_apiToken env =
     (case (js_or_undefined (env_trim env ''PROXMOX_API_TOKEN_USER''), js_or_undefined (env ''PROXMOX_API_TOKEN_SECRET'')) of
        (Some user, Some secret) \<Rightarrow>
          JObj [(''user'', JStr user), (''realm'', JStr (js_or (env_trim env ''PROXMOX_API_TOKEN_REALM'') ''pam'')),
            (''tokenId'', JStr (js_or (env_trim env ''PROXMOX_API_TOKEN_ID'') ''proxmox-mcp'')), (''secret'', JStr secret),
            (''expiresAt'', of_str_opt (js_or_undefined (env_trim env ''PROXMOX_API_TOKEN_EXPIRES_AT'')))]
      | _ \<Rightarrow> JUndef)"

text \<open>\<open>split(",")\<close>, trimmed and without the empty pieces.\<close>

definition comma_words :: "string \<Rightarrow> string list" where
  "comma_words s = filter (\<lambda>e. e \<noteq> []) (map js_trim (js_split (CHR '','') s))"

definition env_shellSsh :: "env \<Rightarrow> jsval" where
  "env_shellSsh env =
     (case (js_or_undefined (env_trim env ''PROXMOX_SHELL_SSH_USERNAME''),
            js_or_undefined (env_trim env ''PROXMOX_SHELL_SSH_EXPECTED_HOST_KEY'')) of
        (Some username, Some hostKey) \<Rightarrow>
          JObj [(''username'', JStr username),
            (''port'', case js_or_undefined (env ''PROXMOX_SHELL_SSH_PORT'') of
               Some p \<Rightarrow> (case parseInt10 p of Some n \<Rightarrow> JNum n | None \<Rightarrow> JFloat ''NaN'') | None \<Rightarrow> JUndef),
            (''privateKey'', of_str_opt (env ''PROXMOX_SHELL_SSH_PRIVATE_KEY'')),
            (''privateKeyPath'', of_str_opt (js_or_undefined (env_trim env ''PROXMOX_SHELL_SSH_PRIVATE_KEY_PATH''))),
            (''publicKey'', of_str_opt (env ''PROXMOX_SHELL_SSH_PUBLIC_KEY'')),
            (''publicKeyPath'', of_str_opt (js_or_undefined (env_trim env ''PROXMOX_SHELL_SSH_PUBLIC_KEY_PATH''))),
            (''passphrase'', of_str_opt (env ''PROXMOX_SHELL_SSH_PASSPHRASE'')),
            (''expectedHostKey'', JStr hostKey),
            (''hostKeyPolicy'', JStr (default_to ''strict'' (env_trim env ''PROXMOX_SHELL_SSH_HOST_KEY_POLICY''))),
            (''shell'', of_str_opt (js_or_undefined (env_trim env ''PROXMOX_SHELL_SSH_SHELL''))),
            (''prefixCommand'', case env ''PROXMOX_SHELL_SSH_PREFIX_COMMAND'' of
               Some p \<Rightarrow> JArr (map JStr (comma_words p)) | None \<Rightarrow> JUndef),
            (''expiresAt'', of_str_opt (js_or_undefined (env_trim env ''PROXMOX_SHELL_SSH_EXPIRES_AT'')))]
      | _ \<Rightarrow> JUndef)"

definition envSecretsGet :: "world \<Rightarrow> env \<Rightarrow> runtime_config \<Rightarrow> string \<Rightarrow> ('b svc_scheme, jsval) act" where
  "envSecretsGet w env config cluster =
     (let resolved = resolveEnvCluster config cluster; doc = env ''PROXMOX_MCP_SECRETS_JSON'' in
      if (case doc of Some t \<Rightarrow> js_trim t \<noteq> [] | None \<Rightarrow> False)
      then bindA (liftR (parse_json_body (the doc))) (bundleFromUnknownA w resolved)
      else let api = env_apiToken env; shell = env_shellSsh env in
        ret (if api = JUndef \<and> shell = JUndef then JUndef
             else JObj ([(''cluster'', JStr resolved)] @ (if api = JUndef then [] else [(''apiToken'', api)]) @
               (if shell = JUndef then [] else [(''shellSsh'', shell)]))))"

section \<open>The file store\<close>

text \<open>\<open>readJsonFile\<close>: the clusters of the file, empty for a missing file; nothing else of it is kept.\<close>

definition readJsonFile :: "world \<Rightarrow> string \<Rightarrow> ('b host_scheme, jsval) act" where
  "readJsonFile w filePath =
     catchA (bindA (readTextA w filePath) (\<lambda>raw.
             bindA (liftR (parse_json_body raw)) (\<lambda>parsed.
             bindA (liftR (jfield parsed ''clusters'')) (\<lambda>clusters.
             ret (if clusters = JUndef \<or> clusters = JNull then JObj [] else clusters)))))
       (\<lambda>message. if includes_ci message ''enoent'' then ret (JObj []) else raise message)"

definition writeSecretFile :: "world \<Rightarrow> string \<Rightarrow> jsval \<Rightarrow> ('b host_scheme, unit) act" where
  "writeSecretFile w filePath clusters =
     seqA (mkdirA w (path_dirname filePath))
       (writeTextA w filePath (safeJson (JObj [(''version'', JNum 1), (''clusters'', clusters)])))"

definition fileSecretsGet :: "world \<Rightarrow> string \<Rightarrow> string \<Rightarrow> ('b host_scheme, jsval) act" where
  "fileSecretsGet w filePath cluster =
     bindA (catchA (bindA (readTextA w filePath) (\<lambda>raw. ret (Some raw))) (\<lambda>e. if e = ENOENT then ret None else raise e)) (\<lambda>raw.
     case js_or_undefined raw of
       None \<Rightarrow> ret JUndef
     | Some t \<Rightarrow> bindA (liftR (parse_json_body t)) (bundleFromUnknownA w cluster))"

text \<open>\<open>clusters[cluster] = bundle\<close> and \<open>delete clusters[cluster]\<close> on an arbitrary value.\<close>

definition set_property :: "string \<Rightarrow> jsval \<Rightarrow> jsval \<Rightarrow> jsval res" where
  "set_property k x v = (case v of JObj ps \<Rightarrow> Inr (JObj (AList.update k x ps)) | JArr vs \<Rightarrow> Inr v | _ \<Rightarrow> Inl ''TypeError'')"

definition delete_property :: "string \<Rightarrow> jsval \<Rightarrow> jsval" where
  "delete_property k v = (case v of JObj ps \<Rightarrow> JObj (AList.delete k ps) | _ \<Rightarrow> v)"

definition fileSecretsPut :: "world \<Rightarrow> string \<Rightarrow> string \<Rightarrow> jsval \<Rightarrow> ('b host_scheme, unit) act" where
  "fileSecretsPut w filePath cluster bundle =
     bindA (readJsonFile w filePath) (\<lambda>clusters.
     bindA (liftR (set_property cluster bundle clusters)) (writeSecretFile w filePath))"

definition fileSecretsDelete :: "world \<Rightarrow> string \<Rightarrow> string \<Rightarrow> ('b host_scheme, unit) act" where
  "fileSecretsDelete w filePath cluster =
     bindA (readJsonFile w filePath) (\<lambda>clusters. writeSecretFile w filePath (delete_property cluster clusters))"

section \<open>The Vault store\<close>

record vault_store =
  vs_address :: string
  vs_secretPath :: string
  vs_token :: string
  vs_namespace :: "string option"
  vs_kvVersion :: string

definition secretsHeaders :: "vault_store \<Rightarrow> (string \<times> string) list" where
  "secretsHeaders v = [(''content-type'', ''application/json''), (''x-vault-token'', vs_token v)] @
     (case js_or_undefined (vs_namespace v) of Some n \<Rightarrow> [(''x-vault-namespace'', n)] | None \<Rightarrow> [])"

definition secretsEndpoint :: "vault_store \<Rightarrow> string \<Rightarrow> string" where
  "secretsEndpoint v cluster =
     strip_slashes (vs_address v) @ ''/v1/'' @ trim_slashes (vs_secretPath v) @
     (if vs_kvVersion v = ''v2'' then ''/data/'' else ''/'') @ encodeURIComponent cluster"

definition vaultSecretsGet :: "world \<Rightarrow> vault_store \<Rightarrow> string \<Rightarrow> ('b svc_scheme, jsval) act" where
  "vaultSecretsGet w v cluster =
     bindA (fetchA w (vault_request ''GET'' (secretsEndpoint v cluster) (secretsHeaders v) None)) (\<lambda>response.
     if rs_status response = 404 then ret JUndef
     else if \<not> ok_status response
     then raise (''Vault secret read failed for '' @ cluster @ '': '' @ int_str (rs_status response) @ '' '' @ rs_text response)
     else bindA (liftR (parse_json_body (rs_text response))) (\<lambda>payload.
       bindA (liftR (jfield payload ''data'')) (\<lambda>data.
       bundleFromUnknownA w cluster (if vs_kvVersion v = ''v2'' then jget data ''data'' else data))))"

definition vaultSecretsPut :: "world \<Rightarrow> vault_store \<Rightarrow> string \<Rightarrow> jsval \<Rightarrow> ('b svc_scheme, unit) act" where
  "vaultSecretsPut w v cluster bundle =
     bindA (fetchA w (vault_request ''POST'' (secretsEndpoint v cluster) (secretsHeaders v)
         (Some (JSON_stringify (if vs_kvVersion v = ''v2'' then JObj [(''data'', bundle)] else bundle))))) (\<lambda>response.
     if ok_status response then ret ()
     else raise (''Vault secret write failed for '' @ cluster @ '': '' @ int_str (rs_status response) @ '' '' @ rs_text response))"

definition vaultSecretsDelete :: "world \<Rightarrow> vault_store \<Rightarrow> string \<Rightarrow> ('b svc_scheme, unit) act" where
  "vaultSecretsDelete w v cluster =
     bindA (fetchA w (vault_request ''DELETE'' (secretsEndpoint v cluster) (secretsHeaders v) None)) (\<lambda>response.
     if ok_status response \<or> rs_status response = 404 then ret ()
     else raise (''Vault secret delete failed for '' @ cluster @ '': '' @ int_str (rs_status response) @ '' '' @ rs_text response))"

section \<open>The configured store\<close>

datatype runtime_store = RsEnv env | RsFile string | RsVault vault_store

definition vault_token :: "env \<Rightarrow> vault_config \<Rightarrow> string option" where
  "vault_token env v = (case va_token v of Some t \<Rightarrow> Some t
     | None \<Rightarrow> (case env (va_tokenEnvVar v) of Some t \<Rightarrow> Some t | None \<Rightarrow> env ''VAULT_TOKEN''))"

definition createSecretStore :: "env \<Rightarrow> 'b server_config_scheme \<Rightarrow> runtime_store res" where
  "createSecretStore env config =
     (case sc_secretStore config of
        StoreEnv \<Rightarrow> Inr (RsEnv env)
      | StoreFile p \<Rightarrow> Inr (RsFile p)
      | StoreVault v \<Rightarrow>
          (case js_or_undefined (vault_token env v) of
             None \<Rightarrow> Inl (''Vault secret backend requires a token in '' @ va_tokenEnvVar v @ '' or VAULT_TOKEN'')
           | Some t \<Rightarrow> Inr (RsVault \<lparr>vs_address = va_address v, vs_secretPath = va_path v, vs_token = t,
               vs_namespace = va_namespace v, vs_kvVersion = va_kvVersion v\<rparr>)))"

text \<open>The environment store resolves names against the configuration as it is when it is asked.\<close>

fun getClusterSecrets :: "world \<Rightarrow> runtime_store \<Rightarrow> string \<Rightarrow> ('b host_scheme, jsval) act" where
  "getClusterSecrets w (RsEnv env) cluster = bindA (getsA sv_config) (\<lambda>config. envSecretsGet w env config cluster)"
| "getClusterSecrets w (RsFile p) cluster = fileSecretsGet w p cluster"
| "getClusterSecrets w (RsVault v) cluster = vaultSecretsGet w v cluster"

fun putClusterSecrets :: "world \<Rightarrow> runtime_store \<Rightarrow> string \<Rightarrow> jsval \<Rightarrow> ('b host_scheme, unit) act" where
  "putClusterSecrets w (RsEnv env) cluster bundle = raise ''env secret backend is read-only''"
| "putClusterSecrets w (RsFile p) cluster bundle = fileSecretsPut w p cluster bundle"
| "putClusterSecrets w (RsVault v) cluster bundle = vaultSecretsPut w v cluster bundle"

fun deleteClusterSecrets :: "world \<Rightarrow> runtime_store \<Rightarrow> string \<Rightarrow> ('b host_scheme, unit) act" where
  "deleteClusterSecrets w (RsEnv env) cluster = raise ''env secret backend is read-only''"
| "deleteClusterSecrets w (RsFile p) cluster = fileSecretsDelete w p cluster"
| "deleteClusterSecrets w (RsVault v) cluster = vaultSecretsDelete w v cluster"

definition getClusterStatus :: "world \<Rightarrow> runtime_store \<Rightarrow> string \<Rightarrow> ('b host_scheme, jsval) act" where
  "getClusterStatus w st cluster =
     bindA (getClusterSecrets w st cluster) (\<lambda>bundle.
     bindA (getsA (\<lambda>s. case st of RsEnv _ \<Rightarrow> resolveEnvCluster (sv_config s) cluster | _ \<Rightarrow> cluster)) (\<lambda>c.
     ret (JObj [(''cluster'', JStr c), (''hasApiToken'', JBool (jget bundle ''apiToken'' \<noteq> JUndef)),
       (''hasShellSsh'', JBool (jget bundle ''shellSsh'' \<noteq> JUndef)), (''metadata'', jget bundle ''metadata'')])))"

fun supportsMutation :: "runtime_store \<Rightarrow> bool" where
  "supportsMutation (RsEnv _) = False"
| "supportsMutation _ = True"

fun store_type :: "runtime_store \<Rightarrow> string" where
  "store_type (RsEnv _) = ''env''"
| "store_type (RsFile _) = ''file''"
| "store_type (RsVault _) = ''vault''"

definition secretStoreIsProductionReady :: "string \<Rightarrow> bool" where
  "secretStoreIsProductionReady t \<longleftrightarrow> t = ''vault'' \<or> t = ''file''"

definition shellSecretConfigured :: "jsval \<Rightarrow> bool" where
  "shellSecretConfigured bundle \<longleftrightarrow>
     (let shell = jget bundle ''shellSsh'' in js_truth shell \<and>
        (js_truth (jget shell ''privateKey'') \<or> js_truth (jget shell ''privateKeyPath'')) \<and> js_truth (jget shell ''expectedHostKey''))"

definition apiTokenConfigured :: "jsval \<Rightarrow> bool" where
  "apiTokenConfigured bundle \<longleftrightarrow>
     (let token = jget bundle ''apiToken'' in js_truth (jget token ''user'') \<and> js_truth (jget token ''realm'') \<and>
        js_truth (jget token ''tokenId'') \<and> js_truth (jget token ''secret''))"

definition bool_str :: "bool \<Rightarrow> string" where
  "bool_str b = (if b then ''true'' else ''false'')"

definition inferSecretMetadata :: "jsval \<Rightarrow> jsval" where
  "inferSecretMetadata bundle =
     JObj (map_from_entries ([(''cluster'', jget bundle ''cluster''),
         (''hasApiToken'', JStr (bool_str (apiTokenConfigured bundle))),
         (''hasShellSsh'', JStr (bool_str (shellSecretConfigured bundle)))] @
       (case jget bundle ''metadata'' of JObj ps \<Rightarrow> ps | _ \<Rightarrow> [])))"

section \<open>A store as a map from clusters to bundles\<close>

text \<open>
  What a writable store promises: there is a map it stands for, reading looks a cluster up in it,
  writing and deleting succeed and update it.
\<close>

datatype store_op = PutOp string jsval | DeleteOp string

fun op_normal :: "store_op \<Rightarrow> bool" where
  "op_normal (PutOp c b) = jnormal b"
| "op_normal (DeleteOp c) = True"

fun apply_op :: "store_op \<Rightarrow> (string, jsval) omap \<Rightarrow> (string, jsval) omap" where
  "apply_op (PutOp c b) m = AList.update c b m"
| "apply_op (DeleteOp c) m = AList.delete c m"

fun run_ops :: "(string \<Rightarrow> jsval \<Rightarrow> ('s, unit) act) \<Rightarrow> (string \<Rightarrow> ('s, unit) act) \<Rightarrow> store_op list \<Rightarrow> ('s, unit) act" where
  "run_ops put del [] = ret ()"
| "run_ops put del (PutOp c b # ops) = seqA (put c b) (run_ops put del ops)"
| "run_ops put del (DeleteOp c # ops) = seqA (del c) (run_ops put del ops)"

locale bundle_store =
  fixes works :: bool
    and contents :: "'s \<Rightarrow> (string \<times> jsval) list option"
    and get_bundle :: "string \<Rightarrow> 's \<Rightarrow> jsval res \<times> 's"
    and put_bundle :: "string \<Rightarrow> jsval \<Rightarrow> 's \<Rightarrow> unit res \<times> 's"
    and delete_bundle :: "string \<Rightarrow> 's \<Rightarrow> unit res \<times> 's"
  assumes get: "works \<Longrightarrow> contents s = Some m \<Longrightarrow> fst (get_bundle c s) = Inr (jget (JObj m) c)"
    and put: "works \<Longrightarrow> contents s = Some m \<Longrightarrow> jnormal b \<Longrightarrow>
      \<exists>t. put_bundle c b s = (Inr (), t) \<and> contents t = Some (AList.update c b m)"
    and delete: "works \<Longrightarrow> contents s = Some m \<Longrightarrow>
      \<exists>t. delete_bundle c s = (Inr (), t) \<and> contents t = Some (AList.delete c m)"
begin

lemma run_ops_contents:
  assumes "works"
  shows "contents s = Some m \<Longrightarrow> list_all op_normal ops \<Longrightarrow>
    \<exists>t. run_ops put_bundle delete_bundle ops s = (Inr (), t) \<and> contents t = Some (fold apply_op ops m)"
proof (induction ops arbitrary: s m)
  case (Cons op ops)
  have "\<exists>t. (case op of PutOp c b \<Rightarrow> put_bundle c b s | DeleteOp c \<Rightarrow> delete_bundle c s) = (Inr (), t) \<and>
      contents t = Some (apply_op op m)"
    using Cons.prems put[OF assms] delete[OF assms] by (cases op) auto
  then show ?case using Cons by (cases op) (auto simp: seqA_def bindA_apply)
qed (simp add: ret_def)

lemma run_ops_refine:
  assumes "works" "contents s = Some m" "list_all op_normal ops"
  shows "\<exists>t. run_ops put_bundle delete_bundle ops s = (Inr (), t) \<and>
    (\<forall>c. fst (get_bundle c t) = Inr (jget (JObj (fold apply_op ops m)) c))"
  using run_ops_contents[OF assms] get[OF assms(1)] by metis

end

text \<open>
  The map of a secrets file: empty without a file, the \<open>clusters\<close> object of a file in the bundle
  format; an administrator's document of records stands for no map.
\<close>

definition file_contents :: "string \<Rightarrow> 'b host_scheme \<Rightarrow> (string, jsval) omap option" where
  "file_contents p s =
     (case map_of (ho_files s) p of
        None \<Rightarrow> Some []
      | Some b \<Rightarrow> (case Option.bind (utf8_decode b) JSON_parse of
          Some (JObj ps) \<Rightarrow> (case (map_of ps ''records'', map_of ps ''clusters'') of
              (None, Some (JObj cs)) \<Rightarrow> if jnormal (JObj cs) then Some cs else None
            | _ \<Rightarrow> None)
        | _ \<Rightarrow> None))"

definition clusters_json :: "(string, jsval) omap \<Rightarrow> jsval" where
  "clusters_json cs = JObj [(''version'', JNum 1), (''clusters'', JObj cs)]"

lemma file_contentsE:
  assumes "file_contents p s = Some m"
  obtains "map_of (ho_files s) p = None" "m = []"
  | b t ps where "map_of (ho_files s) p = Some b" "utf8_decode b = Some t" "JSON_parse t = Some (JObj ps)"
      "map_of ps ''records'' = None" "map_of ps ''clusters'' = Some (JObj m)" "jnormal (JObj m)"
  using assms that
  by (auto simp: file_contents_def bind_eq_Some_conv split: option.splits jsval.splits if_splits)

lemma file_contents_normal: "file_contents p s = Some m \<Longrightarrow> jnormal (JObj m)"
  by (erule file_contentsE) auto

lemma file_contents_written:
  assumes "map_of (ho_files s) p = Some (utf8_encode (safeJson (clusters_json cs)))" "jnormal (JObj cs)"
  shows "file_contents p s = Some cs"
proof -
  have "JSON_parse (safeJson (clusters_json cs)) = Some (clusters_json cs)"
    using assms(2) by (intro json_pretty.roundtrip) (simp add: clusters_json_def)
  then show ?thesis using assms by (simp add: file_contents_def utf8_roundtrip clusters_json_def)
qed

lemma normal_update: "jnormal (JObj m) \<Longrightarrow> jnormal b \<Longrightarrow> jnormal (JObj (AList.update c b m))"
  by (induction m) (auto simp: update_keys list_all_iff)

lemma normal_delete: "jnormal (JObj m) \<Longrightarrow> jnormal (JObj (AList.delete c m))"
  using distinct_delete[of m c] by (simp add: list_all_iff AList.delete_eq)

lemma jget_clusters: "jfield (JObj ps) k = Inr (jget (JObj ps) k)"
  by (simp add: jfield_def)

lemma ENOENT_missing: "includes_ci ENOENT ''enoent''"
  by code_simp

lemma readJsonFile_contents:
  assumes "disk_works w" "file_contents p s = Some m"
  shows "readJsonFile w p s = (Inr (JObj m), s\<lparr>io_trace := io_trace s @ [EvRead p]\<rparr>)"
  using assms(2)
proof (cases rule: file_contentsE)
  case 1
  then show ?thesis
    by (simp add: readJsonFile_def catchA_def bindA_apply readTextA_works[OF assms(1)] ENOENT_missing)
next
  case (2 b t ps)
  then show ?thesis
    by (simp add: readJsonFile_def catchA_def bindA_apply readTextA_works[OF assms(1)] utf8_text_def parse_json_body_def
        jget_clusters jget_def)
qed

lemma writeSecretFile_contents:
  assumes "disk_works w" "jnormal (JObj cs)"
  shows "\<exists>t. writeSecretFile w p (JObj cs) s = (Inr (), t) \<and> file_contents p t = Some cs"
proof -
  obtain t where "writeSecretFile w p (JObj cs) s = (Inr (), t)"
      "map_of (ho_files t) p = Some (utf8_encode (safeJson (clusters_json cs)))"
    by (simp add: writeSecretFile_def seqA_def bindA_apply working_disk[OF assms(1)] clusters_json_def)
  then show ?thesis using file_contents_written[of t p cs] assms(2) by blast
qed

interpretation file_store: bundle_store "disk_works w" "file_contents p" "fileSecretsGet w p" "fileSecretsPut w p" "fileSecretsDelete w p"
  for w p
proof
  fix s :: "'b host_scheme" and m c b
  assume works: "disk_works w" and m: "file_contents p s = Some m"
  show "fst (fileSecretsGet w p c s) = Inr (jget (JObj m) c)"
    using m
  proof (cases rule: file_contentsE)
    case 1
    then show ?thesis
      by (simp add: fileSecretsGet_def catchA_def bindA_apply readTextA_works[OF works] jget_def js_or_undefined_def)
  next
    case (2 bs t ps)
    have "t \<noteq> []" using 2(3) by (auto simp: JSON_parse_def json_fuel_def skip_ws_def numeral_2_eq_2)
    moreover have "\<not> has_key ''records'' (JObj ps)" using 2(4) by (force simp: has_key_def map_of_eq_None_iff)
    ultimately show ?thesis using 2
      by (simp add: fileSecretsGet_def catchA_def bindA_apply readTextA_works[OF works] js_or_undefined_def utf8_text_def
          parse_json_body_def bundleFromUnknownA_def nowIsoA_def bundleFromUnknownDocument_def jget_clusters)
        (simp add: jget_def)
  qed
  show "\<exists>t. fileSecretsPut w p c b s = (Inr (), t) \<and> file_contents p t = Some (AList.update c b m)" if "jnormal b"
    using writeSecretFile_contents[OF works normal_update[OF file_contents_normal[OF m] that]]
    by (simp add: fileSecretsPut_def bindA_apply readJsonFile_contents[OF works m] set_property_def)
  show "\<exists>t. fileSecretsDelete w p c s = (Inr (), t) \<and> file_contents p t = Some (AList.delete c m)"
    using writeSecretFile_contents[OF works normal_delete[OF file_contents_normal[OF m]]]
    by (simp add: fileSecretsDelete_def bindA_apply readJsonFile_contents[OF works m] delete_property_def)
qed

section \<open>Stores that do not\<close>

text \<open>
  A Vault store answers nothing for a bundle it was just given: the bundle is posted as it is, and the
  answer is searched for the \<open>clusters\<close> or the \<open>records\<close> of a whole document.
\<close>

lemma vault_bundle_lost:
  assumes kv: "kv_at w (secretsEndpoint v c)" and version: "vs_kvVersion v = ''v2''" and normal: "jnormal (JObj ps)"
    and keys: "''records'' \<notin> fst ` set ps" "''clusters'' \<notin> fst ` set ps"
    and wrote: "vaultSecretsPut w v c (JObj ps) s = (Inr (), t)"
  shows "fst (vaultSecretsGet w v c t) = Inr JUndef"
proof -
  define rq where "rq = vault_request ''POST'' (secretsEndpoint v c) (secretsHeaders v) (Some (JSON_stringify (JObj [(''data'', JObj ps)])))"
  obtain response where response: "w_fetch w (io_trace s) rq = Inr response" "ok_status response" "io_trace t = io_trace s @ [EvFetch rq]"
    using wrote by (auto simp: vaultSecretsPut_def bindA_apply version rq_def fetchA_def interact_def split: sum.splits if_splits)
  have "JSON_parse (JSON_stringify (JObj [(''data'', JObj ps)])) = Some (JObj [(''data'', JObj ps)])"
    by (rule json.roundtrip) (use normal in simp)
  then obtain r qs rs where "w_fetch w (io_trace t) (vault_request ''GET'' (secretsEndpoint v c) (secretsHeaders v) None) = Inr r"
      "rs_status r = 200" "JSON_parse (rs_text r) = Some (JObj qs)" "map_of qs ''data'' = Some (JObj rs)"
      "map_of rs ''data'' = Some (JObj ps)"
    using kv response unfolding kv_at_def rq_def by (metis (no_types, lifting))
  moreover have "map_of ps ''clusters'' = None" "\<not> has_key ''records'' (JObj ps)"
    using keys by (auto simp: map_of_eq_None_iff has_key_def)
  ultimately show ?thesis
    by (simp add: vaultSecretsGet_def bindA_apply fetchA_def interact_def ok_status_def parse_json_body_def jfield_def jget_def
        version bundleFromUnknownA_def nowIsoA_def bundleFromUnknownDocument_def bindA_liftR_apply liftR_def)
qed

text \<open>Writing a bundle into an administrator's file drops all of its records.\<close>

lemma file_records_lost:
  assumes "disk_works w" "doc_ok d" "jnormal b"
    and "map_of (ho_files s) p = Some (utf8_encode (safeJson (document_json d) @ [CHR 0x0A]))"
  shows "\<exists>t. fileSecretsPut w p c b s = (Inr (), t) \<and> file_contents p t = Some [(c, b)]"
proof -
  have "jfield (document_json d) ''clusters'' = Inr JUndef"
    by (simp add: jfield_def document_json_def jget_fields)
  moreover have "parse_json_body (safeJson (document_json d) @ [CHR 0x0A]) = Inr (document_json d)"
    using assms(2) by (simp add: parse_json_body_def JSON_parse_line document_normal)
  ultimately have "readJsonFile w p s = (Inr (JObj []), s\<lparr>io_trace := io_trace s @ [EvRead p]\<rparr>)"
    by (simp add: readJsonFile_def catchA_def bindA_apply readTextA_works[OF assms(1)] assms(4) bindA_liftR_apply liftR_def)
  then show ?thesis
    using writeSecretFile_contents[OF assms(1), of "[(c, b)]" p] assms(3)
    by (simp add: fileSecretsPut_def bindA_apply set_property_def)
qed

section \<open>The file store as a map\<close>

text \<open>
  C16. The runtime secrets file is a map from clusters to bundles: on a working disk, any sequence of
  writes and deletions over a file in the bundle format, or over no file, succeeds, and afterwards every
  cluster reads exactly the bundle that the sequence leaves in the abstract map.
\<close>

theorem secret_file_refines_map:
  assumes "disk_works w" "file_contents p s = Some m" "list_all op_normal ops"
  shows "\<exists>t. run_ops (fileSecretsPut w p) (fileSecretsDelete w p) ops s = (Inr (), t) \<and>
    (\<forall>c. fst (fileSecretsGet w p c t) = Inr (jget (JObj (fold apply_op ops m)) c))"
  using assms by (rule file_store.run_ops_refine)

theorem secret_file_refines_map_witness:
  "\<exists>t. run_ops (fileSecretsPut sample_world ''/s'') (fileSecretsDelete sample_world ''/s'')
      [PutOp ''lab'' (JObj [(''cluster'', JStr ''lab'')]), PutOp ''edge'' JNull, DeleteOp ''edge''] sample_host = (Inr (), t) \<and>
    fst (fileSecretsGet sample_world ''/s'' ''lab'' t) = Inr (JObj [(''cluster'', JStr ''lab'')])"
proof -
  have "file_contents ''/s'' sample_host = Some []"
    by (simp add: file_contents_def sample_host_def svc.extend_def host.fields_def)
  from secret_file_refines_map[OF sample_disk this,
      of "[PutOp ''lab'' (JObj [(''cluster'', JStr ''lab'')]), PutOp ''edge'' JNull, DeleteOp ''edge'']"]
  show ?thesis by (auto simp: jget_def)
qed

end
