(* ===== verification/Startup.thy ===== *)
theory Startup
  imports Secrets
begin

text \<open>
  Starting the server, src/startup.ts: the steady-state credentials of every cluster are read from the
  secret store into the configuration, and local bootstrap is admitted only for the maintainer's stdio
  mode.  \<open>reloadSecrets\<close> repeats the first step on a signal.
\<close>

section \<open>Shell profiles\<close>

definition upsertSshProfile :: "ssh_profile \<Rightarrow> runtime_config \<Rightarrow> runtime_config" where
  "upsertSshProfile profile config =
     config\<lparr>sc_sshProfiles := upsert_by (\<lambda>e. sp_name e = sp_name profile) profile (sc_sshProfiles config)\<rparr>"

fun remove_first :: "('a \<Rightarrow> bool) \<Rightarrow> 'a list \<Rightarrow> 'a list" where
  "remove_first P [] = []"
| "remove_first P (x # xs) = (if P x then xs else x # remove_first P xs)"

definition removeSshProfile :: "string \<Rightarrow> runtime_config \<Rightarrow> runtime_config" where
  "removeSshProfile profileName config =
     config\<lparr>sc_sshProfiles := remove_first (\<lambda>e. sp_name e = profileName) (sc_sshProfiles config)\<rparr>"

text \<open>\<open>value ?? fallback\<close> on a field of a bundle; a field of another type than declared is read as its string.\<close>

definition nullish :: "jsval \<Rightarrow> bool" where
  "nullish v \<longleftrightarrow> v = JUndef \<or> v = JNull"

definition text_or :: "string \<Rightarrow> jsval \<Rightarrow> string" where
  "text_or d v = (if nullish v then d else js_String v)"

text \<open>A port that is no integer (\<open>NaN\<close> from a bad environment value) is kept as 0.\<close>

definition port_or :: "int \<Rightarrow> jsval \<Rightarrow> int" where
  "port_or d v = (if nullish v then d else case v of JNum n \<Rightarrow> n | _ \<Rightarrow> 0)"

definition text_opt :: "jsval \<Rightarrow> string option" where
  "text_opt v = (if nullish v then None else Some (js_String v))"

definition words_or_none :: "jsval \<Rightarrow> string list" where
  "words_or_none v = (case v of JArr vs \<Rightarrow> map js_String vs | _ \<Rightarrow> [])"

definition runtime_profile :: "string \<Rightarrow> int \<Rightarrow> jsval \<Rightarrow> ssh_profile" where
  "runtime_profile profileName sshPort shell =
     \<lparr> sp_name = profileName, sp_username = text_or ''undefined'' (jget shell ''username''),
       sp_port = port_or sshPort (jget shell ''port''),
       sp_privateKeyPath = text_opt (jget shell ''privateKeyPath''), sp_privateKey = text_opt (jget shell ''privateKey''),
       sp_publicKeyPath = text_opt (jget shell ''publicKeyPath''), sp_publicKey = text_opt (jget shell ''publicKey''),
       sp_passphrase = text_opt (jget shell ''passphrase''), sp_password = None,
       sp_hostKeyPolicy = text_or ''strict'' (jget shell ''hostKeyPolicy''),
       sp_expectedHostKey = text_opt (jget shell ''expectedHostKey''),
       sp_shell = text_or ''/bin/sh'' (jget shell ''shell''),
       sp_prefixCommand = words_or_none (jget shell ''prefixCommand'') \<rparr>"

definition runtime_nodes :: "string \<Rightarrow> cluster_config \<Rightarrow> cluster_node list" where
  "runtime_nodes profileName cl =
     (let ns = (case js_or_undefined (cl_defaultNode cl) of
            Some n \<Rightarrow> if list_ex (\<lambda>e. cn_name e = n) (cl_nodes cl) then cl_nodes cl
              else cl_nodes cl @ [\<lparr>cn_name = n, cn_host = cl_host cl, cn_port = cl_sshPort cl, cn_sshProfile = profileName\<rparr>]
          | None \<Rightarrow> cl_nodes cl)
      in map (\<lambda>e. if cn_sshProfile e = profileName \<or> js_startsWith (cn_sshProfile e) ''__runtime_shell_''
           then e\<lparr>cn_sshProfile := profileName\<rparr> else e) ns)"

definition applyRuntimeShellSecret :: "runtime_config \<Rightarrow> string \<Rightarrow> jsval \<Rightarrow> runtime_config res" where
  "applyRuntimeShellSecret config clusterName bundle =
     (case map_of (rt_clusterMap config) clusterName of
        None \<Rightarrow> Inl (''Unknown cluster '' @ squoted clusterName)
      | Some i \<Rightarrow>
          let profileName = runtimeShellProfileName clusterName; cl = sc_clusters config ! i in
          if \<not> shellSecretConfigured bundle then Inr (refreshRuntimeIndexes (removeSshProfile profileName config))
          else Inr (refreshRuntimeIndexes (set_cluster i (\<lambda>cl. cl\<lparr>cl_nodes := runtime_nodes profileName cl\<rparr>)
            (upsertSshProfile (runtime_profile profileName (cl_sshPort cl) (jget bundle ''shellSsh'')) config))))"

section \<open>API tokens\<close>

definition secret_backend :: "'b server_config_scheme \<Rightarrow> string" where
  "secret_backend config = (case sc_secretStore config of StoreEnv \<Rightarrow> ''env'' | StoreFile _ \<Rightarrow> ''file'' | StoreVault _ \<Rightarrow> ''vault'')"

definition bundle_token :: "jsval \<Rightarrow> api_token_auth" where
  "bundle_token bundle =
     (let token = jget bundle ''apiToken'' in
      \<lparr>at_user = js_String (jget token ''user''), at_realm = js_String (jget token ''realm''),
       at_tokenId = js_String (jget token ''tokenId''), at_secret = js_String (jget token ''secret'')\<rparr>)"

definition applyRuntimeApiSecret :: "runtime_config \<Rightarrow> string \<Rightarrow> jsval \<Rightarrow> runtime_config res" where
  "applyRuntimeApiSecret config clusterName bundle =
     (case map_of (rt_clusterMap config) clusterName of
        None \<Rightarrow> Inl (''Unknown cluster '' @ squoted clusterName)
      | Some i \<Rightarrow>
          if \<not> apiTokenConfigured bundle
          then Inl (''Missing steady-state API token secret for cluster '' @ squoted clusterName @ '' in '' @
                 secret_backend config @ '' backend'')
          else Inr (set_cluster i (\<lambda>cl. cl\<lparr>cl_auth := ApiToken (bundle_token bundle)\<rparr>) config))"

section \<open>Hydration\<close>

definition configA :: "(runtime_config \<Rightarrow> runtime_config res) \<Rightarrow> ('b svc_scheme, unit) act" where
  "configA f = bindA (getsA (\<lambda>s. f (sv_config s))) (\<lambda>r. bindA (liftR r) (\<lambda>c. modify_config (\<lambda>_. c)))"

definition hydrateCluster :: "world \<Rightarrow> runtime_store \<Rightarrow> nat \<Rightarrow> ('b host_scheme, unit) act" where
  "hydrateCluster w st i =
     bindA (getsA (\<lambda>s. sc_clusters (sv_config s) ! i)) (\<lambda>cl.
     case cl_auth cl of
       SecretRef secretCluster \<Rightarrow>
         bindA (getClusterSecrets w st (case secretCluster of Some n \<Rightarrow> n | None \<Rightarrow> cl_name cl)) (\<lambda>bundle.
         seqA (configA (\<lambda>c. applyRuntimeApiSecret c (cl_name cl) bundle))
           (configA (\<lambda>c. applyRuntimeShellSecret c (cl_name cl) bundle)))
     | _ \<Rightarrow> ret ())"

fun hydrateEach :: "world \<Rightarrow> runtime_store \<Rightarrow> nat list \<Rightarrow> ('b host_scheme, unit) act" where
  "hydrateEach w st [] = ret ()"
| "hydrateEach w st (i # is) = seqA (hydrateCluster w st i) (hydrateEach w st is)"

definition hydrateSteadyStateSecrets :: "world \<Rightarrow> runtime_store \<Rightarrow> ('b host_scheme, unit) act" where
  "hydrateSteadyStateSecrets w st =
     bindA (getsA (\<lambda>s. [0..<length (sc_clusters (sv_config s))])) (\<lambda>is.
     seqA (hydrateEach w st is) (modify_config refreshRuntimeIndexes))"

section \<open>Initialization\<close>

fun is_secret_ref :: "cluster_auth \<Rightarrow> bool" where
  "is_secret_ref (SecretRef _) = True"
| "is_secret_ref _ = False"

fun is_bootstrap :: "cluster_auth \<Rightarrow> bool" where
  "is_bootstrap (SshBootstrap _) = True"
| "is_bootstrap _ = False"

definition any_auth :: "(cluster_auth \<Rightarrow> bool) \<Rightarrow> runtime_config \<Rightarrow> bool" where
  "any_auth P c = list_ex (\<lambda>cl. P (cl_auth cl)) (sc_clusters c)"

definition maintainer_mode :: "runtime_config \<Rightarrow> bool" where
  "maintainer_mode c \<longleftrightarrow> sc_mode c = ''stdio'' \<and> sc_mcpAuth c = McpNone \<and> lb_enabled (sc_localBootstrap c)"

text \<open>The result is the store and whether the managed credentials are in charge.\<close>

definition initializeRuntimeConfig :: "world \<Rightarrow> env \<Rightarrow> ('b host_scheme, runtime_store \<times> bool) act" where
  "initializeRuntimeConfig w env =
     bindA (getsA sv_config) (\<lambda>config.
     bindA (liftR (createSecretStore env config)) (\<lambda>st.
     seqA (if any_auth is_secret_ref config then hydrateSteadyStateSecrets w st else ret ())
    (bindA (getsA sv_config) (\<lambda>config.
     if \<not> any_auth is_bootstrap config then ret (st, False)
     else if \<not> maintainer_mode config
     then raise ''ssh_bootstrap auth is only allowed for explicit local stdio maintainer mode.''
     else seqA (modifyA (\<lambda>s. s\<lparr>sv_managed := managedClusters (sc_clusters config)\<rparr>))
         (seqA (initializeManaged w) (ret (st, True)))))))"

section \<open>What starting changes\<close>

text \<open>
  Credentials only ever become API tokens; names, order and mode of the configuration stay, and so does
  the agreement of the cluster map with the clusters.
\<close>

definition names_indexed :: "runtime_config \<Rightarrow> bool" where
  "names_indexed c \<longleftrightarrow> rt_clusterMap c = index_positions cl_name (sc_clusters c)"

definition auth_moves :: "cluster_auth \<Rightarrow> cluster_auth \<Rightarrow> bool" where
  "auth_moves a b \<longleftrightarrow> b = a \<or> (\<exists>t. b = ApiToken t)"

definition config_moves :: "runtime_config \<Rightarrow> runtime_config \<Rightarrow> bool" where
  "config_moves c d \<longleftrightarrow> map cl_name (sc_clusters d) = map cl_name (sc_clusters c) \<and>
     list_all2 auth_moves (map cl_auth (sc_clusters c)) (map cl_auth (sc_clusters d)) \<and>
     maintainer_mode d = maintainer_mode c \<and> (names_indexed c \<longrightarrow> names_indexed d)"

definition starts :: "'b svc_scheme \<Rightarrow> 'b svc_scheme \<Rightarrow> bool" where
  "starts s t \<longleftrightarrow> config_moves (sv_config s) (sv_config t)"

lemma auth_moves_refl: "auth_moves a a"
  by (simp add: auth_moves_def)

lemma auth_moves_trans: "auth_moves a b \<Longrightarrow> auth_moves b c \<Longrightarrow> auth_moves a c"
  by (auto simp: auth_moves_def)

lemma config_moves_refl [simp]: "config_moves c c"
  by (simp add: config_moves_def list_all2_refl auth_moves_refl)

lemma config_moves_trans: "config_moves a b \<Longrightarrow> config_moves b c \<Longrightarrow> config_moves a c"
  unfolding config_moves_def by (auto intro: list_all2_trans[of auth_moves auth_moves auth_moves] auth_moves_trans)

interpretation start: preorder_rel starts
  by unfold_locales (auto simp: starts_def intro: config_moves_trans)

named_theorems start_rules "actions that only move the configuration towards API tokens"

lemmas [start_rules] = start.keeps_intros

lemma same_config_starts: "(\<And>s. sv_config (snd (m s)) = sv_config s) \<Longrightarrow> keeps starts m"
  by (simp add: keeps_def starts_def)

lemma config_moves_refresh [simp]: "config_moves c (refreshRuntimeIndexes c)"
  by (simp add: config_moves_def refreshRuntimeIndexes_def list_all2_refl auth_moves_refl names_indexed_def maintainer_mode_def)

lemma config_moves_profiles: "config_moves c (c\<lparr>sc_sshProfiles := ps\<rparr>)"
  by (simp add: config_moves_def list_all2_refl auth_moves_refl names_indexed_def maintainer_mode_def)

lemma config_moves_cluster:
  assumes "\<And>cl. cl_name (f cl) = cl_name cl" "\<And>cl. auth_moves (cl_auth cl) (cl_auth (f cl))"
  shows "config_moves c (set_cluster i f c)"
proof -
  have "map cl_name ((sc_clusters c)[i := f (sc_clusters c ! i)]) = map cl_name (sc_clusters c)"
    using assms(1) by (cases "i < length (sc_clusters c)") (simp_all add: names_set_cluster list_update_beyond)
  moreover from this have "index_positions cl_name ((sc_clusters c)[i := f (sc_clusters c ! i)]) = index_positions cl_name (sc_clusters c)"
    by (rule index_positions_cong)
  moreover have "auth_moves (cl_auth (sc_clusters c ! j)) (cl_auth ((sc_clusters c)[i := f (sc_clusters c ! i)] ! j))"
    if "j < length (sc_clusters c)" for j
    using that assms(2) by (cases "i = j") (simp_all add: auth_moves_refl)
  ultimately show ?thesis
    by (simp add: config_moves_def names_indexed_def maintainer_mode_def set_cluster_def list_all2_conv_all_nth)
qed

lemma applyRuntimeApiSecret_moves: "applyRuntimeApiSecret c n b = Inr d \<Longrightarrow> config_moves c d"
  by (auto simp: applyRuntimeApiSecret_def auth_moves_def split: option.splits if_splits intro!: config_moves_cluster)

lemma applyRuntimeShellSecret_moves: "applyRuntimeShellSecret c n b = Inr d \<Longrightarrow> config_moves c d"
  by (auto simp: applyRuntimeShellSecret_def Let_def removeSshProfile_def upsertSshProfile_def auth_moves_refl
      split: option.splits if_splits
      intro!: config_moves_trans[OF _ config_moves_refresh] config_moves_trans[OF config_moves_profiles config_moves_cluster]
        config_moves_profiles)

lemma update_starts:
  assumes "\<And>s d. f s = Inr d \<Longrightarrow> config_moves (sv_config s) (g d)" "keeps starts k"
  shows "keeps starts (bindA (getsA f) (\<lambda>r. bindA (liftR r) (\<lambda>d. seqA (modify_config (\<lambda>_. g d)) k)))"
  unfolding keeps_def
proof
  fix s
  show "starts s (snd (bindA (getsA f) (\<lambda>r. bindA (liftR r) (\<lambda>d. seqA (modify_config (\<lambda>_. g d)) k)) s))"
  proof (cases "f s")
    case (Inl e)
    then show ?thesis by (simp add: bindA_liftR_apply)
  next
    case (Inr d)
    have "starts s (s\<lparr>sv_config := g d\<rparr>)" using assms(1) Inr by (simp add: starts_def)
    moreover have "starts (s\<lparr>sv_config := g d\<rparr>) (snd (k (s\<lparr>sv_config := g d\<rparr>)))" using assms(2) by (simp add: keeps_def)
    ultimately have "starts s (snd (k (s\<lparr>sv_config := g d\<rparr>)))" by (rule start.trans)
    then show ?thesis using Inr by (simp add: bindA_liftR_apply seqA_def bindA_apply modify_config_def)
  qed
qed

lemma configA_starts:
  assumes "\<And>c d. f c = Inr d \<Longrightarrow> config_moves c d" shows "keeps starts (configA f)"
  using assms by (auto simp: keeps_def starts_def configA_def bindA_liftR_apply modify_config_def split: sum.split)

lemmas secret_starts [start_rules] =
  configA_starts[OF applyRuntimeApiSecret_moves] configA_starts[OF applyRuntimeShellSecret_moves]

lemma modify_config_starts [start_rules]: "(\<And>c. config_moves c (f c)) \<Longrightarrow> keeps starts (modify_config f)"
  by (simp add: keeps_def starts_def modify_config_def)

lemma io_starts [start_rules]:
  "keeps starts (fetchA w r)" "keeps starts (sshA w tg c)" "keeps starts (nowA w)" "keeps starts (nowIsoA w)"
  "keeps starts (auditRecord w p e)" "keeps starts (interact ev g)"
  by (simp_all add: same_config_starts fetchA_def sshA_def nowA_def nowIsoA_def auditRecord_def appendFileA_def interact_def
      bindA_apply)

text \<open>Reading a bundle leaves the configuration alone.\<close>

definition same_config :: "'b svc_scheme \<Rightarrow> 'b svc_scheme \<Rightarrow> bool" where
  "same_config s t \<longleftrightarrow> sv_config t = sv_config s"

interpretation same: preorder_rel same_config
  by unfold_locales (auto simp: same_config_def)

lemma same_io:
  "keeps same_config (fetchA w r)" "keeps same_config (nowIsoA w)" "keeps same_config (interact ev g)"
  "keeps same_config (diskA w e h)"
  by (simp_all add: keeps_def same_config_def fetchA_def nowIsoA_def interact_def bindA_apply diskA_apply split: option.split)

lemma bundleFromUnknownA_same: "keeps same_config (bundleFromUnknownA w c v)"
  unfolding bundleFromUnknownA_def by (intro same.keeps_intros same_io)

lemma getClusterSecrets_same: "keeps same_config (getClusterSecrets w st c)"
  by (cases st; simp only: getClusterSecrets.simps envSecretsGet_def fileSecretsGet_def vaultSecretsGet_def readTextA_def readBytesA_def
      Let_def; intro same.keeps_intros same_io bundleFromUnknownA_same keeps_branches)

lemma getClusterSecrets_starts [start_rules]: "keeps starts (getClusterSecrets w st c)"
  by (rule keeps_mono[OF getClusterSecrets_same]) (simp add: same_config_def starts_def)

lemma keeps_secret_ref:
  "(\<And>sc. keeps starts (m sc)) \<Longrightarrow> keeps starts (case a of SecretRef sc \<Rightarrow> m sc | _ \<Rightarrow> ret ())"
  by (cases a; simp only: cluster_auth.case; intro start_rules)

lemma hydrateCluster_starts [start_rules]: "keeps starts (hydrateCluster w st i)"
  unfolding hydrateCluster_def by (intro start_rules keeps_secret_ref)

lemma hydrateEach_starts [start_rules]: "keeps starts (hydrateEach w st is)"
  by (induction "is"; simp only: hydrateEach.simps; intro start_rules)

text \<open>The managed credentials move the configuration the same way.\<close>

lemma set_managed_starts [start_rules]: "keeps starts (modifyA (set_managed n f))"
  by (simp add: keeps_def starts_def set_managed_def)

lemma upsertRuntimeProfiles_moves: "upsertRuntimeProfiles b pw node c = Inr d \<Longrightarrow> config_moves c (refreshRuntimeIndexes d)"
  by (auto simp: upsertRuntimeProfiles_def Let_def auth_moves_refl split: option.splits
      intro!: config_moves_trans[OF config_moves_trans[OF config_moves_profiles config_moves_cluster] config_moves_refresh])

lemma scheduleRotation_starts [start_rules]: "keeps starts (scheduleRotation n i)"
  by (simp add: keeps_def starts_def scheduleRotation_def set_managed_def)

lemma set_repairing_starts [start_rules]: "keeps starts (set_repairing n b)"
  by (simp add: keeps_def starts_def set_repairing_def set_managed_def)

lemma applyCredentials_starts [start_rules]: "keeps starts (applyCredentials w n i pw parsed)"
  unfolding applyCredentials_def Let_def
  by (intro start_rules update_starts upsertRuntimeProfiles_moves config_moves_cluster) (auto simp: auth_moves_def)

lemma runBootstrapScript_starts [start_rules]: "keeps starts (runBootstrapScript w n script)"
  unfolding runBootstrapScript_def detectBootstrapMode_def execBootstrapRaw_def Let_def by (intro start_rules keeps_branches)

lemma reconcileCluster_starts [start_rules]: "keeps starts (reconcileCluster w n r)"
  unfolding reconcileCluster_def by (intro start_rules keeps_branches)

lemma repairCluster_starts [start_rules]: "keeps starts (repairCluster w n r)"
proof -
  have "keeps starts (finallyA (reconcileCluster w n r) (set_repairing n False))" for n
    using reconcileCluster_starts[of w n r] set_repairing_starts[of n False]
    by (auto simp: keeps_def finallyA_def intro: start.trans)
  then show ?thesis unfolding repairCluster_def by (intro start_rules keeps_branches) auto
qed

lemma repairAll_starts [start_rules]: "keeps starts (repairAll w ns)"
  by (induction ns; simp only: repairAll.simps; intro start_rules)

lemma initializeManaged_starts [start_rules]: "keeps starts (initializeManaged w)"
  unfolding initializeManaged_def by (intro start_rules) simp

section \<open>What starting achieves\<close>

lemma index_positions_distinct:
  assumes "distinct (map name xs)" "i < length xs"
  shows "map_of (index_positions name xs) (name (xs ! i)) = Some i"
proof -
  have "map_of (index_positions name xs) (name (xs ! i)) \<noteq> None"
    using assms(2) by (simp add: index_positions_None_iff)
  then obtain j where j: "map_of (index_positions name xs) (name (xs ! i)) = Some j" by blast
  then have ji: "j < length xs" "name (xs ! j) = name (xs ! i)" by (metis index_positions_Some)+
  then have "map name xs ! j = map name xs ! i" using assms(2) by simp
  then have "j = i" using nth_eq_iff_index_eq[OF assms(1), of j i] ji(1) assms(2) by simp
  then show ?thesis using j by simp
qed

lemma starts_auth:
  assumes "starts s t" "i < length (sc_clusters (sv_config s))"
  shows "i < length (sc_clusters (sv_config t))"
    "auth_moves (cl_auth (sc_clusters (sv_config s) ! i)) (cl_auth (sc_clusters (sv_config t) ! i))"
    "cl_name (sc_clusters (sv_config t) ! i) = cl_name (sc_clusters (sv_config s) ! i)"
proof -
  have m: "map cl_name (sc_clusters (sv_config t)) = map cl_name (sc_clusters (sv_config s))"
    "list_all2 auth_moves (map cl_auth (sc_clusters (sv_config s))) (map cl_auth (sc_clusters (sv_config t)))"
    using assms(1) by (simp_all add: starts_def config_moves_def)
  then have len: "length (sc_clusters (sv_config t)) = length (sc_clusters (sv_config s))" by (metis length_map)
  then show "i < length (sc_clusters (sv_config t))" using assms(2) by simp
  show "auth_moves (cl_auth (sc_clusters (sv_config s) ! i)) (cl_auth (sc_clusters (sv_config t) ! i))"
    using m(2) assms(2) len by (simp add: list_all2_conv_all_nth)
  show "cl_name (sc_clusters (sv_config t) ! i) = cl_name (sc_clusters (sv_config s) ! i)"
    using m(1) assms(2) len by (metis nth_map)
qed

lemma not_ref_moves: "auth_moves a b \<Longrightarrow> \<not> is_secret_ref a \<Longrightarrow> \<not> is_secret_ref b"
  by (auto simp: auth_moves_def)

definition named :: "'b svc_scheme \<Rightarrow> bool" where
  "named s \<longleftrightarrow> names_indexed (sv_config s) \<and> distinct (map cl_name (sc_clusters (sv_config s)))"

lemma starts_named: "starts s t \<Longrightarrow> named s \<Longrightarrow> named t"
  unfolding starts_def config_moves_def named_def by metis

lemma named_lookup:
  "named s \<Longrightarrow> i < length (sc_clusters (sv_config s)) \<Longrightarrow>
     map_of (rt_clusterMap (sv_config s)) (cl_name (sc_clusters (sv_config s) ! i)) = Some i"
  by (simp add: named_def names_indexed_def index_positions_distinct)

text \<open>One cluster: its bundle is read, and only its own credentials change.\<close>

definition auths :: "'b svc_scheme \<Rightarrow> cluster_auth list" where
  "auths s = map cl_auth (sc_clusters (sv_config s))"

definition bundle_name :: "string option \<Rightarrow> string \<Rightarrow> string" where
  "bundle_name secretCluster name = (case secretCluster of Some n \<Rightarrow> n | None \<Rightarrow> name)"

lemma apply_api_auths:
  assumes "configA (\<lambda>c. applyRuntimeApiSecret c n b) s = (Inr (), t)" "map_of (rt_clusterMap (sv_config s)) n = Some i"
  shows "apiTokenConfigured b" "auths t = (auths s)[i := ApiToken (bundle_token b)]"
  using assms by (auto simp: configA_def bindA_liftR_apply applyRuntimeApiSecret_def modify_config_def auths_def map_update
      split: if_splits)

lemma apply_shell_auths:
  assumes "configA (\<lambda>c. applyRuntimeShellSecret c n b) s = (Inr (), t)" shows "auths t = auths s"
proof -
  have "map cl_auth (xs[i := (xs ! i)\<lparr>cl_nodes := ns\<rparr>]) = map cl_auth xs" for xs :: "cluster_config list" and i ns
    by (cases "i < length xs") (simp_all add: map_update list_update_same_conv list_update_beyond)
  then show ?thesis
    using assms by (auto simp: configA_def bindA_liftR_apply applyRuntimeShellSecret_def modify_config_def auths_def Let_def
        removeSshProfile_def upsertSshProfile_def split: if_splits option.splits)
qed

lemma hydrateCluster_ref:
  assumes named: "named s" and i: "i < length (auths s)" "auths s ! i = SecretRef sc"
    and run: "hydrateCluster w st i s = (Inr (), t)"
  shows "\<exists>b s1. getClusterSecrets w st (bundle_name sc (cl_name (sc_clusters (sv_config s) ! i))) s = (Inr b, s1) \<and>
    apiTokenConfigured b \<and> auths t = (auths s)[i := ApiToken (bundle_token b)]"
proof -
  define n where "n = cl_name (sc_clusters (sv_config s) ! i)"
  have ref: "i < length (sc_clusters (sv_config s))" "cl_auth (sc_clusters (sv_config s) ! i) = SecretRef sc"
    using i by (simp_all add: auths_def)
  have "bindA (getClusterSecrets w st (bundle_name sc n)) (\<lambda>bundle.
         seqA (configA (\<lambda>c. applyRuntimeApiSecret c n bundle))
           (configA (\<lambda>c. applyRuntimeShellSecret c n bundle))) s = (Inr (), t)"
    unfolding n_def bundle_name_def using run ref(2) by (simp add: hydrateCluster_def)
  from bindA_ok[OF this] obtain b s1 where s1: "getClusterSecrets w st (bundle_name sc n) s = (Inr b, s1)"
      "seqA (configA (\<lambda>c. applyRuntimeApiSecret c n b)) (configA (\<lambda>c. applyRuntimeShellSecret c n b)) s1 = (Inr (), t)"
    by blast
  from seqA_ok[OF s1(2)] obtain s2 where s2: "configA (\<lambda>c. applyRuntimeApiSecret c n b) s1 = (Inr (), s2)"
      "configA (\<lambda>c. applyRuntimeShellSecret c n b) s2 = (Inr (), t)"
    by blast
  have same: "sv_config s1 = sv_config s"
    using keepsD[OF getClusterSecrets_same s1(1)] by (simp add: same_config_def)
  then have "map_of (rt_clusterMap (sv_config s1)) n = Some i" using named_lookup[OF named ref(1)] by (simp add: n_def)
  note api = apply_api_auths[OF s2(1) this]
  have "auths t = (auths s)[i := ApiToken (bundle_token b)]"
    using api(2) apply_shell_auths[OF s2(2)] same by (simp add: auths_def)
  then show ?thesis using api(1) s1(1) unfolding n_def by blast
qed

text \<open>And it succeeds whenever the store has a complete token.\<close>

lemma hydrateCluster_succeeds:
  assumes named: "named s" and i: "i < length (auths s)" "auths s ! i = SecretRef sc"
    and read: "getClusterSecrets w st (bundle_name sc (cl_name (sc_clusters (sv_config s) ! i))) s = (Inr b, s1)"
    and token: "apiTokenConfigured b"
  shows "\<exists>t. hydrateCluster w st i s = (Inr (), t) \<and> auths t = (auths s)[i := ApiToken (bundle_token b)]"
proof -
  define n where "n = cl_name (sc_clusters (sv_config s) ! i)"
  have ref: "i < length (sc_clusters (sv_config s))" "cl_auth (sc_clusters (sv_config s) ! i) = SecretRef sc"
    using i by (simp_all add: auths_def)
  have same: "sv_config s1 = sv_config s"
    using keepsD[OF getClusterSecrets_same read] by (simp add: same_config_def)
  have index: "map_of (rt_clusterMap (sv_config s1)) n = Some i"
    using named_lookup[OF named ref(1)] same by (simp add: n_def)
  obtain s2 where s2: "configA (\<lambda>c. applyRuntimeApiSecret c n b) s1 = (Inr (), s2)"
      "rt_clusterMap (sv_config s2) = rt_clusterMap (sv_config s1)"
    using index token by (auto simp: configA_def bindA_liftR_apply applyRuntimeApiSecret_def modify_config_def)
  obtain t where t: "configA (\<lambda>c. applyRuntimeShellSecret c n b) s2 = (Inr (), t)"
    using index s2(2) that
    by (cases "shellSecretConfigured b") (simp_all add: configA_def bindA_liftR_apply applyRuntimeShellSecret_def modify_config_def Let_def)
  have "hydrateCluster w st i s = (Inr (), t)"
    using ref(2) read s2(1) t by (simp add: hydrateCluster_def bundle_name_def n_def bindA_apply seqA_def)
  then show ?thesis
    using apply_api_auths(2)[OF s2(1) index] apply_shell_auths[OF t] same by (simp add: auths_def)
qed

lemma hydrateCluster_skip:
  "i < length (auths s) \<Longrightarrow> \<not> is_secret_ref (auths s ! i) \<Longrightarrow> hydrateCluster w st i s = (Inr (), s)"
  by (cases "auths s ! i") (simp_all add: hydrateCluster_def auths_def)

text \<open>
  All clusters: \<open>sourced\<close> says that a cluster's credentials come from a bundle that was read from
  the store on the way, and are as before when they were no reference.
\<close>

definition sourced :: "world \<Rightarrow> runtime_store \<Rightarrow> 'b host_scheme \<Rightarrow> string \<Rightarrow> cluster_auth \<Rightarrow> cluster_auth \<Rightarrow> bool" where
  "sourced w st s name old new \<longleftrightarrow> (case old of
     SecretRef sc \<Rightarrow> (\<exists>u v b. starts s u \<and> getClusterSecrets w st (bundle_name sc name) u = (Inr b, v) \<and>
       apiTokenConfigured b \<and> new = ApiToken (bundle_token b))
   | _ \<Rightarrow> new = old)"

lemma sourced_earlier: "sourced w st t n old new \<Longrightarrow> starts s t \<Longrightarrow> sourced w st s n old new"
  unfolding sourced_def by (cases old) (auto intro: start.trans)

lemma hydrateEach_sources:
  "named s \<Longrightarrow> distinct is \<Longrightarrow> list_all (\<lambda>i. i < length (auths s)) is \<Longrightarrow> hydrateEach w st is s = (Inr (), t) \<Longrightarrow>
     j < length (auths s) \<Longrightarrow>
     (if j \<in> set is then sourced w st s (cl_name (sc_clusters (sv_config s) ! j)) (auths s ! j) (auths t ! j)
      else auths t ! j = auths s ! j)"
proof (induction "is" arbitrary: s)
  case (Cons i "is")
  from seqA_ok[OF Cons.prems(4)[unfolded hydrateEach.simps]]
  obtain s1 where s1: "hydrateCluster w st i s = (Inr (), s1)" "hydrateEach w st is s1 = (Inr (), t)" by blast
  have moved: "starts s s1" using keepsD[OF hydrateCluster_starts s1(1)] .
  have i: "i < length (auths s)" using Cons.prems(3) by simp
  have step: "auths s1 = (auths s)[i := auths s1 ! i] \<and>
      sourced w st s (cl_name (sc_clusters (sv_config s) ! i)) (auths s ! i) (auths s1 ! i)"
  proof (cases "is_secret_ref (auths s ! i)")
    case True
    then obtain sc where SecretRef: "auths s ! i = SecretRef sc" by (cases "auths s ! i") auto
    obtain b u where b: "getClusterSecrets w st (bundle_name sc (cl_name (sc_clusters (sv_config s) ! i))) s = (Inr b, u)"
        "apiTokenConfigured b" "auths s1 = (auths s)[i := ApiToken (bundle_token b)]"
      using hydrateCluster_ref[OF Cons.prems(1) i SecretRef s1(1)] by blast
    then have "\<exists>u v b. starts s u \<and> getClusterSecrets w st (bundle_name sc (cl_name (sc_clusters (sv_config s) ! i))) u = (Inr b, v) \<and>
        apiTokenConfigured b \<and> auths s1 ! i = ApiToken (bundle_token b)"
      using i by (intro exI[of _ s] exI[of _ u] exI[of _ b]) simp
    then show ?thesis using SecretRef i b(3) by (simp add: sourced_def)
  next
    case False
    then have "s1 = s" using hydrateCluster_skip[OF i] s1(1) by simp
    moreover have "sourced w st s n (auths s ! i) (auths s ! i)" for n
      using False by (cases "auths s ! i") (simp_all add: sourced_def)
    ultimately show ?thesis by (simp only: list_update_id)
  qed
  have len: "length (auths s1) = length (auths s)" using step by (metis length_list_update)
  have names: "cl_name (sc_clusters (sv_config s1) ! j) = cl_name (sc_clusters (sv_config s) ! j)"
    using starts_auth(3)[OF moved] Cons.prems(5) by (simp add: auths_def)
  have rest: "if j \<in> set is then sourced w st s1 (cl_name (sc_clusters (sv_config s1) ! j)) (auths s1 ! j) (auths t ! j)
      else auths t ! j = auths s1 ! j"
    by (rule Cons.IH[OF starts_named[OF moved Cons.prems(1)] _ _ s1(2)]) (use Cons.prems len in auto)
  show ?case
  proof (cases "j = i")
    case True
    then show ?thesis using step rest Cons.prems(2) by simp
  next
    case False
    then have "auths s1 ! j = auths s ! j" using step by (metis nth_list_update_neq)
    then show ?thesis using rest False names sourced_earlier[OF _ moved] by (auto split: if_splits)
  qed
qed simp

lemma hydrate_sources:
  assumes "named s" "hydrateSteadyStateSecrets w st s = (Inr (), t)" "j < length (auths s)"
  shows "sourced w st s (cl_name (sc_clusters (sv_config s) ! j)) (auths s ! j) (auths t ! j)"
proof -
  have "seqA (hydrateEach w st [0..<length (sc_clusters (sv_config s))]) (modify_config refreshRuntimeIndexes) s = (Inr (), t)"
    using assms(2) by (simp add: hydrateSteadyStateSecrets_def)
  from seqA_ok[OF this] obtain s1 where s1: "hydrateEach w st [0..<length (sc_clusters (sv_config s))] s = (Inr (), s1)"
      "auths t = auths s1"
    by (auto simp: modify_config_def auths_def)
  then show ?thesis
    using hydrateEach_sources[OF assms(1) _ _ s1(1) assms(3)] assms(3) by (simp add: list_all_iff auths_def)
qed

lemma sourced_settled: "sourced w st s n old new \<Longrightarrow> \<not> is_secret_ref new"
  by (cases old) (auto simp: sourced_def)

lemma any_auth_auths: "any_auth P (sv_config s) \<longleftrightarrow> (\<exists>i<length (auths s). P (auths s ! i))"
  by (simp add: any_auth_def list_ex_length auths_def cong: conj_cong)

lemma starts_length: "starts s t \<Longrightarrow> length (auths t) = length (auths s)"
  unfolding starts_def config_moves_def auths_def by (metis length_map)

lemma hydrate_starts: "keeps starts (hydrateSteadyStateSecrets w st)"
  unfolding hydrateSteadyStateSecrets_def by (intro start_rules) simp

lemma hydrate_hydrates:
  assumes "named s" "hydrateSteadyStateSecrets w st s = (Inr (), t)"
  shows "\<not> any_auth is_secret_ref (sv_config t)"
  using starts_length[OF keepsD[OF hydrate_starts assms(2)]] hydrate_sources[OF assms] sourced_settled by (fastforce simp: any_auth_auths)

lemma starts_any:
  assumes "starts s t" "\<And>tok. \<not> P (ApiToken tok)" "any_auth P (sv_config t)"
  shows "any_auth P (sv_config s)"
proof -
  have len: "length (sc_clusters (sv_config t)) = length (sc_clusters (sv_config s))"
    using assms(1) by (metis config_moves_def length_map starts_def)
  obtain i where i: "i < length (sc_clusters (sv_config s))" "P (cl_auth (sc_clusters (sv_config t) ! i))"
    using assms(3) len by (auto simp: any_auth_def list_ex_iff in_set_conv_nth)
  then have "cl_auth (sc_clusters (sv_config t) ! i) = cl_auth (sc_clusters (sv_config s) ! i)"
    using starts_auth(2)[OF assms(1) i(1)] assms(2) unfolding auth_moves_def by metis
  then show ?thesis using i by (auto simp: any_auth_def list_ex_iff intro!: bexI[OF _ nth_mem])
qed

text \<open>
  Once hydrated, a reload asks the store nothing: every reference has become a token, and the loop
  passes over tokens.
\<close>

lemma hydrateEach_idle:
  "\<not> any_auth is_secret_ref (sv_config s) \<Longrightarrow> list_all (\<lambda>i. i < length (sc_clusters (sv_config s))) is \<Longrightarrow>
     hydrateEach w st is s = (Inr (), s)"
proof (induction "is")
  case (Cons i "is")
  then have "\<not> is_secret_ref (cl_auth (sc_clusters (sv_config s) ! i))" by (auto simp: any_auth_def list_ex_iff)
  then have "hydrateCluster w st i s = (Inr (), s)"
    by (cases "cl_auth (sc_clusters (sv_config s) ! i)") (simp_all add: hydrateCluster_def)
  then show ?case using Cons by (simp add: seqA_def bindA_apply)
qed simp

lemma hydrate_idle:
  "\<not> any_auth is_secret_ref (sv_config s) \<Longrightarrow>
     hydrateSteadyStateSecrets w st s = (Inr (), s\<lparr>sv_config := refreshRuntimeIndexes (sv_config s)\<rparr>)"
  by (simp add: hydrateSteadyStateSecrets_def seqA_def bindA_apply hydrateEach_idle list_all_iff modify_config_def)

lemma initialize_run:
  assumes "initializeRuntimeConfig w env s = (Inr (st, managed), t)"
  shows "\<exists>s1. createSecretStore env (sv_config s) = Inr st \<and>
    (if any_auth is_secret_ref (sv_config s) then hydrateSteadyStateSecrets w st s = (Inr (), s1) else s1 = s) \<and>
    (if any_auth is_bootstrap (sv_config s1) then maintainer_mode (sv_config s1) \<and> starts s1 t else t = s1 \<and> \<not> managed)"
proof -
  obtain st' where st': "createSecretStore env (sv_config s) = Inr st'"
    using assms by (auto simp: initializeRuntimeConfig_def bindA_liftR_apply split: sum.splits)
  let ?hydrate = "if any_auth is_secret_ref (sv_config s) then hydrateSteadyStateSecrets w st' else ret ()"
  have run: "seqA ?hydrate (bindA (getsA sv_config) (\<lambda>config.
     if \<not> any_auth is_bootstrap config then ret (st', False)
     else if \<not> maintainer_mode config
     then raise ''ssh_bootstrap auth is only allowed for explicit local stdio maintainer mode.''
     else seqA (modifyA (\<lambda>s. s\<lparr>sv_managed := managedClusters (sc_clusters config)\<rparr>))
         (seqA (initializeManaged w) (ret (st', True))))) s = (Inr (st, managed), t)"
    using assms st' by (simp add: initializeRuntimeConfig_def bindA_liftR_apply)
  from seqA_ok[OF run] obtain s1 where s1: "?hydrate s = (Inr (), s1)"
    and rest: "(if \<not> any_auth is_bootstrap (sv_config s1) then ret (st', False)
     else if \<not> maintainer_mode (sv_config s1)
     then raise ''ssh_bootstrap auth is only allowed for explicit local stdio maintainer mode.''
     else seqA (modifyA (\<lambda>s. s\<lparr>sv_managed := managedClusters (sc_clusters (sv_config s1))\<rparr>))
         (seqA (initializeManaged w) (ret (st', True)))) s1 = (Inr (st, managed), t)"
    unfolding bindA_gets by blast
  show ?thesis
  proof (cases "any_auth is_bootstrap (sv_config s1)")
    case True
    then have mode: "maintainer_mode (sv_config s1)" using rest by (auto simp: raise_def split: if_splits)
    let ?m = "seqA (initializeManaged w) (ret (st', True))"
    have run: "?m (s1\<lparr>sv_managed := managedClusters (sc_clusters (sv_config s1))\<rparr>) = (Inr (st, managed), t)"
      using rest True mode by simp
    have "keeps starts ?m" by (intro start_rules)
    from keepsD[OF this run] have "starts s1 t" by (simp add: starts_def)
    moreover from seqA_ok[OF run] have "st = st'" by auto
    ultimately show ?thesis using True mode s1 st' by (auto split: if_splits)
  qed (use rest s1 st' in \<open>auto split: if_splits\<close>)
qed


definition ref_config :: runtime_config where
  "ref_config = to_runtime (sample_server\<lparr>sc_localBootstrap := (sc_localBootstrap sample_server)\<lparr>lb_enabled := False\<rparr>,
     sc_clusters := [sample_cluster\<lparr>cl_auth := SecretRef None\<rparr>]\<rparr>)"

definition token_env :: env where
  "token_env n = (if n = ''PROXMOX_API_TOKEN_USER'' then Some ''mcp''
     else if n = ''PROXMOX_API_TOKEN_SECRET'' then Some ''s3cret'' else None)"


end
