(* ===== verification/HttpServer.thy ===== *)
theory HttpServer
  imports Server Startup
begin

text \<open>
  The HTTP entry point, src/http-server.ts, and how src/index.ts configures it: routing, bearer
  authentication and request bodies, up to the hand-over to the MCP transport.  The transport is a
  package: it is a parameter that answers a request or fails.
\<close>

section \<open>Requests and answers\<close>

text \<open>A header that came more than once is a list; \<open>hi_body\<close> are the chunks of the body, or the failure of the stream.\<close>

datatype header_field = One string | Many "string list"

record http_in =
  hi_method :: "string option"
  hi_url :: "string option"
  hi_headers :: "(string, header_field) omap"
  hi_body :: "buffer list res"

record http_out =
  hx_status :: int
  hx_headers :: "(string, string) omap"
  hx_text :: string

record http_options =
  hs_host :: "string option"
  hs_port :: int
  hs_path :: "string option"
  hs_publicUrl :: "string option"
  hs_resourceName :: "string option"
  hs_resourceDocumentation :: "string option"
  hs_auth :: "oidc_options option"

text \<open>
  What a handler can throw: the failure objects of the authentication, with a status and a code, or
  anything else.
\<close>

datatype http_error = Refused int auth_failure string "string option" | Crashed string

fun first_header :: "header_field option \<Rightarrow> string option" where
  "first_header None = None"
| "first_header (Some (One s)) = Some s"
| "first_header (Some (Many [])) = None"
| "first_header (Some (Many (s # ss))) = Some s"

text \<open>Headers that Node never gives as a list, such as \<open>host\<close> and \<open>authorization\<close>, read as a string.\<close>

fun plain_header :: "header_field option \<Rightarrow> string option" where
  "plain_header None = None"
| "plain_header (Some (One s)) = Some s"
| "plain_header (Some (Many ss)) = Some (js_join '','' ss)"

definition header :: "http_in \<Rightarrow> string \<Rightarrow> header_field option" where
  "header req k = map_of (hi_headers req) k"

definition normalizePath :: "string \<Rightarrow> string" where
  "normalizePath path =
     (if path = [] then ''/'' else if js_startsWith path ''/'' then path else CHR ''/'' # path)"

definition getMetadataPath :: "string \<Rightarrow> string" where
  "getMetadataPath mcpPath =
     (let normalized = normalizePath mcpPath in
      ''/.well-known/oauth-protected-resource'' @ (if normalized = ''/'' then [] else normalized))"

definition getRequestUrl :: "'k platform \<Rightarrow> http_in \<Rightarrow> url res" where
  "getRequestUrl p req = pf_resolve p (case hi_url req of Some u \<Rightarrow> u | None \<Rightarrow> ''/'') ''http://localhost''"

definition drop_colon :: "string \<Rightarrow> string" where
  "drop_colon s = (if js_endsWith s '':'' then butlast s else s)"

definition resolveRequestResourceUrl :: "'k platform \<Rightarrow> http_in \<Rightarrow> url \<Rightarrow> string \<Rightarrow> url res" where
  "resolveRequestResourceUrl p req fallback path =
     (let forwardedProto = first_header (header req ''x-forwarded-proto'');
          forwardedHost = first_header (header req ''x-forwarded-host'');
          host = (case forwardedHost of Some h \<Rightarrow> h | None \<Rightarrow>
            (case plain_header (header req ''host'') of Some h \<Rightarrow> h | None \<Rightarrow> ur_host fallback));
          protocol = js_or (Some (case forwardedProto of Some s \<Rightarrow> s | None \<Rightarrow> drop_colon (ur_protocol fallback))) ''http''
      in pf_url p (protocol @ ''://'' @ host @ path))"

definition readRequestBody :: "world \<Rightarrow> http_in \<Rightarrow> jsval res" where
  "readRequestBody w req =
     rbind (hi_body req) (\<lambda>chunks.
     if chunks = [] then Inr JUndef
     else
       let raw = js_trim (utf8_text w (concat chunks)) in
       if raw = [] then Inr JUndef
       else
         let contentType = (case plain_header (header req ''content-type'') of Some t \<Rightarrow> t | None \<Rightarrow> []) in
         if js_includes contentType ''application/json'' \<or> js_startsWith raw ''{'' \<or> js_startsWith raw ''[''
         then parse_json_body raw
         else Inr (JStr raw))"

definition writeJson :: "int \<Rightarrow> jsval \<Rightarrow> http_out" where
  "writeJson statusCode payload =
     \<lparr>hx_status = statusCode, hx_headers = [(''content-type'', ''application/json; charset=utf-8'')], hx_text = JSON_stringify payload\<rparr>"

definition writeText :: "int \<Rightarrow> string \<Rightarrow> (string, string) omap \<Rightarrow> http_out" where
  "writeText statusCode text headers =
     \<lparr>hx_status = statusCode, hx_headers = headers @ [(''content-type'', ''text/plain; charset=utf-8'')], hx_text = text\<rparr>"

section \<open>Authentication\<close>

text \<open>\<open>/^Bearer\s+/i\<close>, and the token behind it.\<close>

definition bearer_rest :: "string \<Rightarrow> string option" where
  "bearer_rest h =
     (if js_toLowerCase (take 6 h) = ''bearer'' \<and> drop 6 h \<noteq> [] \<and> js_space (hd (drop 6 h))
      then Some (js_trim (dropWhile js_space (drop 6 h))) else None)"

definition bearer_token :: "http_in \<Rightarrow> string option" where
  "bearer_token req =
     (case plain_header (header req ''authorization'') of
        None \<Rightarrow> None
      | Some h \<Rightarrow> (case bearer_rest h of Some t \<Rightarrow> js_or_undefined (Some t) | None \<Rightarrow> None))"

definition authenticateRequest ::
    "'k platform \<Rightarrow> oidc_options \<Rightarrow> string list option \<Rightarrow> http_in \<Rightarrow>
       ('b auth_state_scheme, http_error + verified_token) act" where
  "authenticateRequest p verifier requiredScopes req =
     (case bearer_token req of
        None \<Rightarrow> ret (Inl (Refused 401 InvalidToken ''Missing bearer token'' None))
      | Some token \<Rightarrow>
          catchA (bindA (verifyToken p verifier token) (\<lambda>v. ret (Inr v)))
            (\<lambda>message. ret (Inl
              (if includes_ci message ''missing required scope''
               then Refused 403 InsufficientScope message (map_option (js_join '' '') requiredScopes)
               else Refused 401 InvalidToken message None))))"

section \<open>The server\<close>

record http_server =
  hv_path :: string
  hv_publicUrl :: url
  hv_metadataPath :: string
  hv_metadataUrl :: url
  hv_verifier :: "oidc_options option"
  hv_options :: http_options

definition createProxmoxMcpHttpServer :: "'k platform \<Rightarrow> http_options \<Rightarrow> http_server res" where
  "createProxmoxMcpHttpServer p options =
     (let path = normalizePath (case hs_path options of Some t \<Rightarrow> t | None \<Rightarrow> ''/mcp'') in
      rbind (pf_url p (case js_or_undefined (hs_publicUrl options) of
          Some u \<Rightarrow> u
        | None \<Rightarrow> ''http://'' @ (case hs_host options of Some h \<Rightarrow> h | None \<Rightarrow> ''127.0.0.1'') @ '':'' @
            int_str (hs_port options) @ path)) (\<lambda>publicUrl.
      let metadataPath = getMetadataPath path in
      rbind (pf_resolve p metadataPath (ur_href publicUrl)) (\<lambda>metadataUrl.
      Inr \<lparr> hv_path = path, hv_publicUrl = publicUrl, hv_metadataPath = metadataPath, hv_metadataUrl = metadataUrl,
            hv_verifier = map_option (\<lambda>a. a\<lparr>oo_resourceServerUrl := Some (case oo_resourceServerUrl a of
              Some u \<Rightarrow> u | None \<Rightarrow> ur_href publicUrl)\<rparr>) (hs_auth options),
            hv_options = options \<rparr>)))"

text \<open>What routing decides: an answer of its own, or the request with its caller and body for the transport.\<close>

datatype routed = Reply http_out | Deliver "verified_token option" jsval

definition metadataReply :: "'k platform \<Rightarrow> http_server \<Rightarrow> http_in \<Rightarrow> http_out res" where
  "metadataReply p sv req =
     rbind (resolveRequestResourceUrl p req (hv_publicUrl sv) (hv_path sv)) (\<lambda>resourceServerUrl.
     rbind (createProtectedResourceMetadata p (ur_href resourceServerUrl)
         (case hs_auth (hv_options sv) of Some a \<Rightarrow> oo_issuer a | None \<Rightarrow> ur_href (hv_publicUrl sv))
         (case hs_auth (hv_options sv) of Some a \<Rightarrow> oo_requiredScopes a | None \<Rightarrow> None)
         (hs_resourceName (hv_options sv)) (hs_resourceDocumentation (hv_options sv))) (\<lambda>metadata.
     Inr (writeJson 200 metadata)))"

definition crash :: "'a res \<Rightarrow> http_error + 'a" where
  "crash r = (case r of Inl e \<Rightarrow> Inl (Crashed e) | Inr x \<Rightarrow> Inr x)"

definition deliverBody :: "'k platform \<Rightarrow> http_in \<Rightarrow> verified_token option \<Rightarrow> http_error + routed" where
  "deliverBody p req auth =
     (if hi_method req \<notin> {Some ''GET'', Some ''POST'', Some ''DELETE''}
      then Inr (Reply (writeText 405 ''Method Not Allowed'' [(''allow'', ''GET, POST, DELETE'')]))
      else
        (case (if hi_method req = Some ''GET'' then Inr JUndef else readRequestBody (pf_world p) req) of
           Inl e \<Rightarrow> Inl (Crashed e)
         | Inr body \<Rightarrow> Inr (Deliver auth body)))"

definition routeRequest :: "'k platform \<Rightarrow> http_server \<Rightarrow> http_in \<Rightarrow> ('b auth_state_scheme, http_error + routed) act" where
  "routeRequest p sv req =
     (case getRequestUrl p req of
        Inl e \<Rightarrow> ret (Inl (Crashed e))
      | Inr requestUrl \<Rightarrow>
          if hi_method req = Some ''GET'' \<and> ur_pathname requestUrl = hv_metadataPath sv
          then ret (map_sum id Reply (crash (metadataReply p sv req)))
          else if ur_pathname requestUrl \<noteq> hv_path sv then ret (Inr (Reply (writeText 404 ''Not Found'' [])))
          else
            (case hv_verifier sv of
               None \<Rightarrow> ret (deliverBody p req None)
             | Some verifier \<Rightarrow>
                 bindA (authenticateRequest p verifier (oo_requiredScopes verifier) req) (\<lambda>r.
                 case r of Inl e \<Rightarrow> ret (Inl e) | Inr v \<Rightarrow> ret (deliverBody p req (Some v)))))"

fun failureReply :: "http_server \<Rightarrow> http_error \<Rightarrow> http_out" where
  "failureReply sv (Refused st failure description scope) =
     writeText st description [(''www-authenticate'',
       buildBearerChallenge (Some (ur_href (hv_metadataUrl sv))) failure description scope)]"
| "failureReply sv (Crashed e) = writeText 500 ''Internal Server Error'' []"

text \<open>\<open>ht_delivered\<close> records what the transport was given.\<close>

record http_state = auth_state +
  ht_delivered :: "(verified_token option \<times> jsval) list"

type_synonym transport = "verified_token option \<Rightarrow> http_in \<Rightarrow> jsval \<Rightarrow> http_error + http_out"

definition handleHttp :: "'k platform \<Rightarrow> transport \<Rightarrow> http_server \<Rightarrow> http_in \<Rightarrow> ('b http_state_scheme, http_out) act" where
  "handleHttp p transport sv req =
     bindA (routeRequest p sv req) (\<lambda>r.
     case r of
       Inl e \<Rightarrow> ret (failureReply sv e)
     | Inr (Reply reply) \<Rightarrow> ret reply
     | Inr (Deliver auth body) \<Rightarrow>
         seqA (modifyA (\<lambda>s. s\<lparr>ht_delivered := ht_delivered s @ [(auth, body)]\<rparr>))
           (ret (case transport auth req body of Inl e \<Rightarrow> failureReply sv e | Inr reply \<Rightarrow> reply)))"

text \<open>The requests of a server, one after the other.\<close>

fun serve :: "'k platform \<Rightarrow> transport \<Rightarrow> http_server \<Rightarrow> http_in list \<Rightarrow> ('b http_state_scheme, http_out list) act" where
  "serve p transport sv [] = ret []"
| "serve p transport sv (req # reqs) =
     bindA (handleHttp p transport sv req) (\<lambda>reply. bindA (serve p transport sv reqs) (\<lambda>replies. ret (reply # replies)))"

section \<open>The options that src/index.ts passes\<close>

definition main_http_options :: "runtime_config \<Rightarrow> http_options" where
  "main_http_options c =
     \<lparr> hs_host = Some (hc_host (sc_http c)), hs_port = hc_port (sc_http c), hs_path = Some (hc_path (sc_http c)),
       hs_publicUrl = hc_publicBaseUrl (sc_http c), hs_resourceName = None, hs_resourceDocumentation = None,
       hs_auth = (case sc_mcpAuth c of
           McpOidc oa \<Rightarrow> Some \<lparr> oo_issuer = oi_issuer oa, oo_audience = oi_audience oa, oo_jwksUri = oi_jwksUrl oa,
             oo_resourceServerUrl = (case oi_resource oa of Some r \<Rightarrow> Some r | None \<Rightarrow> hc_publicBaseUrl (sc_http c)),
             oo_requiredScopes = None, oo_clockSkewSeconds = None, oo_cacheTtlMs = None \<rparr>
         | McpNone \<Rightarrow> None) \<rparr>"

section \<open>Only verified callers reach the transport\<close>

definition same_delivered :: "'b http_state_scheme \<Rightarrow> 'b http_state_scheme \<Rightarrow> bool" where
  "same_delivered s t \<longleftrightarrow> ht_delivered t = ht_delivered s"

interpretation deliver: preorder_rel same_delivered
  by unfold_locales (auto simp: same_delivered_def)

named_theorems deliver_rules "actions that hand nothing to the transport"

lemmas [deliver_rules] = deliver.keeps_intros

lemma io_delivered [deliver_rules]:
  "keeps same_delivered (fetchA w r)" "keeps same_delivered (nowA w)"
  "keeps same_delivered (modifyA (\<lambda>s. s\<lparr>au_cached := c\<rparr>))"
  by (simp_all add: keeps_def same_delivered_def fetchA_def nowA_def interact_def modifyA_def)

lemma fetchJson_delivered [deliver_rules]: "keeps same_delivered (fetchJson p href)"
  unfolding fetchJson_def by (intro deliver_rules keeps_branches)

lemma keeps_keys:
  "(\<And>ks. keeps R (m ks)) \<Longrightarrow> keeps R k \<Longrightarrow> keeps R (case v of JArr ks \<Rightarrow> m ks | _ \<Rightarrow> k)"
  by (cases v) simp_all

lemma keeps_parts:
  "(\<And>a b c. keeps R (m a b c)) \<Longrightarrow> keeps R k \<Longrightarrow> keeps R (case ps of [a, b, c] \<Rightarrow> m a b c | _ \<Rightarrow> k)"
  by (auto split: list.split)

lemma getJwks_delivered [deliver_rules]: "keeps same_delivered (getJwks p oa)"
  unfolding getJwks_def resolveJwksUri_def Let_def by (intro deliver_rules keeps_branches keeps_keys)

lemma verifyToken_delivered [deliver_rules]: "keeps same_delivered (verifyToken p oa token)"
  unfolding verifyToken_def by (intro deliver_rules keeps_branches keeps_parts)

lemma authenticateRequest_runs:
  obtains (Refused) e u where "authenticateRequest p oa required req s = (Inr (Inl e), u)" "same_delivered s u"
    "\<exists>st f d sc. e = Refused st f d sc \<and> st \<in> {401, 403}"
  | (Verified) token v u where "authenticateRequest p oa required req s = (Inr (Inr v), u)" "same_delivered s u"
    "bearer_token req = Some token" "verifyToken p oa token s = (Inr v, u)"
proof (cases "bearer_token req")
  case None
  show thesis by (rule Refused) (auto simp: authenticateRequest_def None same_delivered_def)
next
  case (Some token)
  obtain r u where run: "verifyToken p oa token s = (r, u)" by force
  have same: "same_delivered s u" using keepsD[OF verifyToken_delivered run] .
  show thesis
  proof (cases r)
    case (Inl m)
    show thesis by (rule Refused[OF _ same]) (use run in \<open>auto simp: authenticateRequest_def Some Inl catchA_def bindA_def\<close>)
  next
    case (Inr v)
    show thesis by (rule Verified[OF _ same Some]) (use run Inr in \<open>auto simp: authenticateRequest_def Some catchA_def bindA_def\<close>)
  qed
qed

lemma deliverBody_status: "deliverBody p req auth = Inr (Reply reply) \<Longrightarrow> hx_status reply = 405"
  "deliverBody p req auth = Inr (Deliver a body) \<Longrightarrow> a = auth \<and> hi_method req \<in> {Some ''GET'', Some ''POST'', Some ''DELETE''}"
  "deliverBody p req auth = Inl e \<Longrightarrow> \<exists>m. e = Crashed m"
  by (auto simp: deliverBody_def writeText_def split: if_splits sum.splits)

text \<open>What routing may decide on an authenticated server.\<close>

definition routed_ok :: "'k platform \<Rightarrow> oidc_options \<Rightarrow> http_in \<Rightarrow> 'b auth_state_scheme \<Rightarrow> http_error + routed \<Rightarrow> bool" where
  "routed_ok p oa req s out \<longleftrightarrow> (case out of
     Inl e \<Rightarrow> (case e of Refused st _ _ _ \<Rightarrow> st \<in> {401, 403} | Crashed _ \<Rightarrow> True)
   | Inr (Reply reply) \<Rightarrow> hx_status reply \<in> {200, 404, 405}
   | Inr (Deliver auth body) \<Rightarrow> (\<exists>token v u. auth = Some v \<and> bearer_token req = Some token \<and>
       verifyToken p oa token s = (Inr v, u)))"

lemma routeRequest_runs:
  assumes "hv_verifier sv = Some oa"
  shows "\<exists>out u. routeRequest p sv req s = (Inr out, u) \<and> same_delivered s u \<and> routed_ok p oa req s out"
proof (cases "getRequestUrl p req")
  case (Inl e)
  then show ?thesis by (auto simp: routeRequest_def same_delivered_def routed_ok_def)
next
  case (Inr url)
  have meta: "routed_ok p oa req s (map_sum id Reply (crash (metadataReply p sv req)))"
    by (auto simp: routed_ok_def crash_def metadataReply_def writeJson_def rbind_def split: sum.splits)
  have body: "routed_ok p oa req s (deliverBody p req (Some v))"
    if "bearer_token req = Some token" "verifyToken p oa token s = (Inr v, u)" for token v u
    using that by (auto simp: routed_ok_def deliverBody_def writeText_def split: sum.splits)
  have auth: "\<exists>out u. bindA (authenticateRequest p oa (oo_requiredScopes oa) req)
      (\<lambda>r. case r of Inl e \<Rightarrow> ret (Inl e) | Inr v \<Rightarrow> ret (deliverBody p req (Some v))) s = (Inr out, u) \<and>
      same_delivered s u \<and> routed_ok p oa req s out"
  proof (cases rule: authenticateRequest_runs[of p oa "oo_requiredScopes oa" req s])
    case (Refused e u)
    then show ?thesis by (auto simp: bindA_apply routed_ok_def)
  next
    case (Verified token v u)
    then show ?thesis using body by (simp add: bindA_apply)
  qed
  show ?thesis
    using Inr meta auth assms
    by (cases "hi_method req = Some ''GET'' \<and> ur_pathname url = hv_metadataPath sv"; cases "ur_pathname url = hv_path sv")
      (auto simp: routeRequest_def same_delivered_def routed_ok_def writeText_def)
qed

lemma failureReply_status:
  "(case e of Refused st _ _ _ \<Rightarrow> st \<in> {401, 403} | Crashed _ \<Rightarrow> True) \<Longrightarrow> hx_status (failureReply sv e) \<in> {401, 403, 500}"
  by (cases e) (auto simp: writeText_def)

lemma handleHttp_runs:
  assumes "hv_verifier sv = Some oa" "handleHttp p transport sv req s = (r, t)"
  shows "\<exists>reply. r = Inr reply \<and>
    ((ht_delivered t = ht_delivered s \<and> hx_status reply \<in> {200, 401, 403, 404, 405, 500}) \<or>
     (\<exists>token v body u. bearer_token req = Some token \<and> verifyToken p oa token s = (Inr v, u) \<and>
        ht_delivered t = ht_delivered s @ [(Some v, body)]))"
proof -
  obtain out u where out: "routeRequest p sv req s = (Inr out, u)" "same_delivered s u" "routed_ok p oa req s out"
    using routeRequest_runs[OF assms(1)] by blast
  show ?thesis
  proof (cases out)
    case (Inl e)
    then show ?thesis
      using out assms(2) failureReply_status[of e sv] by (auto simp: handleHttp_def bindA_apply same_delivered_def routed_ok_def)
  next
    case (Inr routed)
    show ?thesis
    proof (cases routed)
      case (Reply reply)
      then show ?thesis using out assms(2) Inr by (auto simp: handleHttp_def bindA_apply same_delivered_def routed_ok_def)
    next
      case (Deliver auth body)
      then show ?thesis using out assms(2) Inr
        by (auto simp: handleHttp_def bindA_apply same_delivered_def routed_ok_def modifyA_def seqA_def)
    qed
  qed
qed

text \<open>A caller of the transport: its token came with one of the requests and carries what it is granted.\<close>

definition vouched :: "'k platform \<Rightarrow> http_in list \<Rightarrow> verified_token option \<Rightarrow> bool" where
  "vouched p reqs auth \<longleftrightarrow> (\<exists>v req jwks. auth = Some v \<and> req \<in> set reqs \<and> bearer_token req = Some (vt_token v) \<and>
     signed_claims p jwks (vt_token v) (vt_claims v) \<and> vt_scopes v = claimed_scopes (vt_claims v))"

lemma vouched_more: "vouched p reqs auth \<Longrightarrow> vouched p (req # reqs) auth"
  by (auto simp: vouched_def)

lemma serve_runs:
  "hv_verifier sv = Some oa \<Longrightarrow> serve p transport sv reqs s = (r, t) \<Longrightarrow>
     \<exists>replies entries. r = Inr replies \<and> length replies = length reqs \<and> ht_delivered t = ht_delivered s @ entries \<and>
       (\<forall>e\<in>set entries. vouched p reqs (fst e))"
proof (induction reqs arbitrary: s r)
  case (Cons req reqs)
  obtain r1 u where first: "handleHttp p transport sv req s = (r1, u)" by force
  from handleHttp_runs[OF Cons.prems(1) first] obtain reply where reply: "r1 = Inr reply" by blast
  obtain r2 where rest: "serve p transport sv reqs u = (r2, t)" "r = map_sum id (Cons reply) r2"
    using Cons.prems(2) first reply by (auto simp: bindA_apply split: prod.splits sum.splits)
  from Cons.IH[OF Cons.prems(1) rest(1)] obtain replies entries where
    IH: "r2 = Inr replies" "length replies = length reqs" "ht_delivered t = ht_delivered u @ entries"
      "\<forall>e\<in>set entries. vouched p reqs (fst e)" by blast
  have "\<exists>one. ht_delivered u = ht_delivered s @ one \<and> (\<forall>e\<in>set one. vouched p (req # reqs) (fst e))"
  proof -
    have vouch: "vouched p (req # reqs) (Some v)" if "bearer_token req = Some token" "verifyToken p oa token s = (Inr v, u)" for token v u
      using verifyToken_signed[OF that(2)] that(1) unfolding vouched_def by fastforce
    from handleHttp_runs[OF Cons.prems(1) first] consider "ht_delivered u = ht_delivered s"
      | token v body u' where "bearer_token req = Some token" "verifyToken p oa token s = (Inr v, u')"
          "ht_delivered u = ht_delivered s @ [(Some v, body)]" by blast
    then show ?thesis
    proof cases
      case 1
      then show ?thesis by (intro exI[of _ "[]"]) simp
    next
      case (2 token v body u')
      then show ?thesis using vouch[OF 2(1,2)] by (intro exI[of _ "[(Some v, body)]"]) simp
    qed
  qed
  then obtain one where one: "ht_delivered u = ht_delivered s @ one" "\<forall>e\<in>set one. vouched p (req # reqs) (fst e)" by blast
  show ?case
    using rest(2) IH one vouched_more[of p reqs _ req] by (intro exI[of _ "reply # replies"] exI[of _ "one @ entries"]) auto
qed simp

lemma loadConfig_oidc:
  assumes "loadConfig schema_parse devNull env = Inr c" "sc_mode c \<noteq> ''stdio''"
  shows "\<exists>oa. sc_mcpAuth c = McpOidc oa"
proof -
  obtain q where q: "checkHydrated (applyRuntimeDefaults q) = Inr ()" "c = refreshRuntimeIndexes (to_runtime (applyRuntimeDefaults q))"
    using assms(1) by (auto simp: loadConfig_def Let_def res_simps split: option.splits)
  then have "sc_mcpAuth (applyRuntimeDefaults q) \<noteq> McpNone" using assms(2) by (auto simp: checkHydrated_def)
  then show ?thesis unfolding q(2) by (cases "sc_mcpAuth (applyRuntimeDefaults q)") simp_all
qed

lemma main_server_verifies:
  assumes "loadConfig schema_parse devNull env = Inr c" "sc_mode c \<noteq> ''stdio''"
    and "createProxmoxMcpHttpServer p (main_http_options c) = Inr sv"
  shows "hv_verifier sv \<noteq> None"
  using loadConfig_oidc[OF assms(1,2)] assms(3)
  by (auto simp: createProxmoxMcpHttpServer_def main_http_options_def Let_def res_simps)

lemma callTool_gate:
  "callTool S fuel granted tool s = (r, t) \<Longrightarrow> sc_mcpAuth (sv_config s) = McpOidc oa \<Longrightarrow>
     (\<exists>scopes. granted = Some scopes \<and> class_scope (scope_class tool) \<in> set scopes) \<or> (\<exists>e. r = Inl e \<and> t = s)"
  by (auto simp: callTool_def scopeCheck_def scope_table bindA_liftR_apply split: option.splits if_splits)


definition http_env :: env where
  "http_env n =
     (if n = ''PROXMOX_HOST'' then Some ''pve.lab''
      else if n = ''PROXMOX_MCP_MODE'' then Some ''http''
      else if n = ''PROXMOX_MCP_AUTH_MODE'' then Some ''oidc''
      else if n = ''PROXMOX_MCP_OIDC_ISSUER'' then Some ''https://id/''
      else if n = ''PROXMOX_MCP_OIDC_AUDIENCE'' then Some ''m''
      else if n = ''PROXMOX_MCP_HTTP_PUBLIC_BASE_URL'' then Some ''https://mcp''
      else if n = ''PROXMOX_MCP_OIDC_JWKS_URL'' then Some ''https://id/keys''
      else None)"

definition http_sample_options :: http_options where
  "http_sample_options =
     \<lparr> hs_host = Some ''127.0.0.1'', hs_port = 8080, hs_path = Some ''/mcp'', hs_publicUrl = Some ''https://mcp'', hs_resourceName = None,
       hs_resourceDocumentation = None,
       hs_auth = Some \<lparr>oo_issuer = ''https://id/'', oo_audience = ''m'', oo_jwksUri = Some ''https://id/keys'',
         oo_resourceServerUrl = Some ''https://mcp'', oo_requiredScopes = None, oo_clockSkewSeconds = None, oo_cacheTtlMs = None\<rparr> \<rparr>"

definition http_sample_request :: http_in where
  "http_sample_request = \<lparr>hi_method = Some ''POST'', hi_url = Some ''/mcp'',
     hi_headers = [(''authorization'', One (''Bearer '' @ sample_token)), (''content-type'', One ''application/json'')],
     hi_body = Inr [''[1]'']\<rparr>"

definition http_sample_start :: http_state where
  "http_sample_start = \<lparr>io_trace = [], au_cached = None, ht_delivered = []\<rparr>"

definition http_sample_run :: "http_server res \<Rightarrow> http_out list res \<times> http_state" where
  "http_sample_run r = (case r of Inl e \<Rightarrow> (Inl e, http_sample_start)
     | Inr sv \<Rightarrow> serve sample_platform (\<lambda>_ _ _. Inr (writeText 200 ''ok'' [])) sv [http_sample_request] http_sample_start)"

lemma http_sample_config:
  "\<exists>c. loadConfig Inr ''/dev/null'' http_env = Inr c \<and> sc_mode c = ''http'' \<and> main_http_options c = http_sample_options"
  by (simp add: loadConfig_def buildEnvOnlyConfig_def env_trim_def http_env_def js_trim_def js_space_def
      parseOptionalPositiveInt_def parseOptionalBoolean_def Let_def checkHydrated_def applyRuntimeDefaults_def
      env_mcpAuth_def env_secretStore_def env_localBootstrap_def js_or_def default_to_def js_or_undefined_def
      refreshRuntimeIndexes_def to_runtime_def server_config.defs runtime_config.defs main_http_options_def http_sample_options_def)


end
