(* ===== verification/AdminEnroll.thy ===== *)
theory AdminEnroll
  imports Startup Dates
begin

text \<open>
  Enrolling a cluster, src/admin-enroll.ts: a bootstrap connection runs a script on a node that creates
  the API token and the shell account, and the credentials go to the administrator's store.
\<close>

section \<open>Options\<close>

text \<open>
  A number that came from \<open>parseInt\<close> may be \<open>NaN\<close>: the token's lifetime is the JavaScript value, and a
  port that is no number is kept as 0.
\<close>

record bootstrap_connection =
  bn_host :: string
  bn_port :: "int option"
  bn_username :: string
  bn_password :: "string option"
  bn_privateKey :: "string option"
  bn_passphrase :: "string option"
  bn_hostKeyPolicy :: "string option"
  bn_expectedHostKey :: "string option"

record admin_target =
  ad_cluster :: string
  ad_node :: string
  ad_apiUser :: string
  ad_apiRealm :: string
  ad_tokenId :: string
  ad_tokenComment :: "string option"
  ad_tokenExpireSeconds :: jsval
  ad_shellUsername :: string
  ad_sudoersAllowlist :: "string list option"
  ad_shellReference :: "string option"
  ad_bootstrap :: bootstrap_connection
  ad_secretStore :: admin_store

record enrollment = admin_target +
  ad_shellKeyPair :: "(string \<times> string) option"

record command_output =
  co_node :: string
  co_fullTokenId :: string
  co_value :: string
  co_expire :: nat

record enrollment_result =
  er_cluster :: string
  er_node :: string
  er_apiTokenId :: string
  er_shellUsername :: string
  er_shellReference :: "string option"
  er_secretIds :: "string list"
  er_validated :: bool
  er_hostKeyPolicy :: string
  er_tokenExpiresAt :: "string option"

definition allowlistDefaults :: "string list" where
  "allowlistDefaults =
     [''/usr/bin/pvesh'', ''/usr/sbin/qm'', ''/usr/sbin/pct'', ''/usr/bin/pvesm'', ''/usr/sbin/pveum'', ''/usr/bin/pvenode'',
      ''/usr/bin/pvecm'', ''/usr/bin/pveceph'', ''/usr/bin/pvesr'', ''/usr/bin/vzdump'', ''/usr/bin/apt'']"

text \<open>
  \<open>commandResultSchema\<close>: a positive safe integer is accepted as the expiry; other fields of the object
  are dropped.
\<close>

definition z_expire :: "jsval \<Rightarrow> nat res" where
  "z_expire v = (case v of JNum n \<Rightarrow> if 0 < n \<and> n \<le> 9007199254740991 then Inr (nat n) else zod_error | _ \<Rightarrow> zod_error)"

definition parseCommandResult :: "jsval \<Rightarrow> command_output res" where
  "parseCommandResult v =
     (if \<not> is_jobj v then zod_error
      else rbind (z_string (jget v ''node'')) (\<lambda>node. rbind (z_string (jget v ''fullTokenId'')) (\<lambda>fullTokenId.
        rbind (z_string (jget v ''value'')) (\<lambda>val. rbind (z_expire (jget v ''expire'')) (\<lambda>expire.
        Inr \<lparr>co_node = node, co_fullTokenId = fullTokenId, co_value = val, co_expire = expire\<rparr>)))))"

section \<open>Names and records\<close>

definition buildApiTokenSecretId :: "'a admin_target_scheme \<Rightarrow> string" where
  "buildApiTokenSecretId a =
     ad_cluster a @ '':api-token:'' @ ad_apiUser a @ ''@'' @ ad_apiRealm a @ ''!'' @ ad_tokenId a"

definition buildShellKeySecretId :: "'a admin_target_scheme \<Rightarrow> string" where
  "buildShellKeySecretId a = ad_cluster a @ '':shell-key:'' @ ad_node a @ '':'' @ ad_shellUsername a"

definition buildShellReferenceSecretId :: "'a admin_target_scheme \<Rightarrow> string" where
  "buildShellReferenceSecretId a = ad_cluster a @ '':shell-reference:'' @ ad_node a @ '':'' @ ad_shellUsername a"

definition makeSecretBase :: "string \<Rightarrow> string \<Rightarrow> (string \<times> jsval) list \<Rightarrow> secret_body \<Rightarrow> secret_record" where
  "makeSecretBase timestamp i metadata b =
     \<lparr>sec_id = i, sec_createdAt = timestamp, sec_updatedAt = timestamp,
      sec_metadata = (''lifecycle'', JStr ''active'') # metadata, sec_body = b\<rparr>"

definition connection_policy :: "bootstrap_connection \<Rightarrow> string" where
  "connection_policy b = (case bn_hostKeyPolicy b of Some p \<Rightarrow> p | None \<Rightarrow> ''strict'')"

definition makeApiTokenRecord :: "string \<Rightarrow> 'a admin_target_scheme \<Rightarrow> string \<Rightarrow> string \<Rightarrow> secret_record" where
  "makeApiTokenRecord now a tokenSecret expireAt =
     makeSecretBase now (buildApiTokenSecretId a)
       [(''cluster'', JStr (ad_cluster a)), (''node'', JStr (ad_node a)), (''purpose'', JStr ''typed-api'')]
       (ApiTokenSecret (ad_apiUser a) (ad_apiRealm a) (ad_tokenId a) tokenSecret (ad_tokenComment a) (Some expireAt))"

text \<open>The members of the shell records; a host key that was not given is \<open>undefined\<close> and never printed.\<close>

definition shell_metadata :: "'a admin_target_scheme \<Rightarrow> string \<Rightarrow> bootstrap_connection \<Rightarrow> (string \<times> jsval) list" where
  "shell_metadata a purpose b =
     [(''cluster'', JStr (ad_cluster a)), (''node'', JStr (ad_node a)), (''purpose'', JStr purpose),
      (''hostKeyPolicy'', JStr (connection_policy b))] @ opt_field ''expectedHostKey'' (bn_expectedHostKey b)"

definition makeShellKeyRecord :: "string \<Rightarrow> 'a admin_target_scheme \<Rightarrow> string \<times> string \<Rightarrow> bootstrap_connection \<Rightarrow> secret_record" where
  "makeShellKeyRecord now a keyPair b =
     makeSecretBase now (buildShellKeySecretId a) (shell_metadata a ''high-risk-shell'' b)
       (ShellKeySecret (ad_shellUsername a) (fst keyPair) (snd keyPair) None)"

definition makeShellReferenceRecord :: "string \<Rightarrow> 'a admin_target_scheme \<Rightarrow> string \<Rightarrow> bootstrap_connection \<Rightarrow> secret_record" where
  "makeShellReferenceRecord now a reference b =
     makeSecretBase now (buildShellReferenceSecretId a) (shell_metadata a ''high-risk-shell-reference'' b)
       (ShellReferenceSecret (ad_shellUsername a) reference)"

section \<open>The scripts\<close>

definition buildSudoersLine :: "string \<Rightarrow> string list option \<Rightarrow> string" where
  "buildSudoersLine shellUsername allowlist =
     (let given = (case allowlist of Some a \<Rightarrow> a | None \<Rightarrow> allowlistDefaults);
          normalized = (if given \<noteq> [] then given else allowlistDefaults)
      in shellUsername @ '' ALL=(ALL) NOPASSWD: '' @ js_join '', '' normalized)"

definition tokenExpire :: "int \<Rightarrow> jsval \<Rightarrow> string" where
  "tokenExpire now seconds =
     (case seconds of JNum n \<Rightarrow> int_str (now div 1000 + n) | JUndef \<Rightarrow> int_str (now div 1000 + 20 * 60) | _ \<Rightarrow> ''NaN'')"

definition buildEnrollmentScript :: "int \<Rightarrow> 'a admin_target_scheme \<Rightarrow> string \<Rightarrow> string \<Rightarrow> string" where
  "buildEnrollmentScript now a shellPublicKey mode =
     (let expire = tokenExpire now (ad_tokenExpireSeconds a);
          allowlist = buildSudoersLine (ad_shellUsername a) (ad_sudoersAllowlist a)
      in lines_text
       [''set -euo pipefail'',
        ''api_user='' @ shellQuote (ad_apiUser a),
        ''api_realm='' @ shellQuote (ad_apiRealm a),
        ''api_userid='' @ shellQuote (ad_apiUser a @ ''@'' @ ad_apiRealm a),
        ''token_id='' @ shellQuote (ad_tokenId a),
        ''token_comment='' @ shellQuote (case ad_tokenComment a of Some c \<Rightarrow> c | None \<Rightarrow> ''proxmox-mcp admin enrollment''),
        ''token_expire='' @ shellQuote expire,
        ''shell_user='' @ shellQuote (ad_shellUsername a),
        ''shell_home='' @ shellQuote (''/home/'' @ ad_shellUsername a),
        ''shell_pubkey='' @ shellQuote shellPublicKey,
        ''sudoers_path='' @ shellQuote ''/etc/sudoers.d/proxmox-mcp-shell'',
        ''sudoers_line='' @ shellQuote allowlist,
        ''node_name=$(hostname -s 2>/dev/null || hostname)'',
        ''if ! id -u \"$shell_user\" >/dev/null 2>&1; then useradd -m -s /bin/bash \"$shell_user\"; fi'',
        ''install -d -m 0700 \"$shell_home/.ssh\"'',
        lit ''cat > \"$shell_home/.ssh/authorized_keys\" <<`EOF`'',
        shellPublicKey,
        ''EOF'',
        ''chown -R \"$shell_user:$shell_user\" \"$shell_home/.ssh\"'',
        ''chmod 0600 \"$shell_home/.ssh/authorized_keys\"'',
        ''install -d -m 0755 /etc/sudoers.d'',
        lit ''cat > \"$sudoers_path\" <<`EOF`'',
        allowlist,
        ''EOF'',
        ''chmod 0440 \"$sudoers_path\"'',
        ''if command -v visudo >/dev/null 2>&1; then visudo -cf \"$sudoers_path\" >/dev/null; fi'',
        ''pveum user add \"$api_userid\" --comment \"$token_comment\" >/dev/null 2>&1 || true'',
        ''pveum user modify \"$api_userid\" --enable 1 --comment \"$token_comment\" >/dev/null 2>&1 || true'',
        ''pveum acl modify / --users \"$api_userid\" --roles Administrator >/dev/null'',
        ''pveum user token delete \"$api_userid\" \"$token_id\" >/dev/null 2>&1 || true'',
        ''token_json=$(pveum user token add \"$api_userid\" \"$token_id\" --comment \"$token_comment\" --privsep 0 --expire \"$token_expire\" --output-format json)'',
        ''export TOKEN_JSON=\"$token_json\"'',
        ''export NODE_NAME=\"$node_name\"'',
        lit ''python3 - <<`PY`'',
        ''import json, os'',
        lit ''token = json.loads(os.environ[`TOKEN_JSON`])'',
        ''print(json.dumps({'',
        lit ''  `node`: os.environ[`NODE_NAME`],'',
        lit ''  `fullTokenId`: token[`full-tokenid`],'',
        lit ''  `value`: token[`value`],'',
        lit ''  `expire`: '' @ expire @ '','',
        lit ''  `mode`: '' @ JSON_stringify (JStr mode) @ '','',
        ''}))'',
        ''PY''])"

definition deprovisionScript :: "'a admin_target_scheme \<Rightarrow> string" where
  "deprovisionScript a = lines_text
     [''set -euo pipefail'',
      ''api_userid='' @ shellQuote (ad_apiUser a @ ''@'' @ ad_apiRealm a),
      ''token_id='' @ shellQuote (ad_tokenId a),
      ''shell_user='' @ shellQuote (ad_shellUsername a),
      ''pveum user token delete \"$api_userid\" \"$token_id\" >/dev/null 2>&1 || true'',
      ''pveum user delete \"$api_userid\" >/dev/null 2>&1 || true'',
      ''rm -f /etc/sudoers.d/proxmox-mcp-shell'',
      ''if id -u \"$shell_user\" >/dev/null 2>&1; then userdel -r \"$shell_user\" >/dev/null 2>&1 || true; fi'']"

section \<open>The bootstrap connection\<close>

definition conn_port :: "bootstrap_connection \<Rightarrow> int" where
  "conn_port b = (case bn_port b of Some p \<Rightarrow> p | None \<Rightarrow> 22)"

definition adminBootstrapProfile :: "bootstrap_connection \<Rightarrow> ssh_profile" where
  "adminBootstrapProfile b =
     \<lparr> sp_name = ''__admin_bootstrap__'', sp_username = bn_username b, sp_port = conn_port b,
       sp_privateKeyPath = None, sp_privateKey = bn_privateKey b, sp_publicKeyPath = None, sp_publicKey = None,
       sp_passphrase = bn_passphrase b, sp_password = bn_password b, sp_hostKeyPolicy = connection_policy b,
       sp_expectedHostKey = bn_expectedHostKey b, sp_shell = ''/bin/sh'', sp_prefixCommand = [] \<rparr>"

definition execBootstrapCommand :: "world \<Rightarrow> bootstrap_connection \<Rightarrow> string \<Rightarrow> ('b svc_scheme, string) act" where
  "execBootstrapCommand w b command =
     bindA (sshA w \<lparr>st_host = bn_host b, st_port = Some (conn_port b), st_profile = adminBootstrapProfile b\<rparr> command) (\<lambda>result.
     if cr_exitCode result \<noteq> 0
     then raise (or_text (cr_stderr result) (''Bootstrap command failed for '' @ bn_host b))
     else ret (js_trim (cr_stdout result)))"

text \<open>The password on the standard input of \<open>sudo\<close>; the format ends in a line feed, not in an escape.\<close>

definition admin_sudo :: "string \<Rightarrow> string \<Rightarrow> string" where
  "admin_sudo password command =
     lit ''printf `%s'' @ CHR 0x0A # lit ''` '' @ shellQuote password @ lit '' | sudo -S -p `` '' @ command"

definition detectAdminMode :: "world \<Rightarrow> bootstrap_connection \<Rightarrow> ('b svc_scheme, bootstrap_mode) act" where
  "detectAdminMode w b =
     bindA (execBootstrapCommand w b (lit ''/bin/sh -lc `id -u`'')) (\<lambda>direct.
     if js_trim direct = ''0'' then ret BootRoot
     else
       (case js_or_undefined (bn_password b) of
          None \<Rightarrow> raise ''Bootstrap SSH access requires root or password-based sudo''
        | Some password \<Rightarrow>
            bindA (execBootstrapCommand w b (''/bin/sh -lc '' @ shellQuote (admin_sudo password ''id -u''))) (\<lambda>sudoCheck.
            if js_trim sudoCheck \<noteq> ''0'' then raise ''Bootstrap account does not have root or password-based sudo access''
            else ret BootSudo)))"

definition runAdminScript :: "world \<Rightarrow> bootstrap_connection \<Rightarrow> string \<Rightarrow> ('b svc_scheme, string) act" where
  "runAdminScript w b script =
     (let body = ''printf %s '' @ shellQuote (base64_encode (utf8_encode script)) @ '' | base64 -d | bash'' in
      bindA (detectAdminMode w b) (\<lambda>mode.
      if mode = BootRoot then execBootstrapCommand w b (''/bin/sh -lc '' @ shellQuote body)
      else execBootstrapCommand w b (''/bin/sh -lc '' @
        shellQuote (admin_sudo (case bn_password b of Some p \<Rightarrow> p | None \<Rightarrow> []) (''/bin/bash -lc '' @ shellQuote body)))))"

section \<open>Validation\<close>

definition validateDocument :: "secret_document \<Rightarrow> unit res" where
  "validateDocument d =
     (if sd_version d \<noteq> 1 then Inl (''Unsupported secret document version '' @ int_str (sd_version d)) else Inr ())"

definition buildRuntimeClusterFromEnrollment :: "'a admin_target_scheme \<Rightarrow> string \<Rightarrow> cluster_config" where
  "buildRuntimeClusterFromEnrollment a tokenSecret =
     (let b = ad_bootstrap a in
      \<lparr> cl_name = ad_cluster a, cl_host = bn_host b, cl_apiPort = 8006, cl_sshPort = conn_port b,
        cl_defaultNode = None, cl_defaultBridge = ''vmbr0'', cl_defaultVmStorage = None, cl_defaultSnippetStorage = ''local'',
        cl_apiUrl = ''https://'' @ bn_host b @ '':8006'',
        cl_auth = ApiToken \<lparr>at_user = ad_apiUser a, at_realm = ad_apiRealm a, at_tokenId = ad_tokenId a, at_secret = tokenSecret\<rparr>,
        cl_tls = \<lparr>tls_rejectUnauthorized = False, tls_caFile = None\<rparr>,
        cl_nodes = [\<lparr>cn_name = ad_node a, cn_host = bn_host b, cn_port = conn_port b, cn_sshProfile = ''__validated_shell__''\<rparr>] \<rparr>)"

text \<open>
  A client of its own for a cluster that is not configured: it is asked in a state that holds only it,
  and of that state the interactions stay.
\<close>

definition scratchRequest :: "world \<Rightarrow> cluster_config \<Rightarrow> string \<Rightarrow> string \<Rightarrow> ('b svc_scheme, jsval) act" where
  "scratchRequest w cl verb path = (\<lambda>s.
     (case clientRequest w ''scratch'' verb path [] None
         (s\<lparr>sv_config := (sv_config s)\<lparr>sc_clusters := [cl]\<rparr>,
            sv_clients := [(''scratch'', \<lparr>ac_cluster = 0, ac_rejectUnauthorized = tls_rejectUnauthorized (cl_tls cl),
              ac_ca = None, ac_ticketCookie = None, ac_csrfToken = None\<rparr>)]\<rparr>) of
        (r, t) \<Rightarrow> (r, s\<lparr>io_trace := io_trace t\<rparr>)))"

definition validateApiToken :: "world \<Rightarrow> cluster_config \<Rightarrow> secret_record \<Rightarrow> ('b svc_scheme, unit) act" where
  "validateApiToken w cl r =
     (case sec_body r of
        ApiTokenSecret user realm tokenId secret _ _ \<Rightarrow>
          bindA (scratchRequest w (cl\<lparr>cl_auth := ApiToken \<lparr>at_user = user, at_realm = realm, at_tokenId = tokenId, at_secret = secret\<rparr>\<rparr>)
            ''GET'' ''/version'') (\<lambda>_. ret ())
      | _ \<Rightarrow> ret ())"

definition validateShellKey :: "world \<Rightarrow> bootstrap_connection \<Rightarrow> 'a admin_target_scheme \<Rightarrow> secret_record \<Rightarrow> ('b svc_scheme, unit) act" where
  "validateShellKey w b a r =
     (case sec_body r of
        ShellKeySecret username privateKey _ passphrase \<Rightarrow>
          bindA (sshA w \<lparr>st_host = bn_host b, st_port = Some (conn_port b),
              st_profile = (adminBootstrapProfile b)\<lparr>sp_name := ''__validated_shell__'', sp_username := username,
                sp_privateKey := Some privateKey, sp_passphrase := passphrase, sp_password := None\<rparr>\<rparr>
            ''id -u && hostname -s'') (\<lambda>result.
          if cr_exitCode result \<noteq> 0
          then raise (or_text (cr_stderr result) (''Shell validation failed for '' @ ad_shellUsername a))
          else ret ())
      | _ \<Rightarrow> ret ())"

definition createAdminStatus :: "secret_document \<Rightarrow> jsval res" where
  "createAdminStatus d =
     rbind (validateDocument d) (\<lambda>_.
     Inr (JObj [(''count'', JNum (int (length (sd_records d)))), (''records'', JArr (summarizeSecretDocument d))]))"

section \<open>Operations\<close>

text \<open>\<open>new Date(ms).toISOString()\<close> throws outside the range of dates.\<close>

definition expiry_text :: "nat \<Rightarrow> string res" where
  "expiry_text expire = (if expire * 1000 \<le> 8640000000000000 then Inr (toISOString (expire * 1000)) else Inl ''RangeError'')"

definition enrolled_document ::
    "string \<Rightarrow> 'a admin_target_scheme \<Rightarrow> string \<times> string \<Rightarrow> string \<Rightarrow> string \<Rightarrow> secret_document" where
  "enrolled_document now a keyPair tokenSecret expireAt =
     upsertSecret now (upsertSecret now (createSecretDocument now []) (makeApiTokenRecord now a tokenSecret expireAt))
       (case js_or_undefined (ad_shellReference a) of
          Some reference \<Rightarrow> makeShellReferenceRecord now a reference (ad_bootstrap a)
        | None \<Rightarrow> makeShellKeyRecord now a keyPair (ad_bootstrap a))"

definition key_pair_of :: "world \<Rightarrow> enrollment \<Rightarrow> event list \<Rightarrow> string \<times> string" where
  "key_pair_of w a tr = (case ad_shellKeyPair a of Some k \<Rightarrow> k | None \<Rightarrow> w_keyPair w tr (ad_shellUsername a))"

definition enrollment_outcome :: "enrollment \<Rightarrow> command_output \<Rightarrow> string \<Rightarrow> secret_document \<Rightarrow> enrollment_result" where
  "enrollment_outcome a parsed expireAt d =
     \<lparr> er_cluster = ad_cluster a, er_node = co_node parsed, er_apiTokenId = buildApiTokenSecretId a,
       er_shellUsername = ad_shellUsername a,
       er_shellReference = Some (case ad_shellReference a of Some r \<Rightarrow> r
         | None \<Rightarrow> ad_cluster a @ '':'' @ ad_node a @ '':'' @ ad_shellUsername a),
       er_secretIds = map sec_id (sd_records d), er_validated = True, er_hostKeyPolicy = connection_policy (ad_bootstrap a),
       er_tokenExpiresAt = Some expireAt \<rparr>"

definition enroll :: "world \<Rightarrow> url_maker \<Rightarrow> enrollment \<Rightarrow> ('b host_scheme, enrollment_result) act" where
  "enroll w mkUrl a =
     bindA (getsA (\<lambda>s. key_pair_of w a (io_trace s))) (\<lambda>keyPair.
     bindA (nowA w) (\<lambda>now.
     bindA (runAdminScript w (ad_bootstrap a) (buildEnrollmentScript now a (snd keyPair) ''enroll'')) (\<lambda>stdout.
     bindA (liftR (rbind (parse_json_body stdout) parseCommandResult)) (\<lambda>parsed.
     bindA (liftR (expiry_text (co_expire parsed))) (\<lambda>expireAt.
     bindA (nowIsoA w) (\<lambda>timestamp.
     let d = enrolled_document timestamp a keyPair (co_value parsed) expireAt in
     seqA (writeStore w mkUrl (ad_secretStore a) d)
    (seqA (case getSecret d (buildApiTokenSecretId a) of
             Some r \<Rightarrow> validateApiToken w (buildRuntimeClusterFromEnrollment a (co_value parsed)) r | None \<Rightarrow> raise ''TypeError'')
    (seqA (if js_truthy (ad_shellReference a) then ret ()
           else (case getSecret d (buildShellKeySecretId a) of
             Some r \<Rightarrow> validateShellKey w (ad_bootstrap a) a r | None \<Rightarrow> raise ''TypeError''))
      (ret (enrollment_outcome a parsed expireAt d))))))))))"

text \<open>\<open>retainOldSecrets\<close> is not read by the code.\<close>

definition rotate_secrets :: "world \<Rightarrow> url_maker \<Rightarrow> enrollment \<Rightarrow> ('b host_scheme, enrollment_result \<times> string list) act" where
  "rotate_secrets w mkUrl a =
     bindA (readStore w mkUrl (ad_secretStore a)) (\<lambda>current.
     bindA (enroll w mkUrl a) (\<lambda>enrollment. ret (enrollment, map sec_id (sd_records current))))"

definition admin_status :: "world \<Rightarrow> url_maker \<Rightarrow> admin_store \<Rightarrow> ('b host_scheme, jsval) act" where
  "admin_status w mkUrl st = bindA (readStore w mkUrl st) (\<lambda>d. liftR (createAdminStatus d))"

definition deprovision :: "world \<Rightarrow> url_maker \<Rightarrow> 'a admin_target_scheme \<Rightarrow> ('b host_scheme, bool \<times> string list) act" where
  "deprovision w mkUrl a =
     bindA (readStore w mkUrl (ad_secretStore a)) (\<lambda>d.
     let retiredSecretIds = map sec_id (sd_records d) in
     if getSecret d (buildApiTokenSecretId a) = None \<and> getSecret d (buildShellKeySecretId a) = None \<and>
        getSecret d (buildShellReferenceSecretId a) = None
     then ret (False, retiredSecretIds)
     else
       bindA (runAdminScript w (ad_bootstrap a) (deprovisionScript a)) (\<lambda>_.
       seqA (deleteStore w mkUrl (ad_secretStore a)) (ret (True, retiredSecretIds))))"

section \<open>What an enrollment leaves in the store\<close>

lemma ids_differ:
  "buildShellKeySecretId a \<noteq> buildApiTokenSecretId a" "buildShellReferenceSecretId a \<noteq> buildApiTokenSecretId a"
  by (simp_all add: buildShellKeySecretId_def buildShellReferenceSecretId_def buildApiTokenSecretId_def)

text \<open>The document holds the token and one shell record, and nothing else.\<close>

definition shell_record :: "string \<Rightarrow> 'a admin_target_scheme \<Rightarrow> string \<times> string \<Rightarrow> secret_record" where
  "shell_record now a keyPair = (case js_or_undefined (ad_shellReference a) of
     Some reference \<Rightarrow> makeShellReferenceRecord now a reference (ad_bootstrap a)
   | None \<Rightarrow> makeShellKeyRecord now a keyPair (ad_bootstrap a))"

lemma enrolled_document_records:
  "enrolled_document now a keyPair tokenSecret expireAt =
     createSecretDocument now [makeApiTokenRecord now a tokenSecret expireAt, shell_record now a keyPair]"
  using ids_differ[of a]
  by (auto simp: enrolled_document_def upsertSecret_def createSecretDocument_def makeApiTokenRecord_def shell_record_def
      makeShellKeyRecord_def makeShellReferenceRecord_def makeSecretBase_def split: option.split)

definition identity_ok :: "'a admin_target_scheme \<Rightarrow> string \<times> string \<Rightarrow> bool" where
  "identity_ok a keyPair \<longleftrightarrow> ad_apiUser a \<noteq> [] \<and> ad_apiRealm a \<noteq> [] \<and> ad_tokenId a \<noteq> [] \<and> ad_shellUsername a \<noteq> [] \<and>
     fst keyPair \<noteq> [] \<and> snd keyPair \<noteq> []"

lemma shell_metadata_normal: "jnormal (JObj ((''lifecycle'', JStr ''active'') # shell_metadata a purpose b))"
  by (cases "bn_expectedHostKey b") (simp_all add: shell_metadata_def opt_field_def)

lemma enrolled_document_ok:
  assumes "identity_ok a keyPair" "tokenSecret \<noteq> []" "now \<noteq> []"
  shows "doc_ok (enrolled_document now a keyPair tokenSecret expireAt)"
proof -
  have "secret_ok (makeApiTokenRecord now a tokenSecret expireAt)"
    using assms by (simp add: secret_ok_def makeApiTokenRecord_def makeSecretBase_def buildApiTokenSecretId_def identity_ok_def)
  moreover have "secret_ok (shell_record now a keyPair)"
    using assms shell_metadata_normal
    by (auto simp: shell_record_def secret_ok_def makeShellKeyRecord_def makeShellReferenceRecord_def makeSecretBase_def
        buildShellKeySecretId_def buildShellReferenceSecretId_def identity_ok_def js_or_undefined_def split: option.splits if_splits)
  moreover have "sec_id (shell_record now a keyPair) \<noteq> sec_id (makeApiTokenRecord now a tokenSecret expireAt)"
    using ids_differ[of a]
    by (auto simp: shell_record_def makeShellKeyRecord_def makeShellReferenceRecord_def makeApiTokenRecord_def makeSecretBase_def
        split: option.split)
  ultimately show ?thesis
    using assms(3) by (auto simp: enrolled_document_records doc_ok_def createSecretDocument_def)
qed

text \<open>The bundle that the server makes of it: the token always, the shell only with a key and its host key.\<close>

definition enrolled_token :: "'a admin_target_scheme \<Rightarrow> string \<Rightarrow> api_token_auth" where
  "enrolled_token a tokenSecret =
     \<lparr>at_user = ad_apiUser a, at_realm = ad_apiRealm a, at_tokenId = ad_tokenId a, at_secret = tokenSecret\<rparr>"

lemma enrolled_bundle:
  fixes collate now expireAt
  assumes "identity_ok a keyPair" "tokenSecret \<noteq> []"
  defines "b \<equiv> bundleFromAdminSecretDocument collate (enrolled_document now a keyPair tokenSecret expireAt) (ad_cluster a)"
  shows "apiTokenConfigured b" "bundle_token b = enrolled_token a tokenSecret"
    "shellSecretConfigured b \<longleftrightarrow> js_or_undefined (ad_shellReference a) = None \<and> js_or_undefined (bn_expectedHostKey (ad_bootstrap a)) \<noteq> None"
proof -
  let ?tok = "makeApiTokenRecord now a tokenSecret expireAt" and ?sh = "shell_record now a keyPair"
  have tok: "active_record ''proxmox_api_token'' (ad_cluster a) ?tok" "\<not> active_record ''shell_ssh_key'' (ad_cluster a) ?tok"
    by (simp_all add: active_record_def makeApiTokenRecord_def makeSecretBase_def metadata_of_def jget_def)
  have sh: "\<not> active_record ''proxmox_api_token'' (ad_cluster a) ?sh"
    "active_record ''shell_ssh_key'' (ad_cluster a) ?sh \<longleftrightarrow> js_or_undefined (ad_shellReference a) = None"
    by (auto simp: active_record_def shell_record_def makeShellKeyRecord_def makeShellReferenceRecord_def makeSecretBase_def
        metadata_of_def jget_def shell_metadata_def split: option.split)
  have api: "latestActiveRecord collate [?tok, ?sh] ''proxmox_api_token'' (ad_cluster a) = Some ?tok"
    using tok sh by (simp add: latestActiveRecord_def)
  have shell: "latestActiveRecord collate [?tok, ?sh] ''shell_ssh_key'' (ad_cluster a) =
      (if js_or_undefined (ad_shellReference a) = None then Some ?sh else None)"
    using tok sh by (simp add: latestActiveRecord_def)
  have bundle_is: "b = JObj ([(''cluster'', JStr (ad_cluster a)), (''apiToken'', api_token_bundle ?tok)] @
      (if js_or_undefined (ad_shellReference a) = None \<and> shell_bundle ?sh \<noteq> JUndef then [(''shellSsh'', shell_bundle ?sh)] else []))"
    unfolding b_def by (simp add: bundleFromAdminSecretDocument_def enrolled_document_records createSecretDocument_def api shell Let_def)
      (simp add: api_token_bundle_def makeApiTokenRecord_def makeSecretBase_def)
  then have token: "jget b ''apiToken'' = api_token_bundle ?tok" by (simp add: jget_def)
  show "apiTokenConfigured b" "bundle_token b = enrolled_token a tokenSecret"
    using assms(1,2)
    by (simp_all add: apiTokenConfigured_def bundle_token_def Let_def token enrolled_token_def api_token_bundle_def
        makeApiTokenRecord_def makeSecretBase_def jget_fields js_truth_def identity_ok_def)
  have "js_or_undefined (ad_shellReference a) = None \<Longrightarrow> shell_bundle ?sh =
      (case bn_expectedHostKey (ad_bootstrap a) of None \<Rightarrow> JUndef | Some k \<Rightarrow>
        JObj [(''username'', JStr (ad_shellUsername a)), (''privateKey'', JStr (fst keyPair)), (''publicKey'', JStr (snd keyPair)),
          (''passphrase'', JUndef), (''expectedHostKey'', JStr k), (''hostKeyPolicy'', JStr (connection_policy (ad_bootstrap a))),
          (''createdAt'', JStr now)])"
    by (auto simp: shell_bundle_def shell_record_def makeShellKeyRecord_def makeSecretBase_def metadata_of_def jget_def
        shell_metadata_def opt_field_def is_jstr_def of_str_opt_def split: option.split)
  then show "shellSecretConfigured b \<longleftrightarrow> js_or_undefined (ad_shellReference a) = None \<and>
      js_or_undefined (bn_expectedHostKey (ad_bootstrap a)) \<noteq> None"
    using assms(1) unfolding bundle_is
    by (auto simp: shellSecretConfigured_def jget_def js_truth_def identity_ok_def js_or_undefined_def split: option.splits)
qed

section \<open>From enrolling to serving\<close>

lemma same_files:
  "ho_files (snd (validateApiToken w cl r s)) = ho_files s" "ho_files (snd (validateShellKey w b a r s)) = ho_files s"
  by (auto simp: validateApiToken_def validateShellKey_def scratchRequest_def bindA_apply sshA_def interact_def
      split: secret_body.splits prod.splits sum.splits)

lemma parse_member: "parseCommandResult v = Inr c \<Longrightarrow> co_value c \<noteq> []"
  by (auto simp: parseCommandResult_def res_simps z_string_def zod_error_def split: if_splits jsval.splits)

text \<open>A successful enrollment: the script printed a token, and the document with it was written last.\<close>

lemma enroll_run:
  assumes "enroll w mkUrl a s = (Inr r, t)"
  shows "\<exists>stdout parsed expireAt timestamp s1 s2.
    runAdminScript w (ad_bootstrap a) (buildEnrollmentScript (w_now w (io_trace s)) a (snd (key_pair_of w a (io_trace s))) ''enroll'') s =
      (Inr stdout, s1) \<and>
    rbind (parse_json_body stdout) parseCommandResult = Inr parsed \<and> expiry_text (co_expire parsed) = Inr expireAt \<and>
    timestamp = w_nowIso w (io_trace s1) \<and>
    writeStore w mkUrl (ad_secretStore a)
      (enrolled_document timestamp a (key_pair_of w a (io_trace s)) (co_value parsed) expireAt) s1 = (Inr (), s2) \<and>
    ho_files t = ho_files s2"
proof -
  let ?k = "key_pair_of w a (io_trace s)"
  obtain stdout s1 where run: "runAdminScript w (ad_bootstrap a) (buildEnrollmentScript (w_now w (io_trace s)) a (snd ?k) ''enroll'') s =
      (Inr stdout, s1)"
    using assms by (auto simp: enroll_def nowA_def bindA_apply split: prod.splits sum.splits)
  obtain parsed expireAt where parsed: "rbind (parse_json_body stdout) parseCommandResult = Inr parsed"
      "expiry_text (co_expire parsed) = Inr expireAt"
    using assms run by (auto simp: enroll_def nowA_def bindA_apply liftR_def split: prod.splits sum.splits)
  define d where "d = enrolled_document (w_nowIso w (io_trace s1)) a ?k (co_value parsed) expireAt"
  have rest: "seqA (writeStore w mkUrl (ad_secretStore a) d)
    (seqA (case getSecret d (buildApiTokenSecretId a) of
             Some r \<Rightarrow> validateApiToken w (buildRuntimeClusterFromEnrollment a (co_value parsed)) r | None \<Rightarrow> raise ''TypeError'')
    (seqA (if js_truthy (ad_shellReference a) then ret ()
           else (case getSecret d (buildShellKeySecretId a) of
             Some r \<Rightarrow> validateShellKey w (ad_bootstrap a) a r | None \<Rightarrow> raise ''TypeError''))
      (ret (enrollment_outcome a parsed expireAt d)))) s1 = (Inr r, t)"
    unfolding d_def using assms run parsed by (simp add: enroll_def nowA_def bindA_apply liftR_def nowIsoA_def Let_def)
  from seqA_ok[OF rest] obtain s2 where s2: "writeStore w mkUrl (ad_secretStore a) d s1 = (Inr (), s2)"
    "seqA (case getSecret d (buildApiTokenSecretId a) of
             Some r \<Rightarrow> validateApiToken w (buildRuntimeClusterFromEnrollment a (co_value parsed)) r | None \<Rightarrow> raise ''TypeError'')
    (seqA (if js_truthy (ad_shellReference a) then ret ()
           else (case getSecret d (buildShellKeySecretId a) of
             Some r \<Rightarrow> validateShellKey w (ad_bootstrap a) a r | None \<Rightarrow> raise ''TypeError''))
      (ret (enrollment_outcome a parsed expireAt d))) s2 = (Inr r, t)" by blast
  have keep: "keeps (\<lambda>s t. ho_files t = ho_files s) (case g of Some r \<Rightarrow> validateApiToken w cl r | None \<Rightarrow> raise e)"
    "keeps (\<lambda>s t. ho_files t = ho_files s) (case g of Some r \<Rightarrow> validateShellKey w b a' r | None \<Rightarrow> raise e)"
    for g cl e b and a' :: enrollment
    by (auto simp: keeps_def same_files raise_def split: option.split)
  from seqA_ok[OF s2(2)] obtain s3 where s3: "(case getSecret d (buildApiTokenSecretId a) of
        Some r \<Rightarrow> validateApiToken w (buildRuntimeClusterFromEnrollment a (co_value parsed)) r | None \<Rightarrow> raise ''TypeError'') s2 = (Inr (), s3)"
    "seqA (if js_truthy (ad_shellReference a) then ret ()
           else (case getSecret d (buildShellKeySecretId a) of
             Some r \<Rightarrow> validateShellKey w (ad_bootstrap a) a r | None \<Rightarrow> raise ''TypeError''))
      (ret (enrollment_outcome a parsed expireAt d)) s3 = (Inr r, t)" by blast
  from seqA_ok[OF s3(2)] have "(if js_truthy (ad_shellReference a) then ret ()
           else (case getSecret d (buildShellKeySecretId a) of
             Some r \<Rightarrow> validateShellKey w (ad_bootstrap a) a r | None \<Rightarrow> raise ''TypeError'')) s3 = (Inr (), t)" by auto
  then have "ho_files t = ho_files s3" using keepsD[OF keep(2)] by (auto split: if_splits)
  moreover have "ho_files s3 = ho_files s2" using keepsD[OF keep(1) s3(1)] .
  ultimately show ?thesis using run parsed s2(1) unfolding d_def by auto
qed

lemma fileSecretsGet_document:
  assumes "disk_works w" "doc_ok d" "map_of (ho_files s) p = Some (utf8_encode (safeJson (document_json d) @ [CHR 0x0A]))"
  shows "fst (fileSecretsGet w p c s) = Inr (bundleFromAdminSecretDocument (w_collate w) d c)"
proof -
  have "has_key ''records'' (document_json d)" by (simp add: has_key_def document_json_def)
  then show ?thesis
    using assms(2)
    by (simp add: fileSecretsGet_def catchA_def bindA_apply readTextA_works[OF assms(1)] assms(3) js_or_undefined_def
        parse_json_body_def JSON_parse_line document_normal bundleFromUnknownA_def nowIsoA_def bundleFromUnknownDocument_def
        normalize_document_json liftR_def)
qed

lemma initialize_single:
  assumes clusters: "sc_clusters c = [cl]" "cl_auth cl = SecretRef sc" "sc_secretStore c = StoreFile p"
    and config: "sv_config s = refreshRuntimeIndexes c"
    and read: "fst (fileSecretsGet w p (bundle_name sc (cl_name cl)) s) = Inr b" and token: "apiTokenConfigured b"
  shows "\<exists>u. initializeRuntimeConfig w env s = (Inr (RsFile p, False), u) \<and> auths u = [ApiToken (bundle_token b)]"
proof -
  have c: "sc_clusters (sv_config s) = [cl]" "auths s = [SecretRef sc]" by (simp_all add: config clusters auths_def)
  have named: "named s"
    using clusters by (simp add: named_def names_indexed_def config) (simp add: refreshRuntimeIndexes_def)
  obtain s1 where s1: "getClusterSecrets w (RsFile p) (bundle_name sc (cl_name cl)) s = (Inr b, s1)"
    using read by (cases "fileSecretsGet w p (bundle_name sc (cl_name cl)) s") simp
  obtain u where u: "hydrateCluster w (RsFile p) 0 s = (Inr (), u)" "auths u = [ApiToken (bundle_token b)]"
    using hydrateCluster_succeeds[OF named, of 0 sc w "RsFile p" b s1] c s1 token by auto
  have store: "createSecretStore env (sv_config s) = Inr (RsFile p)"
    by (simp add: createSecretStore_def config clusters(3))
  have "auths (u\<lparr>sv_config := refreshRuntimeIndexes (sv_config u)\<rparr>) = auths u" by (simp add: auths_def)
  moreover have "\<not> any_auth is_bootstrap (sv_config (u\<lparr>sv_config := refreshRuntimeIndexes (sv_config u)\<rparr>))"
    unfolding any_auth_auths using calculation u(2) by simp
  ultimately show ?thesis
    using u store c clusters(2)
    by (intro exI[of _ "u\<lparr>sv_config := refreshRuntimeIndexes (sv_config u)\<rparr>"])
      (simp add: initializeRuntimeConfig_def bindA_liftR_apply seqA_def bindA_apply any_auth_def hydrateSteadyStateSecrets_def
        modify_config_def)
qed

lemma enroll_leaves:
  assumes works: "disk_works w" "clock_works w"
    and store: "ad_secretStore a = AdminFile p" and ident: "identity_ok a (key_pair_of w a (io_trace s))"
    and enrolled: "enroll w mkUrl a s = (Inr r, t)"
  obtains now stdout s1 parsed timestamp expireAt where
    "runAdminScript w (ad_bootstrap a) (buildEnrollmentScript now a (snd (key_pair_of w a (io_trace s))) ''enroll'') s = (Inr stdout, s1)"
    "rbind (parse_json_body stdout) parseCommandResult = Inr parsed" "co_value parsed \<noteq> []"
    "doc_ok (enrolled_document timestamp a (key_pair_of w a (io_trace s)) (co_value parsed) expireAt)"
    "map_of (ho_files t) p = Some (utf8_encode (safeJson (document_json
       (enrolled_document timestamp a (key_pair_of w a (io_trace s)) (co_value parsed) expireAt)) @ [CHR 0x0A]))"
proof -
  from enroll_run[OF enrolled] obtain stdout parsed expireAt timestamp s1 s2 where run:
    "runAdminScript w (ad_bootstrap a) (buildEnrollmentScript (w_now w (io_trace s)) a (snd (key_pair_of w a (io_trace s))) ''enroll'') s =
      (Inr stdout, s1)"
    and parsed: "rbind (parse_json_body stdout) parseCommandResult = Inr parsed"
    and now: "timestamp = w_nowIso w (io_trace s1)"
    and wrote: "writeStore w mkUrl (ad_secretStore a)
      (enrolled_document timestamp a (key_pair_of w a (io_trace s)) (co_value parsed) expireAt) s1 = (Inr (), s2)"
    and files: "ho_files t = ho_files s2"
    by (elim exE conjE) rule
  have val: "co_value parsed \<noteq> []" using parsed parse_member by (auto simp: res_simps)
  have ok: "doc_ok (enrolled_document timestamp a (key_pair_of w a (io_trace s)) (co_value parsed) expireAt)"
    by (rule enrolled_document_ok[OF ident val]) (use works(2) now in \<open>simp add: clock_works_def\<close>)
  show thesis
    by (rule that[OF run parsed val ok]) (use atomicWriteJson_files[OF works(1) ok] wrote store files in simp)
qed

text \<open>
  C8. What an administrator enrolls, the server can use: after an enrollment into a secrets file on a
  working disk, a server configured with that file and a reference to the cluster starts, and its
  credentials are the API token that the script on the node printed, under the enrolled identity.
\<close>

theorem enrolled_cluster_starts:
  assumes works: "disk_works w" "clock_works w"
    and store: "ad_secretStore a = AdminFile p" and ident: "identity_ok a (key_pair_of w a (io_trace s))"
    and enrolled: "enroll w mkUrl a s = (Inr r, t)"
    and config: "sc_clusters c = [cl]" "cl_auth cl = SecretRef sc" "bundle_name sc (cl_name cl) = ad_cluster a"
      "sc_secretStore c = StoreFile p"
    and server: "ho_files v = ho_files t" "sv_config v = refreshRuntimeIndexes c"
  shows "\<exists>now stdout s1 parsed u.
    runAdminScript w (ad_bootstrap a) (buildEnrollmentScript now a (snd (key_pair_of w a (io_trace s))) ''enroll'') s = (Inr stdout, s1) \<and>
    rbind (parse_json_body stdout) parseCommandResult = Inr parsed \<and>
    initializeRuntimeConfig w env v = (Inr (RsFile p, False), u) \<and>
    map cl_auth (sc_clusters (sv_config u)) = [ApiToken (enrolled_token a (co_value parsed))]"
proof -
  obtain now stdout s1 parsed timestamp expireAt where run:
    "runAdminScript w (ad_bootstrap a) (buildEnrollmentScript now a (snd (key_pair_of w a (io_trace s))) ''enroll'') s = (Inr stdout, s1)"
    and parsed: "rbind (parse_json_body stdout) parseCommandResult = Inr parsed" and val: "co_value parsed \<noteq> []"
    and ok: "doc_ok (enrolled_document timestamp a (key_pair_of w a (io_trace s)) (co_value parsed) expireAt)"
    and stored: "map_of (ho_files t) p = Some (utf8_encode (safeJson (document_json
       (enrolled_document timestamp a (key_pair_of w a (io_trace s)) (co_value parsed) expireAt)) @ [CHR 0x0A]))"
    using enroll_leaves[OF works store ident enrolled] .
  define d where "d = enrolled_document timestamp a (key_pair_of w a (io_trace s)) (co_value parsed) expireAt"
  have "map_of (ho_files v) p = Some (utf8_encode (safeJson (document_json d) @ [CHR 0x0A]))"
    using stored server(1) by (simp add: d_def)
  from fileSecretsGet_document[OF works(1) ok[folded d_def] this, of "ad_cluster a"]
  have read: "fst (fileSecretsGet w p (bundle_name sc (cl_name cl)) v) = Inr (bundleFromAdminSecretDocument (w_collate w) d (ad_cluster a))"
    by (simp add: config(3))
  note bundle_ok = enrolled_bundle[OF ident val, of "w_collate w" timestamp expireAt, folded d_def]
  from initialize_single[OF config(1,2,4) server(2) read bundle_ok(1), of env]
  obtain u where "initializeRuntimeConfig w env v = (Inr (RsFile p, False), u)" "auths u = [ApiToken (enrolled_token a (co_value parsed))]"
    using bundle_ok(2) by auto
  then show ?thesis using run parsed by (auto simp: auths_def)
qed

definition enroll_world :: world where
  "enroll_world = sample_world\<lparr>w_ssh := (\<lambda>tr _ _. Inr (ok_command
     (if tr = [] then ''0'' else ''{\"node\":\"pve\",\"fullTokenId\":\"mcp@pam!mcp\",\"value\":\"t0\",\"expire\":9}'')))\<rparr>"

definition sample_enrollment :: enrollment where
  "sample_enrollment = \<lparr>ad_cluster = ''lab'', ad_node = ''pve'', ad_apiUser = ''mcp'', ad_apiRealm = ''pam'', ad_tokenId = ''mcp'',
     ad_tokenComment = None, ad_tokenExpireSeconds = JUndef, ad_shellUsername = ''sh'', ad_sudoersAllowlist = None,
     ad_shellReference = Some ''vault:x'',
     ad_bootstrap = \<lparr>bn_host = ''10.0.0.1'', bn_port = None, bn_username = ''root'', bn_password = Some ''pw'', bn_privateKey = None,
       bn_passphrase = None, bn_hostKeyPolicy = None, bn_expectedHostKey = None\<rparr>,
     ad_secretStore = AdminFile ''/a'', ad_shellKeyPair = Some (''priv'', ''pub'')\<rparr>"

definition file_config :: runtime_config where
  "file_config = to_runtime (sample_server\<lparr>sc_secretStore := StoreFile ''/a'',
     sc_clusters := [sample_cluster\<lparr>cl_auth := SecretRef None\<rparr>]\<rparr>)"

theorem enrolled_cluster_starts_witness:
  "\<exists>r t u. enroll enroll_world (\<lambda>_ _. Inl []) sample_enrollment sample_host = (Inr r, t) \<and>
     initializeRuntimeConfig enroll_world (\<lambda>_. None) (t\<lparr>sv_config := refreshRuntimeIndexes file_config\<rparr>) = (Inr (RsFile ''/a'', False), u) \<and>
     length (sc_clusters (sv_config u)) = 1"
proof -
  let ?json = "''{\"node\":\"pve\",\"fullTokenId\":\"mcp@pam!mcp\",\"value\":\"t0\",\"expire\":9}''"
  let ?parsed = "\<lparr>co_node = ''pve'', co_fullTokenId = ''mcp@pam!mcp'', co_value = ''t0'', co_expire = 9\<rparr>"
  have trims: "js_trim ''0'' = ''0''" "js_trim ?json = ?json" by code_simp+
  have parse: "rbind (parse_json_body ?json) parseCommandResult = Inr ?parsed" by code_simp
  have expiry: "expiry_text 9 = Inr (toISOString 9000)" by (simp add: expiry_text_def)
  have works: "disk_works enroll_world" "clock_works enroll_world"
    by (simp_all add: disk_works_def clock_works_def enroll_world_def sample_world_def)
  have pair: "key_pair_of enroll_world sample_enrollment tr = (''priv'', ''pub'')" for tr
    by (simp add: key_pair_of_def sample_enrollment_def)
  have ident: "identity_ok sample_enrollment (''priv'', ''pub'')" by (simp add: identity_ok_def sample_enrollment_def)
  have start: "io_trace sample_host = []" by (simp add: sample_host_def svc.extend_def host.fields_def sample_svc_def)
  obtain s1 where script: "runAdminScript enroll_world (ad_bootstrap sample_enrollment) script sample_host = (Inr ?json, s1 script)" for script
    using trims start
    by (simp add: runAdminScript_def detectAdminMode_def execBootstrapCommand_def Let_def bindA_apply sshA_def interact_def
        enroll_world_def ok_command_def)
  define script where "script = buildEnrollmentScript (w_now enroll_world (io_trace sample_host)) sample_enrollment ''pub'' ''enroll''"
  define d where "d = enrolled_document (w_nowIso enroll_world (io_trace (s1 script))) sample_enrollment (''priv'', ''pub'') ''t0'' (toISOString 9000)"
  have ok: "doc_ok d" unfolding d_def by (rule enrolled_document_ok[OF ident]) (use works(2) in \<open>simp_all add: clock_works_def\<close>)
  obtain s2 where wrote: "atomicWriteJson enroll_world ''/a'' d (s1 script) = (Inr (), s2)"
    using atomicWriteJson_works[OF works(1) ok] by blast
  have token: "getSecret d (buildApiTokenSecretId sample_enrollment) =
      Some (makeApiTokenRecord (w_nowIso enroll_world (io_trace (s1 script))) sample_enrollment ''t0'' (toISOString 9000))"
    by (simp add: d_def enrolled_document_records createSecretDocument_def getSecret_def makeApiTokenRecord_def makeSecretBase_def)
  have valid: "fst (validateApiToken enroll_world cl (makeApiTokenRecord x sample_enrollment y z) u) = Inr ()" for cl x y z and u :: host
    by (simp add: validateApiToken_def makeApiTokenRecord_def makeSecretBase_def scratchRequest_def clientRequest_def bindA_apply
        buildHeaders_def client_cluster_def client_of_def fetchA_def interact_def enroll_world_def sample_world_def Let_def
        response_payload_def ok_status_def split: prod.split)
  let ?cl = "buildRuntimeClusterFromEnrollment sample_enrollment ''t0''"
  obtain s3 where checked: "validateApiToken enroll_world ?cl (makeApiTokenRecord (w_nowIso enroll_world (io_trace (s1 script)))
      sample_enrollment ''t0'' (toISOString 9000)) s2 = (Inr (), s3)"
    using valid by (metis prod.collapse)
  have options: "ad_secretStore sample_enrollment = AdminFile ''/a''" "js_truthy (ad_shellReference sample_enrollment)"
    by (simp_all add: sample_enrollment_def)
  have "fst (enroll enroll_world (\<lambda>_ _. Inl []) sample_enrollment sample_host) =
      Inr (enrollment_outcome sample_enrollment ?parsed (toISOString 9000) d)"
    using script[of script] parse expiry wrote[unfolded d_def] token[unfolded d_def] checked options
    by (simp add: enroll_def pair nowA_def bindA_apply script_def[symmetric] liftR_def nowIsoA_def Let_def seqA_def d_def)
  then obtain r t where run: "enroll enroll_world (\<lambda>_ _. Inl []) sample_enrollment sample_host = (Inr r, t)"
    by (metis prod.collapse)
  have c: "sc_clusters file_config = [sample_cluster\<lparr>cl_auth := SecretRef None\<rparr>]" "sc_secretStore file_config = StoreFile ''/a''"
    by (simp_all add: file_config_def to_runtime_def server_config.defs runtime_config.defs sample_server_def)
  have name: "bundle_name None (cl_name (sample_cluster\<lparr>cl_auth := SecretRef None\<rparr>)) = ad_cluster sample_enrollment"
    by (simp add: bundle_name_def sample_cluster_def sample_enrollment_def)
  have "\<exists>u. initializeRuntimeConfig enroll_world (\<lambda>_. None) (t\<lparr>sv_config := refreshRuntimeIndexes file_config\<rparr>) = (Inr (RsFile ''/a'', False), u) \<and>
      length (sc_clusters (sv_config u)) = 1"
    using enrolled_cluster_starts[OF works options(1) _ run c(1) _ name c(2), of "t\<lparr>sv_config := refreshRuntimeIndexes file_config\<rparr>" "\<lambda>_. None"]
      ident by (auto simp: pair dest: arg_cong[where f = length])
  then show ?thesis using run by blast
qed

text \<open>The file then knows only this cluster: whatever else it held is gone.\<close>

lemma enroll_forgets_others:
  assumes works: "disk_works w" "clock_works w"
    and store: "ad_secretStore a = AdminFile p" and ident: "identity_ok a (key_pair_of w a (io_trace s))"
    and enrolled: "enroll w mkUrl a s = (Inr r, t)" and other: "c \<noteq> ad_cluster a"
  shows "fst (fileSecretsGet w p c t) = Inr JUndef"
proof -
  obtain now stdout s1 parsed timestamp expireAt where
    "runAdminScript w (ad_bootstrap a) (buildEnrollmentScript now a (snd (key_pair_of w a (io_trace s))) ''enroll'') s = (Inr stdout, s1)"
    "rbind (parse_json_body stdout) parseCommandResult = Inr parsed" "co_value parsed \<noteq> []"
    and ok: "doc_ok (enrolled_document timestamp a (key_pair_of w a (io_trace s)) (co_value parsed) expireAt)"
    and stored: "map_of (ho_files t) p = Some (utf8_encode (safeJson (document_json
       (enrolled_document timestamp a (key_pair_of w a (io_trace s)) (co_value parsed) expireAt)) @ [CHR 0x0A]))"
    using enroll_leaves[OF works store ident enrolled] .
  note fileSecretsGet_document[OF works(1) ok stored, of c]
  moreover have "\<not> active_record kind c (makeApiTokenRecord timestamp a x y)" "\<not> active_record kind c (shell_record timestamp a k)" for kind x y k
    using other by (auto simp: active_record_def makeApiTokenRecord_def shell_record_def makeShellKeyRecord_def makeShellReferenceRecord_def
        makeSecretBase_def metadata_of_def jget_def shell_metadata_def split: option.split)
  ultimately show ?thesis
    by (simp add: enrolled_document_records createSecretDocument_def bundleFromAdminSecretDocument_def latestActiveRecord_def)
qed

end
