(* ===== verification/AdminCli.thy ===== *)
theory AdminCli
  imports AdminEnroll
begin

text \<open>
  The administrator's command line, src/admin-cli.ts: flags, the connection and store they name, and
  the four commands.
\<close>

section \<open>Flags\<close>

datatype arg = Flag | Text string | Texts "string list"

text \<open>Options by name; names of members that every JavaScript object inherits are left aside.\<close>

type_synonym admin_options = "(string, arg) omap"

record parsed_args =
  pa_command :: string
  pa_options :: admin_options

definition option_key :: "string \<Rightarrow> bool" where
  "option_key entry \<longleftrightarrow> js_startsWith entry ''--''"

fun add_value :: "arg option \<Rightarrow> string \<Rightarrow> arg" where
  "add_value None next = Text next"
| "add_value (Some Flag) next = Texts [''true'', next]"
| "add_value (Some (Text s)) next = Texts [s, next]"
| "add_value (Some (Texts ss)) next = Texts (ss @ [next])"

fun parseFlags :: "string list \<Rightarrow> admin_options \<Rightarrow> admin_options res" where
  "parseFlags [] options = Inr options"
| "parseFlags [entry] options =
     (if \<not> option_key entry then Inl (''Unexpected positional argument '' @ squoted entry)
      else Inr (AList.update (drop 2 entry) Flag options))"
| "parseFlags (entry # next # rest) options =
     (if \<not> option_key entry then Inl (''Unexpected positional argument '' @ squoted entry)
      else if option_key next then parseFlags (next # rest) (AList.update (drop 2 entry) Flag options)
      else parseFlags rest (AList.update (drop 2 entry) (add_value (map_of options (drop 2 entry)) next) options))"

definition admin_commands :: "string list" where
  "admin_commands = [''enroll'', ''rotate'', ''status'', ''deprovision'']"

definition parseAdminArgs :: "string list \<Rightarrow> parsed_args res" where
  "parseAdminArgs argv =
     (case argv of
        [] \<Rightarrow> Inl ''Usage: proxmox-mcp-admin <enroll|rotate|status|deprovision> [--flags]''
      | command # rest \<Rightarrow>
          if command \<notin> set admin_commands
          then Inl ''Usage: proxmox-mcp-admin <enroll|rotate|status|deprovision> [--flags]''
          else rbind (parseFlags rest []) (\<lambda>options. Inr \<lparr>pa_command = command, pa_options = options\<rparr>))"

definition text_boolean :: "string \<Rightarrow> bool option" where
  "text_boolean s =
     (let normalized = js_toLowerCase (js_trim s) in
      if normalized = [] then None else Some (normalized \<in> {''1'', ''true'', ''yes'', ''on''}))"

fun toBoolean :: "arg option \<Rightarrow> bool option" where
  "toBoolean None = None"
| "toBoolean (Some Flag) = Some True"
| "toBoolean (Some (Texts [])) = None"
| "toBoolean (Some (Texts (s # ss))) = text_boolean s"
| "toBoolean (Some (Text s)) = text_boolean s"

definition getString :: "admin_options \<Rightarrow> string \<Rightarrow> string \<Rightarrow> string" where
  "getString options key fallback =
     (case map_of options key of
        Some (Texts (s # _)) \<Rightarrow> s
      | Some (Text s) \<Rightarrow> s
      | Some Flag \<Rightarrow> ''true''
      | _ \<Rightarrow> fallback)"

definition getStringArray :: "admin_options \<Rightarrow> string \<Rightarrow> string list" where
  "getStringArray options key =
     (case map_of options key of Some (Texts ss) \<Rightarrow> ss | Some (Text s) \<Rightarrow> [s] | _ \<Rightarrow> [])"

text \<open>\<open>getString(options, key) || undefined\<close>.\<close>

definition opt_string :: "admin_options \<Rightarrow> string \<Rightarrow> string option" where
  "opt_string options key = js_or_undefined (Some (getString options key []))"

definition readFileIfPresent :: "world \<Rightarrow> string option \<Rightarrow> ('b host_scheme, string option) act" where
  "readFileIfPresent w filePath =
     (case js_or_undefined filePath of None \<Rightarrow> ret None | Some p \<Rightarrow> bindA (readTextA w p) (\<lambda>t. ret (Some t)))"

section \<open>The connection and the store\<close>

definition buildBootstrapConnection :: "admin_options \<Rightarrow> bootstrap_connection" where
  "buildBootstrapConnection options =
     \<lparr> bn_host = getString options ''host'' [],
       bn_port = (case opt_string options ''bootstrap-port'' of
           None \<Rightarrow> None | Some t \<Rightarrow> Some (case parseInt10 t of Some n \<Rightarrow> n | None \<Rightarrow> 0)),
       bn_username = getString options ''bootstrap-user'' [],
       bn_password = opt_string options ''bootstrap-password'',
       bn_privateKey = opt_string options ''bootstrap-private-key'',
       bn_passphrase = opt_string options ''bootstrap-passphrase'',
       bn_hostKeyPolicy = Some (js_or (Some (getString options ''bootstrap-host-key-policy'' [])) ''strict''),
       bn_expectedHostKey = opt_string options ''bootstrap-expected-host-key'' \<rparr>"

definition buildSecretStoreConfig :: "admin_options \<Rightarrow> admin_store_config res" where
  "buildSecretStoreConfig options =
     (let backend = getString options ''secret-backend'' ''env'' in
      if backend = ''file'' then
        (case opt_string options ''secret-file'' of
           None \<Rightarrow> Inl ''File secret backend requires --secret-file''
         | Some filePath \<Rightarrow> Inr (ConfigFile (Some filePath)))
      else if backend = ''vault'' then
        (case (opt_string options ''vault-url'', opt_string options ''vault-token'') of
           (Some vaultUrl, Some token) \<Rightarrow>
             Inr (ConfigVault (Some \<lparr> av_baseUrl = vaultUrl, av_token = token,
               av_mountPath = getString options ''vault-mount'' ''secret'',
               av_secretPath = getString options ''vault-path'' ''proxmox-mcp'',
               av_namespace = opt_string options ''vault-namespace'',
               av_insecure = toBoolean (map_of options ''vault-insecure'') \<rparr>))
         | _ \<Rightarrow> Inl ''Vault secret backend requires --vault-url and --vault-token'')
      else Inr (ConfigEnv (Some (getString options ''secret-env-var'' ''PROXMOX_MCP_SECRETS_JSON''))))"

section \<open>Commands\<close>

definition enrollment_fields :: "enrollment_result \<Rightarrow> (string \<times> jsval) list" where
  "enrollment_fields r =
     [(''cluster'', JStr (er_cluster r)), (''node'', JStr (er_node r)), (''apiTokenId'', JStr (er_apiTokenId r)),
      (''shellUsername'', JStr (er_shellUsername r)), (''shellReference'', of_str_opt (er_shellReference r)),
      (''secretIds'', JArr (map JStr (er_secretIds r))), (''validated'', JBool (er_validated r)),
      (''hostKeyPolicy'', JStr (er_hostKeyPolicy r)), (''tokenExpiresAt'', of_str_opt (er_tokenExpiresAt r))]"

definition retired_field :: "string list \<Rightarrow> (string \<times> jsval) list" where
  "retired_field ids = [(''retiredSecretIds'', JArr (map JStr ids))]"

definition admin_target_of :: "admin_options \<Rightarrow> admin_store \<Rightarrow> (string \<times> string) option \<Rightarrow> enrollment" where
  "admin_target_of options st keyPair =
     \<lparr> ad_cluster = getString options ''cluster'' ''default'', ad_node = getString options ''node'' [],
       ad_apiUser = getString options ''api-user'' ''mcp'', ad_apiRealm = getString options ''api-realm'' ''pam'',
       ad_tokenId = getString options ''token-id'' ''mcp'', ad_tokenComment = opt_string options ''token-comment'',
       ad_tokenExpireSeconds =
         (if map_of options ''token-expire-seconds'' \<in> {None, Some (Text [])} then JUndef
          else (case parseInt10 (getString options ''token-expire-seconds'' []) of Some n \<Rightarrow> JNum n | None \<Rightarrow> JFloat ''NaN'')),
       ad_shellUsername = getString options ''shell-username'' ''proxmox-mcp-shell'',
       ad_sudoersAllowlist = Some (getStringArray options ''sudoers-allowlist''),
       ad_shellReference = opt_string options ''shell-reference'',
       ad_bootstrap = buildBootstrapConnection options, ad_secretStore = st, ad_shellKeyPair = keyPair \<rparr>"

definition readKeyPair :: "world \<Rightarrow> admin_options \<Rightarrow> ('b host_scheme, (string \<times> string) option) act" where
  "readKeyPair w options =
     (let privateFile = opt_string options ''shell-private-key-file''; publicFile = opt_string options ''shell-public-key-file'' in
      if (privateFile = None) \<noteq> (publicFile = None)
      then raise ''Provide both --shell-private-key-file and --shell-public-key-file, or neither''
      else if privateFile = None then ret None
      else bindA (readFileIfPresent w privateFile) (\<lambda>privateKey.
        bindA (readFileIfPresent w publicFile) (\<lambda>publicKey.
        ret (Some (default_to [] privateKey, default_to [] publicKey)))))"

definition runAdminCommand :: "world \<Rightarrow> url_maker \<Rightarrow> env \<Rightarrow> string list \<Rightarrow> ('b host_scheme, jsval) act" where
  "runAdminCommand w mkUrl env argv =
     bindA (liftR (parseAdminArgs argv)) (\<lambda>parsed.
     let options = pa_options parsed; command = pa_command parsed in
     bindA (liftR (rbind (buildSecretStoreConfig options) (createAdminStore env))) (\<lambda>st.
     if command = ''status'' then admin_status w mkUrl st
     else if command = ''enroll'' then
       bindA (readKeyPair w options) (\<lambda>keyPair.
       bindA (enroll w mkUrl (admin_target_of options st keyPair)) (\<lambda>r. ret (JObj (enrollment_fields r))))
     else if command = ''rotate'' then
       bindA (rotate_secrets w mkUrl (admin_target_of options st None)) (\<lambda>(r, retired).
       ret (JObj (enrollment_fields r @ retired_field retired)))
     else
       bindA (deprovision w mkUrl (admin_target_of options st None)) (\<lambda>(deleted, retired).
       ret (JObj ((''deleted'', JBool deleted) # retired_field retired)))))"

text \<open>What \<open>main\<close> writes to the standard output.\<close>

definition main_output :: "jsval \<Rightarrow> string" where
  "main_output result = safeJson result @ [CHR 0x0A]"

section \<open>Flags read back\<close>

text \<open>The command line that says the given options, one flag per value.\<close>

fun render_option :: "string \<times> arg \<Rightarrow> string list" where
  "render_option (k, Flag) = [''--'' @ k]"
| "render_option (k, Text v) = [''--'' @ k, v]"
| "render_option (k, Texts vs) = concat (map (\<lambda>v. [''--'' @ k, v]) vs)"

fun arg_ok :: "arg \<Rightarrow> bool" where
  "arg_ok Flag = True"
| "arg_ok (Text v) = (\<not> option_key v)"
| "arg_ok (Texts vs) = (2 \<le> length vs \<and> list_all (\<lambda>v. \<not> option_key v) vs)"

definition options_ok :: "admin_options \<Rightarrow> bool" where
  "options_ok opts \<longleftrightarrow> distinct (map fst opts) \<and> list_all (\<lambda>(k, a). arg_ok a) opts"

lemma option_key_flag [simp]: "option_key (''--'' @ k)"
  by (simp add: option_key_def)

lemma parse_flag:
  "rest = [] \<or> option_key (hd rest) \<Longrightarrow> parseFlags ((''--'' @ k) # rest) opts = parseFlags rest (AList.update k Flag opts)"
  using option_key_flag[of k] by (cases rest) auto

lemma parse_value:
  "\<not> option_key v \<Longrightarrow>
     parseFlags ((''--'' @ k) # v # rest) opts = parseFlags rest (AList.update k (add_value (map_of opts k) v) opts)"
  using option_key_flag[of k] by auto

lemma update_last: "k \<notin> fst ` set acc \<Longrightarrow> AList.update k v (acc @ [(k, u)]) = acc @ [(k, v)]"
  "k \<notin> fst ` set acc \<Longrightarrow> AList.update k v acc = acc @ [(k, v)]"
  by (induction acc) auto

lemma map_of_last:
  assumes "k \<notin> fst ` set acc"
  shows "([k \<mapsto> u] ++ map_of acc) k = Some u" "map_of acc k = None"
  using assms by (simp_all add: map_add_def map_of_eq_None_iff[THEN iffD2])

lemma parse_values:
  "k \<notin> fst ` set acc \<Longrightarrow> list_all (\<lambda>v. \<not> option_key v) vs \<Longrightarrow>
     parseFlags (concat (map (\<lambda>v. [''--'' @ k, v]) vs) @ rest) (acc @ [(k, Texts us)]) = parseFlags rest (acc @ [(k, Texts (us @ vs))])"
  by (induction vs arbitrary: us) (simp_all add: parse_value[simplified] map_of_last update_last)

lemma render_starts: "options_ok opts \<Longrightarrow> concat (map render_option opts) = [] \<or> option_key (hd (concat (map render_option opts)))"
proof (cases opts)
  case (Cons x xs)
  moreover assume "options_ok opts"
  moreover obtain k a where "x = (k, a)" by force
  ultimately show ?thesis
    by (cases a) (auto simp: options_ok_def option_key_def neq_Nil_conv Suc_le_length_iff numeral_2_eq_2)
qed simp

lemma parse_rendered:
  "options_ok (acc @ opts) \<Longrightarrow> parseFlags (concat (map render_option opts)) acc = Inr (acc @ opts)"
proof (induction opts arbitrary: acc)
  case (Cons x opts)
  obtain k a where x: "x = (k, a)" by force
  have k: "k \<notin> fst ` set acc" and a: "arg_ok a" and opts: "options_ok opts" "options_ok ((acc @ [(k, a)]) @ opts)"
    using Cons.prems by (auto simp: options_ok_def x)
  note starts = render_starts[OF opts(1)]
  have IH: "parseFlags (concat (map render_option opts)) (acc @ [(k, a)]) = Inr (acc @ x # opts)"
    using Cons.IH[OF opts(2)] x by simp
  show ?case
  proof (cases a)
    case Flag
    then show ?thesis using IH k parse_flag[OF starts, of k acc] by (simp add: x update_last)
  next
    case (Text v)
    then show ?thesis using IH k a parse_value[of v k "concat (map render_option opts)" acc] by (simp add: x update_last map_of_last)
  next
    case (Texts vs)
    then obtain v1 v2 ws where vs: "vs = v1 # v2 # ws" using a by (auto simp: Suc_le_length_iff numeral_2_eq_2)
    have ok: "\<not> option_key v1" "\<not> option_key v2" "list_all (\<lambda>v. \<not> option_key v) ws" using a Texts vs by simp_all
    let ?rest = "concat (map render_option opts)"
    have "parseFlags ((''--'' @ k) # v1 # (''--'' @ k) # v2 # concat (map (\<lambda>v. [''--'' @ k, v]) ws) @ ?rest) acc =
        parseFlags ?rest (acc @ [(k, Texts ([v1, v2] @ ws))])"
      by (subst parse_value[OF ok(1)], subst parse_value[OF ok(2)])
        (simp add: k map_of_last update_last parse_values[OF k ok(3), of _ "[v1, v2]", simplified])
    then show ?thesis using IH by (simp add: x Texts vs)
  qed
qed simp

text \<open>
  C34. The command line says what it seems to say: for any options with distinct names whose values do
  not look like flags, the flags that spell them, one per value, parse to exactly these options.
\<close>

theorem admin_args_roundtrip:
  assumes "command \<in> set admin_commands" "options_ok opts"
  shows "parseAdminArgs (command # concat (map render_option opts)) = Inr \<lparr>pa_command = command, pa_options = opts\<rparr>"
  using assms parse_rendered[of "[]" opts] by (simp add: parseAdminArgs_def)

theorem admin_args_roundtrip_witness:
  "parseAdminArgs [''enroll'', ''--host'', ''pve'', ''--dry'', ''--allow'', ''/bin/a'', ''--allow'', ''/bin/b''] =
     Inr \<lparr>pa_command = ''enroll'', pa_options = [(''host'', Text ''pve''), (''dry'', Flag), (''allow'', Texts [''/bin/a'', ''/bin/b''])]\<rparr>"
  using admin_args_roundtrip[of "''enroll''" "[(''host'', Text ''pve''), (''dry'', Flag), (''allow'', Texts [''/bin/a'', ''/bin/b''])]"]
  by (simp add: admin_commands_def options_ok_def option_key_def)

end
