(* ===== verification/Spec2Isabelle.thy ===== *)
theory Spec2Isabelle
  imports ServerJobs HttpServer AdminCli
begin

text \<open>
  A model of the Proxmox MCP server in HOL, with the theorems that make it correct.

  \<^bold>\<open>The program.\<close>  The server exposes Proxmox clusters to an MCP client as tools.  Started by
  src/index.ts, it loads its configuration (config.ts), replaces references to secrets by credentials
  (startup.ts, secrets.ts), and serves calls over stdio or over HTTP with bearer tokens (http-server.ts,
  http-auth.ts).  A call passes the scope check of server.ts and reaches a handler of tools/*/register.ts.
  Handlers call the domain services (domain-services.ts) and \<open>ProxmoxService\<close> (services.ts), which checks
  policy (policy.ts) and API catalogue (schema.ts), writes the audit log, and talks to the clusters by
  REST (api.ts), by SSH, \<open>pct exec\<close>, WinRM and the guest agent (ssh.ts).  Long operations run as jobs
  (jobs.ts); large results become artifacts (artifacts.ts).  Clusters bootstrapped over SSH run on
  managed credentials that rotate and are repaired (managed-auth.ts).  Beside the server, admin-cli.ts
  enrolls clusters (admin-enroll.ts) into administrator stores (admin-secrets.ts), from which the server
  starts.

  \<^bold>\<open>The effects.\<close>  An action (theory Effects) is a function from a state to a result, an error message
  or a value, and the state after it; \<open>bindA\<close> and \<open>catchA\<close> are \<open>await\<close> and \<open>try\<close>.  Everything outside the
  process, that is HTTP servers, SSH hosts, the disk, clock, timers, random bytes and abort signals, is
  the record \<open>world\<close> of functions from the whole history of interactions to the next answer, so that each
  theorem holds for every outside, however it changes its answers.  Each interaction is an \<open>event\<close> of the
  trace \<open>io_trace\<close>, on which the theorems about ordering and about the absence of effects are stated.

  \<^bold>\<open>The states.\<close>  Each layer extends the record of the layer below it: \<open>io\<close> (the trace), \<open>svc\<close> (State: the
  configuration with its active credentials, the cached REST clients, the resource caches, the managed
  credentials), \<open>host\<close> (Files: the files of the disk) and \<open>server\<close> (Artifacts: the artifact registry and
  the job manager).  The operations of a layer are polymorphic in the fields of the layers above, which
  they provably leave alone (ServiceFrame).

  \<^bold>\<open>The theories\<close>, with the files under src/src they model:

    \<^item> Prelude, Json, JsonProps, Encoding, Dates: JavaScript strings, numerals, insertion-ordered maps,
      JSON with its printer and parser, UTF-8, base64, base64url and ISO dates.  The round trips are
      the locale \<open>codec\<close> and its composition \<open>codec_chain\<close>.
    \<^item> Types: types.ts and the types of config.ts; Utils: utils.ts; Wildcard and Policy: the globs, the
      rules and assertions of policy.ts; AuditLog: \<open>AuditLogger\<close> of policy.ts; Config: config.ts; Schema: schema.ts.
    \<^item> Effects, State, Files: the outside, the shared state and the disk.
    \<^item> Api: api.ts; Ssh: ssh.ts; ManagedAuth: managed-auth.ts.
    \<^item> Service, ServiceCalls, ServiceGuest, ServiceSnippets, ServiceTasks, ServiceVms, ServiceInventory:
      services.ts by subject; InventoryJson: the objects it hands out; ServiceFrame: what it leaves alone.
    \<^item> Domains, BootDiagnosis: domain-services.ts; Diagnostics: boot/diagnostics.ts and boot/types.ts.
    \<^item> Jobs, JobsMachine, JobRuns: jobs.ts, its state machine, and runs inside handlers; McpCommon:
      mcp-common.ts; Artifacts: artifacts.ts.
    \<^item> ToolsNode (node, lxc, cluster), ToolsQemu (qemu, boot), ToolsStorage (storage, infrastructure,
      access), ToolsEscape (escape): the register.ts of each directory of tools/, one constructor per
      registered tool and one definition per handler; Server: server.ts; ServerFrame and ServerJobs: what
      every tool keeps of the artifacts and the jobs.
    \<^item> SecretDocs, AdminSecrets: admin-secrets.ts; Secrets: secrets.ts; Startup: startup.ts; AdminEnroll:
      admin-enroll.ts; AdminCli: admin-cli.ts; HttpAuth: http-auth.ts; HttpServer: http-server.ts and
      what index.ts passes to it.

  Definitions keep the names of the functions and methods they model.  Classes become their methods,
  with the world and the constructor arguments in front; optional values are \<open>option\<close>; a \<open>throw\<close> is a
  message on the left of a sum; a \<open>Map\<close> or an object literal is an insertion-ordered association list.

  \<^bold>\<open>What is proved.\<close>

    \<^item> Who may do what: a tool handler runs exactly for callers with the scope of its class, over HTTP only
      for verified tokens, whose signature, issuer, audience and validity were checked; REST, CLI, shell,
      file and snippet operations change nothing or are granted by the policy and leave an audit line
      before their first effect; the policy is its declarative meaning, and denies by default.
    \<^item> Credentials: what a started configuration contains, that an enrolled cluster starts with the
      credentials the node printed, that repairs and the bootstrap leave the new credentials in charge,
      and that configurations that load satisfy their cross-field rules.
    \<^item> Stores: what is written is read back, from every administrator store and from the runtime file,
      which behaves as a map under any sequence of operations.
    \<^item> Jobs and artifacts: both registries are consistent after any session of tool calls, the job registry
      also under every interleaving of its steps, where states only move forward; a tool with a new task
      moves the registry only by those steps, always answers, and when it waits with the outcome of the
      task.
    \<^item> Texts: shell command lines, API paths, PCI values, job ids, diagnosis reports and command line flags
      are read back by their readers as what they were made from; audit lines hide the values of secret
      fields and are single lines.
    \<^item> Termination, bounds and errors: task polling ends, requests are bounded, an SSH command settles at
      most once, diagnoses contain the failures of their parts.

  \<^bold>\<open>Interfaces.\<close>  \<open>preorder_rel\<close> (Effects) is the frame rule: a reflexive and transitive relation between
  the states before and after is kept by an action composed of actions that keep it; it is interpreted
  for traces that only grow, credentials, HTTP exchanges, artifacts, jobs, bootstrap and delivery.
  \<open>gated_op\<close> (AuditLog) and its refinement \<open>checked_op\<close> (ServiceSnippets) are operations that are
  checked, then audited, then done.  \<open>doc_store\<close> (AdminSecrets) is the store an administrator uses and
  \<open>bundle_store\<close> (Secrets) the one the server reads; their clients' lemmas are proved once and hold for each
  backend.

  \<^bold>\<open>Loops without a bound\<close> are the polling loops of tasks and guest commands and the waits of jobs.  They take a
  fuel argument and yield \<open>None\<close> when it runs out, which stands for a call that is still waiting; that
  \<open>n + 1\<close> rounds are enough when the cluster reports the task as stopped once the history has
  \<open>n\<close> events is a property.  All other recursion is total.  Integers of the source that are ids, ports and
  milliseconds are unbounded, as they are far below the 53 bits of a JavaScript number; the hexadecimal
  fields of task ids and the limits of parsed integers are checked as in the source.

  \<^bold>\<open>Parameters\<close>, the code outside src/src: the zod parser of the configuration, the URL parser, Web
  Crypto and SHA-256, the collation of strings, the vendored tree of the API catalogue, and the MCP
  transport.  The hypotheses on them say that ids are not repeated, media work or clusters answer.

  \<^bold>\<open>Not modelled.\<close>  src/index.ts apart from the options it passes: signal handlers, exit codes and streams.
  src/paths.ts: two calls of the path library.  The module inventory script: it writes documentation at
  build time.  In domain-services.ts, the methods that forward to a service method of the same name: the
  tools call the operation of the service.  In server.ts and escape/register.ts, the constant texts
  sent at initialization and the lists of resources and prompts; what they answer is modelled.  Progress
  notifications to the client, which are taken not to fail.  File modes.

  \<^bold>\<open>Deviations.\<close>  Strings are over the characters of code below 256.  Awaits that the source runs concurrently
  (\<open>Promise.all\<close>) run in order, and a job that a handler starts runs to its end before the next call is
  served; JobsMachine has the interleaved steps.  Instants start in 1970.  Inputs of tools are taken as the
  schemas have parsed them, and the text of a schema error is one fixed message.  A port that is not a
  number after \<open>parseInt\<close> is 0.  Option and key names that every JavaScript object inherits are left aside.
\<close>

end
